(* ===== verification/Prelude.thy ===== *)
theory Prelude
  imports Main "HOL-Library.Sublist"
begin

text \<open>
  Shared material of the development: the fact collections, the text type, JavaScript's
  truthiness on strings, and the list lemmas that several components use.
  \<open>js_defs\<close> collects definitions of the language model that proofs unfold,
  \<open>prog_simps\<close> the equations of handler programs, \<open>inv_rules\<close> the rules that
  show that a program keeps an invariant.
\<close>

named_theorems js_defs "definitions of the JavaScript library model"
named_theorems prog_simps "equations of handler programs"
named_theorems inv_rules "invariant preservation of handler programs"

type_synonym jstr = string

section \<open>Truthiness and defaults\<close>

definition truthy :: "jstr \<Rightarrow> bool" where
  "truthy s \<longleftrightarrow> s \<noteq> []"

definition or_else :: "jstr \<Rightarrow> jstr \<Rightarrow> jstr" where
  "or_else a b = (if truthy a then a else b)"

lemma truthy_Nil [simp]: "\<not> truthy []"
  by (simp add: truthy_def)

lemma truthy_Cons [simp]: "truthy (c # s)"
  by (simp add: truthy_def)

lemma or_else_Nil [simp]: "or_else [] b = b"
  by (simp add: or_else_def)

lemma or_else_Cons [simp]: "or_else (c # s) b = c # s"
  by (simp add: or_else_def)

lemma or_else_Nil_right [simp]: "or_else a [] = a"
  by (simp add: or_else_def truthy_def)

text \<open>\<open>{b && x}\<close> in the markup of a page.\<close>

definition shown_if :: "bool \<Rightarrow> 'a \<Rightarrow> 'a option" where
  "shown_if b x = (if b then Some x else None)"

lemma shown_if_simps [simp]:
  "shown_if True x = Some x" "shown_if False x = None" "shown_if b x = Some y \<longleftrightarrow> b \<and> x = y"
  "shown_if b x = None \<longleftrightarrow> \<not> b" "shown_if b x \<noteq> None \<longleftrightarrow> b"
  by (auto simp: shown_if_def)

section \<open>Slices of lists\<close>

text \<open>\<open>xs.slice(a, b)\<close> for \<open>0 \<le> a\<close> and \<open>0 \<le> b\<close>.\<close>

definition slice :: "nat \<Rightarrow> nat \<Rightarrow> 'a list \<Rightarrow> 'a list" where
  "slice a b xs = take (b - a) (drop a xs)"

lemma length_slice [simp]: "length (slice a b xs) = min (b - a) (length xs - a)"
  by (simp add: slice_def min.commute)

lemma set_slice_subset: "set (slice a b xs) \<subseteq> set xs"
  unfolding slice_def by (meson set_drop_subset set_take_subset subset_trans)

lemma slice_append: "a \<le> b \<Longrightarrow> b \<le> c \<Longrightarrow> slice a b xs @ slice b c xs = slice a c xs"
proof -
  assume "a \<le> b" "b \<le> c"
  then have "drop b xs = drop (b - a) (drop a xs)" and "c - a = (b - a) + (c - b)"
    by simp_all
  then show ?thesis by (simp only: slice_def take_add)
qed

lemma slice_all: "length xs \<le> b \<Longrightarrow> slice 0 b xs = xs"
  by (simp add: slice_def)

lemma concat_slices:
  "concat (map (\<lambda>i. slice (i * k) (i * k + k) xs) [0..<n]) = slice 0 (n * k) xs"
proof (induction n)
  case 0
  show ?case by (simp add: slice_def)
next
  case (Suc n)
  have "slice 0 (n * k) xs @ slice (n * k) (n * k + k) xs = slice 0 (n * k + k) xs"
    by (rule slice_append) simp_all
  with Suc.IH show ?case by (simp add: algebra_simps)
qed

section \<open>Subsequences\<close>

lemma subseq_drop_prefix: "subseq xs ys \<Longrightarrow> subseq xs (zs @ ys)"
  by (rule list_emb_append2)

section \<open>Options\<close>

lemma option_bind_Some_iff: "Option.bind x f = Some y \<longleftrightarrow> (\<exists>z. x = Some z \<and> f z = Some y)"
  by (cases x) simp_all

end
