(* ===== verification/Js_Number.thy ===== *)
theory Js_Number
  imports Js_Text Complex_Main
begin

text \<open>
  Numbers. A finite number is the rational it denotes; \<open>to_double\<close> is the rounding of IEEE
  binary64 (nearest, ties to even, subnormals and overflow included), which every operation
  and every conversion from text applies to its exact result. The two zeros are one value.
\<close>

datatype jsnum = Fin rat | NaN | Inf bool    \<comment> \<open>\<open>Inf True\<close> is negative\<close>

section \<open>Rounding\<close>

definition pow2 :: "int \<Rightarrow> rat" where
  "pow2 e = (if 0 \<le> e then 2 ^ nat e else 1 / 2 ^ nat (- e))"

definition round_even :: "rat \<Rightarrow> int" where
  "round_even x = (let f = \<lfloor>x\<rfloor>; d = x - of_int f
     in if d < 1 / 2 then f else if 1 / 2 < d then f + 1 else if even f then f else f + 1)"

text \<open>The number of binary digits of a non-negative integer.\<close>

fun bits :: "int \<Rightarrow> int" where
  "bits n = (if n \<le> 0 then 0 else 1 + bits (n div 2))"

declare bits.simps [simp del]

text \<open>The exponent \<open>e\<close> with \<open>2\<^sup>e \<le> x < 2\<^sup>e\<^sup>+\<^sup>1\<close>, for positive \<open>x\<close>.\<close>

definition exponent2 :: "rat \<Rightarrow> int" where
  "exponent2 x = (if 1 \<le> x then bits \<lfloor>x\<rfloor> - 1
     else - bits (\<lceil>1 / x\<rceil> - 1))"

definition to_double :: "rat \<Rightarrow> jsnum" where
  "to_double x =
     (if x = 0 then Fin 0
      else let a = \<bar>x\<bar>; e = max (exponent2 a - 52) (- 1074); m = round_even (a / pow2 e);
               v = of_int m * pow2 e
           in if 971 < e \<or> e = 971 \<and> 2 ^ 53 \<le> m then Inf (x < 0) else Fin (if x < 0 then - v else v))"

fun num_mul :: "jsnum \<Rightarrow> jsnum \<Rightarrow> jsnum" where
  "num_mul (Fin a) (Fin b) = to_double (a * b)"
| "num_mul NaN _ = NaN"
| "num_mul _ NaN = NaN"
| "num_mul (Inf s) (Inf t) = Inf (s \<noteq> t)"
| "num_mul (Inf s) (Fin b) = (if b = 0 then NaN else Inf (s \<noteq> (b < 0)))"
| "num_mul (Fin a) (Inf t) = (if a = 0 then NaN else Inf ((a < 0) \<noteq> t))"

text \<open>\<open>x <= 0\<close> is false for \<open>NaN\<close>.\<close>

definition num_le0 :: "jsnum \<Rightarrow> bool" where
  "num_le0 x = (case x of Fin a \<Rightarrow> a \<le> 0 | NaN \<Rightarrow> False | Inf s \<Rightarrow> s)"

text \<open>What \<open>JSON.stringify\<close> writes: \<open>null\<close> (\<open>None\<close>) for a number that is not finite.\<close>

definition json_num :: "jsnum \<Rightarrow> rat option" where
  "json_num x = (case x of Fin a \<Rightarrow> Some a | _ \<Rightarrow> None)"

section \<open>Text to numbers\<close>

definition span_digits :: "jstr \<Rightarrow> jstr \<times> jstr" where
  "span_digits s = (takeWhile is_digit s, dropWhile is_digit s)"

text \<open>The exponent part \<open>e[+-]digits\<close>, where there is one.\<close>

definition scan_exponent :: "jstr \<Rightarrow> int \<times> jstr" where
  "scan_exponent s = (case s of
       [] \<Rightarrow> (0, s)
     | c # t \<Rightarrow>
         if lower_char c = CHR ''e'' then
           (let neg = (t \<noteq> [] \<and> hd t = CHR ''-'');
                u = (if t \<noteq> [] \<and> (hd t = CHR ''-'' \<or> hd t = CHR ''+'') then tl t else t);
                (ds, rest) = span_digits u
            in if ds = [] then (0, s)
               else (if neg then - int (nat_of_digits ds) else int (nat_of_digits ds), rest))
         else (0, s))"

definition pow10 :: "int \<Rightarrow> rat" where
  "pow10 e = (if 0 \<le> e then 10 ^ nat e else 1 / 10 ^ nat (- e))"

text \<open>An unsigned decimal literal at the start of \<open>s\<close>: its exact value and the rest.\<close>

definition scan_decimal :: "jstr \<Rightarrow> (rat \<times> jstr) option" where
  "scan_decimal s =
     (let (ip, s1) = span_digits s;
          (fp, s2) = (case s1 of [] \<Rightarrow> ([], s1)
                      | c # t \<Rightarrow> if c = CHR ''.'' \<and> (ip \<noteq> [] \<or> fst (span_digits t) \<noteq> [])
                                then span_digits t else ([], s1));
          (ex, s3) = scan_exponent s2
      in if ip = [] \<and> fp = [] then None
         else Some (of_nat (nat_of_digits (ip @ fp)) * pow10 (ex - int (length fp)), s3))"

text \<open>A sign, and the literal \<open>Infinity\<close>.\<close>

definition scan_sign :: "jstr \<Rightarrow> bool \<times> jstr" where
  "scan_sign s = (case s of [] \<Rightarrow> (False, s)
     | c # t \<Rightarrow> if c = CHR ''-'' then (True, t) else if c = CHR ''+'' then (False, t) else (False, s))"

definition scan_number :: "jstr \<Rightarrow> (jsnum \<times> jstr) option" where
  "scan_number s =
     (let (neg, t) = scan_sign s
      in if starts_with t ''Infinity'' then Some (Inf neg, drop 8 t)
         else (case scan_decimal t of None \<Rightarrow> None
               | Some (x, r) \<Rightarrow> Some (to_double (if neg then - x else x), r)))"

text \<open>The prefixed literals \<open>0x\<close>, \<open>0o\<close>, \<open>0b\<close> of \<open>Number\<close>.\<close>

definition digit_of_base :: "nat \<Rightarrow> char \<Rightarrow> nat option" where
  "digit_of_base b c = (let n = (of_char (lower_char c) :: nat);
       d = (if 48 \<le> n \<and> n \<le> 57 then n - 48 else if 97 \<le> n \<and> n \<le> 102 then n - 87 else b)
     in if d < b then Some d else None)"

fun digits_of_base :: "nat \<Rightarrow> nat \<Rightarrow> jstr \<Rightarrow> nat option" where
  "digits_of_base b a [] = Some a"
| "digits_of_base b a (c # s) = (case digit_of_base b c of None \<Rightarrow> None
     | Some d \<Rightarrow> digits_of_base b (b * a + d) s)"

definition base_of_prefix :: "jstr \<Rightarrow> nat option" where
  "base_of_prefix s = (if length s < 3 \<or> hd s \<noteq> CHR ''0'' then None
     else (let c = lower_char (s ! 1) in if c = CHR ''x'' then Some 16
       else if c = CHR ''o'' then Some 8 else if c = CHR ''b'' then Some 2 else None))"

text \<open>\<open>Number(s)\<close>, \<open>Number.parseFloat(s)\<close> and \<open>Number.parseInt(s, 10)\<close>.\<close>

definition js_Number :: "jstr \<Rightarrow> jsnum" where
  "js_Number s = (let t = trim s
     in if t = [] then Fin 0
        else (case base_of_prefix t of
            Some b \<Rightarrow> (case digits_of_base b 0 (drop 2 t) of None \<Rightarrow> NaN | Some n \<Rightarrow> to_double (of_nat n))
          | None \<Rightarrow> (case scan_number t of Some (x, []) \<Rightarrow> x | _ \<Rightarrow> NaN)))"

definition js_parseFloat :: "jstr \<Rightarrow> jsnum" where
  "js_parseFloat s = (case scan_number (dropWhile is_space s) of Some (x, r) \<Rightarrow> x | None \<Rightarrow> NaN)"

definition js_parseInt10 :: "jstr \<Rightarrow> jsnum" where
  "js_parseInt10 s =
     (let (neg, t) = scan_sign (dropWhile is_space s); ds = takeWhile is_digit t
      in if ds = [] then NaN
         else to_double (if neg then - of_nat (nat_of_digits ds) else of_nat (nat_of_digits ds)))"

lemma floor_numerals [simp]: "\<lfloor>numeral a / numeral b :: rat\<rfloor> = numeral a div numeral b"
  using floor_divide_of_int_eq [of "numeral a" "numeral b", where ?'a = rat] by simp

lemma bits_numerals [simp]:
  "bits 0 = 0" "bits 1 = 1"
  "bits (numeral (num.Bit0 k)) = 1 + bits (numeral k)"
  "bits (numeral (num.Bit1 k)) = 1 + bits (numeral k)"
  by (subst bits.simps, simp add: bits.simps [of 0])+

section \<open>Integers are exact up to two to the 53\<close>

lemma round_even_int [simp]: "round_even (of_int z) = z"
  by (simp add: round_even_def)

lemma exponent2_nat:
  assumes "0 < n"
  shows "exponent2 (of_nat n) = bits (int n) - 1"
  using assms by (simp add: exponent2_def)

lemma bits_le: "n < 2 ^ k \<Longrightarrow> bits n \<le> int k"
proof (induction n arbitrary: k rule: bits.induct)
  case (1 n)
  show ?case
  proof (cases "n \<le> 0")
    case True
    then show ?thesis by (subst bits.simps) simp
  next
    case False
    with "1.prems" obtain j where j: "k = Suc j" by (cases k) auto
    with "1.prems" have "n div 2 < 2 ^ j" by simp
    with "1.IH" False have "bits (n div 2) \<le> int j" by simp
    with False j show ?thesis by (subst bits.simps) simp
  qed
qed

lemma bits_pos: "0 < n \<Longrightarrow> 0 < bits n"
proof (induction n rule: bits.induct)
  case (1 n)
  have "0 \<le> bits (n div 2)"
  proof (cases "0 < n div 2")
    case True
    with 1 show ?thesis by simp
  next
    case False
    then show ?thesis by (subst bits.simps) simp
  qed
  with "1.prems" show ?case by (subst bits.simps) simp
qed

lemma to_double_nat:
  assumes "n < 2 ^ 53"
  shows "to_double (of_nat n) = Fin (of_nat n)"
proof (cases "n = 0")
  case True
  then show ?thesis by (simp add: to_double_def)
next
  case False
  define k where "k = nat (53 - bits (int n))"
  have "int n < 2 ^ 53" using assms by (metis of_nat_less_iff of_nat_numeral of_nat_power)
  then have "bits (int n) \<le> int 53" by (rule bits_le)
  moreover have "0 < bits (int n)" using False by (simp add: bits_pos)
  ultimately have e: "max (exponent2 (of_nat n) - 52) (- 1074) = - int k"
    using False by (simp add: exponent2_nat k_def)
  have p: "pow2 (- int k) = 1 / 2 ^ k"
    by (cases "k = 0") (simp_all add: pow2_def)
  have "(of_nat n :: rat) / pow2 (- int k) = of_int (int n * 2 ^ k)"
    by (simp add: p)
  then have r: "round_even (of_nat n / pow2 (- int k)) = int n * 2 ^ k"
    by (metis round_even_int)
  have v: "of_int (int n * 2 ^ k) * pow2 (- int k) = (of_nat n :: rat)"
    by (simp add: p)
  show ?thesis
    using False v by (simp add: to_double_def Let_def e r)
qed

lemma to_double_nat_le: "n \<le> 2 ^ 53 - 1 \<Longrightarrow> to_double (of_nat n) = Fin (of_nat n)"
  by (rule to_double_nat) simp

section \<open>Amounts\<close>

text \<open>The text of an amount as the back end writes it: \<open>n.00\<close>.\<close>

lemma takeWhile_digits_append:
  "list_all is_digit ds \<Longrightarrow> s = [] \<or> \<not> is_digit (hd s) \<Longrightarrow>
   takeWhile is_digit (ds @ s) = ds \<and> dropWhile is_digit (ds @ s) = s"
  by (induction ds) (cases s, auto)+

lemma js_Number_amount: "js_Number (show_nat n @ ''.00'') = to_double (of_nat n)"
proof -
  let ?d = "show_nat n"
  have dig: "list_all is_digit ?d" by (rule show_nat_digits)
  obtain c t where ct: "?d = c # t" by (cases ?d) auto
  with dig have c: "is_digit c" by simp
  have tr: "trim (?d @ ''.00'') = ?d @ ''.00''"
  proof (rule trim_id)
    have "\<not> is_space c" using c by (rule is_digit_not_space)
    then show "?d @ ''.00'' = [] \<or> \<not> is_space (hd (?d @ ''.00'')) \<and> \<not> is_space (last (?d @ ''.00''))"
      using ct by (simp add: is_space_def)
  qed
  have "list_all (\<lambda>x. is_digit x \<or> x = CHR ''.'') (?d @ ''.00'')"
    using dig by (simp add: list_all_iff is_digit_def)
  then have "is_digit ((?d @ ''.00'') ! 1) \<or> (?d @ ''.00'') ! 1 = CHR ''.''"
    by (simp add: list_all_length)
  then have bp: "base_of_prefix (?d @ ''.00'') = None"
    by (auto simp: base_of_prefix_def Let_def is_digit_def lower_char_def split: if_splits)
  have sg: "scan_sign (?d @ ''.00'') = (False, ?d @ ''.00'')"
    using c ct by (auto simp: scan_sign_def is_digit_def)
  have inf: "\<not> starts_with (?d @ ''.00'') ''Infinity''"
    using c ct by (auto simp: is_digit_def)
  have sp: "span_digits (?d @ ''.00'') = (?d, ''.00'')"
    using takeWhile_digits_append [OF dig, of "''.00''"] by (simp add: span_digits_def is_digit_def)
  have "nat_of_digits (?d @ ''00'') = n * 100"
    using nat_of_digits_snoc [of "?d @ ''0''" "CHR ''0''"] nat_of_digits_snoc [of ?d "CHR ''0''"]
    by (simp add: digit_val_def)
  moreover have "span_digits ''00'' = (''00'', [])" by (simp add: span_digits_def is_digit_def)
  ultimately have "scan_decimal (?d @ ''.00'') = Some (of_nat n, [])"
    using sp by (simp add: scan_decimal_def scan_exponent_def pow10_def)
  then show ?thesis
    using tr bp sg inf by (simp add: js_Number_def Let_def scan_number_def)
qed

end
