(* ===== verification/Page_Runtime.thy ===== *)
theory Page_Runtime
  imports Prelude
begin

text \<open>
  How a page runs. A React event handler is a program over the page's world (its state
  cells, the browser storage it uses, the clock): it updates the world at once between two
  \<open>await\<close>s (\<open>Upd\<close>), reads what is not captured by its closure (\<open>Look\<close>: refs, the clock,
  the storage), waits for the reply to a request (\<open>Await\<close>), returns or throws. The state
  cells a handler reads are those of the render that created it: a handler is a function of
  that captured world, and only \<open>Upd\<close> sees the current one.

  \<open>exec\<close> runs one program on a list of replies with nothing in between; \<open>sys_step\<close>
  interleaves any number of handlers, replies arriving in any order.
\<close>

section \<open>Errors and programs\<close>

text \<open>What a \<open>catch (err)\<close> sees: an instance of \<open>Error\<close> with its message, or anything else.\<close>

datatype exn = ErrorExn string | OtherExn

definition err_message :: "exn \<Rightarrow> string \<Rightarrow> string" where
  "err_message e d = (case e of ErrorExn m \<Rightarrow> m | OtherExn \<Rightarrow> d)"

lemma err_message_simps [simp]:
  "err_message (ErrorExn m) d = m" "err_message OtherExn d = d"
  by (simp_all add: err_message_def)

datatype (dead 'w, dead 'q, dead 'r, 'a) prog =
    Ret 'a
  | Throw exn
  | Upd "'w \<Rightarrow> 'w" "('w, 'q, 'r, 'a) prog"
  | Look "'w \<Rightarrow> ('w, 'q, 'r, 'a) prog"
  | Await 'q "'r \<Rightarrow> ('w, 'q, 'r, 'a) prog"

text \<open>\<open>bind m k\<close>: run \<open>m\<close>, then \<open>k\<close> on its value; an exception skips \<open>k\<close>.\<close>

primrec bind :: "('w, 'q, 'r, 'a) prog \<Rightarrow> ('a \<Rightarrow> ('w, 'q, 'r, 'b) prog) \<Rightarrow> ('w, 'q, 'r, 'b) prog" where
  "bind (Ret a) k = k a"
| "bind (Throw e) k = Throw e"
| "bind (Upd u p) k = Upd u (bind p k)"
| "bind (Look f) k = Look (\<lambda>w. bind (f w) k)"
| "bind (Await q f) k = Await q (\<lambda>r. bind (f r) k)"

text \<open>
  \<open>attempt m h k\<close> is a \<open>try\<close> section: \<open>m\<close>, then \<open>k\<close> on its value; an exception of \<open>m\<close> (not of
  \<open>k\<close>) goes to \<open>h\<close>. A \<open>catch\<close> that reads local variables of its \<open>try\<close> block is modelled
  by one \<open>attempt\<close> per value those variables have.
\<close>

primrec attempt :: "('w, 'q, 'r, 'a) prog \<Rightarrow> (exn \<Rightarrow> ('w, 'q, 'r, 'b) prog) \<Rightarrow>
    ('a \<Rightarrow> ('w, 'q, 'r, 'b) prog) \<Rightarrow> ('w, 'q, 'r, 'b) prog" where
  "attempt (Ret a) h k = k a"
| "attempt (Throw e) h k = h e"
| "attempt (Upd u p) h k = Upd u (attempt p h k)"
| "attempt (Look f) h k = Look (\<lambda>w. attempt (f w) h k)"
| "attempt (Await q f) h k = Await q (\<lambda>r. attempt (f r) h k)"

definition catch :: "('w, 'q, 'r, 'a) prog \<Rightarrow> (exn \<Rightarrow> ('w, 'q, 'r, 'a) prog) \<Rightarrow> ('w, 'q, 'r, 'a) prog" where
  "catch m h = attempt m h Ret"

text \<open>\<open>finally m u\<close>: the update \<open>u\<close> runs when \<open>m\<close> returns and when it throws.\<close>

primrec finally_do :: "('w, 'q, 'r, 'a) prog \<Rightarrow> ('w \<Rightarrow> 'w) \<Rightarrow> ('w, 'q, 'r, 'a) prog" where
  "finally_do (Ret a) u = Upd u (Ret a)"
| "finally_do (Throw e) u = Upd u (Throw e)"
| "finally_do (Upd v p) u = Upd v (finally_do p u)"
| "finally_do (Look f) u = Look (\<lambda>w. finally_do (f w) u)"
| "finally_do (Await q f) u = Await q (\<lambda>r. finally_do (f r) u)"

lemmas [prog_simps] = bind.simps attempt.simps catch_def finally_do.simps

lemma bind_Ret: "bind m Ret = m"
  by (induction m) simp_all

lemma bind_assoc: "bind (bind m f) g = bind m (\<lambda>x. bind (f x) g)"
  by (induction m) simp_all

lemma attempt_Throw: "attempt m Throw k = bind m k"
  by (induction m) simp_all

section \<open>Running one program\<close>

datatype 'a outcome = Done 'a | Failed exn | Blocked

text \<open>
  The outcome, the final world and the requests issued, in order, on the given replies.
  \<open>Blocked\<close>: the program still waits for a reply.
\<close>

primrec exec :: "('w, 'q, 'r, 'a) prog \<Rightarrow> 'w \<Rightarrow> 'r list \<Rightarrow> 'a outcome \<times> 'w \<times> 'q list" where
  "exec (Ret a) w rs = (Done a, w, [])"
| "exec (Throw e) w rs = (Failed e, w, [])"
| "exec (Upd u p) w rs = exec p (u w) rs"
| "exec (Look f) w rs = exec (f w) w rs"
| "exec (Await q k) w rs =
     (case rs of [] \<Rightarrow> (Blocked, w, [q])
      | r # rs' \<Rightarrow> (case exec (k r) w rs' of (x, w', qs) \<Rightarrow> (x, w', q # qs)))"

definition result :: "('w, 'q, 'r, 'a) prog \<Rightarrow> 'w \<Rightarrow> 'r list \<Rightarrow> 'a outcome" where
  "result p w rs = fst (exec p w rs)"

definition final :: "('w, 'q, 'r, 'a) prog \<Rightarrow> 'w \<Rightarrow> 'r list \<Rightarrow> 'w" where
  "final p w rs = fst (snd (exec p w rs))"

definition requests :: "('w, 'q, 'r, 'a) prog \<Rightarrow> 'w \<Rightarrow> 'r list \<Rightarrow> 'q list" where
  "requests p w rs = snd (snd (exec p w rs))"

lemma run_simps [prog_simps, simp]:
  "result (Ret a) w rs = Done a"
  "result (Throw e) w rs = Failed e"
  "result (Upd u p) w rs = result p (u w) rs"
  "result (Look f) w rs = result (f w) w rs"
  "result (Await q k) w [] = Blocked"
  "result (Await q k) w (r # rs) = result (k r) w rs"
  "final (Ret a) w rs = w"
  "final (Throw e) w rs = w"
  "final (Upd u p) w rs = final p (u w) rs"
  "final (Look f) w rs = final (f w) w rs"
  "final (Await q k) w [] = w"
  "final (Await q k) w (r # rs) = final (k r) w rs"
  "requests (Ret a) w rs = []"
  "requests (Throw e) w rs = []"
  "requests (Upd u p) w rs = requests p (u w) rs"
  "requests (Look f) w rs = requests (f w) w rs"
  "requests (Await q k) w [] = [q]"
  "requests (Await q k) w (r # rs) = q # requests (k r) w rs"
  by (simp_all add: result_def final_def requests_def split: prod.split)

section \<open>What every run of a program ensures\<close>

text \<open>The requests with the replies they got; the last one has none when the program is blocked.\<close>

primrec history :: "('w, 'q, 'r, 'a) prog \<Rightarrow> 'w \<Rightarrow> 'r list \<Rightarrow> ('q \<times> 'r option) list" where
  "history (Ret a) w rs = []"
| "history (Throw e) w rs = []"
| "history (Upd u p) w rs = history p (u w) rs"
| "history (Look f) w rs = history (f w) w rs"
| "history (Await q k) w rs =
     (case rs of [] \<Rightarrow> [(q, None)] | r # rs' \<Rightarrow> (q, Some r) # history (k r) w rs')"

lemma requests_history: "requests p w rs = map fst (history p w rs)"
proof (induction p arbitrary: w rs)
  case (Await q k)
  then show ?case by (cases rs) simp_all
qed simp_all

text \<open>
  \<open>always p w P\<close>: on every list of replies, \<open>P\<close> holds of the outcome, the final world and the
  history. The equations and the rules for the combinators make it a calculus of
  postconditions.
\<close>

primrec always :: "('w, 'q, 'r, 'a) prog \<Rightarrow> 'w \<Rightarrow>
    ('a outcome \<Rightarrow> 'w \<Rightarrow> ('q \<times> 'r option) list \<Rightarrow> bool) \<Rightarrow> bool" where
  "always (Ret a) w P = P (Done a) w []"
| "always (Throw e) w P = P (Failed e) w []"
| "always (Upd u p) w P = always p (u w) P"
| "always (Look f) w P = always (f w) w P"
| "always (Await q k) w P =
     (P Blocked w [(q, None)] \<and> (\<forall>r. always (k r) w (\<lambda>x w' h. P x w' ((q, Some r) # h))))"

lemma always_run: "always p w P \<Longrightarrow> P (result p w rs) (final p w rs) (history p w rs)"
proof (induction p arbitrary: w rs P)
  case (Await q k)
  then have k: "always (k r) w (\<lambda>x w' h. P x w' ((q, Some r) # h))" for r by simp
  show ?case
  proof (cases rs)
    case Nil
    then show ?thesis using Await.prems by simp
  next
    case (Cons r rs')
    then show ?thesis using Await.IH [OF rangeI k] by simp
  qed
next
  case (Look f)
  then have "always (f w) w P" by simp
  from Look.IH [OF rangeI this] show ?case by simp
qed simp_all

lemma always_mono:
  "always p w P \<Longrightarrow> (\<And>x w' h. P x w' h \<Longrightarrow> Q x w' h) \<Longrightarrow> always p w Q"
proof (induction p arbitrary: w P Q)
  case (Await q k)
  from Await.prems have p: "P Blocked w [(q, None)]"
    and k: "always (k r) w (\<lambda>x w' h. P x w' ((q, Some r) # h))" for r by simp_all
  have "always (k r) w (\<lambda>x w' h. Q x w' ((q, Some r) # h))" for r
    by (rule Await.IH [OF rangeI k]) (rule Await.prems(2))
  with p Await.prems(2) show ?case by simp
qed auto

lemma always_bind:
  "always (bind m k) w P = always m w (\<lambda>x w' h. case x of
       Done a \<Rightarrow> always (k a) w' (\<lambda>x2 w2 h2. P x2 w2 (h @ h2))
     | Failed e \<Rightarrow> P (Failed e) w' h
     | Blocked \<Rightarrow> P Blocked w' h)"
  by (induction m arbitrary: w P) (simp_all cong: outcome.case_cong)

lemma always_attempt:
  "always (attempt m c k) w P = always m w (\<lambda>x w' h. case x of
       Done a \<Rightarrow> always (k a) w' (\<lambda>x2 w2 h2. P x2 w2 (h @ h2))
     | Failed e \<Rightarrow> always (c e) w' (\<lambda>x2 w2 h2. P x2 w2 (h @ h2))
     | Blocked \<Rightarrow> P Blocked w' h)"
  by (induction m arbitrary: w P) (simp_all cong: outcome.case_cong)

lemma always_catch:
  "always (catch m c) w P = always m w (\<lambda>x w' h. case x of
       Failed e \<Rightarrow> always (c e) w' (\<lambda>x2 w2 h2. P x2 w2 (h @ h2))
     | _ \<Rightarrow> P x w' h)"
proof -
  have "(\<lambda>x w' h. case x of
       Done a \<Rightarrow> always (Ret a) w' (\<lambda>x2 w2 h2. P x2 w2 (h @ h2))
     | Failed e \<Rightarrow> always (c e) w' (\<lambda>x2 w2 h2. P x2 w2 (h @ h2))
     | Blocked \<Rightarrow> P Blocked w' h)
    = (\<lambda>x w' h. case x of
       Failed e \<Rightarrow> always (c e) w' (\<lambda>x2 w2 h2. P x2 w2 (h @ h2))
     | _ \<Rightarrow> P x w' h)"
    by (intro ext) (simp split: outcome.split)
  then show ?thesis by (simp add: catch_def always_attempt)
qed

lemma always_finally:
  "always (finally_do m u) w P = always m w (\<lambda>x w' h. case x of
       Blocked \<Rightarrow> P Blocked w' h | _ \<Rightarrow> P x (u w') h)"
  by (induction m arbitrary: w P) (simp_all cong: outcome.case_cong)

lemmas always_rules = always_bind always_attempt always_catch always_finally

text \<open>After \<open>finally\<close>, whatever happened, its update has been made.\<close>

lemma finally_final:
  "result (finally_do m u) w rs \<noteq> Blocked \<Longrightarrow> \<exists>w'. final (finally_do m u) w rs = u w'"
proof -
  have "always (finally_do m u) w (\<lambda>x w1 h. x \<noteq> Blocked \<longrightarrow> (\<exists>w'. w1 = u w'))"
    by (induction m arbitrary: w) (auto split: outcome.split simp: always_mono)
  from always_run [OF this] show "result (finally_do m u) w rs \<noteq> Blocked \<Longrightarrow> ?thesis" by blast
qed

section \<open>What a program can ask for\<close>

text \<open>\<open>asks A p\<close>: whatever the replies and the worlds, every request of \<open>p\<close> is in \<open>A\<close>.\<close>

primrec asks :: "('q \<Rightarrow> bool) \<Rightarrow> ('w, 'q, 'r, 'a) prog \<Rightarrow> bool" where
  "asks A (Ret a) = True"
| "asks A (Throw e) = True"
| "asks A (Upd u p) = asks A p"
| "asks A (Look f) = (\<forall>w. asks A (f w))"
| "asks A (Await q k) = (A q \<and> (\<forall>r. asks A (k r)))"

lemma asks_bind: "asks A m \<Longrightarrow> (\<And>a. asks A (k a)) \<Longrightarrow> asks A (bind m k)"
  by (induction m) simp_all

lemma asks_attempt:
  "asks A m \<Longrightarrow> (\<And>e. asks A (h e)) \<Longrightarrow> (\<And>a. asks A (k a)) \<Longrightarrow> asks A (attempt m h k)"
  by (induction m) simp_all

lemma asks_catch: "asks A m \<Longrightarrow> (\<And>e. asks A (h e)) \<Longrightarrow> asks A (catch m h)"
  by (simp add: catch_def asks_attempt)

lemma asks_finally: "asks A m \<Longrightarrow> asks A (finally_do m u)"
  by (induction m) simp_all

lemma asks_history: "asks A p \<Longrightarrow> (q, r) \<in> set (history p w rs) \<Longrightarrow> A q"
proof (induction p arbitrary: w rs)
  case (Await q' k)
  then show ?case using Await.IH [OF rangeI] by (cases rs) auto
next
  case (Look f)
  then show ?case using Look.IH [OF rangeI] by simp
qed simp_all

lemmas asks_rules = asks_bind asks_attempt asks_catch asks_finally

section \<open>Programs that keep an invariant\<close>

text \<open>
  \<open>keeps R I p\<close>: every update of \<open>p\<close> keeps \<open>I\<close>, whatever the current world, as long as
  every reply to a request is one that \<open>R\<close> allows.
\<close>

primrec keeps :: "('q \<Rightarrow> 'r \<Rightarrow> bool) \<Rightarrow> ('w \<Rightarrow> bool) \<Rightarrow> ('w, 'q, 'r, 'a) prog \<Rightarrow> bool" where
  "keeps R I (Ret a) = True"
| "keeps R I (Throw e) = True"
| "keeps R I (Upd u p) = ((\<forall>w. I w \<longrightarrow> I (u w)) \<and> keeps R I p)"
| "keeps R I (Look f) = (\<forall>w. I w \<longrightarrow> keeps R I (f w))"
| "keeps R I (Await q k) = (\<forall>r. R q r \<longrightarrow> keeps R I (k r))"

lemma keeps_bind [inv_rules]:
  "keeps R I m \<Longrightarrow> (\<And>a. keeps R I (k a)) \<Longrightarrow> keeps R I (bind m k)"
  by (induction m) simp_all

lemma keeps_attempt [inv_rules]:
  "keeps R I m \<Longrightarrow> (\<And>e. keeps R I (h e)) \<Longrightarrow> (\<And>a. keeps R I (k a)) \<Longrightarrow> keeps R I (attempt m h k)"
  by (induction m) simp_all

lemma keeps_catch [inv_rules]:
  "keeps R I m \<Longrightarrow> (\<And>e. keeps R I (h e)) \<Longrightarrow> keeps R I (catch m h)"
  by (simp add: catch_def keeps_attempt)

lemma keeps_finally [inv_rules]:
  "keeps R I m \<Longrightarrow> (\<And>w. I w \<Longrightarrow> I (u w)) \<Longrightarrow> keeps R I (finally_do m u)"
  by (induction m) simp_all

lemma keeps_final:
  "keeps (\<lambda>_ _. True) I p \<Longrightarrow> I w \<Longrightarrow> I (final p w rs)"
proof (induction p arbitrary: w rs)
  case (Await q k)
  then show ?case by (cases rs) auto
qed auto

section \<open>Interleaving handlers\<close>

text \<open>Run a program up to its next \<open>await\<close>.\<close>

primrec advance :: "('w, 'q, 'r, 'a) prog \<Rightarrow> 'w \<Rightarrow> ('w, 'q, 'r, 'a) prog \<times> 'w" where
  "advance (Ret a) w = (Ret a, w)"
| "advance (Throw e) w = (Throw e, w)"
| "advance (Upd u p) w = advance p (u w)"
| "advance (Look f) w = advance (f w) w"
| "advance (Await q k) w = (Await q k, w)"

lemma advance_keeps:
  "keeps R I p \<Longrightarrow> I w \<Longrightarrow> advance p w = (p', w') \<Longrightarrow> I w' \<and> keeps R I p'"
  by (induction p arbitrary: w) auto

type_synonym ('w, 'q, 'r) config = "'w \<times> ('w, 'q, 'r, unit) prog list"

text \<open>
  \<open>hs e w\<close> is the handler of event \<open>e\<close> created by the render of world \<open>w\<close>, \<open>en e w\<close> says
  that the event can happen there (the control is rendered and enabled), \<open>R\<close> which
  replies a request can get.
\<close>

inductive sys_step :: "('e \<Rightarrow> 'w \<Rightarrow> bool) \<Rightarrow> ('e \<Rightarrow> 'w \<Rightarrow> ('w, 'q, 'r, unit) prog) \<Rightarrow>
    ('q \<Rightarrow> 'r \<Rightarrow> bool) \<Rightarrow> ('w, 'q, 'r) config \<Rightarrow> ('w, 'q, 'r) config \<Rightarrow> bool"
  for en hs R where
  fire: "en e w \<Longrightarrow> advance (hs e w) w = (p, w') \<Longrightarrow> sys_step en hs R (w, ps) (w', ps @ [p])"
| reply: "i < length ps \<Longrightarrow> ps ! i = Await q k \<Longrightarrow> R q r \<Longrightarrow> advance (k r) w = (p, w') \<Longrightarrow>
     sys_step en hs R (w, ps) (w', ps[i := p])"

inductive reach :: "('e \<Rightarrow> 'w \<Rightarrow> bool) \<Rightarrow> ('e \<Rightarrow> 'w \<Rightarrow> ('w, 'q, 'r, unit) prog) \<Rightarrow>
    ('q \<Rightarrow> 'r \<Rightarrow> bool) \<Rightarrow> ('w \<Rightarrow> bool) \<Rightarrow> ('w, 'q, 'r) config \<Rightarrow> bool"
  for en hs R start where
  reach_start: "start w \<Longrightarrow> reach en hs R start (w, [])"
| reach_step: "reach en hs R start c \<Longrightarrow> sys_step en hs R c c' \<Longrightarrow> reach en hs R start c'"

inductive_cases sys_stepE: "sys_step en hs R (w, ps) c"

lemma fire_eq:
  "en e w \<Longrightarrow> sys_step en hs R (w, ps) (snd (advance (hs e w) w), ps @ [fst (advance (hs e w) w)])"
  by (rule fire) simp_all

lemma reply_eq:
  "i < length ps \<Longrightarrow> ps ! i = Await q k \<Longrightarrow> R q r \<Longrightarrow>
   sys_step en hs R (w, ps) (snd (advance (k r) w), ps[i := fst (advance (k r) w)])"
  by (rule reply) simp_all

text \<open>The same steps as functions, to follow one interleaving.\<close>

fun request_of :: "('w, 'q, 'r, 'a) prog \<Rightarrow> 'q option" where
  "request_of (Await q k) = Some q"
| "request_of p = None"

fun reply_of :: "('w, 'q, 'r, 'a) prog \<Rightarrow> 'r \<Rightarrow> ('w, 'q, 'r, 'a) prog" where
  "reply_of (Await q k) r = k r"
| "reply_of p r = p"

lemma reach_fire:
  assumes "reach en hs R start (w, ps)" "en e w" "advance (hs e w) w = (p, w')"
  shows "reach en hs R start (w', ps @ [p])"
  by (rule reach_step [OF assms(1)], rule fire [where e = e]) (rule assms)+

lemma reach_reply:
  assumes "reach en hs R start (w, ps)" "i < length ps" "request_of (ps ! i) = Some q" "R q r"
    "advance (reply_of (ps ! i) r) w = (p, w')"
  shows "reach en hs R start (w', ps[i := p])"
proof -
  obtain k where k: "ps ! i = Await q k" using assms(3) by (cases "ps ! i") auto
  show ?thesis
    by (rule reach_step [OF assms(1)], rule reply [where q = q and k = k and r = r])
      (use assms(2,4,5) k in simp_all)
qed

text \<open>
  The interface of a page: its events, handlers and start worlds, and an invariant that the
  start worlds have and every handler keeps. Then the invariant holds whatever the
  interleaving.
\<close>

locale page =
  fixes en :: "'e \<Rightarrow> 'w \<Rightarrow> bool"
    and hs :: "'e \<Rightarrow> 'w \<Rightarrow> ('w, 'q, 'r, unit) prog"
    and R :: "'q \<Rightarrow> 'r \<Rightarrow> bool"
    and start :: "'w \<Rightarrow> bool"
    and I :: "'w \<Rightarrow> bool"
  assumes start_inv: "start w \<Longrightarrow> I w"
    and handler_keeps: "en e w \<Longrightarrow> I w \<Longrightarrow> keeps R I (hs e w)"
begin

definition good :: "('w, 'q, 'r) config \<Rightarrow> bool" where
  "good c \<longleftrightarrow> I (fst c) \<and> (\<forall>p \<in> set (snd c). keeps R I p)"

lemma step_good: "sys_step en hs R c c' \<Longrightarrow> good c \<Longrightarrow> good c'"
proof (induction rule: sys_step.induct)
  case (fire e w p w' ps)
  then have "keeps R I (hs e w)" by (simp add: good_def handler_keeps)
  with fire have "I w' \<and> keeps R I p" by (auto simp: good_def dest: advance_keeps)
  with fire show ?case by (auto simp: good_def)
next
  case (reply i ps q k r w p w')
  then have "keeps R I (Await q k)" by (metis good_def nth_mem snd_conv)
  with reply have "I w' \<and> keeps R I p" by (auto simp: good_def dest: advance_keeps)
  with reply show ?case
    by (auto simp: good_def dest: set_update_subset_insert [THEN subsetD])
qed

lemma reach_good: "reach en hs R start c \<Longrightarrow> good c"
proof (induction rule: reach.induct)
  case (reach_start w)
  then show ?case by (simp add: good_def start_inv)
next
  case (reach_step c c')
  then show ?case by (blast intro: step_good)
qed

lemma reach_inv: "reach en hs R start (w, ps) \<Longrightarrow> I w"
  using reach_good by (fastforce simp: good_def)

end

section \<open>HTTP replies\<close>

text \<open>
  \<open>fetch\<close> rejects with an exception, or resolves with a status, the text of the body and the
  body parsed as JSON (\<open>None\<close>: it does not parse as the type the code casts it to).
\<close>

datatype 'b http = Rejected exn | Response (status: int) (body_text: string) (body_json: "'b option")

definition ok_status :: "int \<Rightarrow> bool" where
  "ok_status s \<longleftrightarrow> 200 \<le> s \<and> s \<le> 299"

lemma ok_status_200 [simp]: "ok_status 200"
  by (simp add: ok_status_def)

text \<open>\<open>await fetch(q)\<close>.\<close>

definition fetch :: "'q \<Rightarrow> ('w, 'q, 'b http, 'b http) prog" where
  "fetch q = Await q (\<lambda>r. case r of Rejected e \<Rightarrow> Throw e | _ \<Rightarrow> Ret r)"

text \<open>\<open>await res.json()\<close> and the idiom \<open>if (!res.ok) throw new Error(await res.text())\<close>.\<close>

definition syntax_error :: exn where
  "syntax_error = ErrorExn ''Unexpected token in JSON''"

definition res_json :: "'b http \<Rightarrow> ('w, 'q, 'r, 'b) prog" where
  "res_json r = (case r of Response s t (Some b) \<Rightarrow> Ret b | _ \<Rightarrow> Throw syntax_error)"

definition require_ok :: "'b http \<Rightarrow> ('w, 'q, 'r, unit) prog" where
  "require_ok r = (case r of Response s t j \<Rightarrow> if ok_status s then Ret () else Throw (ErrorExn t)
                   | Rejected e \<Rightarrow> Throw e)"

lemma asks_http [intro]: "A q \<Longrightarrow> asks A (fetch q)" "asks A (res_json r)" "asks A (require_ok r)"
  by (simp_all add: fetch_def res_json_def require_ok_def split: http.split option.split)

lemma keeps_fetch [inv_rules]: "keeps R I (fetch q)"
  by (simp add: fetch_def split: http.split)

lemma keeps_res_json [inv_rules]: "keeps R I (res_json r)"
  by (simp add: res_json_def split: http.split option.split)

lemma keeps_require_ok [inv_rules]: "keeps R I (require_ok r)"
  by (simp add: require_ok_def split: http.split)

lemmas http_defs = fetch_def res_json_def require_ok_def

end
