(* ===== verification/Solana_Lib.thy ===== *)
theory Solana_Lib
  imports Js_Number Page_Runtime
begin

text \<open>
  \<^verbatim>\<open>frontend/src/lib/solana.ts\<close>: the mint, the address check, the balance and the USDC transfer.
  The Solana packages are a parameter (\<open>spl\<close>): the operations of \<^verbatim>\<open>@solana/web3.js\<close> and
  \<^verbatim>\<open>@solana/spl-token\<close> that the file calls, on keys of type \<open>'k\<close> and instructions of
  type \<open>'i\<close>; those that may throw return a sum.
\<close>

section \<open>The packages\<close>

record ('k, 'i) spl =
  new_PublicKey :: "jstr \<Rightarrow> exn + 'k"
  toBase58 :: "'k \<Rightarrow> jstr"
  getAssociatedTokenAddress :: "'k \<Rightarrow> 'k \<Rightarrow> exn + 'k"
  createAssociatedTokenAccountIdempotentInstruction :: "'k \<Rightarrow> 'k \<Rightarrow> 'k \<Rightarrow> 'k \<Rightarrow> 'i"
  createTransferInstruction :: "'k \<Rightarrow> 'k \<Rightarrow> 'k \<Rightarrow> jsnum \<Rightarrow> exn + 'i"
  newTransactionInstruction :: "('k \<times> bool \<times> bool) list \<Rightarrow> jstr \<Rightarrow> 'k \<Rightarrow> 'i"

text \<open>\<open>Buffer.from(s, "utf-8")\<close> on code units below 256, as a list of bytes.\<close>

definition utf8_char :: "char \<Rightarrow> jstr" where
  "utf8_char c = (let n = (of_char c :: nat)
     in if n < 128 then [c] else [char_of (192 + n div 64), char_of (128 + n mod 64)])"

definition utf8 :: "jstr \<Rightarrow> jstr" where
  "utf8 s = concat (map utf8_char s)"

lemma utf8_ascii: "list_all (\<lambda>c. (of_char c :: nat) < 128) s \<Longrightarrow> utf8 s = s"
  by (induction s) (simp_all add: utf8_def utf8_char_def)

section \<open>The file\<close>

definition default_mint :: jstr where
  "default_mint = ''EPjFWdd5AufqSSqeM2qN1xzybapC8G4wEGGkZwyTDt1v''"

text \<open>\<open>env_mint\<close> is \<open>process.env.NEXT_PUBLIC_USDC_MINT\<close>, empty when it is not set.\<close>

definition usdc_mint_text :: "jstr \<Rightarrow> jstr" where
  "usdc_mint_text env_mint = or_else env_mint default_mint"

definition USDC_MINT_ADDRESS :: "('k, 'i) spl \<Rightarrow> jstr \<Rightarrow> exn + 'k" where
  "USDC_MINT_ADDRESS lib env_mint = new_PublicKey lib (usdc_mint_text env_mint)"

definition isValidSolanaAddress :: "('k, 'i) spl \<Rightarrow> jstr \<Rightarrow> bool" where
  "isValidSolanaAddress lib value =
     (if \<not> truthy value \<or> length value < 32 \<or> length value > 44 then False
      else (case new_PublicKey lib value of Inr _ \<Rightarrow> True | Inl _ \<Rightarrow> False))"

text \<open>\<open>getAccount(connection, ata)\<close> is the one request; its reply is the \<open>amount\<close> of the account.\<close>

definition getUsdcBalance :: "('k, 'i) spl \<Rightarrow> 'k \<Rightarrow> 'k \<Rightarrow> ('w, 'k, exn + nat, jsnum) prog" where
  "getUsdcBalance lib mint publicKey =
     catch
       (case getAssociatedTokenAddress lib mint publicKey of
          Inl e \<Rightarrow> Throw e
        | Inr ata \<Rightarrow> Await ata (\<lambda>r. case r of
             Inl e \<Rightarrow> Throw e
           | Inr amount \<Rightarrow> Ret (case to_double (of_nat amount) of
                Fin a \<Rightarrow> to_double (a / 1000000) | x \<Rightarrow> x)))
       (\<lambda>error. Ret (Fin 0))"

definition raw_amount :: "jsnum \<Rightarrow> jsnum" where
  "raw_amount amount = num_mul amount (Fin 1000000)"

definition memo_program :: jstr where
  "memo_program = ''Memo1UhkJRfHyvLMcVucJwxXeuD728EqVDDwQDxFMNo''"

text \<open>The instructions of the transaction, or the first exception of a package call.\<close>

definition createUsdcTransfer ::
  "('k, 'i) spl \<Rightarrow> 'k \<Rightarrow> 'k \<Rightarrow> 'k \<Rightarrow> jsnum \<Rightarrow> jstr \<Rightarrow> exn + 'i list" where
  "createUsdcTransfer lib mint publicKey recipient amount memo =
     (case getAssociatedTokenAddress lib mint publicKey of Inl e \<Rightarrow> Inl e
      | Inr senderAta \<Rightarrow>
     (case getAssociatedTokenAddress lib mint recipient of Inl e \<Rightarrow> Inl e
      | Inr recipientAta \<Rightarrow>
     (case createTransferInstruction lib senderAta recipientAta publicKey (raw_amount amount) of
        Inl e \<Rightarrow> Inl e
      | Inr transfer \<Rightarrow>
     (case new_PublicKey lib memo_program of Inl e \<Rightarrow> Inl e
      | Inr program \<Rightarrow>
        Inr [createAssociatedTokenAccountIdempotentInstruction lib publicKey recipientAta recipient mint,
             transfer,
             newTransactionInstruction lib [(publicKey, True, True)] (utf8 memo) program]))))"

section \<open>A concrete package, for evaluation\<close>

datatype demo_ix =
    CreateAta jstr jstr jstr jstr
  | Transfer jstr jstr jstr jsnum
  | Instruction "(jstr \<times> bool \<times> bool) list" jstr jstr

text \<open>
  A key is its text, an associated account is named by mint and owner, and a transfer needs
  a non-negative integer, as the 64-bit field of the real instruction does.
\<close>

definition demo_spl :: "(jstr, demo_ix) spl" where
  "demo_spl = \<lparr>
     new_PublicKey = (\<lambda>s. if 32 \<le> length s \<and> length s \<le> 44 then Inr s else Inl (ErrorExn ''Invalid public key input'')),
     toBase58 = (\<lambda>k. k),
     getAssociatedTokenAddress = (\<lambda>m k. Inr (m @ ''/'' @ k)),
     createAssociatedTokenAccountIdempotentInstruction = CreateAta,
     createTransferInstruction = (\<lambda>a b c n. case n of
         Fin x \<Rightarrow> if 0 \<le> x \<and> of_int \<lfloor>x\<rfloor> = x then Inr (Transfer a b c n) else Inl (ErrorExn ''RangeError'')
       | _ \<Rightarrow> Inl (ErrorExn ''RangeError'')),
     newTransactionInstruction = Instruction \<rparr>"

section \<open>Lemmas\<close>

lemma raw_amount_nat:
  "n * 1000000 < 2 ^ 53 \<Longrightarrow> raw_amount (Fin (of_nat n)) = Fin (of_nat (n * 1000000))"
  using to_double_nat [of "n * 1000000"] by (simp add: raw_amount_def)

section \<open>Properties\<close>

text \<open>
  C20. The wallet payment moves exactly the price: for an event whose price the back end writes
  as \<open>n.00\<close>, the raw amount of the transfer is \<open>n\<close> million units, with no rounding, as long
  as it is below two to the 53.
\<close>

theorem transfer_amount_exact:
  assumes "n * 1000000 < 2 ^ 53"
  shows "raw_amount (js_Number (show_nat n @ ''.00'')) = Fin (of_nat (n * 1000000))"
proof -
  have "n < 2 ^ 53" using assms by linarith
  then have "js_Number (show_nat n @ ''.00'') = Fin (of_nat n)"
    by (simp add: js_Number_amount to_double_nat)
  with assms show ?thesis by (simp only: raw_amount_nat)
qed

theorem transfer_amount_exact_witness:
  "raw_amount (js_Number (show_nat 25 @ ''.00'')) = Fin 25000000"
  using transfer_amount_exact [of 25] by simp



text \<open>
  A price that is not a whole number can lose the transfer: the product with a million is
  rounded to a double that need not be an integer.
\<close>

lemma price_2_01: "raw_amount (js_Number ''2.01'') = Fin (8632884264959999 / 4294967296)"
proof -
  have b: "js_Number ''2.01'' = Fin (1131529406376837 / 562949953421312)" by code_simp
  show ?thesis
    unfolding b by (simp add: raw_amount_def to_double_def Let_def exponent2_def round_even_def pow2_def)
qed

text \<open>
  With a package that takes whole raw amounts only, as the 64-bit field of the instruction
  does, no transfer can be made for the price 2.01, although that is 2010000 raw units.
\<close>

theorem fractional_price_fails:
  "createUsdcTransfer demo_spl default_mint payer recipient (js_Number ''2.01'') memo
     = Inl (ErrorExn ''RangeError'')"
  unfolding createUsdcTransfer_def price_2_01 by (simp add: demo_spl_def)

end
