(* ===== verification/Js_Regex.thy ===== *)
theory Js_Regex
  imports Js_Text
begin

text \<open>
  The regular expressions of the pages and JavaScript's backtracking matcher for them.
  A match is tried at one position; its result is the list of the suffixes that remain after
  the possible matches, in the order in which backtracking tries them, so its head is the
  match that \<open>exec\<close>, \<open>test\<close> and \<open>replace\<close> take. The total length of the subject tells where
  \<open>^\<close> matches. No capture groups: the pages use none.
\<close>

section \<open>Syntax\<close>

datatype re =
    Cls "char \<Rightarrow> bool"
  | Seq re re
  | Opt re            \<comment> \<open>\<open>r?\<close>, greedy\<close>
  | Star bool re      \<comment> \<open>\<open>r*\<close> (\<open>True\<close>) or \<open>r*?\<close> (\<open>False\<close>)\<close>
  | Eps
  | Bol               \<comment> \<open>\<open>^\<close>\<close>
  | Eol               \<comment> \<open>\<open>$\<close>\<close>

definition Plus :: "re \<Rightarrow> re" where
  "Plus r = Seq r (Star True r)"

text \<open>A literal, and one under the flag \<open>i\<close>.\<close>

definition Lit :: "jstr \<Rightarrow> re" where
  "Lit s = foldr (\<lambda>c r. Seq (Cls (\<lambda>x. x = c)) r) s Eps"

definition Lit_i :: "jstr \<Rightarrow> re" where
  "Lit_i s = foldr (\<lambda>c r. Seq (Cls (\<lambda>x. lower_char x = lower_char c)) r) s Eps"

definition Any :: re where
  "Any = Cls (\<lambda>_. True)"    \<comment> \<open>\<open>[\\s\\S]\<close>\<close>

section \<open>The matcher\<close>

function mt :: "nat \<Rightarrow> re \<Rightarrow> jstr \<Rightarrow> jstr list" where
  "mt n (Cls p) s = (case s of [] \<Rightarrow> [] | c # t \<Rightarrow> if p c then [t] else [])"
| "mt n (Seq a b) s = concat (map (mt n b) (mt n a s))"
| "mt n (Opt a) s = mt n a s @ [s]"
| "mt n (Star g a) s =
     (let more = concat (map (\<lambda>t. if length t < length s then mt n (Star g a) t else []) (mt n a s))
      in if g then more @ [s] else s # more)"
| "mt n Eps s = [s]"
| "mt n Bol s = (if length s = n then [s] else [])"
| "mt n Eol s = (if s = [] then [s] else [])"
  by pat_completeness auto
termination
  by (relation "measures [\<lambda>(n, r, s). size r, \<lambda>(n, r, s). length s]") auto

declare mt.simps(4) [simp del]

text \<open>\<open>re.test(s)\<close>: some position matches.\<close>

fun test_from :: "nat \<Rightarrow> re \<Rightarrow> jstr \<Rightarrow> bool" where
  "test_from n r [] = (mt n r [] \<noteq> [])"
| "test_from n r (c # s) = (mt n r (c # s) \<noteq> [] \<or> test_from n r s)"

definition re_test :: "re \<Rightarrow> jstr \<Rightarrow> bool" where
  "re_test r s = test_from (length s) r s"

text \<open>\<open>s.replace(re, "")\<close> with the flag \<open>g\<close>: drop every match, from left to right.\<close>

fun drop_from :: "nat \<Rightarrow> re \<Rightarrow> jstr \<Rightarrow> jstr" where
  "drop_from n r [] = []"
| "drop_from n r (c # s) =
     (case mt n r (c # s) of
        [] \<Rightarrow> c # drop_from n r s
      | t # ts \<Rightarrow> if length t < length (c # s) then drop_from n r t else c # drop_from n r s)"

definition re_remove :: "re \<Rightarrow> jstr \<Rightarrow> jstr" where
  "re_remove r s = drop_from (length s) r s"

section \<open>What matches\<close>

text \<open>Which suffixes the classes and starred classes leave, in order.\<close>

lemma mt_Lit_i: "mt n (Lit_i []) s = [s]"
  by (simp add: Lit_i_def)

lemma mt_Lit_i_Cons:
  "mt n (Lit_i (x # xs)) s =
     (case s of [] \<Rightarrow> [] | c # t \<Rightarrow> if lower_char c = lower_char x then mt n (Lit_i xs) t else [])"
  by (simp add: Lit_i_def split: list.split)

lemma mt_Lit_Cons:
  "mt n (Lit (x # xs)) s = (case s of [] \<Rightarrow> [] | c # t \<Rightarrow> if c = x then mt n (Lit xs) t else [])"
  by (simp add: Lit_def split: list.split)

lemma mt_Lit: "mt n (Lit l) s = (if starts_with s l then [drop (length l) s] else [])"
proof (induction l arbitrary: s)
  case Nil
  show ?case by (simp add: Lit_def)
next
  case (Cons c l)
  then show ?case by (cases s) (auto simp: mt_Lit_Cons)
qed

lemma mt_star_Nil [simp]: "mt n (Star g (Cls p)) [] = [[]]"
  by (simp add: mt.simps)

lemma mt_star_greedy_Cons [simp]:
  "mt n (Star True (Cls p)) (c # s) = (if p c then mt n (Star True (Cls p)) s @ [c # s] else [c # s])"
  by (subst mt.simps) simp

lemma mt_star_lazy_Cons [simp]:
  "mt n (Star False (Cls p)) (c # s) = (c # s) # (if p c then mt n (Star False (Cls p)) s else [])"
  by (subst mt.simps) simp

lemma set_mt_star: "set (mt n (Star g (Cls p)) s) = {t. \<exists>u. s = u @ t \<and> list_all p u}"
proof (induction s)
  case Nil
  show ?case by (cases g) auto
next
  case (Cons c s)
  have "{t. \<exists>u. c # s = u @ t \<and> list_all p u}
      = insert (c # s) (if p c then {t. \<exists>u. s = u @ t \<and> list_all p u} else {})"
    by (auto simp: Cons_eq_append_conv)
  with Cons show ?case by (cases g) auto
qed

lemma set_mt_plus: "set (mt n (Plus (Cls p)) s) = {t. \<exists>u. s = u @ t \<and> u \<noteq> [] \<and> list_all p u}"
proof (cases s)
  case Nil
  then show ?thesis by (simp add: Plus_def)
next
  case (Cons c v)
  then show ?thesis
    by (auto simp: Plus_def set_mt_star Cons_eq_append_conv split: if_splits)
qed

lemma mt_suffix: "t \<in> set (mt n r s) \<Longrightarrow> suffix t s"
proof (induction n r s arbitrary: t rule: mt.induct)
  case (1 n p s)
  then show ?case by (auto split: list.splits if_splits simp: suffix_ConsI)
next
  case (2 n a b s)
  then show ?case by (auto intro: suffix_order.trans)
next
  case (4 n g a s)
  then show ?case
    by (subst (asm) mt.simps) (auto simp: Let_def split: if_splits intro: suffix_order.trans)
qed (auto split: if_splits)

lemma test_from_iff: "test_from n r s \<longleftrightarrow> (\<exists>a b. s = a @ b \<and> mt n r b \<noteq> [])"
proof (induction s)
  case Nil
  show ?case by simp
next
  case (Cons c s)
  have "(\<exists>a b. c # s = a @ b \<and> mt n r b \<noteq> []) \<longleftrightarrow>
        mt n r (c # s) \<noteq> [] \<or> (\<exists>a b. s = a @ b \<and> mt n r b \<noteq> [])"
    by (auto simp: Cons_eq_append_conv)
  with Cons show ?case by simp
qed

lemma re_test_iff: "re_test r s \<longleftrightarrow> (\<exists>a b. s = a @ b \<and> mt (length s) r b \<noteq> [])"
  by (simp add: re_test_def test_from_iff)

lemma mt_Seq_ne: "mt n (Seq a b) s \<noteq> [] \<longleftrightarrow> (\<exists>t \<in> set (mt n a s). mt n b t \<noteq> [])"
  by (auto simp: concat_eq_Nil_conv)

text \<open>An expression that begins with \<open>^\<close> is tried at the start only.\<close>

lemma re_test_anchored:
  "re_test (Seq Bol r) s \<longleftrightarrow> mt (length s) r s \<noteq> []"
proof
  assume "re_test (Seq Bol r) s"
  then obtain a b where ab: "s = a @ b" and ne: "mt (length s) (Seq Bol r) b \<noteq> []"
    unfolding re_test_iff by blast
  from ne have "length b = length s" by (auto split: if_splits)
  with ab have "b = s" by simp
  with ne show "mt (length s) r s \<noteq> []" by simp
next
  assume "mt (length s) r s \<noteq> []"
  then have "mt (length s) (Seq Bol r) s \<noteq> []" by simp
  then show "re_test (Seq Bol r) s" unfolding re_test_iff by (metis append_Nil)
qed

section \<open>What removal leaves\<close>

text \<open>Removal keeps a subsequence of the subject: it inserts and reorders nothing.\<close>

lemma subseq_drop_from: "subseq (drop_from n r s) s"
proof (induction n r s rule: drop_from.induct)
  case (1 n r)
  show ?case by simp
next
  case (2 n r c s)
  show ?case
  proof (cases "mt n r (c # s)")
    case Nil
    with 2 show ?thesis by simp
  next
    case (Cons t ts)
    then have "suffix t (c # s)" by (metis list.set_intros(1) mt_suffix)
    then obtain u where u: "c # s = u @ t" by (auto simp: suffix_def)
    show ?thesis
    proof (cases "length t < length (c # s)")
      case True
      with Cons 2 have "subseq (drop_from n r t) t" by simp
      with u have "subseq (drop_from n r t) (c # s)" by (simp add: subseq_drop_prefix)
      with True Cons show ?thesis by simp
    next
      case False
      with Cons 2 show ?thesis by simp
    qed
  qed
qed

lemma subseq_re_remove: "subseq (re_remove r s) s"
  by (simp add: re_remove_def subseq_drop_from)

lemma length_re_remove: "length (re_remove r s) \<le> length s"
  by (rule list_emb_length [OF subseq_re_remove])

text \<open>A subject that no suffix of matches is kept as it is.\<close>

lemma drop_from_id: "(\<And>a b. s = a @ b \<Longrightarrow> b \<noteq> [] \<Longrightarrow> mt n r b = []) \<Longrightarrow> drop_from n r s = s"
proof (induction s)
  case Nil
  show ?case by simp
next
  case (Cons c s)
  from Cons.prems [of "[]"] have "mt n r (c # s) = []" by simp
  moreover have "drop_from n r s = s"
    using Cons.prems by (intro Cons.IH) (metis append_Cons)
  ultimately show ?case by simp
qed

text \<open>
  Removal passes over a prefix in which no match begins, and drops a match that is
  the first choice where it begins.
\<close>

lemma drop_from_append:
  "(\<And>u v. a = u @ v \<Longrightarrow> v \<noteq> [] \<Longrightarrow> mt n r (v @ s) = []) \<Longrightarrow> drop_from n r (a @ s) = a @ drop_from n r s"
proof (induction a)
  case Nil
  show ?case by simp
next
  case (Cons c a)
  from Cons.prems [of "[]"] have "mt n r (c # a @ s) = []" by simp
  moreover have "drop_from n r (a @ s) = a @ drop_from n r s"
    using Cons.prems by (intro Cons.IH) (metis append_Cons)
  ultimately show ?case by simp
qed

lemma drop_from_match:
  "mt n r s = t # ts \<Longrightarrow> length t < length s \<Longrightarrow> drop_from n r s = drop_from n r t"
  by (cases s) simp_all

text \<open>The first choices of the starred classes: as much, or as little, as the rest allows.\<close>

lemma mt_lazy_find:
  "(\<And>u v. a = u @ v \<Longrightarrow> v \<noteq> [] \<Longrightarrow> mt n b (v @ s) = []) \<Longrightarrow> list_all p a \<Longrightarrow>
   mt n (Seq (Star False (Cls p)) b) (a @ s) = mt n (Seq (Star False (Cls p)) b) s"
proof (induction a)
  case Nil
  show ?case by simp
next
  case (Cons c a)
  from Cons.prems(1) [of "[]"] have "mt n b (c # a @ s) = []" by simp
  moreover have "mt n (Seq (Star False (Cls p)) b) (a @ s) = mt n (Seq (Star False (Cls p)) b) s"
    using Cons.prems by (intro Cons.IH) (metis append_Cons, simp)
  ultimately show ?case using Cons.prems(2) by simp
qed

lemma mt_lazy_here:
  "mt n b s \<noteq> [] \<Longrightarrow> hd (mt n (Seq (Star False (Cls p)) b) s) = hd (mt n b s)
     \<and> mt n (Seq (Star False (Cls p)) b) s \<noteq> []"
  by (cases s) auto

end
