(* ===== verification/Html_Filter.thy ===== *)
theory Html_Filter
  imports Js_Regex
begin

text \<open>
  The regular expressions over HTML, links and e-mail addresses, and the two copies of the HTML
  filter: \<open>sanitizeImportedHtml\<close> of the checkout page and \<open>sanitizeRichHtml\<close> of the dashboard.
\<close>

abbreviation (input) quote :: char where "quote \<equiv> CHR 0x22"
abbreviation (input) apos :: char where "apos \<equiv> CHR 0x27"

section \<open>The expressions\<close>

definition block_re :: "jstr \<Rightarrow> re" where
  "block_re name = Seq (Lit_i (''<'' @ name)) (Seq (Star False Any) (Seq (Lit ''>'')
     (Seq (Star False Any) (Lit_i (''</'' @ name @ ''>'')))))"

definition script_re :: re where "script_re = block_re ''script''"
definition style_re :: re where "style_re = block_re ''style''"

definition on_attr_re :: "char \<Rightarrow> re" where
  "on_attr_re q = Seq (Cls is_space) (Seq (Lit_i ''on'') (Seq (Plus (Cls is_word_char))
     (Seq (Lit [CHR ''='', q]) (Seq (Star True (Cls (\<lambda>c. c \<noteq> q))) (Lit [q])))))"

definition sanitizeImportedHtml :: "jstr \<Rightarrow> jstr" where
  "sanitizeImportedHtml input = (if \<not> truthy input then []
     else re_remove (on_attr_re apos) (re_remove (on_attr_re quote)
            (re_remove style_re (re_remove script_re input))))"

definition sanitizeRichHtml :: "jstr \<Rightarrow> jstr" where
  "sanitizeRichHtml input = (if \<not> truthy input then []
     else re_remove (on_attr_re apos) (re_remove (on_attr_re quote)
            (re_remove style_re (re_remove script_re input))))"

definition looksLikeHtml :: "jstr \<Rightarrow> bool" where
  "looksLikeHtml value = re_test (Seq (Lit ''<'') (Seq (Plus (Cls (\<lambda>c. c \<noteq> CHR ''>''))) (Lit ''>'')))
     (or_else value [])"

definition isHttpLocation :: "jstr \<Rightarrow> bool" where
  "isHttpLocation value = (if \<not> truthy value then False
     else re_test (Seq Bol (Seq (Lit_i ''http'') (Seq (Opt (Lit_i ''s'')) (Lit_i ''://'')))) value)"

definition email_char :: "char \<Rightarrow> bool" where
  "email_char c \<longleftrightarrow> \<not> is_space c \<and> c \<noteq> CHR ''@''"

definition is_email :: "jstr \<Rightarrow> bool" where
  "is_email value = re_test (Seq Bol (Seq (Plus (Cls email_char)) (Seq (Lit ''@'')
     (Seq (Plus (Cls email_char)) (Seq (Lit ''.'') (Seq (Plus (Cls email_char)) Eol)))))) value"

section \<open>Lemmas\<close>

lemma mt_Lit_i_append:
  "map lower_char u = map lower_char l \<Longrightarrow> mt n (Lit_i l) (u @ s) = [s]"
proof (induction l arbitrary: u)
  case Nil
  then show ?case by (simp add: mt_Lit_i)
next
  case (Cons x l)
  then show ?case by (cases u) (simp_all add: mt_Lit_i_Cons)
qed

lemma mt_Lit_i_eq:
  "mt n (Lit_i l) s = (if starts_with (toLowerCase s) (toLowerCase l) then [drop (length l) s] else [])"
proof (induction l arbitrary: s)
  case Nil
  then show ?case by (simp add: mt_Lit_i)
next
  case (Cons x l)
  then show ?case by (cases s) (simp_all add: mt_Lit_i_Cons toLowerCase_def)
qed

text \<open>No block begins where there is no \<open><\<close>, no attribute ends where there is no \<open>=\<close>.\<close>

lemma lower_char_cases: "lower_char c = c \<or> 97 \<le> (of_char (lower_char c) :: nat)"
proof -
  have "(of_char c :: nat) < 256" by simp
  then show ?thesis by (auto simp: lower_char_def Let_def)
qed

lemma lower_char_small: "(of_char d :: nat) < 65 \<Longrightarrow> lower_char c = d \<longleftrightarrow> c = d"
  using lower_char_cases [of c] by (auto simp: lower_char_def)

lemma Lit_i_needs_head:
  "(of_char x :: nat) < 65 \<Longrightarrow> c \<noteq> x \<Longrightarrow> mt n (Lit_i (x # l)) (c # s) = []"
  using lower_char_small [of x c] lower_char_small [of x x] by (auto simp: mt_Lit_i_Cons)

lemma mt_Seq_single: "mt n a s = [t] \<Longrightarrow> mt n (Seq a b) s = mt n b t"
  by simp

lemma mt_Seq_none: "mt n a s = [] \<Longrightarrow> mt n (Seq a b) s = []"
  by simp

lemma block_needs_angle: "c \<noteq> CHR ''<'' \<Longrightarrow> mt n (block_re name) (c # s) = []"
  unfolding block_re_def append_Cons append_Nil
  by (intro mt_Seq_none Lit_i_needs_head) simp_all

lemma re_remove_block_id: "CHR ''<'' \<notin> set s \<Longrightarrow> re_remove (block_re name) s = s"
  unfolding re_remove_def
proof (rule drop_from_id)
  fix a b
  assume "CHR ''<'' \<notin> set s" "s = a @ b" "b \<noteq> []"
  then show "mt (length s) (block_re name) b = []" by (cases b) (auto simp: block_needs_angle)
qed

lemma on_attr_needs_equals: "CHR ''='' \<notin> set s \<Longrightarrow> mt n (on_attr_re q) s = []"
proof (rule ccontr)
  assume eq: "CHR ''='' \<notin> set s" and "mt n (on_attr_re q) s \<noteq> []"
  then obtain t1 t2 t3 where t: "t1 \<in> set (mt n (Cls is_space) s)" "t2 \<in> set (mt n (Lit_i ''on'') t1)"
      "t3 \<in> set (mt n (Plus (Cls is_word_char)) t2)"
      and ne: "mt n (Seq (Lit [CHR ''='', q]) (Seq (Star True (Cls (\<lambda>c. c \<noteq> q))) (Lit [q]))) t3 \<noteq> []"
    unfolding on_attr_re_def mt_Seq_ne by blast
  from t have "suffix t3 s" by (meson mt_suffix suffix_order.trans)
  with eq have "CHR ''='' \<notin> set t3" by (auto simp: suffix_def)
  with ne show False
    by (cases t3) (auto simp: mt_Lit)
qed

lemma re_remove_on_attr_id: "CHR ''='' \<notin> set s \<Longrightarrow> re_remove (on_attr_re q) s = s"
  unfolding re_remove_def by (rule drop_from_id) (auto intro: on_attr_needs_equals)

text \<open>A lazy run before \<open>b\<close> passes over what \<open>b\<close> cannot begin in and takes \<open>b\<close>'s first choice.\<close>

lemma lazy_first:
  assumes "\<And>c v. c \<in> set a \<Longrightarrow> mt n b (c # v) = []" and "mt n b s = t # ts"
  shows "\<exists>us. mt n (Seq (Star False Any) b) (a @ s) = t # us"
proof -
  have "mt n b (v @ s) = []" if "a = u @ v" "v \<noteq> []" for u v
    using that assms(1) by (cases v) auto
  then have "mt n (Seq (Star False Any) b) (a @ s) = mt n (Seq (Star False Any) b) s"
    unfolding Any_def by (intro mt_lazy_find) (auto simp: list_all_iff)
  moreover have "hd (mt n (Seq (Star False Any) b) s) = t" "mt n (Seq (Star False Any) b) s \<noteq> []"
    using mt_lazy_here [of n b s "\<lambda>_. True"] assms(2) by (simp_all add: Any_def)
  ultimately show ?thesis by (cases "mt n (Seq (Star False Any) b) s") auto
qed

lemma mt_block:
  assumes "map lower_char op = map lower_char (''<'' @ name)"
    and "map lower_char cl = map lower_char (''</'' @ name @ ''>'')"
    and "CHR ''>'' \<notin> set attrs" and "CHR ''<'' \<notin> set body"
  shows "\<exists>ts. mt n (block_re name) (op @ attrs @ ''>'' @ body @ cl @ s) = s # ts"
proof -
  let ?L = "Lit_i (''</'' @ name @ ''>'')"
  let ?Z = "Seq (Star False Any) ?L"
  let ?Y = "Seq (Lit ''>'') ?Z"
  have "mt n ?L (cl @ s) = s # []" by (rule mt_Lit_i_append) (fact assms(2))
  moreover have "mt n ?L (c # v) = []" if "c \<in> set body" for c v
    unfolding append_Cons using that assms(4) by (intro Lit_i_needs_head) auto
  ultimately obtain us where Z: "mt n ?Z (body @ cl @ s) = s # us"
    using lazy_first [of body n ?L "cl @ s" s "[]"] by blast
  have "mt n ?Y (''>'' @ body @ cl @ s) = s # us"
    using Z by (subst mt_Seq_single [of _ _ _ "body @ cl @ s"]) (simp_all add: mt_Lit)
  moreover have "mt n ?Y (c # v) = []" if "c \<in> set attrs" for c v
    using that assms(3) by (intro mt_Seq_none) (auto simp: mt_Lit)
  ultimately obtain vs where "mt n (Seq (Star False Any) ?Y) (attrs @ ''>'' @ body @ cl @ s) = s # vs"
    using lazy_first [of attrs n ?Y "''>'' @ body @ cl @ s" s us] by blast
  moreover have "mt n (Lit_i (''<'' @ name)) (op @ attrs @ ''>'' @ body @ cl @ s)
      = [attrs @ ''>'' @ body @ cl @ s]"
    by (rule mt_Lit_i_append) (fact assms(1))
  ultimately show ?thesis unfolding block_re_def by (simp only: mt_Seq_single) blast
qed

lemma re_remove_block:
  assumes "map lower_char op = map lower_char (''<'' @ name)"
    and "map lower_char cl = map lower_char (''</'' @ name @ ''>'')"
    and "CHR ''>'' \<notin> set attrs" and "CHR ''<'' \<notin> set body"
    and "CHR ''<'' \<notin> set a" and "CHR ''<'' \<notin> set s"
  shows "re_remove (block_re name) (a @ op @ attrs @ ''>'' @ body @ cl @ s) = a @ s"
proof -
  let ?m = "op @ attrs @ ''>'' @ body @ cl @ s"
  let ?n = "length (a @ ?m)"
  obtain ts where m: "mt ?n (block_re name) ?m = s # ts"
    using mt_block [OF assms(1-4)] by blast
  have "drop_from ?n (block_re name) (a @ ?m) = a @ drop_from ?n (block_re name) ?m"
  proof (rule drop_from_append)
    fix u v
    assume "a = u @ v" "v \<noteq> []"
    with assms(5) show "mt ?n (block_re name) (v @ ?m) = []"
      by (cases v) (auto intro: block_needs_angle)
  qed
  also have "drop_from ?n (block_re name) ?m = drop_from ?n (block_re name) s"
    using m by (rule drop_from_match) simp
  also have "\<dots> = s"
  proof (rule drop_from_id)
    fix u v
    assume "s = u @ v" "v \<noteq> []"
    with assms(6) show "mt ?n (block_re name) v = []"
      by (cases v) (auto intro: block_needs_angle)
  qed
  finally show ?thesis by (simp add: re_remove_def)
qed

section \<open>Properties\<close>

text \<open>
  The filter only deletes: its result is a subsequence of the imported HTML, so it
  cannot make up markup that was not there.
\<close>

theorem sanitize_subsequence: "subseq (sanitizeRichHtml input) input"
proof (cases "truthy input")
  case True
  have "subseq (re_remove r (re_remove q (re_remove p (re_remove r0 input)))) input" for r q p r0
    by (meson subseq_order.trans subseq_re_remove)
  with True show ?thesis by (simp add: sanitizeRichHtml_def)
next
  case False
  then show ?thesis by (simp add: sanitizeRichHtml_def)
qed

text \<open>
  A script element in plain text goes away whole, in whatever case its tags are written
  and whatever attributes it has; the text around it stays as it is.
\<close>

theorem sanitize_removes_script:
  assumes "toLowerCase op = ''<script''" and "toLowerCase cl = ''</script>''"
    and "CHR ''>'' \<notin> set attrs" and "CHR ''<'' \<notin> set body"
    and "CHR ''<'' \<notin> set (before @ after)" and "CHR ''='' \<notin> set (before @ after)"
  shows "sanitizeRichHtml (before @ op @ attrs @ ''>'' @ body @ cl @ after) = before @ after"
proof -
  have o: "map lower_char op = map lower_char (''<'' @ ''script'')"
    using assms(1) by (simp add: toLowerCase_def lower_char_def)
  have c: "map lower_char cl = map lower_char (''</'' @ ''script'' @ ''>'')"
    using assms(2) by (simp add: toLowerCase_def lower_char_def)
  have ba: "CHR ''<'' \<notin> set before" "CHR ''<'' \<notin> set after" using assms(5) by auto
  have "re_remove script_re (before @ op @ attrs @ ''>'' @ body @ cl @ after) = before @ after"
    unfolding script_re_def by (rule re_remove_block) (fact o c assms(3,4) ba)+
  then show ?thesis
    using assms(5,6) by (simp add: sanitizeRichHtml_def style_re_def re_remove_block_id
        re_remove_on_attr_id truthy_def)
qed

theorem sanitize_removes_script_witness:
  "sanitizeRichHtml ''Hi <SCRIPT src=x>alert(1)</script> all'' = ''Hi  all''"
proof -
  have "toLowerCase ''<SCRIPT'' = ''<script''" and "toLowerCase ''</script>'' = ''</script>''"
    by code_simp+
  from sanitize_removes_script [OF this, of "'' src=x''" "''alert(1)''" "''Hi ''" "'' all''"]
  show ?thesis by simp
qed


text \<open>
  The filter of the checkout page, which renders the description, and that of the
  dashboard, which stored it, are the same function.
\<close>

theorem sanitizers_agree: "sanitizeImportedHtml input = sanitizeRichHtml input"
  by (simp add: sanitizeImportedHtml_def sanitizeRichHtml_def)

text \<open>
  An address passes the e-mail check exactly when it is a non-empty local part, an
  \<open>@\<close>, a non-empty domain, a dot and a non-empty rest, none of them with spaces or
  further \<open>@\<close>.
\<close>

theorem is_email_iff:
  "is_email v \<longleftrightarrow> (\<exists>u d t. v = u @ ''@'' @ d @ ''.'' @ t \<and> u \<noteq> [] \<and> d \<noteq> [] \<and> t \<noteq> [] \<and>
      list_all email_char u \<and> list_all email_char d \<and> list_all email_char t)"
proof -
  let ?P = "Plus (Cls email_char)"
  have plus_eol: "mt n (Seq ?P Eol) s \<noteq> [] \<longleftrightarrow> s \<noteq> [] \<and> list_all email_char s" for n s
    unfolding mt_Seq_ne set_mt_plus by (auto split: if_splits)
  have dot: "mt n (Seq (Lit ''.'') r) s \<noteq> [] \<longleftrightarrow> (\<exists>w. s = ''.'' @ w \<and> mt n r w \<noteq> [])" for n s r
    by (cases s) (auto simp: mt_Lit)
  have at: "mt n (Seq (Lit ''@'') r) s \<noteq> [] \<longleftrightarrow> (\<exists>w. s = ''@'' @ w \<and> mt n r w \<noteq> [])" for n s r
    by (cases s) (auto simp: mt_Lit)
  have plus: "mt n (Seq ?P (Seq r q)) s \<noteq> [] \<longleftrightarrow>
      (\<exists>u w. s = u @ w \<and> u \<noteq> [] \<and> list_all email_char u \<and> mt n (Seq r q) w \<noteq> [])" for n s r q
    unfolding mt_Seq_ne [of n ?P] set_mt_plus by blast
  show ?thesis
    unfolding is_email_def re_test_anchored plus at dot plus_eol
  proof
    assume "\<exists>u w. v = u @ w \<and> u \<noteq> [] \<and> list_all email_char u \<and>
      (\<exists>x. w = ''@'' @ x \<and> (\<exists>d y. x = d @ y \<and> d \<noteq> [] \<and> list_all email_char d \<and>
        (\<exists>t. y = ''.'' @ t \<and> t \<noteq> [] \<and> list_all email_char t)))"
    then obtain u w x d y t where "v = u @ w" "w = ''@'' @ x" "x = d @ y" "y = ''.'' @ t"
      and c: "u \<noteq> []" "d \<noteq> []" "t \<noteq> []" "list_all email_char u" "list_all email_char d"
        "list_all email_char t" by (elim exE conjE)
    then have "v = u @ ''@'' @ d @ ''.'' @ t" by simp
    with c show "\<exists>u d t. v = u @ ''@'' @ d @ ''.'' @ t \<and> u \<noteq> [] \<and> d \<noteq> [] \<and> t \<noteq> [] \<and>
      list_all email_char u \<and> list_all email_char d \<and> list_all email_char t" by blast
  next
    assume "\<exists>u d t. v = u @ ''@'' @ d @ ''.'' @ t \<and> u \<noteq> [] \<and> d \<noteq> [] \<and> t \<noteq> [] \<and>
      list_all email_char u \<and> list_all email_char d \<and> list_all email_char t"
    then show "\<exists>u w. v = u @ w \<and> u \<noteq> [] \<and> list_all email_char u \<and>
      (\<exists>x. w = ''@'' @ x \<and> (\<exists>d y. x = d @ y \<and> d \<noteq> [] \<and> list_all email_char d \<and>
        (\<exists>t. y = ''.'' @ t \<and> t \<noteq> [] \<and> list_all email_char t)))"
      by (elim exE conjE) (intro exI conjI; (assumption | rule refl))
  qed
qed

text \<open>
  A location is rendered as a link exactly when it begins with \<open>http://\<close> or
  \<open>https://\<close>, in any case: no other scheme becomes a link.
\<close>

theorem isHttpLocation_iff:
  "isHttpLocation v \<longleftrightarrow> starts_with (toLowerCase v) ''http://'' \<or> starts_with (toLowerCase v) ''https://''"
proof (cases v)
  case Nil
  then show ?thesis by (simp add: isHttpLocation_def)
next
  case (Cons c t)
  let ?n = "length v"
  have low: "toLowerCase ''http'' = ''http''" "toLowerCase ''s'' = ''s''" "toLowerCase ''://'' = ''://''"
    by (simp_all add: toLowerCase_def lower_char_def)
  have split: "starts_with s (p @ q) \<longleftrightarrow> starts_with s p \<and> starts_with (drop (length p) s) q" for s p q
    by (induction s p rule: starts_with.induct) auto
  have "isHttpLocation v \<longleftrightarrow> starts_with (toLowerCase v) ''http'' \<and>
      (starts_with (toLowerCase (drop 4 v)) ''s'' \<and> starts_with (toLowerCase (drop 5 v)) ''://''
       \<or> starts_with (toLowerCase (drop 4 v)) ''://'')"
    using Cons by (simp add: isHttpLocation_def re_test_anchored mt_Lit_i_eq low del: toLowerCase_Nil)
      (auto simp: eval_nat_numeral)
  also have "\<dots> \<longleftrightarrow> starts_with (toLowerCase v) (''http'' @ ''://'')
      \<or> starts_with (toLowerCase v) (''http'' @ ''s'' @ ''://'')"
    unfolding split by (auto simp: toLowerCase_def drop_map eval_nat_numeral)
  finally show ?thesis by simp
qed

text \<open>
  A description is treated as HTML exactly when some \<open><\<close> is followed by at least one
  character other than \<open>>\<close> and then a \<open>>\<close>.
\<close>

theorem looksLikeHtml_iff:
  "looksLikeHtml v \<longleftrightarrow> (\<exists>a b c. v = a @ ''<'' @ b @ ''>'' @ c \<and> b \<noteq> [] \<and> CHR ''>'' \<notin> set b)"
proof -
  let ?r = "Seq (Plus (Cls (\<lambda>c. c \<noteq> CHR ''>''))) (Lit ''>'')"
  have close: "mt n (Lit ''>'') s \<noteq> [] \<longleftrightarrow> (\<exists>c. s = ''>'' @ c)" for n s
    by (cases s) (auto simp: mt_Lit)
  have inner: "mt n ?r s \<noteq> [] \<longleftrightarrow> (\<exists>b c. s = b @ ''>'' @ c \<and> b \<noteq> [] \<and> CHR ''>'' \<notin> set b)" for n s
    unfolding mt_Seq_ne set_mt_plus close list_all_iff by (auto; metis)
  have "mt n (Seq (Lit ''<'') ?r) s \<noteq> [] \<longleftrightarrow> (\<exists>w. s = ''<'' @ w \<and> mt n ?r w \<noteq> [])" for n s
    by (cases s) (auto simp: mt_Lit)
  then show ?thesis
    unfolding looksLikeHtml_def re_test_iff or_else_Nil_right inner by (auto; metis)
qed

end
