(* ===== verification/Checkout_Text.thy ===== *)
theory Checkout_Text
  imports Html_Filter
begin

text \<open>
  The texts of the checkout page: the countdown \<open>formatSeconds\<close>, the labels of a payment
  method and of a status, the class of the status badge, the mint of the QR payment. An
  argument that may be \<open>undefined\<close> is the empty text there: the code treats both alike.
\<close>

section \<open>The functions\<close>

definition formatSeconds :: "int \<Rightarrow> jstr" where
  "formatSeconds seconds = (let m = pad2 (seconds div 60); s = pad2 (seconds mod 60) in m @ '':'' @ s)"

definition mintFromEnv :: "jstr \<Rightarrow> jstr" where
  "mintFromEnv env_mint = or_else env_mint ''EPjFWdd5AufqSSqeM2qN1xzybapC8G4wEGGkZwyTDt1v''"

definition methodLabel :: "jstr \<Rightarrow> jstr" where
  "methodLabel method = (if method = ''qr'' then ''QR code'' else ''Wallet connection'')"

text \<open>\<open>part.charAt(0).toUpperCase() + part.slice(1)\<close>.\<close>

definition capitalise :: "jstr \<Rightarrow> jstr" where
  "capitalise part = toUpperCase (take 1 part) @ drop 1 part"

definition humanizeStatus :: "jstr \<Rightarrow> jstr" where
  "humanizeStatus status =
     (let s = toLowerCase (or_else status ''pending_payment'')
      in if s = ''pending_payment'' then ''Pending''
         else if s = ''paid'' then ''Paid''
         else if s = ''error'' \<or> s = ''failed'' \<or> s = ''cancelled'' then ''Error''
         else join '' '' (map capitalise (filter truthy (split_on (CHR ''_'') s))))"

definition checkoutStatusClass :: "jstr \<Rightarrow> jstr" where
  "checkoutStatusClass status =
     (let s = toLowerCase (or_else status ''pending_payment'')
      in if s = ''paid'' \<or> s = ''approved'' then ''status-badge paid''
         else if s = ''rejected'' \<or> s = ''failed'' \<or> s = ''cancelled'' then ''status-badge rejected''
         else ''status-badge pending_payment'')"

section \<open>Lemmas\<close>

text \<open>A countdown text \<open>mm:ss\<close> read back as a number of seconds.\<close>

definition read_clock :: "jstr \<Rightarrow> nat" where
  "read_clock s = 60 * nat_of_digits (takeWhile is_digit s) + nat_of_digits (tl (dropWhile is_digit s))"

lemma split_on_nonempty [simp]: "split_on d s \<noteq> []"
  by (induction s) (simp_all split: list.split)

lemma join_split: "join [d] (split_on d s) = s"
proof (induction s)
  case (Cons c s)
  then show ?case by (cases "split_on d s"; cases "tl (split_on d s)") auto
qed simp

lemma split_on_parts: "p \<in> set (split_on d s) \<Longrightarrow> d \<notin> set p"
proof (induction s arbitrary: p)
  case (Cons c s)
  obtain w ws where w: "split_on d s = w # ws" by (cases "split_on d s") auto
  then show ?case using Cons by (auto split: if_splits)
qed simp

lemma set_join: "set (join sep ws) \<subseteq> set sep \<union> \<Union> (set ` set ws)"
  by (induction sep ws rule: join.induct) auto

lemma lower_upper_char: "c \<noteq> CHR 0xFF \<Longrightarrow> lower_char (upper_char (lower_char c)) = lower_char c"
proof -
  have "(of_char c :: nat) < 256" by simp
  then show ?thesis by (auto simp: lower_char_def upper_char_def Let_def)
qed

lemma upper_char_underscore: "upper_char c = CHR ''_'' \<Longrightarrow> c = CHR ''_''"
proof -
  assume a: "upper_char c = CHR ''_''"
  have "(of_char c :: nat) < 256" by simp
  moreover have "(of_char (upper_char c) :: nat) = 95" by (simp add: a)
  ultimately have "(of_char c :: nat) = of_char (CHR ''_'')"
    by (auto simp: upper_char_def Let_def split: if_splits)
  then show ?thesis by (simp only: of_char_eq_iff)
qed

lemma capitalise_no_underscore: "CHR ''_'' \<notin> set w \<Longrightarrow> CHR ''_'' \<notin> set (capitalise w)"
  by (cases w) (auto simp: capitalise_def toUpperCase_def dest: upper_char_underscore [OF sym])

lemma lower_capitalise:
  "CHR 0xFF \<notin> set w \<Longrightarrow> toLowerCase (capitalise (toLowerCase w)) = toLowerCase w"
  by (cases w) (auto simp: capitalise_def toUpperCase_def toLowerCase_def intro!: lower_upper_char)

lemma set_split_on: "p \<in> set (split_on d s) \<Longrightarrow> set p \<subseteq> set s"
proof (induction s arbitrary: p)
  case (Cons c s)
  obtain w ws where w: "split_on d s = w # ws" by (cases "split_on d s") auto
  then show ?case using Cons by (force split: if_splits)
qed simp

lemma toLowerCase_join: "toLowerCase (join sep ws) = join (toLowerCase sep) (map toLowerCase ws)"
  by (induction sep ws rule: join.induct) (simp_all add: toLowerCase_def)

lemma lower_char_FF: "lower_char c = CHR 0xFF \<Longrightarrow> c = CHR 0xFF"
proof -
  assume a: "lower_char c = CHR 0xFF"
  have "(of_char c :: nat) < 256" by simp
  moreover have "(of_char (lower_char c) :: nat) = 255" by (simp add: a)
  ultimately have "(of_char c :: nat) = of_char (CHR 0xFF)"
    by (auto simp: lower_char_def Let_def split: if_splits)
  then show ?thesis by (simp only: of_char_eq_iff)
qed

lemma lower_capitalise_part:
  assumes "p \<in> set (split_on d (toLowerCase s))" and "CHR 0xFF \<notin> set s"
  shows "toLowerCase (capitalise p) = p"
proof -
  have sub: "set p \<subseteq> lower_char ` set s"
    using set_split_on [OF assms(1)] by (simp add: toLowerCase_def)
  then have "CHR 0xFF \<notin> set p" using assms(2) by (force dest: lower_char_FF [OF sym])
  moreover have "toLowerCase p = p"
    using sub unfolding toLowerCase_def by (auto intro!: map_idI)
  ultimately show ?thesis using lower_capitalise [of p] by simp
qed

lemma read_clock_format:
  assumes "0 \<le> m" "m < 100" "0 \<le> s" "s < 100"
  shows "read_clock (pad2 m @ '':'' @ pad2 s) = nat (60 * m + s)"
proof -
  have t: "takeWhile is_digit (pad2 m @ '':'' @ pad2 s) = pad2 m"
    and d: "dropWhile is_digit (pad2 m @ '':'' @ pad2 s) = '':'' @ pad2 s"
    using pad2_nat(1) [OF assms(1,2)]
    by (simp_all add: takeWhile_append2 dropWhile_append2 list_all_iff is_digit_def)
  then show ?thesis
    using assms by (simp add: read_clock_def pad2_nat nat_add_distrib nat_mult_distrib)
qed

lemma formatSeconds_length: "0 \<le> t \<Longrightarrow> t < 6000 \<Longrightarrow> length (formatSeconds t) = 5"
proof -
  assume "0 \<le> t" "t < 6000"
  then have b: "0 \<le> t div 60" "t div 60 < 100" "0 \<le> t mod 60" "t mod 60 < 100" by auto
  show ?thesis
    using pad2_nat(2) [OF b(1,2)] pad2_nat(2) [OF b(3,4)] by (simp add: formatSeconds_def)
qed

section \<open>Properties\<close>

text \<open>
  The countdown shows \<open>mm:ss\<close>: for every time below a hundred minutes the text has five
  characters, its seconds are below sixty, and it reads back as the time.
\<close>

theorem formatSeconds_reads_back:
  assumes "0 \<le> t" and "t < 6000"
  shows "length (formatSeconds t) = 5 \<and> formatSeconds t ! 2 = CHR '':'' \<and>
    nat_of_digits (drop 3 (formatSeconds t)) < 60 \<and> read_clock (formatSeconds t) = nat t"
proof -
  have b: "0 \<le> t div 60" "t div 60 < 100" "0 \<le> t mod 60" "t mod 60 < 60" "t mod 60 < 100"
    using assms by auto
  have l: "length (pad2 (t div 60)) = 2" "length (pad2 (t mod 60)) = 2"
    and n: "nat_of_digits (pad2 (t mod 60)) = nat (t mod 60)"
    using pad2_nat [OF b(1,2)] pad2_nat [OF b(3,5)] by simp_all
  have "60 * (t div 60) + t mod 60 = t" by simp
  then have "read_clock (formatSeconds t) = nat t"
    by (simp only: formatSeconds_def Let_def read_clock_format [OF b(1,2,3,5)])
  then show ?thesis
    using l n b(3,4) by (simp add: formatSeconds_def Let_def nth_append nat_less_iff)
qed

theorem formatSeconds_reads_back_witness:
  "read_clock (formatSeconds 599) = 599 \<and> formatSeconds 599 = ''09:59''"
proof -
  have "formatSeconds 599 = ''09:59''" by code_simp
  then show ?thesis using formatSeconds_reads_back [of 599] by simp
qed

text \<open>
  The label of a status never shows an underscore; for a status that has no fixed label
  (and no letter without an upper case of its own) it has the words of the status in
  order, changed in the case of letters only.
\<close>

theorem humanizeStatus_label:
  "CHR ''_'' \<notin> set (humanizeStatus status) \<and>
   (toLowerCase (or_else status ''pending_payment'') \<notin>
      {''pending_payment'', ''paid'', ''error'', ''failed'', ''cancelled''} \<longrightarrow> CHR 0xFF \<notin> set status \<longrightarrow>
    toLowerCase (humanizeStatus status)
      = join '' '' (filter truthy (split_on (CHR ''_'') (toLowerCase status))))"
proof -
  have parts: "CHR ''_'' \<notin> set (join '' '' (map capitalise (filter truthy (split_on (CHR ''_'') t))))" for t
    using set_join [of "'' ''" "map capitalise (filter truthy (split_on (CHR ''_'') t))"]
    by (auto dest!: split_on_parts capitalise_no_underscore)
  have words: "toLowerCase (humanizeStatus status) = join '' '' (filter truthy (split_on (CHR ''_'') (toLowerCase status)))"
    if "toLowerCase (or_else status ''pending_payment'') \<notin>
      {''pending_payment'', ''paid'', ''error'', ''failed'', ''cancelled''}" "CHR 0xFF \<notin> set status"
  proof -
    have "map (\<lambda>p. toLowerCase (capitalise p)) (filter truthy (split_on (CHR ''_'') (toLowerCase status)))
        = filter truthy (split_on (CHR ''_'') (toLowerCase status))"
      by (intro map_idI) (auto intro: lower_capitalise_part [OF _ that(2)])
    moreover have "or_else status ''pending_payment'' = status"
      using that(1) by (cases status) (simp_all add: toLowerCase_def lower_char_def)
    ultimately show ?thesis
      using that(1) by (simp add: humanizeStatus_def Let_def toLowerCase_join comp_def)
        (simp add: toLowerCase_def lower_char_def)
  qed
  show ?thesis using parts words by (simp add: humanizeStatus_def Let_def)
qed

theorem humanizeStatus_label_witness:
  "toLowerCase (humanizeStatus ''refund_In_review'') = ''refund in review''
   \<and> humanizeStatus ''refund_In_review'' = ''Refund In Review''"
proof -
  have "CHR 0xFF \<notin> set ''refund_In_review''" by simp
  moreover have "toLowerCase (or_else ''refund_In_review'' ''pending_payment'') \<notin>
      {''pending_payment'', ''paid'', ''error'', ''failed'', ''cancelled''}" by code_simp
  ultimately have "toLowerCase (humanizeStatus ''refund_In_review'')
      = join '' '' (filter truthy (split_on (CHR ''_'') (toLowerCase ''refund_In_review'')))"
    using humanizeStatus_label [of "''refund_In_review''"] by blast
  also have "\<dots> = ''refund in review''" by code_simp
  finally show ?thesis by simp code_simp
qed

text \<open>
  The colour of a status badge fits its label: the class \<open>paid\<close> goes with the labels Paid and
  Approved, the class \<open>rejected\<close> with Error and Rejected; the status \<open>error\<close> alone has the label
  Error and the class of a pending payment.
\<close>

theorem badge_fits_label:
  "(checkoutStatusClass s = ''status-badge paid'' \<longrightarrow> humanizeStatus s \<in> {''Paid'', ''Approved''}) \<and>
   (checkoutStatusClass s = ''status-badge rejected'' \<longrightarrow> humanizeStatus s \<in> {''Error'', ''Rejected''}) \<and>
   (toLowerCase s = ''error'' \<longrightarrow>
      humanizeStatus s = ''Error'' \<and> checkoutStatusClass s = ''status-badge pending_payment'')"
proof -
  have a: "humanizeStatus s = ''Approved''" if "toLowerCase (or_else s ''pending_payment'') = ''approved''"
    unfolding humanizeStatus_def that Let_def by code_simp
  have r: "humanizeStatus s = ''Rejected''" if "toLowerCase (or_else s ''pending_payment'') = ''rejected''"
    unfolding humanizeStatus_def that Let_def by code_simp
  have e: "toLowerCase (or_else s ''pending_payment'') = ''error''" if "toLowerCase s = ''error''"
    using that by (cases s) simp_all
  show ?thesis
    using a r e by (auto simp: checkoutStatusClass_def humanizeStatus_def [of s] Let_def split: if_splits)
qed

theorem badge_fits_label_witness:
  "humanizeStatus ''ERROR'' = ''Error'' \<and> checkoutStatusClass ''ERROR'' = ''status-badge pending_payment''"
proof -
  have "toLowerCase ''ERROR'' = ''error''" by code_simp
  then show ?thesis using badge_fits_label [of "''ERROR''"] by blast
qed

end
