(* ===== verification/Js_Object.thy ===== *)
theory Js_Object
  imports Js_Text
begin

text \<open>
  Objects used as dictionaries of strings (\<open>Record<string, string>\<close>): an association list in
  the order in which the keys were added, each key at most once. A read of a key that the
  object does not have reaches \<open>Object.prototype\<close>: it gives a (truthy) inherited value for
  the names below and \<open>undefined\<close> otherwise. Array-index keys, which JavaScript lists first,
  keep their place in this order.
\<close>

type_synonym obj = "(jstr \<times> jstr) list"

definition proto_keys :: "jstr list" where
  "proto_keys = [''constructor'', ''__defineGetter__'', ''__defineSetter__'', ''hasOwnProperty'',
     ''__lookupGetter__'', ''__lookupSetter__'', ''isPrototypeOf'', ''propertyIsEnumerable'',
     ''toString'', ''valueOf'', ''__proto__'', ''toLocaleString'']"

text \<open>What \<open>o[k]\<close> evaluates to.\<close>

datatype jsprop = Own jstr | Inherited | Absent

definition obj_get :: "obj \<Rightarrow> jstr \<Rightarrow> jsprop" where
  "obj_get ob k = (case map_of ob k of Some v \<Rightarrow> Own v
     | None \<Rightarrow> if k \<in> set proto_keys then Inherited else Absent)"

definition prop_truthy :: "jsprop \<Rightarrow> bool" where
  "prop_truthy p = (case p of Own v \<Rightarrow> truthy v | Inherited \<Rightarrow> True | Absent \<Rightarrow> False)"

text \<open>\<open>{ ...o, [k]: v }\<close> defines an own property; an existing key keeps its place.\<close>

definition obj_define :: "obj \<Rightarrow> jstr \<Rightarrow> jstr \<Rightarrow> obj" where
  "obj_define ob k v =
     (if k \<in> fst ` set ob then map (\<lambda>(k', v'). (k', if k' = k then v else v')) ob else ob @ [(k, v)])"

text \<open>
  \<open>o[k] = v\<close> does the same, but for \<open>__proto__\<close>, which calls the setter of
  \<open>Object.prototype\<close>: it ignores a string.
\<close>

definition obj_assign :: "obj \<Rightarrow> jstr \<Rightarrow> jstr \<Rightarrow> obj" where
  "obj_assign ob k v =
     (if k = ''__proto__'' \<and> k \<notin> fst ` set ob then ob else obj_define ob k v)"

definition obj_delete :: "obj \<Rightarrow> jstr \<Rightarrow> obj" where
  "obj_delete ob k = filter (\<lambda>(k', v). k' \<noteq> k) ob"

section \<open>JSON text of strings and dictionaries\<close>

definition hex_digit :: "nat \<Rightarrow> char" where
  "hex_digit n = (if n < 10 then char_of (48 + n) else char_of (87 + n))"

definition json_char :: "char \<Rightarrow> jstr" where
  "json_char c = (let n = (of_char c :: nat) in
     if n = 34 then [char_of (92::nat), c]
     else if n = 92 then [c, c]
     else if n = 8 then [char_of (92::nat), CHR ''b'']
     else if n = 9 then [char_of (92::nat), CHR ''t'']
     else if n = 10 then [char_of (92::nat), CHR ''n'']
     else if n = 12 then [char_of (92::nat), CHR ''f'']
     else if n = 13 then [char_of (92::nat), CHR ''r'']
     else if n < 32 then [char_of (92::nat), CHR ''u'', CHR ''0'', CHR ''0'',
                          hex_digit (n div 16), hex_digit (n mod 16)]
     else [c])"

definition json_string :: "jstr \<Rightarrow> jstr" where
  "json_string s = [CHR 0x22] @ concat (map json_char s) @ [CHR 0x22]"

definition json_obj :: "obj \<Rightarrow> jstr" where
  "json_obj ob = ''{'' @ join '','' (map (\<lambda>(k, v). json_string k @ '':'' @ json_string v) ob) @ ''}''"

section \<open>Lemmas\<close>

definition wf_obj :: "obj \<Rightarrow> bool" where
  "wf_obj ob \<longleftrightarrow> distinct (map fst ob)"

definition set_value :: "jstr \<Rightarrow> jstr \<Rightarrow> obj \<Rightarrow> obj" where
  "set_value k v ob = map (\<lambda>(k', v'). (k', if k' = k then v else v')) ob"

lemma obj_define_alt:
  "obj_define ob k v = (if k \<in> fst ` set ob then set_value k v ob else ob @ [(k, v)])"
  by (simp add: obj_define_def set_value_def)

lemma set_value_simps [simp]:
  "set_value k v [] = []"
  "set_value k v (p # ob) = (fst p, if fst p = k then v else snd p) # set_value k v ob"
  by (simp_all add: set_value_def split: prod.split)

lemma fst_set_value: "map fst (set_value k v ob) = map fst ob"
  by (induction ob) simp_all

lemma map_of_set_value:
  "map_of (set_value k v ob) j = (if j = k \<and> k \<in> fst ` set ob then Some v else map_of ob j)"
proof (induction ob)
  case (Cons p ob)
  then show ?case by (cases p) (auto simp: rev_image_eqI)
qed simp

lemma map_of_snoc: "k \<notin> fst ` set ob \<Longrightarrow> map_of (ob @ [(k, v)]) j = ((map_of ob)(k \<mapsto> v)) j"
proof (induction ob)
  case (Cons p ob)
  then show ?case by (cases p) auto
qed simp

lemma map_of_define: "map_of (obj_define ob k v) = (map_of ob)(k \<mapsto> v)"
  by (rule ext) (simp add: obj_define_alt map_of_set_value map_of_snoc del: map_of_append)

lemma fst_define: "fst ` set (obj_define ob k v) = insert k (fst ` set ob)"
proof -
  have "fst ` set (set_value k v ob) = fst ` set ob"
    by (metis fst_set_value list.set_map)
  then show ?thesis by (auto simp: obj_define_alt)
qed

lemma wf_define: "wf_obj ob \<Longrightarrow> wf_obj (obj_define ob k v)"
  by (simp add: wf_obj_def obj_define_alt fst_set_value)

text \<open>A dictionary of messages: an object none of whose values is empty.\<close>

definition messages_obj :: "obj \<Rightarrow> bool" where
  "messages_obj ob \<longleftrightarrow> wf_obj ob \<and> (\<forall>v \<in> snd ` set ob. truthy v)"

lemma messages_Nil [simp]: "messages_obj []" "wf_obj []"
  by (simp_all add: messages_obj_def wf_obj_def)

lemma set_value_member: "p \<in> set (set_value k v ob) \<Longrightarrow> snd p = v \<or> p \<in> set ob"
  by (auto simp: set_value_def split: if_splits)

lemma messages_assign:
  assumes "messages_obj ob" "truthy v"
  shows "messages_obj (obj_assign ob k v)"
proof -
  have "truthy (snd p)" if "p \<in> set (obj_assign ob k v)" for p
    using that set_value_member [of p k v ob] assms
    by (auto simp: obj_assign_def obj_define_alt messages_obj_def split: if_splits)
  moreover have "wf_obj (obj_assign ob k v)"
    using assms(1) wf_define by (auto simp: obj_assign_def messages_obj_def)
  ultimately show ?thesis by (auto simp: messages_obj_def)
qed

lemma messages_delete: "messages_obj ob \<Longrightarrow> messages_obj (obj_delete ob k)"
  by (auto simp: messages_obj_def wf_obj_def obj_delete_def distinct_map_filter)

lemma obj_get_define [simp]:
  "obj_get (obj_define ob k v) j = (if j = k then Own v else obj_get ob j)"
  by (simp add: obj_get_def map_of_define)

lemma map_of_delete: "map_of (obj_delete ob k) = (map_of ob)(k := None)"
  by (induction ob) (auto simp: obj_delete_def)

lemma obj_define_nonempty [simp]: "obj_define ob k v \<noteq> []"
  by (cases ob) (simp_all add: obj_define_alt)

lemma obj_assign_nonempty: "k \<noteq> ''__proto__'' \<Longrightarrow> obj_assign ob k v \<noteq> []"
  by (simp add: obj_assign_def)

end
