(* ===== verification/Js_Date.thy ===== *)
theory Js_Date
  imports Js_Text "HOL-Library.Monad_Syntax"
begin

text \<open>
  Dates. A time value is a number of milliseconds since 1970-01-01 UTC. The calendar is the
  one ECMAScript defines (proleptic Gregorian, \<open>DayFromYear\<close> and \<open>YearFromTime\<close>), the text
  form its date-time string format with a four-digit year. The time zone of the browser
  and the implementation's own parser for other texts are parameters (\<open>zone\<close>).
\<close>

section \<open>The browser's clock\<close>

text \<open>
  \<open>offset_at t\<close> is the offset from UTC, in minutes, at the UTC time value \<open>t\<close>;
  \<open>offset_of_local l\<close> the one that the browser uses for the local time \<open>l\<close>;
  \<open>other_format\<close> parses the texts that are not in the standard format.
\<close>

record zone =
  offset_at :: "int \<Rightarrow> int"
  offset_of_local :: "int \<Rightarrow> int"
  other_format :: "jstr \<Rightarrow> int option"

text \<open>A zone that is always \<open>m\<close> minutes ahead of UTC and knows no other format.\<close>

definition fixed_zone :: "int \<Rightarrow> zone" where
  "fixed_zone m = \<lparr>offset_at = (\<lambda>_. m), offset_of_local = (\<lambda>_. m), other_format = (\<lambda>_. None)\<rparr>"

section \<open>The calendar\<close>

definition leap :: "int \<Rightarrow> bool" where
  "leap y \<longleftrightarrow> y mod 4 = 0 \<and> (y mod 100 \<noteq> 0 \<or> y mod 400 = 0)"

definition days_in_year :: "int \<Rightarrow> int" where
  "days_in_year y = (if leap y then 366 else 365)"

definition day_from_year :: "int \<Rightarrow> int" where
  "day_from_year y = 365 * (y - 1970) + (y - 1969) div 4 - (y - 1901) div 100 + (y - 1601) div 400"

definition month_lengths :: "int \<Rightarrow> int list" where
  "month_lengths y = [31, if leap y then 29 else 28, 31, 30, 31, 30, 31, 31, 30, 31, 30, 31]"

definition days_in_month :: "int \<Rightarrow> int \<Rightarrow> int" where
  "days_in_month y m = month_lengths y ! nat (m - 1)"

definition day_of_date :: "int \<Rightarrow> int \<Rightarrow> int \<Rightarrow> int" where
  "day_of_date y m d = day_from_year y + sum_list (take (nat (m - 1)) (month_lengths y)) + (d - 1)"

text \<open>The year of a day: count up from a year that is not later.\<close>

lemma div_Suc_int:
  fixes a k :: int
  assumes "0 < k"
  shows "(a + 1) div k = a div k + (if (a + 1) mod k = 0 then 1 else 0)"
proof (cases "(a + 1) mod k = 0")
  case True
  then obtain q where q: "a + 1 = k * q" by (auto elim: dvdE simp: mod_eq_0_iff_dvd)
  then have "a = (k - 1) + k * (q - 1)" by (simp add: algebra_simps)
  then have "a div k = q - 1"
    using assms by (metis div_pos_pos_trivial div_mult_self2 add.commute add_0 diff_ge_0_iff_ge
        int_one_le_iff_zero_less diff_less_eq less_add_one less_irrefl)
  with q assms True show ?thesis by simp
next
  case False
  have r: "0 \<le> a mod k" "a mod k < k" using assms by simp_all
  have e: "a + 1 = (a mod k + 1) + k * (a div k)" by simp
  have "a mod k + 1 \<noteq> k"
  proof
    assume "a mod k + 1 = k"
    with e have "a + 1 = k + k * (a div k)" by linarith
    then have "a + 1 = k * (a div k + 1)" by (simp add: distrib_left)
    with False show False by simp
  qed
  with r have "(a mod k + 1) div k = 0" by simp
  moreover have "(a + 1) div k = (a mod k + 1) div k + a div k"
    using arg_cong [OF e, of "\<lambda>x. x div k"] assms div_mult_self2 [of k "a mod k + 1" "a div k"]
    by linarith
  ultimately have "(a + 1) div k = a div k" by simp
  with False show ?thesis by simp
qed

definition hit :: "int \<Rightarrow> int \<Rightarrow> int" where
  "hit k y = (if y mod k = 0 then 1 else 0)"

lemma days_in_year_hits: "days_in_year y = 365 + hit 4 y - hit 100 y + hit 400 y"
proof -
  have a: "y mod 400 = 0 \<longrightarrow> y mod 100 = 0"
    unfolding mod_eq_0_iff_dvd using dvd_trans [of 100 400 y] by simp
  have b: "y mod 100 = 0 \<longrightarrow> y mod 4 = 0"
    unfolding mod_eq_0_iff_dvd using dvd_trans [of 4 100 y] by simp
  have "(if p4 \<and> (\<not> p100 \<or> p400) then 366 else 365)
      = 365 + (if p4 then 1 else 0) - (if p100 then 1 else 0) + (if p400 then 1 else (0::int))"
    if "p400 \<longrightarrow> p100" "p100 \<longrightarrow> p4" for p4 p100 p400
    using that by (cases p4; cases p100; cases p400) simp_all
  from this [OF a b] show ?thesis unfolding days_in_year_def leap_def hit_def .
qed

lemma div_hit:
  assumes "0 < k"
  shows "(y - k * j) div k = (y - (k * j + 1)) div k + hit k y"
proof -
  have "(y - k * j) mod k = y mod k" by (metis mod_mult_self4 add.commute diff_add_cancel mult.commute)
  then show ?thesis using div_Suc_int [OF assms, of "y - (k * j + 1)"] by (simp add: hit_def algebra_simps)
qed

lemma day_from_year_Suc: "day_from_year (y + 1) = day_from_year y + days_in_year y"
proof -
  define A B C where "A = (y - 1969) div 4" and "B = (y - 1901) div 100" and "C = (y - 1601) div 400"
  have "(y - 1968) div 4 = A + hit 4 y" using div_hit [of 4 y 492] by (simp add: A_def)
  moreover have "(y - 1900) div 100 = B + hit 100 y" using div_hit [of 100 y 19] by (simp add: B_def)
  moreover have "(y - 1600) div 400 = C + hit 400 y" using div_hit [of 400 y 4] by (simp add: C_def)
  moreover have "day_from_year (y + 1)
      = 365 * (y - 1969) + (y - 1968) div 4 - (y - 1900) div 100 + (y - 1600) div 400"
    by (simp add: day_from_year_def)
  moreover have "day_from_year y = 365 * (y - 1970) + A - B + C"
    by (simp add: day_from_year_def A_def B_def C_def)
  ultimately show ?thesis by (simp add: days_in_year_hits)
qed

lemma days_in_year_pos: "0 < days_in_year y"
  by (simp add: days_in_year_def)

function year_up :: "int \<Rightarrow> int \<Rightarrow> int" where
  "year_up y d = (if day_from_year (y + 1) \<le> d then year_up (y + 1) d else y)"
  by pat_completeness auto
termination
proof (relation "measure (\<lambda>(y, d). nat (d - day_from_year y))")
  fix y d :: int
  assume "day_from_year (y + 1) \<le> d"
  then show "((y + 1, d), (y, d)) \<in> measure (\<lambda>(y, d). nat (d - day_from_year y))"
    using days_in_year_pos [of y] by (simp add: day_from_year_Suc)
qed simp

declare year_up.simps [simp del]

definition year_of_day :: "int \<Rightarrow> int" where
  "year_of_day d = year_up (1960 + (if 0 \<le> d then d div 366 else d div 365)) d"

fun month_up :: "int \<Rightarrow> int list \<Rightarrow> int \<Rightarrow> int \<times> int" where
  "month_up m [] k = (m, k)"
| "month_up m (l # ls) k = (if k < l then (m, k) else month_up (m + 1) ls (k - l))"

text \<open>Year, month (from 1) and day of the month of a day number.\<close>

definition date_of_day :: "int \<Rightarrow> int \<times> int \<times> int" where
  "date_of_day d = (let y = year_of_day d; (m, k) = month_up 1 (month_lengths y) (d - day_from_year y)
     in (y, m, k + 1))"

section \<open>Local fields of a time value\<close>

record fields =
  year :: int
  month :: int
  date :: int
  hours :: int
  minutes :: int

definition local_time :: "zone \<Rightarrow> int \<Rightarrow> int" where
  "local_time z t = t + 60000 * offset_at z t"

definition fields_of_local :: "int \<Rightarrow> fields" where
  "fields_of_local l = (let (y, m, d) = date_of_day (l div 86400000); r = l mod 86400000
     in \<lparr>year = y, month = m, date = d, hours = r div 3600000, minutes = r div 60000 mod 60\<rparr>)"

definition local_of_fields :: "fields \<Rightarrow> int" where
  "local_of_fields f = 86400000 * day_of_date (year f) (month f) (date f)
     + 3600000 * hours f + 60000 * minutes f"

definition getTimezoneOffset :: "zone \<Rightarrow> int \<Rightarrow> int" where
  "getTimezoneOffset z t = - offset_at z t"

section \<open>Parsing\<close>

definition take_digits :: "nat \<Rightarrow> jstr \<Rightarrow> (int \<times> jstr) option" where
  "take_digits n s = (if n \<le> length s \<and> list_all is_digit (take n s)
     then Some (int (nat_of_digits (take n s)), drop n s) else None)"

definition expect :: "char \<Rightarrow> jstr \<Rightarrow> jstr option" where
  "expect c s = (case s of [] \<Rightarrow> None | x # t \<Rightarrow> if x = c then Some t else None)"

text \<open>\<open>HH:mm[:ss[.sss]]\<close>, in milliseconds.\<close>

definition parse_time :: "jstr \<Rightarrow> (int \<times> jstr) option" where
  "parse_time s = do {
     (h, s1) \<leftarrow> take_digits 2 s;
     s2 \<leftarrow> expect (CHR '':'') s1;
     (mi, s3) \<leftarrow> take_digits 2 s2;
     if 23 < h \<or> 59 < mi then None
     else case expect (CHR '':'') s3 of
       None \<Rightarrow> Some (3600000 * h + 60000 * mi, s3)
     | Some s4 \<Rightarrow> do {
         (sec, s5) \<leftarrow> take_digits 2 s4;
         if 59 < sec then None
         else case expect (CHR ''.'') s5 of
           None \<Rightarrow> Some (3600000 * h + 60000 * mi + 1000 * sec, s5)
         | Some s6 \<Rightarrow> do {
             (ms, s7) \<leftarrow> take_digits 3 s6;
             Some (3600000 * h + 60000 * mi + 1000 * sec + ms, s7) } } }"

text \<open>The zone: none, \<open>Z\<close> or \<open>+HH:mm\<close>, \<open>-HH:mm\<close>, in minutes; it ends the text.\<close>

definition parse_zone :: "jstr \<Rightarrow> int option option" where
  "parse_zone s = (case s of
       [] \<Rightarrow> Some None
     | c # t \<Rightarrow>
         if c = CHR ''Z'' then (if t = [] then Some (Some 0) else None)
         else if c = CHR ''+'' \<or> c = CHR ''-'' then do {
           (h, s1) \<leftarrow> take_digits 2 t;
           s2 \<leftarrow> expect (CHR '':'') s1;
           (mi, s3) \<leftarrow> take_digits 2 s2;
           if s3 \<noteq> [] \<or> 23 < h \<or> 59 < mi then None
           else Some (Some (if c = CHR ''-'' then - (60 * h + mi) else 60 * h + mi)) }
         else None)"

text \<open>\<open>YYYY\<close>, \<open>YYYY-MM\<close>, \<open>YYYY-MM-DD\<close>: the day number.\<close>

definition parse_day :: "jstr \<Rightarrow> (int \<times> jstr) option" where
  "parse_day s = do {
     (y, s1) \<leftarrow> take_digits 4 s;
     case expect (CHR ''-'') s1 of
       None \<Rightarrow> Some (day_of_date y 1 1, s1)
     | Some s2 \<Rightarrow> do {
         (m, s3) \<leftarrow> take_digits 2 s2;
         if m < 1 \<or> 12 < m then None
         else case expect (CHR ''-'') s3 of
           None \<Rightarrow> Some (day_of_date y m 1, s3)
         | Some s4 \<Rightarrow> do {
             (d, s5) \<leftarrow> take_digits 2 s4;
             if d < 1 \<or> days_in_month y m < d then None
             else Some (day_of_date y m d, s5) } } }"

text \<open>A date alone is UTC; a date and time without a zone is local.\<close>

definition parse_standard :: "zone \<Rightarrow> jstr \<Rightarrow> int option" where
  "parse_standard z s = do {
     (day, s1) \<leftarrow> parse_day s;
     if s1 = [] then Some (86400000 * day)
     else do {
       s2 \<leftarrow> expect (CHR ''T'') s1;
       (tm, s3) \<leftarrow> parse_time s2;
       zo \<leftarrow> parse_zone s3;
       let l = 86400000 * day + tm in
       Some (case zo of Some off \<Rightarrow> l - 60000 * off | None \<Rightarrow> l - 60000 * offset_of_local z l) } }"

text \<open>\<open>new Date(s).getTime()\<close>; \<open>None\<close> is \<open>NaN\<close>.\<close>

definition parse_date :: "zone \<Rightarrow> jstr \<Rightarrow> int option" where
  "parse_date z s = (case parse_standard z s of Some t \<Rightarrow> Some t | None \<Rightarrow> other_format z s)"

section \<open>The calendar is a bijection\<close>

lemma day_from_year_mono_nat: "day_from_year y + int n \<le> day_from_year (y + int n)"
proof (induction n)
  case (Suc n)
  have "day_from_year (y + int (Suc n)) = day_from_year (y + int n) + days_in_year (y + int n)"
    using day_from_year_Suc [of "y + int n"] by (simp add: algebra_simps)
  with Suc days_in_year_pos [of "y + int n"] show ?case by simp
qed simp

lemma day_from_year_mono: "y \<le> y' \<Longrightarrow> day_from_year y \<le> day_from_year y'"
  using day_from_year_mono_nat [of y "nat (y' - y)"] by simp

lemma day_from_year_less: "day_from_year y < day_from_year y' \<Longrightarrow> y < y'"
  using day_from_year_mono [of y' y] by linarith

lemma year_up_spec:
  "day_from_year y \<le> d \<Longrightarrow> day_from_year (year_up y d) \<le> d \<and> d < day_from_year (year_up y d + 1)"
proof (induction y d rule: year_up.induct)
  case (1 y d)
  show ?case
  proof (cases "day_from_year (y + 1) \<le> d")
    case True
    with 1 show ?thesis by (subst (1 2) year_up.simps) simp
  next
    case False
    with 1 show ?thesis by (subst (1 2) year_up.simps) simp
  qed
qed

lemma div_bounds_int: "0 < (k::int) \<Longrightarrow> k * (a div k) \<le> a \<and> a < k * (a div k) + k"
  by (metis add.commute add_left_mono less_add_same_cancel1 mult_div_mod_eq pos_mod_bound
      pos_mod_sign add.right_neutral add_strict_left_mono)

lemma day_from_year_le: "400 * day_from_year (1960 + n) \<le> 146097 * n - 1460000 + 1000"
  using div_bounds_int [of 4 "n - 9"] div_bounds_int [of 100 "n + 59"] div_bounds_int [of 400 "n + 359"]
  by (simp add: day_from_year_def)

lemma day_from_year_start:
  "day_from_year (1960 + (if 0 \<le> d then d div 366 else d div 365)) \<le> d"
proof (cases "0 \<le> d")
  case True
  then show ?thesis
    using day_from_year_le [of "d div 366"] div_bounds_int [of 366 d] by simp
next
  case False
  then show ?thesis
    using day_from_year_le [of "d div 365"] div_bounds_int [of 365 d] by simp
qed

lemma year_of_day_spec:
  "day_from_year (year_of_day d) \<le> d \<and> d < day_from_year (year_of_day d + 1)"
  unfolding year_of_day_def by (rule year_up_spec [OF day_from_year_start])

lemma year_of_day_unique:
  "day_from_year y \<le> d \<Longrightarrow> d < day_from_year (y + 1) \<Longrightarrow> year_of_day d = y"
  using year_of_day_spec [of d] day_from_year_less [of y "year_of_day d + 1"]
    day_from_year_less [of "year_of_day d" "y + 1"] by linarith

lemma month_up_spec:
  "0 \<le> i \<Longrightarrow> i < int (length ls) \<Longrightarrow> 0 \<le> k \<Longrightarrow> k < ls ! nat i \<Longrightarrow> \<forall>l \<in> set ls. 0 \<le> l \<Longrightarrow>
   month_up m ls (sum_list (take (nat i) ls) + k) = (m + i, k)"
proof (induction ls arbitrary: m i)
  case (Cons l ls)
  show ?case
  proof (cases "i = 0")
    case True
    with Cons.prems show ?thesis by simp
  next
    case False
    define j where "j = i - 1"
    have i: "nat i = Suc (nat j)" and j: "0 \<le> j" using False Cons.prems(1) by (auto simp: j_def)
    have "month_up (m + 1) ls (sum_list (take (nat j) ls) + k) = (m + 1 + j, k)"
      using Cons.prems i j by (intro Cons.IH) auto
    moreover have "0 \<le> sum_list (take (nat j) ls)"
      using Cons.prems(5) by (intro sum_list_nonneg) (auto dest: in_set_takeD)
    ultimately show ?thesis using Cons.prems(3) i by (simp add: j_def algebra_simps)
  qed
qed simp

definition valid_date :: "int \<Rightarrow> int \<Rightarrow> int \<Rightarrow> bool" where
  "valid_date y m d \<longleftrightarrow> 1 \<le> m \<and> m \<le> 12 \<and> 1 \<le> d \<and> d \<le> days_in_month y m"

lemma sum_month_lengths: "sum_list (month_lengths y) = days_in_year y"
  by (simp add: month_lengths_def days_in_year_def)

lemma month_lengths_nonneg: "\<forall>l \<in> set (month_lengths y). 0 \<le> l"
  by (simp add: month_lengths_def)

lemma length_month_lengths [simp]: "length (month_lengths y) = 12"
  by (simp add: month_lengths_def)

lemma take_month_bound:
  assumes "1 \<le> m" "m \<le> 12" "d \<le> days_in_month y m"
  shows "sum_list (take (nat (m - 1)) (month_lengths y)) + d \<le> days_in_year y"
proof -
  let ?ls = "month_lengths y" and ?i = "nat (m - 1)"
  have i: "?i < length ?ls" using assms by simp
  have "sum_list ?ls = sum_list (take ?i ?ls) + ?ls ! ?i + sum_list (drop (Suc ?i) ?ls)"
    by (metis add.assoc append_take_drop_id Cons_nth_drop_Suc i sum_list.Cons sum_list_append)
  moreover have "0 \<le> sum_list (drop (Suc ?i) ?ls)"
    using month_lengths_nonneg by (intro sum_list_nonneg) (auto dest: in_set_dropD)
  ultimately show ?thesis using assms(3) by (simp add: days_in_month_def sum_month_lengths)
qed

lemma date_of_day_of_date:
  assumes "valid_date y m d"
  shows "date_of_day (day_of_date y m d) = (y, m, d)"
proof -
  let ?s = "sum_list (take (nat (m - 1)) (month_lengths y))"
  have m: "1 \<le> m" "m \<le> 12" "1 \<le> d" "d \<le> days_in_month y m"
    using assms by (auto simp: valid_date_def)
  have "0 \<le> ?s" using month_lengths_nonneg by (intro sum_list_nonneg) (auto dest: in_set_takeD)
  moreover have "?s + d \<le> days_in_year y" by (rule take_month_bound) (use m in auto)
  ultimately have y: "year_of_day (day_of_date y m d) = y"
    using m by (intro year_of_day_unique) (simp_all add: day_of_date_def day_from_year_Suc)
  have "month_up 1 (month_lengths y) (?s + (d - 1)) = (1 + (m - 1), d - 1)"
    using m month_lengths_nonneg by (intro month_up_spec) (auto simp: days_in_month_def)
  then show ?thesis by (simp add: date_of_day_def y) (simp add: day_of_date_def)
qed

definition valid_fields :: "fields \<Rightarrow> bool" where
  "valid_fields f \<longleftrightarrow> valid_date (year f) (month f) (date f) \<and>
     0 \<le> hours f \<and> hours f \<le> 23 \<and> 0 \<le> minutes f \<and> minutes f \<le> 59"

lemma fields_of_local_of_fields:
  assumes "valid_fields f" "0 \<le> r" "r < 60000"
  shows "fields_of_local (local_of_fields f + r) = f"
proof -
  let ?d = "day_of_date (year f) (month f) (date f)"
  let ?t = "3600000 * hours f + 60000 * minutes f + r"
  have b: "0 \<le> hours f" "hours f \<le> 23" "0 \<le> minutes f" "minutes f \<le> 59"
    using assms(1) by (auto simp: valid_fields_def)
  have t: "0 \<le> ?t" "?t < 86400000" using b assms(2,3) by auto
  have l: "local_of_fields f + r = ?t + ?d * 86400000" by (simp add: local_of_fields_def)
  have "(local_of_fields f + r) div 86400000 = ?d" and "(local_of_fields f + r) mod 86400000 = ?t"
    unfolding l using t by simp_all
  moreover have "date_of_day ?d = (year f, month f, date f)"
    using assms(1) by (simp add: date_of_day_of_date valid_fields_def)
  moreover have "?t div 3600000 = hours f"
  proof -
    have "?t = (60000 * minutes f + r) + hours f * 3600000" by simp
    moreover have "(60000 * minutes f + r) div 3600000 = 0" using b assms(2,3) by simp
    ultimately show ?thesis by (simp only: div_mult_self1)
  qed
  moreover have "?t div 60000 mod 60 = minutes f"
  proof -
    have "?t = r + (minutes f + hours f * 60) * 60000" by simp
    moreover have "r div 60000 = 0" using assms(2,3) by simp
    ultimately have "?t div 60000 = minutes f + hours f * 60" by (simp only: div_mult_self1)
    then show ?thesis using b by simp
  qed
  ultimately show ?thesis by (simp add: fields_of_local_def Let_def)
qed

end
