(* ===== verification/Checkout_State.thy ===== *)
theory Checkout_State
  imports Checkout_Text Page_Runtime Js_Object Js_Date Solana_Lib
begin

text \<open>
  The data and the state of \<^verbatim>\<open>frontend/src/app/checkout/[slug]/page.tsx\<close>: the types of the file,
  the state cells of \<open>CheckoutInner\<close>, what the page shares with the browser (the stored
  pending session, the clock, the wallet, the popup, beacons, timers), the values derived
  from the state in each render, and the helper functions that change it.
\<close>

section \<open>Types\<close>

record participant_field =
  field_name :: jstr
  required :: bool

record event_data =
  ev_slug :: jstr
  ev_title :: jstr
  ev_description :: jstr
  ev_eventImageUrl :: jstr
  ev_eventDate :: jstr
  ev_checkoutExpiresAt :: jstr
  ev_location :: jstr
  ev_organizerName :: jstr
  ev_merchantWallet :: jstr
  ev_amountUsdc :: jstr
  ev_amountRaw :: int
  ev_network :: jstr
  ev_participantForm :: "participant_field list"
  ev_paymentMethodWallet :: bool
  ev_paymentMethodQr :: bool

datatype payment_method = Wallet | Qr

definition method_text :: "payment_method \<Rightarrow> jstr" where
  "method_text m = (case m of Wallet \<Rightarrow> ''wallet'' | Qr \<Rightarrow> ''qr'')"

text \<open>The status of a checkout; \<open>cs_paymentMethod\<close> is \<open>None\<close> when the reply leaves it out.\<close>

record checkout_status =
  cs_reference :: jstr
  cs_status :: jstr
  cs_signature :: jstr
  cs_network :: jstr
  cs_solscanUrl :: jstr
  cs_paymentMethod :: "payment_method option"
  cs_participantData :: "obj option"

record pending_session =
  pe_sessionId :: jstr
  pe_reference :: jstr
  pe_expiresAt :: int
  pe_signature :: jstr
  pe_method :: "payment_method option"

text \<open>What \<open>localStorage\<close> holds under the page's key: the JSON of a session, or another text.\<close>

datatype stored_text = SessionText pending_session | OtherText

section \<open>State\<close>

text \<open>Callbacks of \<open>setTimeout\<close> that have not run yet.\<close>

datatype timer = ShowStep3 | HideStep3 | HideLookup

text \<open>The arguments that \<open>openQrWindow\<close> writes into the document of the popup.\<close>

record qr_popup =
  qp_reference :: jstr
  qp_qrUrl :: jstr
  qp_checkoutURL :: jstr
  qp_expiresAt :: int

text \<open>
  The first group are the \<open>useState\<close> cells; \<open>isCheckoutExpired\<close> is a \<open>useMemo\<close> whose value is
  computed, with the clock, when \<open>eventData\<close> changes, so it is a cell too. The second group
  is outside the component.
\<close>

record 'k checkout =
  eventData :: "event_data option"
  isCheckoutExpired :: bool
  participantData :: obj
  paymentMethod :: payment_method
  sessionMethod :: "payment_method option"
  loadingEvent :: bool
  loadingPay :: bool
  checkingLookup :: bool
  lookupEmail :: jstr
  lookupError :: jstr
  highlightLookup :: bool
  highlightStep3 :: bool
  activeSessionId :: jstr
  reference :: jstr
  statusData :: "checkout_status option"
  showFullSignature :: bool
  participantErrors :: obj
  timeLeft :: "int option"
  step :: nat
  page_error :: jstr
  \<comment> \<open>outside\<close>
  pending :: "stored_text option"
  now :: int
  publicKey :: "'k option"
  popupRef :: "qr_popup option"
  beacons :: "jstr list"
  timers :: "timer list"

text \<open>What does not change while the page is open.\<close>

record ('k, 'i) env =
  slug :: jstr
  origin :: jstr
  env_mint :: jstr
  browser_zone :: zone
  spl_lib :: "('k, 'i) spl"
  usdc_mint :: 'k

definition initial_checkout :: "stored_text option \<Rightarrow> int \<Rightarrow> 'k checkout" where
  "initial_checkout st t = \<lparr>eventData = None, isCheckoutExpired = False, participantData = [],
     paymentMethod = Wallet, sessionMethod = None, loadingEvent = True, loadingPay = False,
     checkingLookup = False, lookupEmail = [], lookupError = [], highlightLookup = False,
     highlightStep3 = False, activeSessionId = [], reference = [], statusData = None,
     showFullSignature = False, participantErrors = [], timeLeft = None, step = 0, page_error = [],
     pending = st, now = t, publicKey = None, popupRef = None, beacons = [], timers = []\<rparr>"

section \<open>Derived values\<close>

definition status_text :: "'k checkout \<Rightarrow> jstr" where
  "status_text w = (case statusData w of Some d \<Rightarrow> cs_status d | None \<Rightarrow> [])"

definition closed_statuses :: "jstr list" where
  "closed_statuses = [''paid'', ''failed'', ''cancelled'', ''rejected'', ''approved'']"

definition hasActiveSession :: "'k checkout \<Rightarrow> bool" where
  "hasActiveSession w = (if \<not> truthy (reference w) then False
     else (let status = toLowerCase (or_else (status_text w) ''pending_payment'')
           in status \<notin> set closed_statuses))"

definition checkout_expired :: "zone \<Rightarrow> int \<Rightarrow> event_data option \<Rightarrow> bool" where
  "checkout_expired z t ed = (case ed of None \<Rightarrow> False | Some e \<Rightarrow>
     if \<not> truthy (ev_checkoutExpiresAt e) then False
     else (case parse_date z (ev_checkoutExpiresAt e) of Some x \<Rightarrow> x \<le> t | None \<Rightarrow> False))"

definition availableMethods :: "event_data option \<Rightarrow> (jstr \<times> payment_method) list" where
  "availableMethods ed = (case ed of None \<Rightarrow> [] | Some e \<Rightarrow>
     (if ev_paymentMethodWallet e then [(''Wallet connection'', Wallet)] else []) @
     (if ev_paymentMethodQr e then [(''QR code'', Qr)] else []))"

definition chosenMethod :: "'k checkout \<Rightarrow> payment_method" where
  "chosenMethod w = (case Option.bind (statusData w) cs_paymentMethod of
       Some m \<Rightarrow> m
     | None \<Rightarrow> (case sessionMethod w of Some m \<Rightarrow> m | None \<Rightarrow> paymentMethod w))"

definition isPaid :: "'k checkout \<Rightarrow> bool" where
  "isPaid w \<longleftrightarrow> status_text w = ''paid''"

section \<open>Operations on the state\<close>

definition SESSION_MS :: int where
  "SESSION_MS = 600000"

definition persistPending ::
  "jstr \<Rightarrow> payment_method \<Rightarrow> jstr \<Rightarrow> jstr \<Rightarrow> 'k checkout \<Rightarrow> 'k checkout" where
  "persistPending ref m signature sessionId w =
     w\<lparr>timeLeft := (if m = Wallet then Some (10 * 60) else None),
       pending := Some (SessionText \<lparr>pe_sessionId = or_else sessionId [], pe_reference = ref,
         pe_expiresAt = now w + 10 * 60 * 1000, pe_signature = or_else signature [],
         pe_method = Some m\<rparr>)\<rparr>"

definition clearPending :: "'k checkout \<Rightarrow> 'k checkout" where
  "clearPending w = w\<lparr>pending := None, activeSessionId := [], reference := [],
     sessionMethod := None, timeLeft := None\<rparr>"

definition hydrateStatus :: "checkout_status \<Rightarrow> 'k checkout \<Rightarrow> 'k checkout" where
  "hydrateStatus d w =
     (let w1 = w\<lparr>statusData := Some d, reference := or_else (cs_reference d) []\<rparr>;
          w2 = (case cs_paymentMethod d of
                  Some m \<Rightarrow> w1\<lparr>sessionMethod := Some m, paymentMethod := m\<rparr> | None \<Rightarrow> w1)
      in if cs_status d = ''paid'' then (clearPending w2)\<lparr>step := 2\<rparr> else w2)"

end
