(* ===== verification/Checkout_Flow.thy ===== *)
theory Checkout_Flow
  imports Checkout_State
begin

text \<open>
  The asynchronous functions and the event handlers of the checkout page. \<open>c\<close> is always
  the world of the render that created the handler: what the JavaScript closure has captured.
\<close>

section \<open>Requests and replies\<close>

record invoice_body =
  ib_slug :: jstr
  ib_walletAddress :: jstr
  ib_participantData :: obj
  ib_paymentMethod :: payment_method

text \<open>
  Every promise the page awaits. \<open>confirmTransaction\<close> is called with the commitment
  \<open>"confirmed"\<close>, \<open>sendTransaction\<close> with fixed options.
\<close>

datatype 'i request =
    GetEvent jstr
  | GetStatus jstr
  | PostSession jstr invoice_body            \<comment> \<open>the idempotency key first\<close>
  | PostInvoice invoice_body
  | PostParticipantStatus jstr jstr
  | SendTransaction "'i list"
  | ConfirmTransaction jstr
  | SubmitSignature jstr jstr
  | PostConfirm jstr jstr
  | CancelSession jstr
  | PostCancel jstr

datatype json_body =
    EventJson event_data
  | StatusJson checkout_status
  | InvoiceJson jstr jstr int                \<comment> \<open>\<open>sessionId\<close> (empty in a legacy reply), \<open>reference\<close>, amount\<close>

datatype reply =
    Http "json_body http"
  | Signed jstr
  | Confirmed bool                           \<comment> \<open>whether \<open>value.err\<close> is set\<close>
  | Refused exn

type_synonym ('k, 'i, 'a) page_prog = "('k checkout, 'i request, reply, 'a) prog"

definition await_http :: "'i request \<Rightarrow> ('k, 'i, json_body http) page_prog" where
  "await_http q = Await q (\<lambda>r. case r of
       Http (Response s t b) \<Rightarrow> Ret (Response s t b)
     | Http (Rejected e) \<Rightarrow> Throw e
     | Refused e \<Rightarrow> Throw e
     | _ \<Rightarrow> Throw OtherExn)"

definition await_sign :: "'i request \<Rightarrow> ('k, 'i, jstr) page_prog" where
  "await_sign q = Await q (\<lambda>r. case r of
       Signed s \<Rightarrow> Ret s | Refused e \<Rightarrow> Throw e | _ \<Rightarrow> Throw OtherExn)"

definition await_confirmed :: "'i request \<Rightarrow> ('k, 'i, bool) page_prog" where
  "await_confirmed q = Await q (\<lambda>r. case r of
       Confirmed b \<Rightarrow> Ret b | Refused e \<Rightarrow> Throw e | _ \<Rightarrow> Throw OtherExn)"

text \<open>\<open>(await res.json()) as T\<close>: \<open>sel\<close> picks the type the code casts to.\<close>

definition event_json :: "json_body \<Rightarrow> event_data option" where
  "event_json b = (case b of EventJson e \<Rightarrow> Some e | _ \<Rightarrow> None)"

definition status_json :: "json_body \<Rightarrow> checkout_status option" where
  "status_json b = (case b of StatusJson d \<Rightarrow> Some d | _ \<Rightarrow> None)"

definition invoice_json :: "json_body \<Rightarrow> (jstr \<times> jstr \<times> int) option" where
  "invoice_json b = (case b of InvoiceJson s r a \<Rightarrow> Some (s, r, a) | _ \<Rightarrow> None)"

definition json_as :: "(json_body \<Rightarrow> 'a option) \<Rightarrow> json_body http \<Rightarrow> ('k, 'i, 'a) page_prog" where
  "json_as sel r = bind (res_json r) (\<lambda>b. case sel b of Some x \<Rightarrow> Ret x | None \<Rightarrow> Throw syntax_error)"

definition http_ok :: "'b http \<Rightarrow> bool" where
  "http_ok r = (case r of Response s t j \<Rightarrow> ok_status s | Rejected e \<Rightarrow> False)"

definition has_status :: "int \<Rightarrow> 'b http \<Rightarrow> bool" where
  "has_status n r = (case r of Response s t j \<Rightarrow> s = n | Rejected e \<Rightarrow> False)"

section \<open>Loading and restoring\<close>

text \<open>The \<open>useEffect\<close> on \<open>[slug]\<close>.\<close>

definition loadEvent :: "('k, 'i) env \<Rightarrow> ('k, 'i, unit) page_prog" where
  "loadEvent env =
     finally_do
       (catch
         (Upd (\<lambda>w. w\<lparr>loadingEvent := True\<rparr>)
         (bind (await_http (GetEvent (slug env))) (\<lambda>res.
          bind (require_ok res) (\<lambda>_.
          bind (json_as event_json res) (\<lambda>data.
          Upd (\<lambda>w. w\<lparr>eventData := Some data,
                      isCheckoutExpired := checkout_expired (browser_zone env) (now w) (Some data)\<rparr>)
          (if \<not> ev_paymentMethodWallet data \<and> ev_paymentMethodQr data
           then Upd (\<lambda>w. w\<lparr>paymentMethod := Qr\<rparr>) (Ret ())
           else Ret ()))))))
         (\<lambda>err. Upd (\<lambda>w. w\<lparr>page_error := err_message err ''Failed to load event''\<rparr>) (Ret ())))
       (\<lambda>w. w\<lparr>loadingEvent := False\<rparr>)"

definition refreshStatus :: "'k checkout \<Rightarrow> jstr \<Rightarrow> ('k, 'i, unit) page_prog" where
  "refreshStatus c refArg =
     (let ref = or_else refArg (reference c)
      in if \<not> truthy ref then Ret ()
         else bind (await_http (GetStatus ref)) (\<lambda>res.
              if \<not> http_ok res then Ret ()
              else bind (json_as status_json res) (\<lambda>data. Upd (hydrateStatus data) (Ret ()))))"

text \<open>The \<open>useEffect\<close> on \<open>[storageKey]\<close>.\<close>

definition restorePending :: "'k checkout \<Rightarrow> ('k, 'i, unit) page_prog" where
  "restorePending c = Look (\<lambda>w. case pending w of
       None \<Rightarrow> Ret ()
     | Some OtherText \<Rightarrow> Upd (\<lambda>w. w\<lparr>pending := None\<rparr>) (Ret ())
     | Some (SessionText data) \<Rightarrow>
         if \<not> truthy (pe_reference data) \<or> pe_expiresAt data = 0 \<or> pe_expiresAt data \<le> now w
         then Upd (\<lambda>w. w\<lparr>pending := None\<rparr>) (Ret ())
         else Upd (\<lambda>w1. w1\<lparr>activeSessionId := or_else (pe_sessionId data) [],
                reference := pe_reference data, sessionMethod := pe_method data,
                paymentMethod := (case pe_method data of Some m \<Rightarrow> m | None \<Rightarrow> Wallet),
                timeLeft := (if pe_method data = Some Wallet
                             then Some ((pe_expiresAt data - now w) div 1000) else None),
                step := 2\<rparr>)
              (refreshStatus c (pe_reference data)))"

section \<open>Timer, messages, leaving the page\<close>

definition tickTimeLeft :: "('k, 'i, unit) page_prog" where
  "tickTimeLeft = Upd (\<lambda>w. w\<lparr>timeLeft :=
     (case timeLeft w of Some t \<Rightarrow> if 0 < t then Some (t - 1) else Some 0 | None \<Rightarrow> Some 0)\<rparr>) (Ret ())"

text \<open>
  \<open>onMessage\<close> gets the data of a message: \<open>None\<close> when it is no object of the type
  \<open>payknot:qr-paid\<close>, otherwise its payload, which may be missing.
\<close>

definition onMessage :: "checkout_status option option \<Rightarrow> ('k, 'i, unit) page_prog" where
  "onMessage data = (case data of
       Some (Some payload) \<Rightarrow>
         if cs_status payload \<noteq> ''paid'' then Ret ()
         else Upd (hydrateStatus payload) (Upd (\<lambda>w. w\<lparr>page_error := []\<rparr>) (Ret ()))
     | _ \<Rightarrow> Ret ())"

definition onPageHide :: "'k checkout \<Rightarrow> ('k, 'i, unit) page_prog" where
  "onPageHide c = (if \<not> hasActiveSession c \<or> \<not> truthy (reference c) then Ret ()
     else Upd (\<lambda>w. w\<lparr>beacons := beacons w @ [reference c]\<rparr>)
          (Upd (\<lambda>w. w\<lparr>pending := None\<rparr>) (Ret ())))"

text \<open>\<open>onBeforeUnload\<close> does the same; its result says whether the browser asks before leaving.\<close>

definition onBeforeUnload :: "'k checkout \<Rightarrow> ('k, 'i, bool) page_prog" where
  "onBeforeUnload c = (if \<not> hasActiveSession c \<or> \<not> truthy (reference c) then Ret False
     else Upd (\<lambda>w. w\<lparr>beacons := beacons w @ [reference c]\<rparr>)
          (Upd (\<lambda>w. w\<lparr>pending := None\<rparr>) (Ret True)))"

section \<open>Participant form\<close>

text \<open>\<open>(participantData[key] || "").trim()\<close>; what is inherited from the prototype has no \<open>trim\<close>.\<close>

definition form_value :: "obj \<Rightarrow> jstr \<Rightarrow> exn + jstr" where
  "form_value pd key = (case obj_get pd key of
       Own v \<Rightarrow> Inr (trim (or_else v []))
     | Absent \<Rightarrow> Inr []
     | Inherited \<Rightarrow> Inl (ErrorExn ''(participantData[key] || \"\").trim is not a function''))"

fun step1_errors :: "obj \<Rightarrow> participant_field list \<Rightarrow> obj \<Rightarrow> exn + obj" where
  "step1_errors pd [] nextErrors = Inr nextErrors"
| "step1_errors pd (field # fs) nextErrors =
     (let key = field_name field
      in case form_value pd key of
           Inl e \<Rightarrow> Inl e
         | Inr value \<Rightarrow>
             if required field \<and> \<not> truthy value
             then step1_errors pd fs (obj_assign nextErrors key (key @ '' is required''))
             else if truthy value \<and> toLowerCase (trim key) = ''email'' \<and> \<not> is_email value
             then step1_errors pd fs (obj_assign nextErrors key ''Please enter a valid email address.'')
             else step1_errors pd fs nextErrors)"

definition validateStep1 :: "'k checkout \<Rightarrow> ('k, 'i, bool) page_prog" where
  "validateStep1 c = (case eventData c of
       None \<Rightarrow> Ret False
     | Some ev \<Rightarrow> (case step1_errors (participantData c) (ev_participantForm ev) [] of
         Inl e \<Rightarrow> Throw e
       | Inr nextErrors \<Rightarrow> Upd (\<lambda>w. w\<lparr>participantErrors := nextErrors\<rparr>)
           (if nextErrors \<noteq> []
            then Upd (\<lambda>w. w\<lparr>page_error := ''Please fill all required fields.''\<rparr>) (Ret False)
            else Upd (\<lambda>w. w\<lparr>page_error := []\<rparr>) (Ret True))))"

fun email_entry :: "obj \<Rightarrow> jstr" where
  "email_entry [] = []"
| "email_entry ((key, v) # rest) =
     (if toLowerCase (trim key) = ''email'' then toLowerCase (trim (or_else v []))
      else email_entry rest)"

definition emailFromParticipantData :: "obj \<Rightarrow> jstr" where
  "emailFromParticipantData pd =
     (let direct = (case obj_get pd ''email'' of Own v \<Rightarrow> toLowerCase (trim (or_else v [])) | _ \<Rightarrow> [])
      in if truthy direct then direct else email_entry pd)"

definition checkParticipantStatus ::
  "('k, 'i) env \<Rightarrow> jstr \<Rightarrow> ('k, 'i, checkout_status option) page_prog" where
  "checkParticipantStatus env email =
     bind (await_http (PostParticipantStatus (slug env) email)) (\<lambda>res.
       if has_status 204 res then Ret None
       else if \<not> http_ok res then Ret None
       else bind (json_as status_json res) (\<lambda>d. Ret (Some d)))"

text \<open>Typing into the input of a field.\<close>

definition editField :: "jstr \<Rightarrow> jstr \<Rightarrow> ('k, 'i, unit) page_prog" where
  "editField name v = Upd (\<lambda>w. w\<lparr>participantData := obj_define (participantData w) name v\<rparr>)
     (Upd (\<lambda>w. w\<lparr>participantErrors :=
        (if \<not> prop_truthy (obj_get (participantErrors w) name) then participantErrors w
         else obj_delete (participantErrors w) name)\<rparr>) (Ret ()))"

text \<open>The button Continue of step 1.\<close>

definition continueStep1 :: "('k, 'i) env \<Rightarrow> 'k checkout \<Rightarrow> ('k, 'i, unit) page_prog" where
  "continueStep1 env c =
     bind (validateStep1 c) (\<lambda>ok.
       if \<not> ok then Ret ()
       else (let email = emailFromParticipantData (participantData c)
             in if \<not> truthy email then Upd (\<lambda>w. w\<lparr>step := 1\<rparr>) (Ret ())
                else bind (checkParticipantStatus env email) (\<lambda>receipt.
                  if (case receipt of Some d \<Rightarrow> cs_status d = ''paid'' | None \<Rightarrow> False)
                  then Upd (\<lambda>w. w\<lparr>lookupEmail := email,
                         lookupError := ''This email already has a successful transaction. Please check transaction info in the form above.'',
                         highlightLookup := True, timers := timers w @ [HideLookup]\<rparr>) (Ret ())
                  else Upd (\<lambda>w. w\<lparr>step := 1\<rparr>) (Ret ()))))"

text \<open>The button Check of the lookup section.\<close>

definition lookupClick :: "('k, 'i) env \<Rightarrow> 'k checkout \<Rightarrow> ('k, 'i, unit) page_prog" where
  "lookupClick env c =
     (let email = toLowerCase (trim (lookupEmail c))
      in Upd (\<lambda>w. w\<lparr>lookupError := []\<rparr>)
         (if \<not> truthy email then Upd (\<lambda>w. w\<lparr>lookupError := ''Email is required.''\<rparr>) (Ret ())
          else Upd (\<lambda>w. w\<lparr>checkingLookup := True\<rparr>)
            (finally_do
              (bind (checkParticipantStatus env email) (\<lambda>receipt.
                 case receipt of
                   Some d \<Rightarrow>
                     if cs_status d \<noteq> ''paid''
                     then Upd (\<lambda>w. w\<lparr>lookupError := ''No completed transaction found for this email.''\<rparr>) (Ret ())
                     else Upd (hydrateStatus d) (Upd (\<lambda>w. w\<lparr>step := 2\<rparr>)
                            (Upd (\<lambda>w. w\<lparr>timers := timers w @ [ShowStep3]\<rparr>) (Ret ())))
                 | None \<Rightarrow> Upd (\<lambda>w. w\<lparr>lookupError := ''No completed transaction found for this email.''\<rparr>) (Ret ())))
              (\<lambda>w. w\<lparr>checkingLookup := False\<rparr>))))"

definition runTimer :: "timer \<Rightarrow> ('k, 'i, unit) page_prog" where
  "runTimer t = Upd (\<lambda>w. w\<lparr>timers := remove1 t (timers w)\<rparr>) (case t of
       ShowStep3 \<Rightarrow> Upd (\<lambda>w. w\<lparr>highlightStep3 := True, timers := timers w @ [HideStep3]\<rparr>) (Ret ())
     | HideStep3 \<Rightarrow> Upd (\<lambda>w. w\<lparr>highlightStep3 := False\<rparr>) (Ret ())
     | HideLookup \<Rightarrow> Upd (\<lambda>w. w\<lparr>highlightLookup := False\<rparr>) (Ret ()))"

section \<open>Creating and cancelling a session\<close>

text \<open>The result is \<open>(sessionId, reference, amountRaw)\<close>.\<close>

definition createInvoice :: "('k, 'i) env \<Rightarrow> 'k checkout \<Rightarrow> jstr \<Rightarrow> payment_method \<Rightarrow>
    ('k, 'i, jstr \<times> jstr \<times> int) page_prog" where
  "createInvoice env c walletAddress m =
     (let body = \<lparr>ib_slug = slug env, ib_walletAddress = walletAddress,
                  ib_participantData = participantData c, ib_paymentMethod = m\<rparr>
      in Look (\<lambda>w.
         bind (await_http (PostSession (slug env @ ''-'' @ method_text m @ ''-'' @ show_int (now w)) body)) (\<lambda>v1Res.
         if http_ok v1Res then json_as invoice_json v1Res
         else bind (await_http (PostInvoice body)) (\<lambda>res.
              bind (require_ok res) (\<lambda>_.
              bind (json_as invoice_json res) (\<lambda>legacy. case legacy of
                (_, ref, amountRaw) \<Rightarrow> Ret ([], ref, amountRaw)))))))"

definition cancelCurrentSession :: "'k checkout \<Rightarrow> ('k, 'i, unit) page_prog" where
  "cancelCurrentSession c = (if \<not> truthy (reference c) then Ret ()
     else bind
       (catch
         (bind (if truthy (activeSessionId c)
                then bind (await_http (CancelSession (activeSessionId c))) (\<lambda>_. Ret ())
                else Ret ()) (\<lambda>_.
          bind (await_http (PostCancel (reference c))) (\<lambda>_. Ret ())))
         (\<lambda>_. Ret ()))
       (\<lambda>_. Upd clearPending (Upd (\<lambda>w. w\<lparr>statusData := None\<rparr>) (Upd (\<lambda>w. w\<lparr>step := 0\<rparr>) (Ret ())))))"

text \<open>The button Back of step 3; \<open>ok\<close> is the answer to \<open>window.confirm\<close>.\<close>

definition backStep3 :: "'k checkout \<Rightarrow> bool \<Rightarrow> ('k, 'i, unit) page_prog" where
  "backStep3 c ok =
     (if hasActiveSession c
      then (if \<not> ok then Ret ()
            else bind (cancelCurrentSession c) (\<lambda>_. Upd (\<lambda>w. w\<lparr>step := 1\<rparr>) (Ret ())))
      else Upd clearPending (Upd (\<lambda>w. w\<lparr>statusData := None, showFullSignature := False,
             page_error := [], step := 1\<rparr>) (Ret ())))"

definition selectMethod :: "payment_method \<Rightarrow> ('k, 'i, unit) page_prog" where
  "selectMethod m = Upd (\<lambda>w. w\<lparr>paymentMethod := m, page_error := []\<rparr>) (Ret ())"

definition continueStep2 :: "'k checkout \<Rightarrow> ('k, 'i, unit) page_prog" where
  "continueStep2 c = Upd clearPending (Upd (\<lambda>w. w\<lparr>statusData := None, showFullSignature := False,
     page_error := [], sessionMethod := Some (paymentMethod c), step := 2\<rparr>) (Ret ()))"

section \<open>Paying from the wallet\<close>

definition pending_status :: "jstr \<Rightarrow> jstr \<Rightarrow> payment_method \<Rightarrow> checkout_status" where
  "pending_status ref network m = \<lparr>cs_reference = ref, cs_status = ''pending_payment'',
     cs_signature = [], cs_network = network, cs_solscanUrl = [], cs_paymentMethod = Some m,
     cs_participantData = None\<rparr>"

text \<open>The \<open>catch\<close> block, on the values of \<open>createdReference\<close>, \<open>createdSessionId\<close>, \<open>sentSignature\<close>.\<close>

definition walletFailed :: "jstr \<Rightarrow> jstr \<Rightarrow> jstr \<Rightarrow> exn \<Rightarrow> ('k, 'i, unit) page_prog" where
  "walletFailed createdReference createdSessionId sentSignature err =
     bind (if truthy createdReference \<and> \<not> truthy sentSignature
           then bind (await_http (if truthy createdSessionId then CancelSession createdSessionId
                                  else PostCancel createdReference)) (\<lambda>_.
                Upd clearPending (Upd (\<lambda>w. w\<lparr>statusData := None, showFullSignature := False\<rparr>) (Ret ())))
           else Ret ())
       (\<lambda>_. Upd (\<lambda>w. w\<lparr>page_error := err_message err ''Payment failed''\<rparr>) (Ret ()))"

text \<open>Building the transaction and having it signed and sent: what stands before \<open>sentSignature = signature\<close>.\<close>

definition signTransfer :: "('k, 'i) env \<Rightarrow> 'k \<Rightarrow> event_data \<Rightarrow> jstr \<Rightarrow> ('k, 'i, jstr) page_prog" where
  "signTransfer env key ev ref =
     (case new_PublicKey (spl_lib env) (ev_merchantWallet ev) of
        Inl e \<Rightarrow> Throw e
      | Inr recipient \<Rightarrow>
        (case createUsdcTransfer (spl_lib env) (usdc_mint env) key recipient (js_Number (ev_amountUsdc ev)) ref of
           Inl e \<Rightarrow> Throw e
         | Inr transaction \<Rightarrow> await_sign (SendTransaction transaction)))"

text \<open>What follows the signature.\<close>

definition confirmPayment :: "jstr \<Rightarrow> jstr \<Rightarrow> jstr \<Rightarrow> ('k, 'i, unit) page_prog" where
  "confirmPayment sessionId ref signature =
     bind (await_confirmed (ConfirmTransaction signature)) (\<lambda>failed.
     if failed then Throw (ErrorExn ''Transaction failed on-chain'')
     else bind (await_http (if truthy sessionId then SubmitSignature sessionId signature
                            else PostConfirm ref signature)) (\<lambda>confirmRes.
          bind (require_ok confirmRes) (\<lambda>_.
          bind (json_as status_json confirmRes) (\<lambda>paid. Upd (hydrateStatus paid) (Ret ())))))"

text \<open>What the \<open>try\<close> block does with the created session.\<close>

definition payCreated :: "('k, 'i) env \<Rightarrow> 'k \<Rightarrow> event_data \<Rightarrow> jstr \<Rightarrow> jstr \<Rightarrow> ('k, 'i, unit) page_prog" where
  "payCreated env key ev sessionId ref =
     Upd (\<lambda>w. w\<lparr>activeSessionId := or_else sessionId [], reference := ref,
            statusData := Some (pending_status ref (ev_network ev) Wallet),
            sessionMethod := Some Wallet, paymentMethod := Wallet\<rparr>)
    (Upd (persistPending ref Wallet [] sessionId)
    (attempt (signTransfer env key ev ref)
      (walletFailed ref (or_else sessionId []) [])
      (\<lambda>signature.
         Upd (persistPending ref Wallet signature sessionId)
           (catch (confirmPayment sessionId ref signature)
                  (walletFailed ref (or_else sessionId []) signature)))))"

definition startWalletPayment :: "('k, 'i) env \<Rightarrow> 'k checkout \<Rightarrow> ('k, 'i, unit) page_prog" where
  "startWalletPayment env c = (case (publicKey c, eventData c) of
       (Some key, Some ev) \<Rightarrow>
         Upd (\<lambda>w. w\<lparr>loadingPay := True, page_error := []\<rparr>)
         (finally_do
           (attempt (createInvoice env c (toBase58 (spl_lib env) key) Wallet)
             (walletFailed [] [] [])
             (\<lambda>created. case created of (sessionId, ref, amountRaw) \<Rightarrow>
                payCreated env key ev sessionId ref))
           (\<lambda>w. w\<lparr>loadingPay := False\<rparr>))
     | _ \<Rightarrow> Ret ())"

end
