(* ===== verification/Qr_Payment.thy ===== *)
theory Qr_Payment
  imports Checkout_Flow
begin

text \<open>
  The QR payment of the checkout page: the Solana Pay link and the QR image that
  \<open>openQrWindow\<close> makes, and \<open>startQrSession\<close>. The text of the popup's document is the subject
  of the theory \<open>Qr_Window\<close>.
\<close>

section \<open>Percent encoding\<close>

definition upper_hex :: "nat \<Rightarrow> char" where
  "upper_hex n = (if n < 10 then char_of (48 + n) else char_of (55 + n))"

definition percent :: "char \<Rightarrow> jstr" where
  "percent c = [CHR ''%'', upper_hex (of_char c div 16), upper_hex (of_char c mod 16)]"

text \<open>The serializer of \<open>URLSearchParams\<close> and \<open>encodeURIComponent\<close>, on the UTF-8 bytes.\<close>

definition is_alnum :: "char \<Rightarrow> bool" where
  "is_alnum c \<longleftrightarrow> (let n = (of_char c :: nat)
     in 48 \<le> n \<and> n \<le> 57 \<or> 65 \<le> n \<and> n \<le> 90 \<or> 97 \<le> n \<and> n \<le> 122)"

definition form_char :: "char \<Rightarrow> jstr" where
  "form_char c = (if c = CHR '' '' then ''+'' else if is_alnum c \<or> c \<in> set ''*-._'' then [c] else percent c)"

definition form_encode :: "jstr \<Rightarrow> jstr" where
  "form_encode s = concat (map form_char (utf8 s))"

definition uri_char :: "char \<Rightarrow> jstr" where
  "uri_char c = (if is_alnum c \<or> c \<in> set ''-_.!~*()'' \<or> c = CHR 0x27 then [c] else percent c)"

definition encodeURIComponent :: "jstr \<Rightarrow> jstr" where
  "encodeURIComponent s = concat (map uri_char (utf8 s))"

definition query_string :: "(jstr \<times> jstr) list \<Rightarrow> jstr" where
  "query_string ps = join ''&'' (map (\<lambda>(k, v). form_encode k @ ''='' @ form_encode v) ps)"

section \<open>The functions of the page\<close>

definition pay_query :: "('k, 'i) env \<Rightarrow> event_data \<Rightarrow> jstr \<Rightarrow> (jstr \<times> jstr) list" where
  "pay_query env ev ref = [
     (''amount'', ev_amountUsdc ev),
     (''spl-token'', mintFromEnv (env_mint env)),
     (''memo'', ref),
     (''label'', or_else (ev_title ev) ''Event Deposit''),
     (''message'', ''Deposit '' @ ev_amountUsdc ev @ '' USDC for '' @ or_else (ev_title ev) ''event'')]"

definition solanaPayURL :: "('k, 'i) env \<Rightarrow> event_data \<Rightarrow> jstr \<Rightarrow> jstr" where
  "solanaPayURL env ev ref = ''solana:'' @ ev_merchantWallet ev @ ''?'' @ query_string (pay_query env ev ref)"

definition qrUrl :: "('k, 'i) env \<Rightarrow> event_data \<Rightarrow> jstr \<Rightarrow> jstr" where
  "qrUrl env ev ref = ''https://api.qrserver.com/v1/create-qr-code/?size=320x320&data=''
     @ encodeURIComponent (solanaPayURL env ev ref)"

text \<open>\<open>blocked\<close>: \<open>window.open\<close> returned \<open>null\<close>.\<close>

definition openQrWindow :: "('k, 'i) env \<Rightarrow> 'k checkout \<Rightarrow> bool \<Rightarrow> jstr \<Rightarrow> ('k, 'i, unit) page_prog" where
  "openQrWindow env c blocked ref = (case eventData c of
       None \<Rightarrow> Ret ()
     | Some ev \<Rightarrow> Look (\<lambda>w.
         let expiresAt = now w + 10 * 60 * 1000
         in if blocked
            then Upd (\<lambda>w. w\<lparr>page_error := ''Popup blocked. Please allow popups and try again.''\<rparr>) (Ret ())
            else Upd (\<lambda>w. w\<lparr>popupRef := Some \<lparr>qp_reference = ref, qp_qrUrl = qrUrl env ev ref,
                   qp_checkoutURL = origin env @ ''/checkout/'' @ slug env, qp_expiresAt = expiresAt\<rparr>\<rparr>) (Ret ())))"

definition startQrSession :: "('k, 'i) env \<Rightarrow> 'k checkout \<Rightarrow> bool \<Rightarrow> ('k, 'i, unit) page_prog" where
  "startQrSession env c blocked = (case eventData c of
       None \<Rightarrow> Ret ()
     | Some ev \<Rightarrow>
         Upd (\<lambda>w. w\<lparr>loadingPay := True, page_error := []\<rparr>)
         (finally_do
           (catch
             (bind (createInvoice env c [] Qr) (\<lambda>created. case created of (sessionId, ref, amountRaw) \<Rightarrow>
                Upd (\<lambda>w. w\<lparr>activeSessionId := or_else sessionId [], reference := ref,
                       sessionMethod := Some Qr, paymentMethod := Qr,
                       statusData := Some (pending_status ref (ev_network ev) Qr)\<rparr>)
               (Upd (persistPending ref Qr [] sessionId)
               (bind (openQrWindow env c blocked ref) (\<lambda>_.
                Upd (\<lambda>w. w\<lparr>step := 2\<rparr>) (Ret ()))))))
             (\<lambda>err. Upd (\<lambda>w. w\<lparr>page_error := err_message err ''Failed to create QR payment session''\<rparr>) (Ret ())))
           (\<lambda>w. w\<lparr>loadingPay := False\<rparr>)))"

section \<open>Reading an encoded text\<close>

definition hex_val :: "char \<Rightarrow> nat" where
  "hex_val c = (let n = (of_char c :: nat) in if n \<le> 57 then n - 48 else n - 55)"

fun percent_decode :: "bool \<Rightarrow> jstr \<Rightarrow> jstr" where
  "percent_decode sp [] = []"
| "percent_decode sp (c # s) =
     (if c = CHR ''%'' then (case s of h # l # t \<Rightarrow> char_of (16 * hex_val h + hex_val l) # percent_decode sp t | _ \<Rightarrow> [])
      else (if sp \<and> c = CHR ''+'' then CHR '' '' else c) # percent_decode sp s)"

definition query_pairs :: "jstr \<Rightarrow> (jstr \<times> jstr) list" where
  "query_pairs q = map (\<lambda>p. (percent_decode True (takeWhile (\<lambda>c. c \<noteq> CHR ''='') p),
      percent_decode True (tl (dropWhile (\<lambda>c. c \<noteq> CHR ''='') p)))) (split_on (CHR ''&'') q)"

lemma hex_val_upper [simp]: "n < 16 \<Longrightarrow> hex_val (upper_hex n) = n"
  by (simp add: hex_val_def upper_hex_def)

lemma high_digit: "(of_char c :: nat) div 16 < 16"
proof -
  have "(of_char c :: nat) < 16 * 16" by simp
  then show ?thesis by (rule less_mult_imp_div_less)
qed

lemma percent_decode_percent: "percent_decode b (percent c @ s) = c # percent_decode b s"
proof -
  have "char_of (16 * (of_char c div 16) + of_char c mod 16 :: nat) = c" by simp
  then show ?thesis by (simp add: percent_def high_digit)
qed

lemma alnum_plain: "is_alnum c \<Longrightarrow> c \<noteq> CHR ''%'' \<and> c \<noteq> CHR ''+'' \<and> c \<noteq> CHR ''&'' \<and> c \<noteq> CHR ''=''"
  by (auto simp: is_alnum_def)

lemma percent_decode_form: "percent_decode True (form_char c @ s) = c # percent_decode True s"
  by (auto simp: form_char_def percent_decode_percent dest: alnum_plain)

lemma percent_decode_uri: "percent_decode False (uri_char c @ s) = c # percent_decode False s"
  by (auto simp: uri_char_def percent_decode_percent dest: alnum_plain)

lemma form_decode: "percent_decode True (form_encode s) = utf8 s"
proof -
  have "percent_decode True (concat (map form_char t)) = t" for t
    by (induction t) (simp_all add: percent_decode_form)
  then show ?thesis by (simp add: form_encode_def)
qed

lemma uri_decode: "percent_decode False (encodeURIComponent s) = utf8 s"
proof -
  have "percent_decode False (concat (map uri_char t)) = t" for t
    by (induction t) (simp_all add: percent_decode_uri)
  then show ?thesis by (simp add: encodeURIComponent_def)
qed

lemma upper_hex_plain: "n < 16 \<Longrightarrow> upper_hex n \<noteq> CHR ''&'' \<and> upper_hex n \<noteq> CHR ''=''"
proof -
  assume "n < 16"
  then have "(of_char (upper_hex n) :: nat) \<noteq> 38 \<and> (of_char (upper_hex n) :: nat) \<noteq> 61"
    by (auto simp: upper_hex_def)
  then show ?thesis by auto
qed

lemma form_encode_plain: "CHR ''&'' \<notin> set (form_encode s) \<and> CHR ''='' \<notin> set (form_encode s)"
proof -
  have "CHR ''&'' \<notin> set (form_char c) \<and> CHR ''='' \<notin> set (form_char c)" for c
  proof -
    have "(of_char c :: nat) div 16 < 16" by (rule high_digit)
    then show ?thesis
      using upper_hex_plain [of "of_char c div 16"] upper_hex_plain [of "of_char c mod 16"]
      by (auto simp: form_char_def percent_def dest: alnum_plain)
  qed
  then show ?thesis by (auto simp: form_encode_def)
qed

lemma encodeURIComponent_plain: "CHR ''&'' \<notin> set (encodeURIComponent s)"
proof -
  have "CHR ''&'' \<notin> set (uri_char c)" for c
    using upper_hex_plain [of "of_char c div 16"] upper_hex_plain [of "of_char c mod 16"] high_digit [of c]
    by (auto simp: uri_char_def percent_def dest: alnum_plain)
  then show ?thesis by (auto simp: encodeURIComponent_def)
qed

lemma split_on_none: "d \<notin> set s \<Longrightarrow> split_on d s = [s]"
  by (induction s) auto

lemma split_on_sep: "d \<notin> set p \<Longrightarrow> split_on d (p @ d # s) = p # split_on d s"
  by (induction p) auto

lemma split_join: "ws \<noteq> [] \<Longrightarrow> \<forall>p \<in> set ws. d \<notin> set p \<Longrightarrow> split_on d (join [d] ws) = ws"
  by (induction "[d]" ws rule: join.induct) (simp_all add: split_on_none split_on_sep)

lemma span_eq:
  "x \<notin> set a \<Longrightarrow> takeWhile (\<lambda>c. c \<noteq> x) (a @ x # b) = a \<and> dropWhile (\<lambda>c. c \<noteq> x) (a @ x # b) = x # b"
  by (induction a) auto

lemma query_pairs_string:
  assumes "ps \<noteq> []"
  shows "query_pairs (query_string ps) = map (\<lambda>(k, v). (utf8 k, utf8 v)) ps"
proof -
  let ?f = "\<lambda>(k, v). form_encode k @ ''='' @ form_encode v"
  have "split_on (CHR ''&'') (query_string ps) = map ?f ps"
    unfolding query_string_def
    by (rule split_join) (use assms in \<open>auto simp: form_encode_plain\<close>)
  moreover have "takeWhile (\<lambda>c. c \<noteq> CHR ''='') (form_encode k @ CHR ''='' # form_encode v) = form_encode k"
    and "dropWhile (\<lambda>c. c \<noteq> CHR ''='') (form_encode k @ CHR ''='' # form_encode v) = CHR ''='' # form_encode v" for k v
    using span_eq [of "CHR ''=''" "form_encode k"] form_encode_plain [of k] by auto
  ultimately show ?thesis
    by (auto simp: query_pairs_def form_decode)
qed

section \<open>Properties\<close>

text \<open>
  C18. What a wallet reads from the QR code: the \<open>data\<close> parameter of the image address holds no
  separator and decodes to a \<open>solana:\<close> link to the merchant's wallet whose query, decoded,
  gives the price, the mint, the payment reference as memo, the label and the message.
\<close>

theorem qr_code_carries_payment:
  "\<exists>d q. qrUrl env ev ref = ''https://api.qrserver.com/v1/create-qr-code/?size=320x320&data='' @ d
     \<and> CHR ''&'' \<notin> set d
     \<and> percent_decode False d = utf8 (''solana:'' @ ev_merchantWallet ev @ ''?'' @ q)
     \<and> query_pairs q = [(''amount'', utf8 (ev_amountUsdc ev)),
          (''spl-token'', utf8 (mintFromEnv (env_mint env))), (''memo'', utf8 ref),
          (''label'', utf8 (or_else (ev_title ev) ''Event Deposit'')),
          (''message'', utf8 (''Deposit '' @ ev_amountUsdc ev @ '' USDC for '' @ or_else (ev_title ev) ''event''))]"
proof (intro exI conjI)
  let ?q = "query_string (pay_query env ev ref)"
  show "qrUrl env ev ref = ''https://api.qrserver.com/v1/create-qr-code/?size=320x320&data=''
      @ encodeURIComponent (solanaPayURL env ev ref)" by (rule qrUrl_def)
  show "CHR ''&'' \<notin> set (encodeURIComponent (solanaPayURL env ev ref))"
    by (rule encodeURIComponent_plain)
  show "percent_decode False (encodeURIComponent (solanaPayURL env ev ref))
      = utf8 (''solana:'' @ ev_merchantWallet ev @ ''?'' @ ?q)"
    by (simp only: uri_decode solanaPayURL_def)
  have "utf8 ''amount'' = ''amount''" "utf8 ''spl-token'' = ''spl-token''" "utf8 ''memo'' = ''memo''"
    "utf8 ''label'' = ''label''" "utf8 ''message'' = ''message''"
    by (rule utf8_ascii, simp)+
  then show "query_pairs ?q = [(''amount'', utf8 (ev_amountUsdc ev)),
          (''spl-token'', utf8 (mintFromEnv (env_mint env))), (''memo'', utf8 ref),
          (''label'', utf8 (or_else (ev_title ev) ''Event Deposit'')),
          (''message'', utf8 (''Deposit '' @ ev_amountUsdc ev @ '' USDC for '' @ or_else (ev_title ev) ''event''))]"
    by (subst query_pairs_string) (simp_all add: pay_query_def)
qed

end
