(* ===== verification/Checkout_Payment.thy ===== *)
theory Checkout_Payment
  imports Qr_Payment
begin

text \<open>
  What every run of the payment functions of the checkout page ensures, whatever the server,
  the wallet and the chain reply: which requests follow which, when a session is cancelled,
  what is left in the browser's storage.
\<close>

section \<open>Postconditions of the parts\<close>

definition is_invoice :: "'i request \<Rightarrow> bool" where
  "is_invoice q = (case q of PostSession k b \<Rightarrow> True | PostInvoice b \<Rightarrow> True | _ \<Rightarrow> False)"

lemma await_http_always:
  "always (await_http q) w P \<longleftrightarrow>
     P Blocked w [(q, None)] \<and>
     (\<forall>s t b. P (Done (Response s t b)) w [(q, Some (Http (Response s t b)))]) \<and>
     (\<forall>e. P (Failed e) w [(q, Some (Http (Rejected e)))]) \<and>
     (\<forall>e. P (Failed e) w [(q, Some (Refused e))]) \<and>
     (\<forall>g. P (Failed OtherExn) w [(q, Some (Signed g))]) \<and>
     (\<forall>b. P (Failed OtherExn) w [(q, Some (Confirmed b))])"
  unfolding await_http_def by (auto split: reply.split http.split)

lemma await_sign_always:
  "always (await_sign q) w P \<longleftrightarrow>
     P Blocked w [(q, None)] \<and>
     (\<forall>g. P (Done g) w [(q, Some (Signed g))]) \<and>
     (\<forall>e. P (Failed e) w [(q, Some (Refused e))]) \<and>
     (\<forall>h. P (Failed OtherExn) w [(q, Some (Http h))]) \<and>
     (\<forall>b. P (Failed OtherExn) w [(q, Some (Confirmed b))])"
  unfolding await_sign_def by (auto split: reply.split)

lemma await_confirmed_always:
  "always (await_confirmed q) w P \<longleftrightarrow>
     P Blocked w [(q, None)] \<and>
     (\<forall>b. P (Done b) w [(q, Some (Confirmed b))]) \<and>
     (\<forall>e. P (Failed e) w [(q, Some (Refused e))]) \<and>
     (\<forall>h. P (Failed OtherExn) w [(q, Some (Http h))]) \<and>
     (\<forall>g. P (Failed OtherExn) w [(q, Some (Signed g))])"
  unfolding await_confirmed_def by (auto split: reply.split)

lemma require_ok_always:
  "always (require_ok r) w P \<longleftrightarrow> (case r of
     Response s t j \<Rightarrow> if ok_status s then P (Done ()) w [] else P (Failed (ErrorExn t)) w []
   | Rejected e \<Rightarrow> P (Failed e) w [])"
  by (simp add: require_ok_def split: http.split)

lemma json_as_always:
  "always (json_as sel r) w P \<longleftrightarrow> (case r of
     Response s t (Some b) \<Rightarrow> (case sel b of Some x \<Rightarrow> P (Done x) w [] | None \<Rightarrow> P (Failed syntax_error) w [])
   | _ \<Rightarrow> P (Failed syntax_error) w [])"
  by (auto simp: json_as_def res_json_def split: http.split option.split)

lemmas part_rules = always_rules await_http_always await_sign_always await_confirmed_always
  require_ok_always json_as_always

lemma createInvoice_always:
  "always (createInvoice env c a m) w (\<lambda>x w' h. w' = w \<and> h \<noteq> [] \<and> (\<forall>p \<in> set h. is_invoice (fst p)))"
  by (auto simp: createInvoice_def Let_def part_rules is_invoice_def split: option.splits prod.splits)

text \<open>\<open>tx\<close> is the transfer of the event's price to the event's wallet with the memo \<open>ref\<close>.\<close>

definition transfer_for :: "('k, 'i) env \<Rightarrow> 'k \<Rightarrow> event_data \<Rightarrow> jstr \<Rightarrow> 'i list \<Rightarrow> bool" where
  "transfer_for env key ev ref tx \<longleftrightarrow> (\<exists>recipient.
     new_PublicKey (spl_lib env) (ev_merchantWallet ev) = Inr recipient \<and>
     createUsdcTransfer (spl_lib env) (usdc_mint env) key recipient (js_Number (ev_amountUsdc ev)) ref = Inr tx)"

lemma signTransfer_always:
  "always (signTransfer env key ev ref) w (\<lambda>x w' h. w' = w \<and> (case x of
      Done g \<Rightarrow> \<exists>tx. transfer_for env key ev ref tx \<and> h = [(SendTransaction tx, Some (Signed g))]
    | Failed e \<Rightarrow> h = [] \<or> (\<exists>tx r. transfer_for env key ev ref tx \<and>
        h = [(SendTransaction tx, Some r)] \<and> (\<forall>g. r \<noteq> Signed g))
    | Blocked \<Rightarrow> \<exists>tx. transfer_for env key ev ref tx \<and> h = [(SendTransaction tx, None)]))"
  by (auto simp: signTransfer_def part_rules transfer_for_def split: sum.splits)

definition submit_request :: "jstr \<Rightarrow> jstr \<Rightarrow> jstr \<Rightarrow> 'i request" where
  "submit_request sid ref g = (if truthy sid then SubmitSignature sid g else PostConfirm ref g)"

lemma confirmPayment_always:
  "always (confirmPayment sid ref g) w (\<lambda>x w' h.
     (\<exists>r. h = [(ConfirmTransaction g, r)] \<or>
        r = Some (Confirmed False) \<and> (\<exists>r2. h = [(ConfirmTransaction g, r), (submit_request sid ref g, r2)])) \<and>
     (case x of Done _ \<Rightarrow> \<exists>d s t. w' = hydrateStatus d w \<and> ok_status s \<and>
          h = [(ConfirmTransaction g, Some (Confirmed False)),
               (submit_request sid ref g, Some (Http (Response s t (Some (StatusJson d)))))]
      | _ \<Rightarrow> w' = w))"
  by (auto simp: confirmPayment_def part_rules submit_request_def status_json_def
      split: option.splits json_body.splits)

definition cancel_request :: "jstr \<Rightarrow> jstr \<Rightarrow> 'i request" where
  "cancel_request sid ref = (if truthy sid then CancelSession sid else PostCancel ref)"

lemma walletFailed_always:
  "always (walletFailed ref sid g e) w (\<lambda>x w' h.
     if truthy ref \<and> \<not> truthy g
     then (\<exists>r. h = [(cancel_request sid ref, r)]) \<and>
       (case x of Done _ \<Rightarrow> w' = (clearPending w)\<lparr>statusData := None, showFullSignature := False,
                             page_error := err_message e ''Payment failed''\<rparr> | _ \<Rightarrow> w' = w)
     else h = [] \<and> x = Done () \<and> w' = w\<lparr>page_error := err_message e ''Payment failed''\<rparr>)"
  by (auto simp: walletFailed_def part_rules cancel_request_def)

section \<open>The whole payment\<close>

definition cancels :: "jstr \<Rightarrow> jstr \<Rightarrow> ('i request \<times> reply option) list \<Rightarrow> bool" where
  "cancels sid ref h \<longleftrightarrow> h = [] \<or> (\<exists>r. h = [(cancel_request sid ref, r)])"

definition confirms :: "jstr \<Rightarrow> jstr \<Rightarrow> jstr \<Rightarrow> ('i request \<times> reply option) list \<Rightarrow> bool" where
  "confirms sid ref g h \<longleftrightarrow> (\<exists>r. h = [(ConfirmTransaction g, r)]) \<or>
     (\<exists>r. h = [(ConfirmTransaction g, Some (Confirmed False)), (submit_request sid ref g, r)])"

definition kept_session :: "jstr \<Rightarrow> jstr \<Rightarrow> jstr \<Rightarrow> int \<Rightarrow> stored_text option" where
  "kept_session sid ref g t = Some (SessionText \<lparr>pe_sessionId = sid, pe_reference = ref,
     pe_expiresAt = t + 600000, pe_signature = g, pe_method = Some Wallet\<rparr>)"

definition unsigned :: "reply option \<Rightarrow> bool" where
  "unsigned r \<longleftrightarrow> (case r of Some (Signed g) \<Rightarrow> False | _ \<Rightarrow> True)"

lemma hydrate_pending:
  "pending (hydrateStatus d w) = (if cs_status d = ''paid'' then None else pending w)"
  "cs_status d = ''paid'' \<Longrightarrow> reference (hydrateStatus d w) = []"
  "statusData (hydrateStatus d w) = Some d"
  by (auto simp: hydrateStatus_def clearPending_def Let_def split: option.split)

lemma persist_pending:
  "pending (persistPending ref Wallet g sid w) = kept_session sid ref g (now w)"
  by (simp add: persistPending_def kept_session_def)

lemma or_else_truthy [simp]: "truthy (or_else a []) = truthy a"
  by simp

text \<open>Confirming: what is stored stays, unless the payment has been found paid.\<close>

definition paid_reply :: "jstr \<Rightarrow> jstr \<Rightarrow> jstr \<Rightarrow> 'k checkout \<Rightarrow> ('i request \<times> reply option) list \<Rightarrow> bool" where
  "paid_reply sid ref g w' h \<longleftrightarrow> pending w' = None \<and> reference w' = [] \<and>
     (\<exists>d s c. h = [(ConfirmTransaction g, Some (Confirmed False)),
        (submit_request sid ref g, Some (Http (Response s c (Some (StatusJson d)))))] \<and>
        cs_status d = ''paid'' \<and> statusData w' = Some d)"

definition confirm_run :: "jstr \<Rightarrow> jstr \<Rightarrow> jstr \<Rightarrow> stored_text option \<Rightarrow> 'k checkout \<Rightarrow>
    ('i request \<times> reply option) list \<Rightarrow> bool" where
  "confirm_run sid ref g st w' h \<longleftrightarrow> (\<exists>hf hc. h = hf @ hc \<and> confirms sid ref g hf \<and> cancels sid ref hc \<and>
     (truthy g \<longrightarrow> hc = [] \<and> (pending w' = st \<or> paid_reply sid ref g w' hf)))"

lemma confirm_runI:
  "confirms sid ref g hf \<Longrightarrow> cancels sid ref hc \<Longrightarrow>
   (truthy g \<Longrightarrow> hc = [] \<and> (pending w' = st \<or> paid_reply sid ref g w' hf)) \<Longrightarrow>
   confirm_run sid ref g st w' (hf @ hc)"
  by (auto simp: confirm_run_def)

lemma confirmed_always:
  "always (catch (confirmPayment sid ref g) (walletFailed ref (or_else sid []) g)) w
     (\<lambda>x w' h. confirm_run sid ref g (pending w) w' h)"
  unfolding always_catch
proof (rule always_mono [OF confirmPayment_always], goal_cases)
  case (1 x w' h)
  then have cf: "confirms sid ref g h" by (auto simp: confirms_def)
  show ?case
  proof (cases x)
    case (Done a)
    then obtain d s t where d: "w' = hydrateStatus d w"
      "h = [(ConfirmTransaction g, Some (Confirmed False)),
            (submit_request sid ref g, Some (Http (Response s t (Some (StatusJson d)))))]"
      using 1 by auto
    have "confirm_run sid ref g (pending w) w' (h @ [])"
      by (rule confirm_runI [OF cf])
        (auto simp: d cancels_def paid_reply_def hydrate_pending)
    then show ?thesis using Done by simp
  next
    case (Failed e)
    then have w: "w' = w" using 1 by simp
    have "always (walletFailed ref (or_else sid []) g e) w
        (\<lambda>x2 w2 h2. confirm_run sid ref g (pending w) w2 (h @ h2))"
      by (rule always_mono [OF walletFailed_always], rule confirm_runI [OF cf])
        (auto simp: cancels_def split: if_splits)
    then show ?thesis using Failed w by simp
  next
    case Blocked
    then have "w' = w" using 1 by simp
    then have "confirm_run sid ref g (pending w) w' (h @ [])"
      by (intro confirm_runI [OF cf]) (simp_all add: cancels_def)
    then show ?thesis using Blocked by simp
  qed
qed

lemma unsigned_simps [simp]:
  "unsigned None" "unsigned (Some r) \<longleftrightarrow> (\<forall>g. r \<noteq> Signed g)"
  by (simp_all add: unsigned_def split: reply.split)

text \<open>The histories of a created session, and what is stored after a signature.\<close>

definition pay_run :: "('k, 'i) env \<Rightarrow> 'k \<Rightarrow> event_data \<Rightarrow> jstr \<Rightarrow> jstr \<Rightarrow> int \<Rightarrow>
    'k checkout \<Rightarrow> ('i request \<times> reply option) list \<Rightarrow> bool" where
  "pay_run env key ev sid ref t w' h \<longleftrightarrow>
     cancels sid ref h \<or>
     (\<exists>tx r hc. transfer_for env key ev ref tx \<and> unsigned r \<and> cancels sid ref hc \<and>
        h = (SendTransaction tx, r) # hc) \<or>
     (\<exists>tx g hs. transfer_for env key ev ref tx \<and> confirm_run sid ref g (kept_session sid ref g t) w' hs \<and>
        h = (SendTransaction tx, Some (Signed g)) # hs)"

lemma signed_run:
  "transfer_for env key ev ref tx \<Longrightarrow> confirm_run sid ref g (kept_session sid ref g t) w' hs \<Longrightarrow>
   pay_run env key ev sid ref t w' ((SendTransaction tx, Some (Signed g)) # hs)"
  by (auto simp: pay_run_def)

lemma unsigned_run:
  "hs = [] \<or> (\<exists>tx r. transfer_for env key ev ref tx \<and> unsigned r \<and> hs = [(SendTransaction tx, r)]) \<Longrightarrow>
   cancels sid ref hc \<Longrightarrow> pay_run env key ev sid ref t w' (hs @ hc)"
  by (auto simp: pay_run_def)

lemma payCreated_always:
  "always (payCreated env key ev sid ref) w (\<lambda>x w' h. pay_run env key ev sid ref (now w) w' h)"
  unfolding payCreated_def always.simps always_attempt
proof (rule always_mono [OF signTransfer_always], goal_cases)
  case (1 x w1 h)
  show ?case
  proof (cases x)
    case (Done g)
    with 1 obtain tx where tx: "transfer_for env key ev ref tx" "h = [(SendTransaction tx, Some (Signed g))]"
      by auto
    have "now w1 = now w" using 1 by (simp add: persistPending_def)
    then have "always (catch (confirmPayment sid ref g) (walletFailed ref (or_else sid []) g))
        (persistPending ref Wallet g sid w1) (\<lambda>x2 w2 h2. pay_run env key ev sid ref (now w) w2 (h @ h2))"
      by (intro always_mono [OF confirmed_always]) (auto simp: tx persist_pending intro: signed_run)
    then show ?thesis using Done by simp
  next
    case (Failed e)
    then have h: "h = [] \<or> (\<exists>tx r. transfer_for env key ev ref tx \<and> unsigned r \<and> h = [(SendTransaction tx, r)])"
      using 1 by auto
    have "always (walletFailed ref (or_else sid []) [] e) w1
        (\<lambda>x2 w2 h2. pay_run env key ev sid ref (now w) w2 (h @ h2))"
      by (rule always_mono [OF walletFailed_always], rule unsigned_run [OF h])
        (auto simp: cancels_def split: if_splits)
    then show ?thesis using Failed by simp
  next
    case Blocked
    with 1 have "h = [] \<or> (\<exists>tx r. transfer_for env key ev ref tx \<and> unsigned r \<and> h = [(SendTransaction tx, r)])"
      by auto
    from unsigned_run [OF this, of sid "[]"] show ?thesis using Blocked by (simp add: cancels_def)
  qed
qed

text \<open>The whole run: the invoice, then a created session.\<close>

definition wallet_run :: "('k, 'i) env \<Rightarrow> 'k \<Rightarrow> event_data \<Rightarrow> 'k checkout \<Rightarrow>
    ('i request \<times> reply option) list \<Rightarrow> bool" where
  "wallet_run env key ev w' h \<longleftrightarrow> (\<exists>hi hp sid ref t. h = hi @ hp \<and> (\<forall>p \<in> set hi. is_invoice (fst p)) \<and>
     (hp = [] \<or> (\<exists>q s b i a. (q, Some (Http (Response s b (Some (InvoiceJson i ref a))))) \<in> set hi) \<and>
                pay_run env key ev sid ref t w' hp))"

lemma wallet_runI:
  "\<forall>p \<in> set hi. is_invoice (fst p) \<Longrightarrow>
   \<exists>q s b i a. (q, Some (Http (Response s b (Some (InvoiceJson i ref a))))) \<in> set hi \<Longrightarrow>
   pay_run env key ev sid ref t w' hp \<Longrightarrow> wallet_run env key ev w' (hi @ hp)"
  unfolding wallet_run_def by blast

lemma createInvoice_reply:
  "always (createInvoice env c a m) w (\<lambda>x w' h. w' = w \<and> (\<forall>p \<in> set h. is_invoice (fst p)) \<and> h \<noteq> [] \<and>
     (\<forall>sid ref amt. x = Done (sid, ref, amt) \<longrightarrow>
        (\<exists>q s b i a. last h = (q, Some (Http (Response s b (Some (InvoiceJson i ref a))))))))"
  by (auto simp: createInvoice_def Let_def part_rules is_invoice_def invoice_json_def
      split: option.splits prod.splits json_body.splits)

lemma pay_run_loading [simp]:
  "pay_run env key ev sid ref t (w\<lparr>loadingPay := b\<rparr>) h = pay_run env key ev sid ref t w h"
  by (simp add: pay_run_def confirm_run_def paid_reply_def)

lemma wallet_run_loading [simp]:
  "wallet_run env key ev (w\<lparr>loadingPay := b\<rparr>) h = wallet_run env key ev w h"
  by (simp add: wallet_run_def)

lemma startWalletPayment_always:
  assumes "publicKey c = Some key" "eventData c = Some ev"
  shows "always (startWalletPayment env c) w (\<lambda>x w' h. wallet_run env key ev w' h)"
  unfolding startWalletPayment_def assms option.case prod.case always.simps always_finally always_attempt
proof (rule always_mono [OF createInvoice_reply], goal_cases)
  case (1 x w1 h)
  show ?case
  proof (cases x)
    case (Done created)
    obtain sid ref a where c: "created = (sid, ref, a)" by (cases created)
    with 1 Done have "\<exists>q s b i a. (q, Some (Http (Response s b (Some (InvoiceJson i ref a))))) \<in> set h"
      by (metis last_in_set)
    with 1 have "always (payCreated env key ev sid ref) w1
        (\<lambda>x2 w2 h2. wallet_run env key ev w2 (h @ h2))"
      by (intro always_mono [OF payCreated_always] wallet_runI) auto
    then have "always (payCreated env key ev sid ref) w1
        (\<lambda>x2 w2 h2. case x2 of Blocked \<Rightarrow> wallet_run env key ev w2 (h @ h2)
           | _ \<Rightarrow> wallet_run env key ev (w2\<lparr>loadingPay := False\<rparr>) (h @ h2))"
      by (rule always_mono) (simp split: outcome.split)
    then show ?thesis using Done c by (simp cong: outcome.case_cong)
  next
    case (Failed e)
    have "wallet_run env key ev w' h" for w' using 1 by (auto simp: wallet_run_def)
    then show ?thesis using Failed by (simp add: walletFailed_def)
  next
    case Blocked
    have "wallet_run env key ev w' h" for w' using 1 by (auto simp: wallet_run_def)
    then show ?thesis using Blocked by simp
  qed
qed

lemma wallet_history:
  "wallet_run env key ev (final (startWalletPayment env c) w rs) (history (startWalletPayment env c) w rs)"
  if "publicKey c = Some key" "eventData c = Some ev"
  using always_run [OF startWalletPayment_always [OF that, of env w], of rs] .

lemma no_wallet:
  "publicKey c = None \<or> eventData c = None \<Longrightarrow> history (startWalletPayment env c) w rs = []"
  by (auto simp: startWalletPayment_def split: option.split)

lemma wallet_history_cases:
  assumes "p \<in> set (history (startWalletPayment env c) w rs)"
  obtains key ev where "publicKey c = Some key" "eventData c = Some ev"
    "wallet_run env key ev (final (startWalletPayment env c) w rs) (history (startWalletPayment env c) w rs)"
  using assms no_wallet [of c env w rs] wallet_history [of c _ _ env w rs]
  by (cases "publicKey c"; cases "eventData c") auto

text \<open>The three shapes of a run that goes beyond the invoice.\<close>

lemma wallet_run_cases [consumes 3]:
  assumes "p \<in> set h" "\<not> is_invoice (fst p)" "wallet_run env key ev w' h"
  obtains (cancelled) hi sid ref hc where "h = hi @ hc" "\<forall>p \<in> set hi. is_invoice (fst p)" "cancels sid ref hc"
  | (unsigned) hi sid ref tx r hc where "h = hi @ (SendTransaction tx, r) # hc"
      "\<forall>p \<in> set hi. is_invoice (fst p)" "unsigned r" "cancels sid ref hc" "transfer_for env key ev ref tx"
      "\<exists>q s b i a. (q, Some (Http (Response s b (Some (InvoiceJson i ref a))))) \<in> set hi"
  | (signed) hi sid ref tx g t hf hc where "h = hi @ (SendTransaction tx, Some (Signed g)) # hf @ hc"
      "\<forall>p \<in> set hi. is_invoice (fst p)" "confirms sid ref g hf" "cancels sid ref hc"
      "transfer_for env key ev ref tx"
      "truthy g \<Longrightarrow> hc = [] \<and> (pending w' = kept_session sid ref g t \<or> paid_reply sid ref g w' hf)"
      "\<exists>q s b i a. (q, Some (Http (Response s b (Some (InvoiceJson i ref a))))) \<in> set hi"
proof -
  obtain hi hp sid ref t where h: "h = hi @ hp" "\<forall>p \<in> set hi. is_invoice (fst p)" and
    hp: "hp = [] \<or> (\<exists>q s b i a. (q, Some (Http (Response s b (Some (InvoiceJson i ref a))))) \<in> set hi)
      \<and> pay_run env key ev sid ref t w' hp"
    using assms(3) unfolding wallet_run_def by (elim exE conjE) (rule that)
  have "hp \<noteq> []" using h assms(1,2) by auto
  with hp have i: "\<exists>q s b i a. (q, Some (Http (Response s b (Some (InvoiceJson i ref a))))) \<in> set hi"
    and pr: "pay_run env key ev sid ref t w' hp" by (simp_all only: simp_thms)
  from pr consider "cancels sid ref hp"
    | tx r hc where "transfer_for env key ev ref tx" "unsigned r" "cancels sid ref hc"
        "hp = (SendTransaction tx, r) # hc"
    | tx g hs where "transfer_for env key ev ref tx" "confirm_run sid ref g (kept_session sid ref g t) w' hs"
        "hp = (SendTransaction tx, Some (Signed g)) # hs"
    unfolding pay_run_def by blast
  then show ?thesis
  proof cases
    case 1
    from cancelled [OF h this] show ?thesis .
  next
    case 2
    show ?thesis by (rule unsigned [OF _ h(2) 2(2,3,1) i]) (simp add: h(1) 2(4))
  next
    case 3
    then obtain hf hc where f: "hs = hf @ hc" "confirms sid ref g hf" "cancels sid ref hc"
      "truthy g \<Longrightarrow> hc = [] \<and> (pending w' = kept_session sid ref g t \<or> paid_reply sid ref g w' hf)"
      unfolding confirm_run_def by blast
    show ?thesis
      by (rule signed [OF _ h(2) f(2,3) 3(1) f(4) i]) (simp_all add: h(1) 3(3) f(1))
  qed
qed

lemmas shape_defs = confirms_def cancels_def cancel_request_def submit_request_def

lemma is_invoice_simps [simp]:
  "is_invoice (PostSession k b)" "is_invoice (PostInvoice b)"
  "\<not> is_invoice (SendTransaction tx)" "\<not> is_invoice (ConfirmTransaction g)"
  "\<not> is_invoice (SubmitSignature i g)" "\<not> is_invoice (PostConfirm x g)"
  "\<not> is_invoice (CancelSession i)" "\<not> is_invoice (PostCancel x)"
  by (simp_all add: is_invoice_def)

section \<open>A concrete payment, for evaluation\<close>

definition demo_event :: event_data where
  "demo_event = \<lparr>ev_slug = ''meetup'', ev_title = ''Meetup'', ev_description = [], ev_eventImageUrl = [],
     ev_eventDate = [], ev_checkoutExpiresAt = [], ev_location = [], ev_organizerName = [],
     ev_merchantWallet = ''HostHostHostHostHostHostHostHostHost'', ev_amountUsdc = ''2.00'',
     ev_amountRaw = 2000000, ev_network = ''devnet'',
     ev_participantForm = [\<lparr>field_name = ''Email'', required = True\<rparr>],
     ev_paymentMethodWallet = True, ev_paymentMethodQr = True\<rparr>"

definition demo_env :: "(jstr, demo_ix) env" where
  "demo_env = \<lparr>slug = ''meetup'', origin = ''https://payknot.example'', env_mint = [],
     browser_zone = fixed_zone 420, spl_lib = demo_spl, usdc_mint = default_mint\<rparr>"

definition demo_page :: "jstr checkout" where
  "demo_page = (initial_checkout None 1000)\<lparr>eventData := Some demo_event, loadingEvent := False,
     publicKey := Some ''payer'', step := 2, sessionMethod := Some Wallet\<rparr>"

definition demo_receipt :: checkout_status where
  "demo_receipt = \<lparr>cs_reference = ''ref1'', cs_status = ''paid'', cs_signature = ''sig1'',
     cs_network = ''devnet'', cs_solscanUrl = [], cs_paymentMethod = Some Wallet, cs_participantData = None\<rparr>"

text \<open>The replies of a payment that succeeds, up to the confirmation and to its end.\<close>

definition demo_signed :: "reply list" where
  "demo_signed = [Http (Response 200 [] (Some (InvoiceJson ''s1'' ''ref1'' 2000000))), Signed ''sig1'']"

definition demo_paid :: "reply list" where
  "demo_paid = demo_signed @ [Confirmed False, Http (Response 200 [] (Some (StatusJson demo_receipt)))]"

definition demo_tx :: "demo_ix list" where
  "demo_tx = [CreateAta ''payer'' (default_mint @ ''/'' @ ev_merchantWallet demo_event) (ev_merchantWallet demo_event) default_mint,
     Transfer (default_mint @ ''/payer'') (default_mint @ ''/'' @ ev_merchantWallet demo_event) ''payer'' (Fin 2000000),
     Instruction [(''payer'', True, True)] ''ref1'' memo_program]"

lemma demo_transfer:
  "new_PublicKey demo_spl (ev_merchantWallet demo_event) = Inr (ev_merchantWallet demo_event)"
  "createUsdcTransfer demo_spl default_mint ''payer'' (ev_merchantWallet demo_event) (js_Number ''2.00'') ''ref1'' = Inr demo_tx"
proof -
  show "new_PublicKey demo_spl (ev_merchantWallet demo_event) = Inr (ev_merchantWallet demo_event)"
    by (simp add: demo_spl_def demo_event_def)
  have "show_nat 2 @ ''.00'' = ''2.00''" by code_simp
  then have "js_Number ''2.00'' = Fin 2" using js_Number_amount [of 2] to_double_nat [of 2] by simp
  moreover have "raw_amount (Fin 2) = Fin 2000000" using raw_amount_nat [of 2] by simp
  moreover have "utf8 ''ref1'' = ''ref1''" by (rule utf8_ascii) simp
  ultimately show "createUsdcTransfer demo_spl default_mint ''payer'' (ev_merchantWallet demo_event) (js_Number ''2.00'') ''ref1'' = Inr demo_tx"
    by (simp add: createUsdcTransfer_def demo_spl_def demo_tx_def memo_program_def)
qed

lemma demo_fields [simp]:
  "ev_merchantWallet demo_event = ''HostHostHostHostHostHostHostHostHost''"
  "ev_amountUsdc demo_event = ''2.00''" "ev_network demo_event = ''devnet''"
  "slug demo_env = ''meetup''" "spl_lib demo_env = demo_spl" "usdc_mint demo_env = default_mint"
  "toBase58 demo_spl k = k" "browser_zone demo_env = fixed_zone 420" "origin demo_env = ''https://payknot.example''"
  "env_mint demo_env = []"
  by (simp_all add: demo_event_def demo_env_def demo_spl_def)

lemmas demo_run = startWalletPayment_def createInvoice_def payCreated_def signTransfer_def
  confirmPayment_def walletFailed_def demo_paid_def demo_signed_def
  prog_simps Let_def await_http_def await_sign_def await_confirmed_def require_ok_def json_as_def
  res_json_def http_ok_def invoice_json_def status_json_def method_text_def
  demo_transfer [simplified demo_fields]

lemma demo_history:
  "history (startWalletPayment demo_env demo_page) demo_page demo_paid =
    [(PostSession ''meetup-wallet-1000'' \<lparr>ib_slug = ''meetup'', ib_walletAddress = ''payer'',
        ib_participantData = [], ib_paymentMethod = Wallet\<rparr>,
      Some (Http (Response 200 [] (Some (InvoiceJson ''s1'' ''ref1'' 2000000))))),
     (SendTransaction demo_tx, Some (Signed ''sig1'')),
     (ConfirmTransaction ''sig1'', Some (Confirmed False)),
     (SubmitSignature ''s1'' ''sig1'', Some (Http (Response 200 [] (Some (StatusJson demo_receipt)))))]"
proof -
  have "show_int 1000 = ''1000''" by code_simp
  then show ?thesis
    by (simp add: demo_run demo_page_def initial_checkout_def)
qed

lemma demo_result: "result (startWalletPayment demo_env demo_page) demo_page demo_paid = Done ()"
  by (simp add: demo_run demo_page_def initial_checkout_def)

section \<open>Properties\<close>

definition submits :: "jstr \<Rightarrow> 'i request \<Rightarrow> bool" where
  "submits g q \<longleftrightarrow> (case q of SubmitSignature s g' \<Rightarrow> g' = g | PostConfirm r g' \<Rightarrow> g' = g | _ \<Rightarrow> False)"

lemma submits_not_invoice: "submits g q \<Longrightarrow> \<not> is_invoice q"
  by (simp add: submits_def is_invoice_def split: request.splits)

lemma send_not_invoice: "\<not> is_invoice (fst (SendTransaction tx, r))"
  by simp

lemma not_in_invoices:
  "\<forall>p \<in> set hi. is_invoice (fst p) \<Longrightarrow> \<not> is_invoice q \<Longrightarrow> (q, r) \<notin> set hi"
  by force

text \<open>
  A signature goes to the server only after the wallet returned that signature and the
  chain confirmed the transaction without an error, directly before.
\<close>

theorem wallet_submits_confirmed:
  assumes "(q, r) \<in> set (history (startWalletPayment env c) w rs)" and "submits g q"
  shows "\<exists>h1 tx h2. history (startWalletPayment env c) w rs =
     h1 @ [(SendTransaction tx, Some (Signed g)), (ConfirmTransaction g, Some (Confirmed False)), (q, r)] @ h2"
proof -
  let ?h = "history (startWalletPayment env c) w rs"
  have q: "\<not> is_invoice q" using assms(2) by (rule submits_not_invoice)
  obtain key ev where run: "wallet_run env key ev (final (startWalletPayment env c) w rs) ?h"
    using wallet_history_cases [OF assms(1)] by blast
  have "\<not> is_invoice (fst (q, r))" using q by simp
  from assms(1) this run show ?thesis
  proof (cases rule: wallet_run_cases)
    case (cancelled hi sid ref hc)
    then show ?thesis using assms not_in_invoices [OF cancelled(2) q]
      by (auto simp: shape_defs submits_def split: if_splits)
  next
    case (unsigned hi sid ref tx r' hc)
    then show ?thesis using assms not_in_invoices [OF unsigned(2) q]
      by (auto simp: shape_defs submits_def split: if_splits)
  next
    case (signed hi sid ref tx g' t hf hc)
    then have "(q, r) \<in> set hf" and hf: "confirms sid ref g' hf"
      using assms not_in_invoices [OF signed(2) q]
      by (auto simp: cancels_def cancel_request_def submits_def split: if_splits)
    then have "hf = [(ConfirmTransaction g', Some (Confirmed False)), (q, r)]" "g' = g"
      using assms(2) by (auto simp: confirms_def submit_request_def submits_def split: if_splits)
    then show ?thesis using signed(1) by auto
  qed
qed

theorem wallet_submits_confirmed_witness:
  "\<exists>h1 tx h2. history (startWalletPayment demo_env demo_page) demo_page demo_paid =
     h1 @ [(SendTransaction tx, Some (Signed ''sig1'')), (ConfirmTransaction ''sig1'', Some (Confirmed False)),
       (SubmitSignature ''s1'' ''sig1'', Some (Http (Response 200 [] (Some (StatusJson demo_receipt)))))] @ h2"
  by (rule wallet_submits_confirmed) (simp_all add: demo_history submits_def)

text \<open>
  The page cancels the session of a wallet payment only when the wallet has returned no
  (non-empty) signature: a payment that may be on the chain is never cancelled.
\<close>

theorem wallet_cancels_only_unsigned:
  assumes "(SendTransaction tx, Some (Signed g)) \<in> set (history (startWalletPayment env c) w rs)"
    and "g \<noteq> []"
  shows "(CancelSession sid, r) \<notin> set (history (startWalletPayment env c) w rs)
     \<and> (PostCancel ref, r) \<notin> set (history (startWalletPayment env c) w rs)"
proof -
  let ?h = "history (startWalletPayment env c) w rs"
  obtain key ev where run: "wallet_run env key ev (final (startWalletPayment env c) w rs) ?h"
    using wallet_history_cases [OF assms(1)] by blast
  from assms(1) send_not_invoice run show ?thesis
  proof (cases rule: wallet_run_cases)
    case (cancelled hi sid' ref' hc)
    then show ?thesis using assms(1) not_in_invoices [OF cancelled(2), of "SendTransaction tx"]
      by (auto simp: shape_defs split: if_splits)
  next
    case (unsigned hi sid' ref' tx' r' hc)
    then show ?thesis using assms(1) not_in_invoices [OF unsigned(2), of "SendTransaction tx"]
      by (auto simp: shape_defs split: if_splits)
  next
    case (signed hi sid' ref' tx' g' t hf hc)
    note n = not_in_invoices [OF signed(2)]
    have "g' = g" using assms(1) n signed(1,3,4) by (auto simp: shape_defs split: if_splits)
    then have "hc = []" using signed(6) assms(2) by (simp add: truthy_def)
    then show ?thesis using n signed(1,3) by (auto simp: shape_defs split: if_splits)
  qed
qed

theorem wallet_cancels_only_unsigned_witness:
  "(CancelSession ''s1'', None) \<notin> set (history (startWalletPayment demo_env demo_page) demo_page demo_paid)"
  using wallet_cancels_only_unsigned [of demo_tx "''sig1''" demo_env demo_page demo_page demo_paid]
  by (simp add: demo_history)

definition is_send :: "'i request \<Rightarrow> bool" where
  "is_send q \<longleftrightarrow> (case q of SendTransaction t \<Rightarrow> True | _ \<Rightarrow> False)"

lemma no_send_invoices: "\<forall>p \<in> set hi. is_invoice (fst p) \<Longrightarrow> filter is_send (map fst hi) = []"
  by (induction hi) (auto simp: is_send_def is_invoice_def split: request.splits)

lemma no_send_rest:
  "confirms sid ref g hf \<Longrightarrow> filter is_send (map fst hf) = []"
  "cancels sid ref hc \<Longrightarrow> filter is_send (map fst hc) = []"
  by (auto simp: shape_defs is_send_def split: if_splits)

text \<open>
  One click asks the wallet for at most one transaction, and that one is the transfer of the
  event's price to the event's wallet, with the reference that the server gave as memo.
\<close>

theorem wallet_signs_once:
  assumes "(SendTransaction tx, r) \<in> set (history (startWalletPayment env c) w rs)"
  shows "length (filter is_send (requests (startWalletPayment env c) w rs)) = 1
    \<and> (\<exists>key ev recipient ref q s b i a. publicKey c = Some key \<and> eventData c = Some ev
        \<and> new_PublicKey (spl_lib env) (ev_merchantWallet ev) = Inr recipient
        \<and> createUsdcTransfer (spl_lib env) (usdc_mint env) key recipient (js_Number (ev_amountUsdc ev)) ref = Inr tx
        \<and> (q, Some (Http (Response s b (Some (InvoiceJson i ref a)))))
            \<in> set (history (startWalletPayment env c) w rs))"
proof -
  let ?h = "history (startWalletPayment env c) w rs"
  obtain key ev where k: "publicKey c = Some key" "eventData c = Some ev" and
    "wallet_run env key ev (final (startWalletPayment env c) w rs) ?h"
    using wallet_history_cases [OF assms] by blast
  from assms send_not_invoice this(3) show ?thesis
  proof (cases rule: wallet_run_cases)
    case (cancelled hi sid ref hc)
    then show ?thesis using assms not_in_invoices [OF cancelled(2), of "SendTransaction tx"]
      by (auto simp: shape_defs split: if_splits)
  next
    case (unsigned hi sid ref tx' r' hc)
    then have "tx' = tx" using assms not_in_invoices [OF unsigned(2), of "SendTransaction tx"]
      by (auto simp: shape_defs split: if_splits)
    moreover have "length (filter is_send (map fst ?h)) = 1"
      using unsigned(1) no_send_invoices [OF unsigned(2)] no_send_rest(2) [OF unsigned(4)] by (simp add: is_send_def)
    moreover have "set hi \<subseteq> set ?h" using unsigned(1) by auto
    ultimately show ?thesis using unsigned(5,6) k unfolding requests_history transfer_for_def by blast
  next
    case (signed hi sid ref tx' g t hf hc)
    then have "tx' = tx" using assms not_in_invoices [OF signed(2), of "SendTransaction tx"]
      by (auto simp: shape_defs split: if_splits)
    moreover have "length (filter is_send (map fst ?h)) = 1"
      using signed(1) no_send_invoices [OF signed(2)] no_send_rest(1) [OF signed(3)] no_send_rest(2) [OF signed(4)]
      by (simp add: is_send_def)
    moreover have "set hi \<subseteq> set ?h" using signed(1) by auto
    ultimately show ?thesis using signed(5,7) k unfolding requests_history transfer_for_def by blast
  qed
qed

theorem wallet_signs_once_witness:
  "length (filter is_send (requests (startWalletPayment demo_env demo_page) demo_page demo_paid)) = 1"
  using wallet_signs_once [of demo_tx "Some (Signed ''sig1'')" demo_env demo_page demo_page demo_paid]
  by (simp add: demo_history)



text \<open>
  However a wallet or QR payment ends, by success, by an error or by an error while it cancels,
  the page is not left busy: \<open>loadingPay\<close> is false.
\<close>

theorem payment_not_left_busy:
  assumes "p = startWalletPayment env c \<or> p = startQrSession env c blocked"
    and "result p w rs \<noteq> Blocked" and "\<not> loadingPay w"
  shows "\<not> loadingPay (final p w rs)"
proof -
  have "p = Ret () \<or> (\<exists>q u. p = Upd u (finally_do q (\<lambda>w. w\<lparr>loadingPay := False\<rparr>)))"
    using assms(1) by (cases "publicKey c"; cases "eventData c")
      (auto simp: startWalletPayment_def startQrSession_def)
  then show ?thesis
  proof (elim disjE exE)
    assume "p = Ret ()"
    then show ?thesis using assms(3) by simp
  next
    fix q u
    assume p: "p = Upd u (finally_do q (\<lambda>w. w\<lparr>loadingPay := False\<rparr>))"
    show ?thesis
      using finally_final [of q "\<lambda>w. w\<lparr>loadingPay := False\<rparr>" "u w" rs] assms(2) unfolding p by auto
  qed
qed

theorem payment_not_left_busy_witness:
  "\<not> loadingPay (final (startWalletPayment demo_env demo_page) demo_page demo_paid)"
proof (rule payment_not_left_busy)
  show "startWalletPayment demo_env demo_page = startWalletPayment demo_env demo_page
      \<or> startWalletPayment demo_env demo_page = startQrSession demo_env demo_page True" by simp
  show "result (startWalletPayment demo_env demo_page) demo_page demo_paid \<noteq> Blocked"
    by (simp add: demo_result)
  show "\<not> loadingPay demo_page" by (simp add: demo_page_def initial_checkout_def)
qed

end
