(* ===== verification/Checkout_Page.thy ===== *)
theory Checkout_Page
  imports Checkout_Payment
begin

text \<open>
  The checkout page as a whole: which controls a render offers, which handler each runs, and what
  holds in every state the page can reach, with any number of handlers running at once and
  replies in any order.
\<close>

section \<open>What a render offers\<close>

definition rendered :: "'k checkout \<Rightarrow> bool" where
  "rendered w \<longleftrightarrow> \<not> loadingEvent w \<and> eventData w \<noteq> None"

definition step1_shown :: "'k checkout \<Rightarrow> bool" where
  "step1_shown w \<longleftrightarrow> rendered w \<and> \<not> isCheckoutExpired w \<and> step w = 0"

definition step2_shown :: "'k checkout \<Rightarrow> bool" where
  "step2_shown w \<longleftrightarrow> rendered w \<and> \<not> isCheckoutExpired w \<and> step w = 1"

definition step3_shown :: "'k checkout \<Rightarrow> bool" where
  "step3_shown w \<longleftrightarrow> rendered w \<and> (step w = 2 \<or> isCheckoutExpired w)"

definition time_over :: "'k checkout \<Rightarrow> bool" where
  "time_over w \<longleftrightarrow> (case timeLeft w of Some t \<Rightarrow> t \<le> 0 | None \<Rightarrow> False)"

definition deposit_enabled :: "'k checkout \<Rightarrow> bool" where
  "deposit_enabled w \<longleftrightarrow> step3_shown w \<and> \<not> isCheckoutExpired w \<and> chosenMethod w = Wallet \<and>
     \<not> (isPaid w \<or> loadingPay w \<or> publicKey w = None \<or> time_over w)"

definition refresh_shown :: "'k checkout \<Rightarrow> bool" where
  "refresh_shown w \<longleftrightarrow> step3_shown w \<and> \<not> isCheckoutExpired w \<and> chosenMethod w = Wallet \<and>
     truthy (reference w) \<and> timeLeft w \<noteq> None \<and> \<not> isPaid w \<and> time_over w"

definition qr_enabled :: "'k checkout \<Rightarrow> bool" where
  "qr_enabled w \<longleftrightarrow> step3_shown w \<and> \<not> isCheckoutExpired w \<and> chosenMethod w \<noteq> Wallet \<and> \<not> loadingPay w"

definition back3_shown :: "'k checkout \<Rightarrow> bool" where
  "back3_shown w \<longleftrightarrow> step3_shown w \<and> \<not> isCheckoutExpired w \<and> \<not> isPaid w"

definition timer_runs :: "'k checkout \<Rightarrow> bool" where
  "timer_runs w \<longleftrightarrow> sessionMethod w = Some Wallet \<and> truthy (reference w) \<and>
     (case timeLeft w of Some t \<Rightarrow> 0 < t | None \<Rightarrow> False)"

section \<open>Events\<close>

datatype 'k event =
    MountLoad
  | MountRestore
  | Second                                   \<comment> \<open>the interval of the countdown\<close>
  | ClockAdvances nat
  | WalletChanges "'k option"
  | Message "checkout_status option option"
  | BeforeUnload
  | PageHide
  | RunTimer timer
  | TypeLookup jstr
  | ClickLookup
  | TypeField jstr jstr
  | ClickContinue1
  | SelectMethod payment_method
  | ClickBack2
  | ClickContinue2
  | ClickDeposit
  | ClickRefresh
  | ClickQr bool
  | ClickBack3 bool
  | ToggleSignature

text \<open>The effects of the first render may run until the event is loaded.\<close>

fun enabled :: "'k event \<Rightarrow> 'k checkout \<Rightarrow> bool" where
  "enabled MountLoad w = (loadingEvent w \<and> eventData w = None)"
| "enabled MountRestore w = (loadingEvent w \<and> eventData w = None)"
| "enabled Second w = timer_runs w"
| "enabled (RunTimer t) w = (t \<in> set (timers w))"
| "enabled (TypeLookup v) w = rendered w"
| "enabled ClickLookup w = (rendered w \<and> \<not> checkingLookup w)"
| "enabled (TypeField n v) w = (step1_shown w \<and> (case eventData w of
       Some ev \<Rightarrow> n \<in> set (map field_name (ev_participantForm ev)) | None \<Rightarrow> False))"
| "enabled ClickContinue1 w = step1_shown w"
| "enabled (SelectMethod m) w = (step2_shown w \<and> m \<in> set (map snd (availableMethods (eventData w))))"
| "enabled ClickBack2 w = step2_shown w"
| "enabled ClickContinue2 w = step2_shown w"
| "enabled ClickDeposit w = deposit_enabled w"
| "enabled ClickRefresh w = refresh_shown w"
| "enabled (ClickQr b) w = qr_enabled w"
| "enabled (ClickBack3 ok) w = back3_shown w"
| "enabled ToggleSignature w = (step3_shown w \<and>
     (case statusData w of Some d \<Rightarrow> truthy (cs_signature d) | None \<Rightarrow> False))"
| "enabled _ w = True"

fun handler :: "('k, 'i) env \<Rightarrow> 'k event \<Rightarrow> 'k checkout \<Rightarrow> ('k, 'i, unit) page_prog" where
  "handler env MountLoad c = loadEvent env"
| "handler env MountRestore c = restorePending c"
| "handler env Second c = tickTimeLeft"
| "handler env (ClockAdvances n) c = Upd (\<lambda>w. w\<lparr>now := now w + int n\<rparr>) (Ret ())"
| "handler env (WalletChanges k) c = Upd (\<lambda>w. w\<lparr>publicKey := k\<rparr>) (Ret ())"
| "handler env (Message d) c = onMessage d"
| "handler env BeforeUnload c = bind (onBeforeUnload c) (\<lambda>_. Ret ())"
| "handler env PageHide c = onPageHide c"
| "handler env (RunTimer t) c = runTimer t"
| "handler env (TypeLookup v) c = Upd (\<lambda>w. w\<lparr>lookupEmail := v\<rparr>) (Ret ())"
| "handler env ClickLookup c = lookupClick env c"
| "handler env (TypeField n v) c = editField n v"
| "handler env ClickContinue1 c = continueStep1 env c"
| "handler env (SelectMethod m) c = selectMethod m"
| "handler env ClickBack2 c = Upd (\<lambda>w. w\<lparr>step := 0\<rparr>) (Ret ())"
| "handler env ClickContinue2 c = continueStep2 c"
| "handler env ClickDeposit c = startWalletPayment env c"
| "handler env ClickRefresh c = startWalletPayment env c"
| "handler env (ClickQr b) c = startQrSession env c b"
| "handler env (ClickBack3 ok) c = backStep3 c ok"
| "handler env ToggleSignature c = Upd (\<lambda>w. w\<lparr>showFullSignature := \<not> showFullSignature w\<rparr>) (Ret ())"

section \<open>Replies\<close>

text \<open>What each promise can give: the JSON of a reply is of the type the code casts it to.\<close>

fun fits :: "'i request \<Rightarrow> reply \<Rightarrow> bool" where
  "fits (GetEvent s) (Http (Response n t (Some b))) = (event_json b \<noteq> None)"
| "fits (GetStatus s) (Http (Response n t (Some b))) = (status_json b \<noteq> None)"
| "fits (PostSession k x) (Http (Response n t (Some b))) = (invoice_json b \<noteq> None)"
| "fits (PostInvoice x) (Http (Response n t (Some b))) = (invoice_json b \<noteq> None)"
| "fits (PostParticipantStatus s e) (Http (Response n t (Some b))) = (status_json b \<noteq> None)"
| "fits (SubmitSignature s g) (Http (Response n t (Some b))) = (status_json b \<noteq> None)"
| "fits (PostConfirm x g) (Http (Response n t (Some b))) = (status_json b \<noteq> None)"
| "fits (SendTransaction tx) (Http h) = False"
| "fits (ConfirmTransaction g) (Http h) = False"
| "fits q (Http h) = True"
| "fits (SendTransaction tx) (Signed g) = True"
| "fits q (Signed g) = False"
| "fits (ConfirmTransaction g) (Confirmed b) = True"
| "fits q (Confirmed b) = False"
| "fits (SendTransaction tx) (Refused e) = True"
| "fits (ConfirmTransaction g) (Refused e) = True"
| "fits q (Refused e) = False"

section \<open>The invariant\<close>

definition fresh_until :: "int \<Rightarrow> stored_text option \<Rightarrow> bool" where
  "fresh_until t st \<longleftrightarrow> (case st of Some (SessionText p) \<Rightarrow> pe_expiresAt p \<le> t + 600000 | _ \<Rightarrow> True)"

definition page_inv :: "'k checkout \<Rightarrow> bool" where
  "page_inv w \<longleftrightarrow> step w \<le> 2 \<and> (case timeLeft w of Some t \<Rightarrow> 0 \<le> t \<and> t \<le> 600 | None \<Rightarrow> True)
     \<and> fresh_until (now w) (pending w) \<and> (isCheckoutExpired w \<longrightarrow> eventData w \<noteq> None)
     \<and> wf_obj (participantData w) \<and> messages_obj (participantErrors w)"

text \<open>A page opens with what an earlier visit stored; the clock does not run backwards.\<close>

definition page_start :: "'k checkout \<Rightarrow> bool" where
  "page_start w \<longleftrightarrow> (\<exists>st t. w = initial_checkout st t \<and> fresh_until t st)"

lemma fresh_None [simp]: "fresh_until t None"
  by (simp add: fresh_until_def)

text \<open>The cells that the invariant is not about, and the updates of the others.\<close>

lemma inv_other [simp]:
  "page_inv (w\<lparr>paymentMethod := x1\<rparr>) = page_inv w"
  "page_inv (w\<lparr>sessionMethod := x2\<rparr>) = page_inv w"
  "page_inv (w\<lparr>loadingEvent := x3\<rparr>) = page_inv w"
  "page_inv (w\<lparr>loadingPay := x4\<rparr>) = page_inv w"
  "page_inv (w\<lparr>checkingLookup := x5\<rparr>) = page_inv w"
  "page_inv (w\<lparr>lookupEmail := x6\<rparr>) = page_inv w"
  "page_inv (w\<lparr>lookupError := x7\<rparr>) = page_inv w"
  "page_inv (w\<lparr>highlightLookup := x8\<rparr>) = page_inv w"
  "page_inv (w\<lparr>highlightStep3 := x9\<rparr>) = page_inv w"
  "page_inv (w\<lparr>activeSessionId := x10\<rparr>) = page_inv w"
  "page_inv (w\<lparr>reference := x11\<rparr>) = page_inv w"
  "page_inv (w\<lparr>statusData := x12\<rparr>) = page_inv w"
  "page_inv (w\<lparr>showFullSignature := x13\<rparr>) = page_inv w"
  "page_inv (w\<lparr>page_error := x15\<rparr>) = page_inv w"
  "page_inv (w\<lparr>publicKey := x16\<rparr>) = page_inv w"
  "page_inv (w\<lparr>popupRef := x17\<rparr>) = page_inv w"
  "page_inv (w\<lparr>beacons := x18\<rparr>) = page_inv w"
  "page_inv (w\<lparr>timers := x19\<rparr>) = page_inv w"
  by (simp_all add: page_inv_def)

lemma inv_updates:
  "page_inv w \<Longrightarrow> n \<le> 2 \<Longrightarrow> page_inv (w\<lparr>step := n\<rparr>)"
  "page_inv w \<Longrightarrow> 0 \<le> t \<Longrightarrow> t \<le> 600 \<Longrightarrow> page_inv (w\<lparr>timeLeft := Some t\<rparr>)"
  "page_inv w \<Longrightarrow> page_inv (w\<lparr>timeLeft := None\<rparr>)"
  "page_inv w \<Longrightarrow> page_inv (w\<lparr>pending := None\<rparr>)"
  "page_inv w \<Longrightarrow> page_inv (w\<lparr>eventData := Some ev, isCheckoutExpired := b\<rparr>)"
  "page_inv w \<Longrightarrow> page_inv (w\<lparr>now := now w + int n\<rparr>)"
  "page_inv w \<Longrightarrow> wf_obj ob \<Longrightarrow> page_inv (w\<lparr>participantData := ob\<rparr>)"
  "page_inv w \<Longrightarrow> messages_obj ob \<Longrightarrow> page_inv (w\<lparr>participantErrors := ob\<rparr>)"
  by (auto simp: page_inv_def fresh_until_def split: option.splits stored_text.splits)

lemma inv_clear: "page_inv w \<Longrightarrow> page_inv (clearPending w)"
  by (simp add: page_inv_def clearPending_def)

lemma inv_hydrate: "page_inv w \<Longrightarrow> page_inv (hydrateStatus d w)"
  by (cases "cs_paymentMethod d") (simp_all add: page_inv_def hydrateStatus_def clearPending_def Let_def)

lemma inv_persist: "page_inv w \<Longrightarrow> page_inv (persistPending ref m g sid w)"
  by (auto simp: page_inv_def persistPending_def fresh_until_def)

lemma keeps_awaits [inv_rules]:
  "keeps R I (await_http q)" "keeps R I (await_sign q)" "keeps R I (await_confirmed q)"
  "keeps R I (json_as sel r)"
  by (simp_all add: await_http_def await_sign_def await_confirmed_def json_as_def res_json_def
      split: reply.split http.split option.split)

lemmas keep_rules = keeps_bind keeps_attempt keeps_catch keeps_finally keeps_require_ok keeps_awaits
  inv_clear inv_hydrate inv_persist inv_updates

lemma keeps_load: "keeps R page_inv (loadEvent env)"
  unfolding loadEvent_def by (auto intro!: keep_rules)

lemma keeps_refresh: "keeps R page_inv (refreshStatus c ref)"
  unfolding refreshStatus_def Let_def by (auto intro!: keep_rules)

lemma inv_restored:
  assumes "page_inv w" "pending w = Some (SessionText p)" "\<not> pe_expiresAt p \<le> now w" "page_inv v"
  shows "page_inv (v\<lparr>timeLeft := Some ((pe_expiresAt p - now w) div 1000)\<rparr>)"
  by (rule inv_updates(2) [OF assms(4)]) (use assms(1-3) in \<open>auto simp: page_inv_def fresh_until_def\<close>)

lemma keeps_restore: "keeps R page_inv (restorePending c)"
  unfolding restorePending_def
  by (auto intro!: inv_restored inv_updates(1,3,4) keeps_refresh split: option.split stored_text.split)

lemma keeps_create: "keeps R page_inv (createInvoice env c a m)"
  unfolding createInvoice_def Let_def by (auto intro!: keep_rules split: prod.split)

lemma keeps_failed: "keeps R page_inv (walletFailed ref sid g e)"
  unfolding walletFailed_def by (auto intro!: keep_rules)

lemma keeps_sign: "keeps R page_inv (signTransfer env key ev ref)"
  unfolding signTransfer_def by (auto intro!: keep_rules split: sum.split)

lemma keeps_confirm: "keeps R page_inv (confirmPayment sid ref g)"
  unfolding confirmPayment_def by (auto intro!: keep_rules)

lemma keeps_wallet: "keeps R page_inv (startWalletPayment env c)"
  unfolding startWalletPayment_def payCreated_def
  by (auto intro!: keep_rules keeps_create keeps_failed keeps_sign keeps_confirm split: option.split prod.split)

lemma keeps_qr: "keeps R page_inv (startQrSession env c b)"
  unfolding startQrSession_def openQrWindow_def Let_def
  by (auto intro!: keep_rules keeps_create split: option.split prod.split)

lemma step1_messages: "step1_errors pd fs acc = Inr errs \<Longrightarrow> messages_obj acc \<Longrightarrow> messages_obj errs"
  by (induction pd fs acc rule: step1_errors.induct)
    (auto simp: Let_def messages_assign truthy_def split: sum.splits if_splits)

lemma keeps_validate: "keeps R page_inv (validateStep1 c)"
  unfolding validateStep1_def by (auto intro!: inv_updates dest: step1_messages split: option.split sum.split)

lemma page_objects: "page_inv w \<Longrightarrow> wf_obj (participantData w)" "page_inv w \<Longrightarrow> messages_obj (participantErrors w)"
  by (simp_all add: page_inv_def)

lemma keeps_edit: "keeps R page_inv (editField n v)"
  unfolding editField_def
  by (auto intro!: inv_updates wf_define messages_delete dest: page_objects)

lemma keeps_participant: "keeps R page_inv (checkParticipantStatus env e)"
  unfolding checkParticipantStatus_def by (auto intro!: keep_rules)

lemma keeps_continue1: "keeps R page_inv (continueStep1 env c)"
  unfolding continueStep1_def Let_def by (auto intro!: keep_rules keeps_validate keeps_participant split: option.split)

lemma keeps_lookup: "keeps R page_inv (lookupClick env c)"
  unfolding lookupClick_def Let_def by (auto intro!: keep_rules keeps_participant split: option.split)

lemma keeps_cancel: "keeps R page_inv (cancelCurrentSession c)"
  unfolding cancelCurrentSession_def by (auto intro!: keep_rules)

lemma keeps_handler:
  assumes "page_inv w"
  shows "keeps R page_inv (handler env e w)"
proof (cases e)
  case Second
  have "page_inv w \<Longrightarrow> timeLeft w = Some t \<Longrightarrow> 0 \<le> t \<and> t \<le> 600" for w :: "'a checkout" and t
    by (simp add: page_inv_def)
  then show ?thesis by (auto simp: Second tickTimeLeft_def intro!: keep_rules split: option.split) force
next
  case (BeforeUnload)
  then show ?thesis by (auto simp: onBeforeUnload_def intro!: keep_rules)
next
  case (RunTimer t)
  then show ?thesis by (auto simp: runTimer_def split: timer.split)
qed (auto simp: keeps_load keeps_restore keeps_wallet keeps_qr keeps_continue1 keeps_lookup onMessage_def
      onPageHide_def keeps_edit selectMethod_def continueStep2_def backStep3_def
      intro!: keep_rules keeps_cancel split: option.split)

interpretation checkout: page enabled "handler env" fits page_start page_inv for env
proof
  fix w :: "'a checkout"
  assume "page_start w"
  then show "page_inv w" by (auto simp: page_start_def page_inv_def initial_checkout_def)
next
  fix e and w :: "'a checkout"
  assume "page_inv w"
  then show "keeps fits page_inv (handler env e w)" by (rule keeps_handler)
qed

section \<open>A concrete page, for evaluation\<close>

definition demo_stored :: stored_text where
  "demo_stored = SessionText \<lparr>pe_sessionId = ''s0'', pe_reference = ''ref0'', pe_expiresAt = 2000,
     pe_signature = [], pe_method = Some Wallet\<rparr>"

definition demo_start :: "jstr checkout" where
  "demo_start = initial_checkout (Some demo_stored) 1000"

definition demo_invoice :: "jstr \<Rightarrow> reply" where
  "demo_invoice ref = Http (Response 200 [] (Some (InvoiceJson [] ref 2000000)))"

text \<open>The payment of a page with the demo wallet and event, up to its invoice and up to the signature.\<close>

definition demo_transfer_tx :: "jstr \<Rightarrow> demo_ix list" where
  "demo_transfer_tx ref = demo_tx[2 := Instruction [(''payer'', True, True)] (utf8 ref) memo_program]"

lemma demo_transfer_any:
  "createUsdcTransfer demo_spl default_mint ''payer'' (ev_merchantWallet demo_event) (js_Number ''2.00'') ref
     = Inr (demo_transfer_tx ref)"
  using demo_transfer(2)
  by (simp add: createUsdcTransfer_def demo_transfer_tx_def demo_tx_def split: sum.splits)
    (auto simp: demo_spl_def memo_program_def)

lemma demo_deposit:
  assumes "publicKey c = Some ''payer''" "eventData c = Some demo_event"
  shows "snd (advance (startWalletPayment demo_env c) w) = w\<lparr>loadingPay := True, page_error := []\<rparr>"
    and "\<exists>k b. request_of (fst (advance (startWalletPayment demo_env c) w)) = Some (PostSession k b)"
    and "request_of (fst (advance (reply_of (fst (advance (startWalletPayment demo_env c) w)) (demo_invoice ref)) v))
       = Some (SendTransaction (demo_transfer_tx ref))"
  using assms
  by (simp_all add: startWalletPayment_def createInvoice_def payCreated_def signTransfer_def demo_invoice_def
      prog_simps Let_def await_http_def await_sign_def json_as_def res_json_def http_ok_def invoice_json_def
      demo_transfer [simplified demo_fields] demo_transfer_any [simplified demo_fields])

definition demo_ready :: "jstr checkout" where
  "demo_ready = demo_start\<lparr>eventData := Some demo_event, loadingEvent := False, activeSessionId := ''s0'',
     reference := ''ref0'', sessionMethod := Some Wallet, timeLeft := Some 1, step := 2,
     publicKey := Some ''payer''\<rparr>"

lemma demo_mounted:
  obtains p0 p1 p2 where "reach enabled (handler demo_env) fits page_start
    (demo_ready, [p0, p1, p2])"
proof -
  let ?R = "reach enabled (handler demo_env) fits page_start"
  note d = demo_start_def initial_checkout_def demo_stored_def
  define w1 where "w1 = demo_start\<lparr>activeSessionId := ''s0'', reference := ''ref0'',
      sessionMethod := Some Wallet, timeLeft := Some 1, step := 2\<rparr>"
  define p0 :: "(jstr checkout, demo_ix request, reply, unit) prog" where "p0 = fst (advance (restorePending demo_start) demo_start)"
  define p1 where "p1 = fst (advance (loadEvent demo_env) w1)"
  have "?R (demo_start, [])"
    by (rule reach_start) (auto simp: page_start_def d fresh_until_def)
  then have r0: "?R (w1, [] @ [p0])"
    by (rule reach_fire [where e = MountRestore])
      (simp_all add: p0_def w1_def d restorePending_def refreshStatus_def prog_simps await_http_def)
  have e1: "enabled MountLoad w1" "snd (advance (loadEvent demo_env) w1) = w1"
    by (simp_all add: w1_def d loadEvent_def prog_simps await_http_def)
  have r1: "?R (w1, [p0] @ [p1])"
    by (rule reach_fire [OF r0 [simplified] e1(1)]) (simp add: p1_def prod_eq_iff e1)
  define ok where "ok = Http (Response 200 [] (Some (EventJson demo_event)))"
  define w2 where "w2 = w1\<lparr>eventData := Some demo_event, loadingEvent := False\<rparr>"
  have e2: "request_of p1 = Some (GetEvent ''meetup'')" "snd (advance (reply_of p1 ok) w1) = w2"
    by (simp_all add: ok_def p1_def w1_def w2_def d loadEvent_def prog_simps await_http_def require_ok_def json_as_def
        res_json_def event_json_def checkout_expired_def demo_event_def)
  define p where "p = fst (advance (reply_of p1 ok) w1)"
  have r2: "?R (w2, ([p0] @ [p1])[1 := p])"
    by (rule reach_reply [OF r1, where q = "GetEvent ''meetup''" and r = ok])
      (simp_all add: e2 p_def prod_eq_iff, simp add: ok_def event_json_def)
  have "?R (w2\<lparr>publicKey := Some ''payer''\<rparr>, [p0, p] @ [Ret ()])"
    by (rule reach_fire [OF r2 [simplified], where e = "WalletChanges (Some ''payer'')"]) simp_all
  then show ?thesis by (intro that [of p0 p "Ret ()"]) (simp add: w1_def w2_def d demo_ready_def)
qed

section \<open>Properties\<close>

text \<open>
  C6. In every state the page can reach, whatever the interleaving: the step is one of the three,
  a countdown is between zero and ten minutes, so that its text has the form \<open>mm:ss\<close>, and the
  stored session ends within ten minutes.
\<close>

theorem checkout_invariant:
  assumes "reach enabled (handler env) fits page_start (w, ps)"
  shows "step w \<le> 2 \<and> fresh_until (now w) (pending w) \<and>
    (\<forall>t. timeLeft w = Some t \<longrightarrow> 0 \<le> t \<and> t \<le> 600 \<and> length (formatSeconds t) = 5)"
proof -
  have "page_inv w" by (rule checkout.reach_inv [OF assms])
  moreover have "length (formatSeconds t) = 5" if "0 \<le> t" "t \<le> 600" for t
    using that formatSeconds_length [of t] by simp
  ultimately show ?thesis by (auto simp: page_inv_def)
qed

theorem checkout_invariant_witness:
  "fresh_until (now demo_ready) (pending demo_ready) \<and> length (formatSeconds 1) = 5"
proof -
  obtain p0 p1 p2 where "reach enabled (handler demo_env) fits page_start (demo_ready, [p0, p1, p2])"
    using demo_mounted .
  from checkout_invariant [OF this] show ?thesis by (simp add: demo_ready_def)
qed

lemma asks_awaits:
  "A q \<Longrightarrow> asks A (await_http q)" "asks A (json_as sel r)"
  by (auto simp: await_http_def json_as_def split: reply.split http.split option.split intro!: asks_rules)

lemma asks_participant: "A (PostParticipantStatus (slug env) m) \<Longrightarrow> asks A (checkParticipantStatus env m)"
  by (auto simp: checkParticipantStatus_def intro!: asks_rules asks_awaits)

text \<open>
  C27. A page whose checkout has expired takes no payment: no control it offers and no message or
  timer creates an invoice or asks for a signature.
\<close>

theorem expired_page_takes_no_payment:
  assumes "isCheckoutExpired c" and "enabled e c"
    and "(q, r) \<in> set (history (handler env e c) w rs)"
  shows "\<not> is_invoice q \<and> \<not> is_send q"
proof -
  let ?A = "\<lambda>q. \<not> is_invoice q \<and> \<not> is_send q"
  have "asks ?A (loadEvent env)" "asks ?A (restorePending c)" "asks ?A (lookupClick env c)"
    by (auto simp: loadEvent_def restorePending_def refreshStatus_def lookupClick_def Let_def is_invoice_def is_send_def
        split: option.split stored_text.split intro!: asks_rules asks_awaits asks_participant asks_http)
  then have "asks ?A (handler env e c)"
    using assms(1,2)
    by (cases e) (auto simp: tickTimeLeft_def onMessage_def onBeforeUnload_def onPageHide_def runTimer_def
      step1_shown_def step2_shown_def deposit_enabled_def refresh_shown_def qr_enabled_def back3_shown_def
      split: option.split timer.split)
  then show ?thesis using asks_history assms(3) by fast
qed

theorem expired_page_takes_no_payment_witness:
  "\<not> is_invoice (PostParticipantStatus ''meetup'' ''a@b.c'' :: demo_ix request)
   \<and> \<not> is_send (PostParticipantStatus ''meetup'' ''a@b.c'' :: demo_ix request)"
proof -
  let ?c = "demo_page\<lparr>isCheckoutExpired := True, lookupEmail := ''A@b.c ''\<rparr>"
  have e: "isCheckoutExpired ?c" by simp
  have en: "enabled ClickLookup ?c" by (simp add: demo_page_def initial_checkout_def rendered_def)
  have t: "toLowerCase (trim ''A@b.c '') = ''a@b.c''" by code_simp
  have "(PostParticipantStatus ''meetup'' ''a@b.c'', None) \<in> set (history (handler demo_env ClickLookup ?c) ?c [])"
    by (simp add: lookupClick_def t checkParticipantStatus_def prog_simps await_http_def)
  from expired_page_takes_no_payment [OF e en this] show ?thesis .
qed

text \<open>
  A paid page does not ask for a second wallet payment: the deposit button, the refresh
  button and the way back are not there. The button of the QR payment, in contrast, stays.
\<close>

theorem paid_page_controls:
  "(isPaid w \<longrightarrow> \<not> enabled ClickDeposit w \<and> \<not> enabled ClickRefresh w \<and> \<not> enabled (ClickBack3 ok) w) \<and>
   (isPaid w \<and> chosenMethod w = Qr \<and> step3_shown w \<and> \<not> isCheckoutExpired w \<and> \<not> loadingPay w \<longrightarrow> enabled (ClickQr b) w)"
  by (simp add: deposit_enabled_def refresh_shown_def back3_shown_def qr_enabled_def)

theorem paid_page_controls_witness:
  "enabled (ClickQr False) (demo_page\<lparr>statusData := Some (demo_receipt\<lparr>cs_paymentMethod := Some Qr\<rparr>)\<rparr>)
   \<and> isPaid (demo_page\<lparr>statusData := Some (demo_receipt\<lparr>cs_paymentMethod := Some Qr\<rparr>)\<rparr>)"
proof -
  let ?w = "demo_page\<lparr>statusData := Some (demo_receipt\<lparr>cs_paymentMethod := Some Qr\<rparr>)\<rparr>"
  have p: "isPaid ?w" by (simp add: isPaid_def status_text_def demo_receipt_def)
  have "chosenMethod ?w = Qr" "step3_shown ?w" "\<not> isCheckoutExpired ?w" "\<not> loadingPay ?w"
    by (simp_all add: chosenMethod_def demo_receipt_def step3_shown_def rendered_def demo_page_def initial_checkout_def)
  with p show ?thesis using paid_page_controls [of ?w True False] by blast
qed

text \<open>
  C7. The refresh button does not look at \<open>loadingPay\<close>: a page that restores a session whose time
  is almost over can come to have two payments waiting for the wallet's signature at once,
  each with its own transaction.
\<close>

theorem two_payments_at_once:
  "\<exists>w ps tx1 tx2 i j. reach enabled (handler demo_env) fits page_start (w, ps) \<and> i < j \<and> j < length ps
     \<and> request_of (ps ! i) = Some (SendTransaction tx1) \<and> request_of (ps ! j) = Some (SendTransaction tx2) \<and> tx1 \<noteq> tx2"
proof -
  let ?R = "reach enabled (handler demo_env) fits page_start"
  note d = demo_ready_def demo_start_def initial_checkout_def
  obtain p0 p1 p2 where r: "?R
    (demo_ready, [p0, p1, p2])"
    using demo_mounted .
  have w: "publicKey demo_ready = Some ''payer''" "eventData demo_ready = Some demo_event"
    by (simp_all add: demo_ready_def)
  define v where "v = demo_ready\<lparr>loadingPay := True, page_error := []\<rparr>"
  define u where "u = v\<lparr>timeLeft := Some 0\<rparr>"
  have u: "publicKey u = Some ''payer''" "eventData u = Some demo_event" by (simp_all add: u_def v_def w)
  define p3 where "p3 = fst (advance (startWalletPayment demo_env demo_ready) demo_ready)"
  define p5 where "p5 = fst (advance (startWalletPayment demo_env u) u)"
  note shown = step3_shown_def rendered_def chosenMethod_def isPaid_def status_text_def time_over_def
  have en: "enabled ClickDeposit demo_ready" by (simp add: deposit_enabled_def shown d)
  have r1: "?R (v, [p0, p1, p2] @ [p3])"
    by (rule reach_fire [OF r en]) (simp add: prod_eq_iff p3_def v_def demo_deposit(1) [OF w])
  have e2: "enabled Second v" "advance tickTimeLeft v = (Ret (), u)"
    by (simp_all add: timer_runs_def tickTimeLeft_def u_def v_def d)
  have r2: "?R (u, [p0, p1, p2, p3] @ [Ret ()])"
    by (rule reach_fire [OF r1 [simplified] e2(1)]) (simp add: e2(2))
  have "enabled ClickRefresh u" by (simp add: refresh_shown_def shown u_def v_def d)
  moreover have "u\<lparr>loadingPay := True, page_error := []\<rparr> = u" by (simp add: u_def v_def)
  ultimately have "?R (u, [p0, p1, p2, p3, Ret ()] @ [p5])"
    by (intro reach_fire [OF r2 [simplified], where e = ClickRefresh]) (simp_all add: prod_eq_iff p5_def demo_deposit(1) [OF u])
  then have r3: "?R (u, [p0, p1, p2, p3, Ret (), p5])" by simp
  define p3' where "p3' = fst (advance (reply_of p3 (demo_invoice ''ref1'')) u)"
  define w' where "w' = snd (advance (reply_of p3 (demo_invoice ''ref1'')) u)"
  define p5' where "p5' = fst (advance (reply_of p5 (demo_invoice ''ref2'')) w')"
  define w'' where "w'' = snd (advance (reply_of p5 (demo_invoice ''ref2'')) w')"
  obtain k3 b3 k5 b5 where q: "request_of p3 = Some (PostSession k3 b3)" "request_of p5 = Some (PostSession k5 b5)"
    using demo_deposit(2) [OF w, of demo_ready] demo_deposit(2) [OF u, of u] unfolding p3_def p5_def by blast
  have f: "fits (PostSession k b) (demo_invoice ref)" for k b ref
    by (simp add: demo_invoice_def invoice_json_def)
  have "?R (w', [p0, p1, p2, p3, Ret (), p5][3 := p3'])"
    by (rule reach_reply [OF r3, where q = "PostSession k3 b3" and r = "demo_invoice ''ref1''"])
      (simp_all add: q f p3'_def w'_def)
  then have "?R (w', [p0, p1, p2, p3', Ret (), p5])" by simp
  then have "?R (w'', [p0, p1, p2, p3', Ret (), p5][5 := p5'])"
    by (rule reach_reply [where q = "PostSession k5 b5" and r = "demo_invoice ''ref2''"])
      (simp_all add: q f p5'_def w''_def)
  then have r5: "?R (w'', [p0, p1, p2, p3', Ret (), p5'])" by simp
  have s: "request_of p3' = Some (SendTransaction (demo_transfer_tx ''ref1''))"
    "request_of p5' = Some (SendTransaction (demo_transfer_tx ''ref2''))"
    using demo_deposit(3) [OF w] demo_deposit(3) [OF u] by (simp_all add: p3'_def p5'_def p3_def p5_def)
  have "utf8 ''ref1'' = ''ref1''" "utf8 ''ref2'' = ''ref2''" by (rule utf8_ascii, simp)+
  then have "demo_transfer_tx ''ref1'' \<noteq> demo_transfer_tx ''ref2''"
    by (simp add: demo_transfer_tx_def demo_tx_def)
  then show ?thesis
    using r5 s by (intro exI [of _ w''] exI [of _ "[p0, p1, p2, p3', Ret (), p5']"] exI
        [of _ "demo_transfer_tx ''ref1''"] exI [of _ "demo_transfer_tx ''ref2''"] exI [of _ 3] exI [of _ 5]) simp
qed

end
