(* ===== verification/Checkout_Form.thy ===== *)
theory Checkout_Form
  imports Checkout_Page
begin

text \<open>
  Step 1 of the checkout page: what the validation of the participant form accepts and reports,
  which e-mail address the page looks up, and that an address with a paid checkout does not
  get to the payment.
\<close>

section \<open>Validation\<close>

definition email_field :: "jstr \<Rightarrow> bool" where
  "email_field name \<longleftrightarrow> toLowerCase (trim name) = ''email''"

definition field_message :: "participant_field \<Rightarrow> jstr \<Rightarrow> jstr option" where
  "field_message f v =
     (if required f \<and> v = [] then Some (field_name f @ '' is required'')
      else if v \<noteq> [] \<and> email_field (field_name f) \<and> \<not> is_email v
      then Some ''Please enter a valid email address.'' else None)"

lemma step1_errors_Cons:
  "step1_errors pd (f # fs) acc = (case form_value pd (field_name f) of
     Inl e \<Rightarrow> Inl e
   | Inr v \<Rightarrow> (case field_message f v of
       None \<Rightarrow> step1_errors pd fs acc
     | Some m \<Rightarrow> step1_errors pd fs (obj_assign acc (field_name f) m)))"
  by (auto simp: field_message_def email_field_def truthy_def Let_def split: sum.split)

declare step1_errors.simps(2) [simp del]

lemmas step1_simps = step1_errors.simps(1) step1_errors_Cons

lemma step1_defined:
  "step1_errors pd fs acc = Inr errs \<Longrightarrow> f \<in> set fs \<Longrightarrow> \<exists>v. form_value pd (field_name f) = Inr v"
  by (induction fs arbitrary: acc) (auto simp: step1_simps split: sum.splits option.splits)

lemma map_of_assign:
  "k \<noteq> ''__proto__'' \<Longrightarrow> map_of (obj_assign acc k m) = (map_of acc)(k \<mapsto> m)"
  by (simp add: obj_assign_def map_of_define)

text \<open>The messages that the fields of one name give are one message.\<close>

definition messages_of :: "obj \<Rightarrow> participant_field list \<Rightarrow> jstr \<Rightarrow> jstr set" where
  "messages_of pd fs k = {m. \<exists>f v. f \<in> set fs \<and> field_name f = k \<and>
     form_value pd k = Inr v \<and> field_message f v = Some m}"

lemma messages_unique: "m \<in> messages_of pd fs k \<Longrightarrow> m' \<in> messages_of pd fs k \<Longrightarrow> m = m'"
  by (auto simp: messages_of_def field_message_def split: if_splits)

lemma messages_Cons:
  "messages_of pd (f # fs) k = messages_of pd fs k \<union>
     {m. field_name f = k \<and> (\<exists>v. form_value pd k = Inr v \<and> field_message f v = Some m)}"
  by (auto simp: messages_of_def)

lemma step1_errors_map:
  assumes "step1_errors pd fs acc = Inr errs" and "''__proto__'' \<notin> field_name ` set fs"
  shows "map_of errs k = Some m \<longleftrightarrow>
    m \<in> messages_of pd fs k \<or> messages_of pd fs k = {} \<and> map_of acc k = Some m"
  using assms
proof (induction fs arbitrary: acc)
  case Nil
  then show ?case by (simp add: messages_of_def)
next
  case (Cons f fs)
  note M = messages_Cons [of pd f fs k]
  obtain v where v: "form_value pd (field_name f) = Inr v"
    using step1_defined [OF Cons.prems(1), of f] by auto
  show ?case
  proof (cases "field_message f v")
    case None
    then have eq: "messages_of pd (f # fs) k = messages_of pd fs k" using v M by auto
    have "step1_errors pd fs acc = Inr errs" using Cons.prems(1) v None by (simp add: step1_simps)
    from Cons.IH [OF this] show ?thesis using Cons.prems(2) unfolding eq by simp
  next
    case (Some n)
    let ?acc = "obj_assign acc (field_name f) n"
    have e: "step1_errors pd fs ?acc = Inr errs" using Cons.prems(1) v Some by (simp add: step1_simps)
    have IH: "map_of errs k = Some m \<longleftrightarrow>
        m \<in> messages_of pd fs k \<or> messages_of pd fs k = {} \<and> map_of ?acc k = Some m"
      using Cons.IH [OF e] Cons.prems(2) by simp
    have a: "map_of ?acc k = (if k = field_name f then Some n else map_of acc k)"
      using Cons.prems(2) by (auto simp: map_of_assign)
    show ?thesis
    proof (cases "k = field_name f")
      case True
      then have n: "n \<in> messages_of pd (f # fs) k" using v Some unfolding M by simp
      then have M1: "messages_of pd (f # fs) k = {n}" using messages_unique [OF n] by blast
      have "messages_of pd fs k \<subseteq> messages_of pd (f # fs) k" unfolding M by (rule Un_upper1)
      then have "messages_of pd fs k = {} \<or> messages_of pd fs k = {n}" unfolding M1 by (rule subset_singletonD)
      moreover have "map_of ?acc k = Some n" using a True by simp
      ultimately show ?thesis unfolding IH M1 by auto
    next
      case False
      then have "messages_of pd (f # fs) k = messages_of pd fs k" unfolding M by auto
      then show ?thesis using IH a False by simp
    qed
  qed
qed

lemma step1_defined_iff:
  "(\<exists>errs. step1_errors pd fs acc = Inr errs) \<longleftrightarrow> (\<forall>f \<in> set fs. \<exists>v. form_value pd (field_name f) = Inr v)"
proof
  assume "\<forall>f \<in> set fs. \<exists>v. form_value pd (field_name f) = Inr v"
  then show "\<exists>errs. step1_errors pd fs acc = Inr errs"
    by (induction fs arbitrary: acc) (auto simp: step1_simps split: option.split)
qed (auto dest: step1_defined)

lemma field_message_None:
  "field_message f v = None \<longleftrightarrow> (required f \<longrightarrow> v \<noteq> []) \<and> (v \<noteq> [] \<and> email_field (field_name f) \<longrightarrow> is_email v)"
  by (auto simp: field_message_def)

lemma Inr_all_ex: "\<exists>v. x = Inr v \<Longrightarrow> (\<forall>v. x = Inr v \<longrightarrow> P v) \<longleftrightarrow> (\<exists>v. x = Inr v \<and> P v)"
  by auto

lemma no_messages_iff:
  "(\<forall>k. messages_of pd fs k = {}) \<longleftrightarrow>
   (\<forall>f \<in> set fs. \<forall>v. form_value pd (field_name f) = Inr v \<longrightarrow> field_message f v = None)"
proof
  assume L: "\<forall>k. messages_of pd fs k = {}"
  have "field_message f v = None" if f: "f \<in> set fs" "form_value pd (field_name f) = Inr v" for f v
  proof (rule ccontr)
    assume "field_message f v \<noteq> None"
    then obtain m where "field_message f v = Some m" by blast
    with f have "m \<in> messages_of pd fs (field_name f)" by (auto simp: messages_of_def)
    with L show False by simp
  qed
  then show "\<forall>f \<in> set fs. \<forall>v. form_value pd (field_name f) = Inr v \<longrightarrow> field_message f v = None" by blast
qed (auto simp: messages_of_def)

lemma no_errors_iff:
  assumes "step1_errors pd fs [] = Inr errs" "''__proto__'' \<notin> field_name ` set fs"
  shows "errs = [] \<longleftrightarrow> (\<forall>k. messages_of pd fs k = {})"
proof -
  have "errs = [] \<longleftrightarrow> (\<forall>k m. map_of errs k \<noteq> Some m)"
    by (cases errs) (auto split: if_splits)
  then show ?thesis using step1_errors_map [OF assms] by auto
qed

section \<open>Addresses that the page looks up\<close>

lemma email_entry_normal: "toLowerCase (trim (email_entry pd)) = email_entry pd"
  by (induction pd rule: email_entry.induct) (simp_all add: trim_toLowerCase)

lemma email_normal: "toLowerCase (trim (emailFromParticipantData pd)) = emailFromParticipantData pd"
  by (auto simp: emailFromParticipantData_def Let_def email_entry_normal trim_toLowerCase split: jsprop.split)

lemma participant_always:
  "always (checkParticipantStatus env m) w (\<lambda>x w' h. w' = w \<and> (\<exists>r. h = [(PostParticipantStatus (slug env) m, r)]) \<and>
     (\<forall>d. x = Done (Some d) \<longrightarrow> (\<exists>s t. http_ok (Response s t (Some (StatusJson d))) \<and>
        h = [(PostParticipantStatus (slug env) m, Some (Http (Response s t (Some (StatusJson d)))))])))"
  by (auto simp: checkParticipantStatus_def part_rules status_json_def http_ok_def has_status_def
      split: option.splits json_body.splits)

definition address_ok :: "jstr \<Rightarrow> 'i request \<Rightarrow> bool" where
  "address_ok sl q \<longleftrightarrow> (case q of
     PostParticipantStatus s m \<Rightarrow> s = sl \<and> m \<noteq> [] \<and> toLowerCase (trim m) = m | _ \<Rightarrow> True)"

text \<open>The demo event asks for a required field \<open>Email\<close>.\<close>

definition demo_filled :: "jstr \<Rightarrow> jstr checkout" where
  "demo_filled v = demo_page\<lparr>step := 0, participantData := [(''Email'', v)]\<rparr>"

lemma demo_filled_simps [simp]:
  "eventData (demo_filled v) = Some demo_event" "participantData (demo_filled v) = [(''Email'', v)]"
  "ev_participantForm demo_event = [\<lparr>field_name = ''Email'', required = True\<rparr>]"
  "step (demo_filled v) = 0" "isCheckoutExpired (demo_filled v) = False"
  by (simp_all add: demo_filled_def demo_page_def initial_checkout_def demo_event_def)

lemma demo_email:
  "form_value [(''Email'', ''A@b.co '')] ''Email'' = Inr ''A@b.co''" "is_email ''A@b.co''"
  "emailFromParticipantData [(''Email'', ''A@b.co '')] = ''a@b.co''"
  "form_value [(''Email'', ''nobody'')] ''Email'' = Inr ''nobody''" "\<not> is_email ''nobody''" "email_field ''Email''"
  by code_simp+

lemma demo_receipt_paid: "cs_status demo_receipt = ''paid''"
  by (simp add: demo_receipt_def)

lemma demo_step1: "step1_errors [(''Email'', ''A@b.co '')] [\<lparr>field_name = ''Email'', required = True\<rparr>] [] = Inr []"
  by (simp add: step1_simps demo_email field_message_def)

section \<open>Properties\<close>

text \<open>
  What Continue in step 1 reports: when no field reads an inherited property, the errors
  of the form are exactly the messages of its fields: a required field left empty is named as
  required, a filled e-mail field that is no address asks for a valid one.
\<close>

theorem step1_reports:
  assumes "eventData c = Some ev" and "\<forall>f \<in> set (ev_participantForm ev). \<exists>v. form_value (participantData c) (field_name f) = Inr v"
    and "''__proto__'' \<notin> field_name ` set (ev_participantForm ev)"
    and "w' = final (validateStep1 c) w rs"
  shows "(map_of (participantErrors w') k = Some m) \<longleftrightarrow> m \<in> messages_of (participantData c) (ev_participantForm ev) k"
proof -
  obtain errs where e: "step1_errors (participantData c) (ev_participantForm ev) [] = Inr errs"
    using step1_defined_iff [of "participantData c" "ev_participantForm ev" "[]"] assms(2) by blast
  then have "participantErrors w' = errs" by (simp add: assms(1,4) validateStep1_def)
  then show ?thesis using step1_errors_map [OF e assms(3)] by simp
qed

theorem step1_reports_witness:
  "map_of (participantErrors (final (validateStep1 (demo_filled ''nobody'')) (demo_filled ''nobody'') [])) ''Email''
     = Some ''Please enter a valid email address.''"
proof -
  have "''Please enter a valid email address.'' \<in>
      messages_of [(''Email'', ''nobody'')] [\<lparr>field_name = ''Email'', required = True\<rparr>] ''Email''"
    by (simp add: messages_of_def demo_email field_message_def)
  then show ?thesis
    using step1_reports [of "demo_filled ''nobody''" demo_event _ "demo_filled ''nobody''" "[]" "''Email''"
        "''Please enter a valid email address.''"]
    by (simp add: demo_email)
qed

text \<open>
  C28. Step 1 lets a participant pass exactly when every required field is filled and every
  filled e-mail field holds an address.
\<close>

theorem step1_passes_iff:
  assumes "eventData c = Some ev" and "''__proto__'' \<notin> field_name ` set (ev_participantForm ev)"
  shows "result (validateStep1 c) w rs = Done True \<longleftrightarrow>
    (\<forall>f \<in> set (ev_participantForm ev). \<exists>v. form_value (participantData c) (field_name f) = Inr v \<and>
       (required f \<longrightarrow> v \<noteq> []) \<and> (v \<noteq> [] \<and> email_field (field_name f) \<longrightarrow> is_email v))"
proof (cases "step1_errors (participantData c) (ev_participantForm ev) []")
  case (Inl e)
  then have "\<not> (\<forall>f \<in> set (ev_participantForm ev). \<exists>v. form_value (participantData c) (field_name f) = Inr v)"
    using step1_defined_iff [of "participantData c" "ev_participantForm ev" "[]"] by auto
  then show ?thesis using Inl by (auto simp: validateStep1_def assms(1))
next
  case (Inr errs)
  then have d: "\<forall>f \<in> set (ev_participantForm ev). \<exists>v. form_value (participantData c) (field_name f) = Inr v"
    using step1_defined_iff by blast
  have "result (validateStep1 c) w rs = Done True \<longleftrightarrow> errs = []"
    by (simp add: validateStep1_def assms(1) Inr)
  also have "\<dots> \<longleftrightarrow> (\<forall>k. messages_of (participantData c) (ev_participantForm ev) k = {})"
    by (rule no_errors_iff [OF Inr assms(2)])
  also have "\<dots> \<longleftrightarrow> (\<forall>f \<in> set (ev_participantForm ev). \<forall>v. form_value (participantData c) (field_name f) = Inr v
      \<longrightarrow> field_message f v = None)"
    by (rule no_messages_iff)
  also have "\<dots> \<longleftrightarrow> (\<forall>f \<in> set (ev_participantForm ev). \<exists>v. form_value (participantData c) (field_name f) = Inr v
      \<and> field_message f v = None)"
    by (rule ball_cong [OF refl], rule Inr_all_ex) (use d in blast)
  finally show ?thesis by (simp only: field_message_None)
qed

theorem step1_passes_iff_witness:
  "result (validateStep1 (demo_filled ''A@b.co '')) (demo_filled ''A@b.co '') [] = Done True"
  using step1_passes_iff [of "demo_filled ''A@b.co ''" demo_event "demo_filled ''A@b.co ''" "[]"]
  by (simp add: demo_email)

text \<open>
  The page looks up a paid checkout by a normalised address only: no blanks around it, no
  capital letters, not empty.
\<close>

theorem lookup_address_normalised:
  assumes "(PostParticipantStatus s m, r) \<in> set (history (handler env e c) w rs)"
  shows "s = slug env \<and> m \<noteq> [] \<and> toLowerCase (trim m) = m"
proof -
  let ?A = "address_ok (slug env)"
  have p: "asks ?A (checkParticipantStatus env n)" if "n \<noteq> []" "toLowerCase (trim n) = n" for n
    by (rule asks_participant) (use that in \<open>simp add: address_ok_def\<close>)
  have "asks ?A (continueStep1 env c)" "asks ?A (lookupClick env c)"
    by (auto simp: continueStep1_def validateStep1_def lookupClick_def Let_def truthy_def email_normal trim_toLowerCase
        split: option.split sum.split intro!: asks_rules p)
  moreover have "asks ?A (startWalletPayment env c)" "asks ?A (startQrSession env c b)" "asks ?A (loadEvent env)"
    "asks ?A (restorePending c)" "asks ?A (backStep3 c b)" for b
    by (auto simp: startWalletPayment_def payCreated_def createInvoice_def signTransfer_def confirmPayment_def
        walletFailed_def startQrSession_def openQrWindow_def loadEvent_def restorePending_def refreshStatus_def
        backStep3_def cancelCurrentSession_def Let_def address_ok_def await_sign_def await_confirmed_def
        split: option.split stored_text.split sum.split reply.split intro!: asks_rules asks_awaits asks_http)
  ultimately have "asks ?A (handler env e c)"
    by (cases e) (auto simp: tickTimeLeft_def onMessage_def onBeforeUnload_def onPageHide_def runTimer_def
      editField_def selectMethod_def continueStep2_def split: option.split timer.split)
  from asks_history [OF this assms] show ?thesis by (simp add: address_ok_def)
qed

lemma demo_continue:
  "history (continueStep1 demo_env (demo_filled ''A@b.co '')) (demo_filled ''A@b.co '')
     [Http (Response 200 [] (Some (StatusJson demo_receipt)))]
   = [(PostParticipantStatus ''meetup'' ''a@b.co'', Some (Http (Response 200 [] (Some (StatusJson demo_receipt)))))]"
  by (simp add: continueStep1_def validateStep1_def demo_step1 demo_email checkParticipantStatus_def Let_def
      prog_simps await_http_def json_as_def res_json_def status_json_def http_ok_def has_status_def)

theorem lookup_address_normalised_witness:
  "toLowerCase (trim ''a@b.co'') = ''a@b.co''"
  using lookup_address_normalised [of "''meetup''" "''a@b.co''" "Some (Http (Response 200 [] (Some (StatusJson demo_receipt))))"
      demo_env ClickContinue1 "demo_filled ''A@b.co ''" "demo_filled ''A@b.co ''"
      "[Http (Response 200 [] (Some (StatusJson demo_receipt)))]"]
  by (simp add: demo_continue)

text \<open>
  Who has paid already does not pay again: when the lookup of the participant's address
  finds a paid checkout, Continue does not lead to the payment step and says why.
\<close>

theorem paid_participant_stays:
  assumes "(PostParticipantStatus s m, Some (Http (Response n t (Some (StatusJson d)))))
       \<in> set (history (continueStep1 env c) w rs)"
    and "ok_status n" and "n \<noteq> 204" and "cs_status d = ''paid''" and "step w = 0"
  shows "step (final (continueStep1 env c) w rs) = 0 \<and> lookupError (final (continueStep1 env c) w rs) \<noteq> []"
proof -
  let ?P = "\<lambda>w' h. (PostParticipantStatus s m, Some (Http (Response n t (Some (StatusJson d))))) \<in> set h \<longrightarrow>
      step w' = 0 \<and> lookupError w' \<noteq> []"
  have "always (continueStep1 env c) w (\<lambda>x w' h. ?P w' h)"
    using assms(2-5)
    by (auto simp: continueStep1_def validateStep1_def Let_def part_rules checkParticipantStatus_def
      status_json_def http_ok_def has_status_def split: option.splits sum.splits json_body.splits)
  from always_run [OF this] assms(1) show ?thesis by blast
qed

theorem paid_participant_stays_witness:
  "lookupError (final (continueStep1 demo_env (demo_filled ''A@b.co '')) (demo_filled ''A@b.co '')
     [Http (Response 200 [] (Some (StatusJson demo_receipt)))]) \<noteq> []"
  using paid_participant_stays [of "''meetup''" "''a@b.co''" 200 "[]" demo_receipt demo_env
      "demo_filled ''A@b.co ''" "demo_filled ''A@b.co ''" "[Http (Response 200 [] (Some (StatusJson demo_receipt)))]"]
  by (simp add: demo_continue demo_receipt_paid)

end
