(* ===== verification/Checkout_View.thy ===== *)
theory Checkout_View
  imports Checkout_Page
begin

text \<open>
  What a render of the checkout page shows: the value that \<open>CheckoutInner\<close> returns, as a tree of records
  with the texts, values and controls of the markup. Classes that only style are left out; the
  class of the status badge and the marks of invalid fields are kept.
\<close>

section \<open>The tree\<close>

datatype description_view = HtmlText jstr | PlainText jstr

datatype location_view = PlaceLink jstr | PlaceText jstr

record lookup_view =
  lk_highlight :: bool
  lk_email :: jstr
  lk_disabled :: bool
  lk_error :: "jstr option"

text \<open>The value and the message of a field are what is handed to React.\<close>

record field_view =
  fv_label :: jstr
  fv_starred :: bool
  fv_marked :: bool
  fv_value :: jsprop
  fv_message :: "jsprop option"

record method_view =
  mv_amount :: jstr
  mv_value :: payment_method
  mv_options :: "(jstr \<times> payment_method) list"

record session_view =
  sv_reference :: jstr
  sv_left :: jstr
  sv_refresh :: bool

text \<open>The box of the chosen method: whether its button is disabled, and the text on it.\<close>

datatype pay_view = WalletBox bool jstr | QrBox bool jstr

record receipt_view =
  rc_reference :: jstr
  rc_badge :: jstr
  rc_status :: jstr
  rc_method :: jstr
  rc_signature :: "(jstr \<times> jstr option) option"
  rc_link :: "jstr option"

record pay_step_view =
  py_highlight :: bool
  py_method :: "jstr option"
  py_session :: "session_view option"
  py_box :: "pay_view option"
  py_receipt :: "receipt_view option"
  py_back :: bool

text \<open>\<open>pg_steps\<close> is the current step of the progress bar, \<open>None\<close> where the notice of the expiry stands.\<close>

record checkout_view =
  pg_title :: jstr
  pg_image :: "jstr option"
  pg_description :: description_view
  pg_date :: jstr
  pg_location :: "location_view option"
  pg_amount :: jstr
  pg_lookup :: lookup_view
  pg_steps :: "nat option"
  pg_error :: "jstr option"
  pg_step1 :: "field_view list option"
  pg_step2 :: "method_view option"
  pg_step3 :: "pay_step_view option"

datatype checkout_screen = LoadingScreen | NotFoundScreen | Screen checkout_view

section \<open>Its parts\<close>

text \<open>\<open>locale_text\<close> is \<open>Date.prototype.toLocaleString\<close> of a valid date, which depends on the browser.\<close>

definition displayDate :: "(int \<Rightarrow> jstr) \<Rightarrow> zone \<Rightarrow> event_data \<Rightarrow> jstr" where
  "displayDate locale_text z ev = (if \<not> truthy (ev_eventDate ev) then []
     else (case parse_date z (ev_eventDate ev) of Some t \<Rightarrow> locale_text t | None \<Rightarrow> ''Invalid Date''))"

definition view_description :: "event_data \<Rightarrow> description_view" where
  "view_description ev = (if looksLikeHtml (ev_description ev) then HtmlText (sanitizeImportedHtml (ev_description ev))
     else PlainText (ev_description ev))"

definition view_location :: "event_data \<Rightarrow> location_view option" where
  "view_location ev = shown_if (truthy (ev_location ev))
     (if isHttpLocation (ev_location ev) then PlaceLink (ev_location ev) else PlaceText (ev_location ev))"

definition view_lookup :: "'k checkout \<Rightarrow> lookup_view" where
  "view_lookup w = \<lparr>lk_highlight = highlightLookup w, lk_email = lookupEmail w, lk_disabled = checkingLookup w,
     lk_error = shown_if (truthy (lookupError w)) (lookupError w)\<rparr>"

definition view_field :: "'k checkout \<Rightarrow> participant_field \<Rightarrow> field_view" where
  "view_field w f = (let err = obj_get (participantErrors w) (field_name f); val = obj_get (participantData w) (field_name f)
     in \<lparr>fv_label = field_name f, fv_starred = required f, fv_marked = prop_truthy err,
         fv_value = (if prop_truthy val then val else Own []), fv_message = shown_if (prop_truthy err) err\<rparr>)"

definition view_step2 :: "'k checkout \<Rightarrow> event_data \<Rightarrow> method_view" where
  "view_step2 w ev = \<lparr>mv_amount = ev_amountUsdc ev, mv_value = paymentMethod w, mv_options = availableMethods (Some ev)\<rparr>"

definition view_session :: "'k checkout \<Rightarrow> session_view option" where
  "view_session w = (case timeLeft w of None \<Rightarrow> None
     | Some t \<Rightarrow> shown_if (\<not> isCheckoutExpired w \<and> chosenMethod w = Wallet \<and> truthy (reference w) \<and> \<not> isPaid w)
         \<lparr>sv_reference = reference w, sv_left = formatSeconds t, sv_refresh = (t \<le> 0)\<rparr>)"

definition view_box :: "'k checkout \<Rightarrow> pay_view option" where
  "view_box w = shown_if (\<not> isCheckoutExpired w)
     (if chosenMethod w = Wallet
      then WalletBox (isPaid w \<or> loadingPay w \<or> publicKey w = None \<or> (case timeLeft w of Some t \<Rightarrow> t \<le> 0 | None \<Rightarrow> False))
        (if isPaid w then ''Payment Completed'' else if loadingPay w then ''Processing...'' else ''Deposit Now'')
      else QrBox (loadingPay w) (if loadingPay w then ''Creating session...'' else ''Open QR Payment Window''))"

definition short_signature :: "jstr \<Rightarrow> jstr" where
  "short_signature g = (if 24 < length g then take 24 g @ ''...'' else g)"

definition view_receipt :: "'k checkout \<Rightarrow> receipt_view option" where
  "view_receipt w = (case statusData w of None \<Rightarrow> None
     | Some d \<Rightarrow> shown_if (truthy (cs_reference d) \<or> truthy (cs_status d) \<or> truthy (cs_signature d))
         \<lparr>rc_reference = or_else (cs_reference d) ''-'', rc_badge = checkoutStatusClass (cs_status d),
          rc_status = humanizeStatus (cs_status d),
          rc_method = methodLabel (method_text (case cs_paymentMethod d of Some m \<Rightarrow> m | None \<Rightarrow> chosenMethod w)),
          rc_signature = shown_if (truthy (cs_signature d))
            (short_signature (cs_signature d), shown_if (showFullSignature w) (cs_signature d)),
          rc_link = shown_if (truthy (cs_solscanUrl d)) (cs_solscanUrl d)\<rparr>)"

definition view_step3 :: "'k checkout \<Rightarrow> pay_step_view" where
  "view_step3 w = \<lparr>py_highlight = highlightStep3 w,
     py_method = shown_if (\<not> isCheckoutExpired w) (methodLabel (method_text (chosenMethod w))),
     py_session = view_session w, py_box = view_box w, py_receipt = view_receipt w,
     py_back = (\<not> isCheckoutExpired w \<and> \<not> isPaid w)\<rparr>"

section \<open>A render\<close>

definition view_event :: "(int \<Rightarrow> jstr) \<Rightarrow> zone \<Rightarrow> 'k checkout \<Rightarrow> event_data \<Rightarrow> checkout_view" where
  "view_event locale_text z w ev = \<lparr>
     pg_title = ev_title ev,
     pg_image = shown_if (truthy (ev_eventImageUrl ev)) (ev_eventImageUrl ev),
     pg_description = view_description ev,
     pg_date = displayDate locale_text z ev,
     pg_location = view_location ev,
     pg_amount = ev_amountUsdc ev,
     pg_lookup = view_lookup w,
     pg_steps = shown_if (\<not> isCheckoutExpired w) (step w),
     pg_error = shown_if (truthy (page_error w)) (page_error w),
     pg_step1 = shown_if (\<not> isCheckoutExpired w \<and> step w = 0) (map (view_field w) (ev_participantForm ev)),
     pg_step2 = shown_if (\<not> isCheckoutExpired w \<and> step w = 1) (view_step2 w ev),
     pg_step3 = shown_if (step w = 2 \<or> isCheckoutExpired w) (view_step3 w)\<rparr>"

definition render_checkout :: "(int \<Rightarrow> jstr) \<Rightarrow> zone \<Rightarrow> 'k checkout \<Rightarrow> checkout_screen" where
  "render_checkout locale_text z w = (if loadingEvent w then LoadingScreen
     else (case eventData w of None \<Rightarrow> NotFoundScreen | Some ev \<Rightarrow> Screen (view_event locale_text z w ev)))"

section \<open>The controls of a screen\<close>

text \<open>
  Which control of the screen an event needs; events that no control fires (effects, timers, messages,
  the clock, the wallet) need none and are left to the page.
\<close>

fun is_control :: "'k event \<Rightarrow> bool" where
  "is_control (TypeLookup v) = True"
| "is_control ClickLookup = True"
| "is_control (TypeField n v) = True"
| "is_control ClickContinue1 = True"
| "is_control (SelectMethod m) = True"
| "is_control ClickBack2 = True"
| "is_control ClickContinue2 = True"
| "is_control ClickDeposit = True"
| "is_control ClickRefresh = True"
| "is_control (ClickQr b) = True"
| "is_control (ClickBack3 ok) = True"
| "is_control ToggleSignature = True"
| "is_control _ = False"

definition on_step3 :: "checkout_view \<Rightarrow> (pay_step_view \<Rightarrow> bool) \<Rightarrow> bool" where
  "on_step3 v has = (case pg_step3 v of Some s \<Rightarrow> has s | None \<Rightarrow> False)"

fun view_offers :: "checkout_view \<Rightarrow> 'k event \<Rightarrow> bool" where
  "view_offers v (TypeLookup x) = True"
| "view_offers v ClickLookup = (\<not> lk_disabled (pg_lookup v))"
| "view_offers v (TypeField n x) = (case pg_step1 v of Some fs \<Rightarrow> n \<in> fv_label ` set fs | None \<Rightarrow> False)"
| "view_offers v ClickContinue1 = (pg_step1 v \<noteq> None)"
| "view_offers v (SelectMethod m) = (case pg_step2 v of Some p \<Rightarrow> m \<in> snd ` set (mv_options p) | None \<Rightarrow> False)"
| "view_offers v ClickBack2 = (pg_step2 v \<noteq> None)"
| "view_offers v ClickContinue2 = (pg_step2 v \<noteq> None)"
| "view_offers v ClickDeposit = on_step3 v (\<lambda>s. case py_box s of Some (WalletBox off t) \<Rightarrow> \<not> off | _ \<Rightarrow> False)"
| "view_offers v ClickRefresh = on_step3 v (\<lambda>s. case py_session s of Some x \<Rightarrow> sv_refresh x | None \<Rightarrow> False)"
| "view_offers v (ClickQr b) = on_step3 v (\<lambda>s. case py_box s of Some (QrBox off t) \<Rightarrow> \<not> off | _ \<Rightarrow> False)"
| "view_offers v (ClickBack3 ok) = on_step3 v py_back"
| "view_offers v ToggleSignature = on_step3 v (\<lambda>s. case py_receipt s of Some r \<Rightarrow> rc_signature r \<noteq> None | None \<Rightarrow> False)"
| "view_offers v _ = False"

definition screen_offers :: "checkout_screen \<Rightarrow> 'k event \<Rightarrow> bool" where
  "screen_offers s e = (case s of Screen v \<Rightarrow> view_offers v e | _ \<Rightarrow> False)"

section \<open>Properties\<close>

lemma case_shown_if [simp]: "(case shown_if b x of Some y \<Rightarrow> P y | None \<Rightarrow> False) \<longleftrightarrow> b \<and> P x"
  by (simp add: shown_if_def)

lemmas step_shown_defs = step1_shown_def step2_shown_def step3_shown_def rendered_def
  deposit_enabled_def refresh_shown_def qr_enabled_def back3_shown_def time_over_def

lemma fields_labels: "fv_label (view_field w f) = field_name f"
  by (simp add: view_field_def Let_def)

lemma offers_event:
  assumes "eventData w = Some ev" "\<not> loadingEvent w" "is_control e"
  shows "view_offers (view_event locale_text z w ev) e \<longleftrightarrow> enabled e w"
  using assms
  by (cases e) (auto simp: view_event_def on_step3_def view_step3_def view_box_def view_session_def view_receipt_def
      view_lookup_def view_step2_def step_shown_defs fields_labels image_image shown_if_def split: option.splits)





text \<open>
  C25. A paid page shows the receipt: step 3 has the status \<open>Paid\<close> with the badge of a payment, the
  reference, the signature shortened to at most 27 characters and in full when it is
  unfolded, and the link; there is no countdown and no way back, and the wallet button says
  that the payment is complete.
\<close>

theorem paid_receipt_shown:
  assumes "step3_shown w" and "statusData w = Some d" and "isPaid w"
  shows "\<exists>v s r. render_checkout locale_text z w = Screen v \<and> pg_step3 v = Some s \<and> py_receipt s = Some r
     \<and> rc_status r = ''Paid'' \<and> rc_badge r = ''status-badge paid'' \<and> (truthy (cs_reference d) \<longrightarrow> rc_reference r = cs_reference d)
     \<and> (rc_signature r = None \<longleftrightarrow> cs_signature d = [])
     \<and> (\<forall>t full. rc_signature r = Some (t, full) \<longrightarrow> length t \<le> 27 \<and> take 24 t = take 24 (cs_signature d)
          \<and> full = (if showFullSignature w then Some (cs_signature d) else None))
     \<and> rc_link r = (if cs_solscanUrl d = [] then None else Some (cs_solscanUrl d))
     \<and> py_session s = None \<and> \<not> py_back s
     \<and> (\<forall>off t. py_box s = Some (WalletBox off t) \<longrightarrow> off \<and> t = ''Payment Completed'')"
proof -
  obtain ev where ev: "eventData w = Some ev" "\<not> loadingEvent w" "step w = 2 \<or> isCheckoutExpired w"
    using assms(1) by (auto simp: step3_shown_def rendered_def)
  have d: "cs_status d = ''paid''" using assms(2,3) by (simp add: isPaid_def status_text_def)
  then obtain r where r: "view_receipt w = Some r"
    using assms(2) by (simp add: view_receipt_def truthy_def)
  have "rc_status r = ''Paid''" "rc_badge r = ''status-badge paid''"
  proof -
    have "toLowerCase ''paid'' = ''paid''" by code_simp
    then show "rc_status r = ''Paid''" "rc_badge r = ''status-badge paid''"
      using r assms(2) d by (auto simp: view_receipt_def humanizeStatus_def checkoutStatusClass_def or_else_def truthy_def)
  qed
  moreover have "truthy (cs_reference d) \<longrightarrow> rc_reference r = cs_reference d"
      "rc_signature r = None \<longleftrightarrow> cs_signature d = []"
      "rc_link r = (if cs_solscanUrl d = [] then None else Some (cs_solscanUrl d))"
    using r assms(2) by (auto simp: view_receipt_def or_else_def truthy_def)
  moreover have "length t \<le> 27 \<and> take 24 t = take 24 (cs_signature d)
      \<and> full = (if showFullSignature w then Some (cs_signature d) else None)" if "rc_signature r = Some (t, full)" for t full
    using that r assms(2) by (auto simp: view_receipt_def short_signature_def shown_if_def split: if_splits)
  moreover have "view_session w = None" "py_back (view_step3 w) = False"
    using assms(3) by (simp_all add: view_session_def view_step3_def split: option.split)
  moreover have "off \<and> t = ''Payment Completed''" if "view_box w = Some (WalletBox off t)" for off t
    using that assms(3) by (auto simp: view_box_def split: if_splits)
  ultimately show ?thesis
    using ev r by (auto simp: render_checkout_def view_event_def view_step3_def)
qed

theorem paid_receipt_shown_witness:
  "\<exists>v s r. render_checkout show_int (fixed_zone 420) (demo_ready\<lparr>statusData := Some demo_receipt\<rparr>) = Screen v
     \<and> pg_step3 v = Some s \<and> py_receipt s = Some r \<and> rc_status r = ''Paid''"
proof -
  have "step3_shown (demo_ready\<lparr>statusData := Some demo_receipt\<rparr>)" "isPaid (demo_ready\<lparr>statusData := Some demo_receipt\<rparr>)"
    by (simp_all add: step3_shown_def rendered_def demo_ready_def demo_start_def initial_checkout_def isPaid_def
        status_text_def demo_receipt_def)
  from paid_receipt_shown [OF this(1) _ this(2), of demo_receipt show_int "fixed_zone 420"] show ?thesis by auto
qed

end
