(* ===== verification/Protocol.thy ===== *)
theory Protocol
  imports Page_Runtime
begin

text \<open>
  Protocols that handlers follow. A protocol is a guarded machine over the requests of a program
  and their replies: \<open>allows s q\<close> says which requests may be made in phase \<open>s\<close>, \<open>next_of s q r\<close> is
  the phase after the reply \<open>r\<close>. A program follows a protocol when it does so whatever the
  replies and whatever the world has become at each \<open>await\<close>, so in every interleaving with
  other handlers.
\<close>

section \<open>Programs and protocols\<close>

text \<open>\<open>Q\<close> and \<open>E\<close> hold of the phase where the program returns and where it throws.\<close>

primrec follows :: "('s \<Rightarrow> 'q \<Rightarrow> bool) \<Rightarrow> ('s \<Rightarrow> 'q \<Rightarrow> 'r \<Rightarrow> 's) \<Rightarrow> ('w, 'q, 'r, 'a) prog \<Rightarrow> 's \<Rightarrow>
    ('a \<Rightarrow> 's \<Rightarrow> bool) \<Rightarrow> (exn \<Rightarrow> 's \<Rightarrow> bool) \<Rightarrow> bool" where
  "follows al nx (Ret a) = (\<lambda>s Q E. Q a s)"
| "follows al nx (Throw e) = (\<lambda>s Q E. E e s)"
| "follows al nx (Upd u p) = follows al nx p"
| "follows al nx (Look f) = (\<lambda>s Q E. \<forall>w. follows al nx (f w) s Q E)"
| "follows al nx (Await q k) = (\<lambda>s Q E. al s q \<and> (\<forall>r. follows al nx (k r) (nx s q r) Q E))"

lemma follows_bind:
  "follows al nx (bind m k) s Q E = follows al nx m s (\<lambda>a s. follows al nx (k a) s Q E) E"
  by (induction m arbitrary: s) simp_all

lemma follows_attempt:
  "follows al nx (attempt m h k) s Q E =
     follows al nx m s (\<lambda>a s. follows al nx (k a) s Q E) (\<lambda>e s. follows al nx (h e) s Q E)"
  by (induction m arbitrary: s) simp_all

lemma follows_catch:
  "follows al nx (catch m h) s Q E = follows al nx m s Q (\<lambda>e s. follows al nx (h e) s Q E)"
  by (simp add: catch_def follows_attempt)

lemma follows_finally: "follows al nx (finally_do m u) s Q E = follows al nx m s Q E"
  by (induction m arbitrary: s) simp_all

lemmas follows_rules = follows_bind follows_attempt follows_catch follows_finally

lemma follows_advance: "follows al nx p s Q E \<Longrightarrow> follows al nx (fst (advance p w)) s Q E"
  by (induction p arbitrary: w) auto

lemma follows_request: "follows al nx p s Q E \<Longrightarrow> request_of p = Some q \<Longrightarrow> al s q"
  by (cases p) simp_all

text \<open>The phase after a history of requests and replies, if every request was allowed.\<close>

primrec phase_after :: "('s \<Rightarrow> 'q \<Rightarrow> bool) \<Rightarrow> ('s \<Rightarrow> 'q \<Rightarrow> 'r \<Rightarrow> 's) \<Rightarrow> 's \<Rightarrow> ('q \<times> 'r) list \<Rightarrow> 's option" where
  "phase_after al nx s [] = Some s"
| "phase_after al nx s (x # h) =
     (if al s (fst x) then phase_after al nx (nx s (fst x) (snd x)) h else None)"

lemma phase_after_append:
  "phase_after al nx s (h @ h') = Option.bind (phase_after al nx s h) (\<lambda>s. phase_after al nx s h')"
  by (induction h arbitrary: s) simp_all

section \<open>One handler in an interleaving\<close>

text \<open>
  \<open>served p h p'\<close>: the handler \<open>p\<close>, after replies to the requests \<open>h\<close>, has become \<open>p'\<close>; between its
  steps the world is any.
\<close>

inductive served :: "('w, 'q, 'r, 'a) prog \<Rightarrow> ('q \<times> 'r) list \<Rightarrow> ('w, 'q, 'r, 'a) prog \<Rightarrow> bool" for p where
  served_start: "advance p w = (p', w') \<Longrightarrow> served p [] p'"
| served_reply: "served p h (Await q k) \<Longrightarrow> advance (k r) w = (p', w') \<Longrightarrow> served p (h @ [(q, r)]) p'"

lemma served_follows:
  assumes "served p h p'" "follows al nx p s Q E"
  shows "\<exists>s'. phase_after al nx s h = Some s' \<and> follows al nx p' s' Q E"
  using assms(1)
proof induction
  case (served_start w p' w')
  then show ?case using follows_advance [OF assms(2), of w] by simp
next
  case (served_reply h q k r w p' w')
  then obtain s' where s: "phase_after al nx s h = Some s'" "al s' q" "follows al nx (k r) (nx s' q r) Q E"
    by auto
  then show ?case
    using follows_advance [OF s(3), of w] served_reply(2) by (simp add: phase_after_append)
qed

text \<open>A run with nothing in between, as \<open>exec\<close> does it, is one of them.\<close>

definition answered :: "('q \<times> 'r option) list \<Rightarrow> ('q \<times> 'r) list" where
  "answered h = concat (map (\<lambda>(q, r). case r of None \<Rightarrow> [] | Some r \<Rightarrow> [(q, r)]) h)"

lemma answered_simps [simp]:
  "answered [] = []" "answered ((q, Some r) # h) = (q, r) # answered h" "answered ((q, None) # h) = answered h"
  by (simp_all add: answered_def)

lemma served_on:
  "served p h (fst (advance p' w)) \<Longrightarrow> \<exists>p''. served p (h @ answered (history p' w rs)) p''"
proof (induction p' arbitrary: h w rs)
  case (Await q k)
  show ?case
  proof (cases rs)
    case (Cons r rs')
    have "served p (h @ [(q, r)]) (fst (advance (k r) w))"
      by (rule served_reply [where w' = "snd (advance (k r) w)"]) (use Await.prems in simp_all)
    from Await.IH [OF rangeI this, of rs'] show ?thesis using Cons by simp
  qed (use Await.prems in auto)
qed auto

lemma served_run: "\<exists>p'. served p (answered (history p w rs)) p'"
  using served_on [of p "[]" p w rs] by (simp add: served_start prod_eq_iff)

text \<open>Every handler of a reachable configuration has been served by what was sent to it.\<close>

lemma reach_served:
  "reach en hs R start c \<Longrightarrow> p \<in> set (snd c) \<Longrightarrow> \<exists>e w h. en e w \<and> served (hs e w) h p"
proof (induction arbitrary: p rule: reach.induct)
  case (reach_step c c')
  from reach_step(2) show ?case
  proof cases
    case (fire e w q w' ps)
    then show ?thesis using reach_step by (auto intro: served_start)
  next
    case (reply i ps q k r w p' w')
    then have "p \<in> set ps \<or> p = p'"
      using reach_step(4) set_update_subset_insert [of ps i p'] by auto
    moreover have "Await q k \<in> set ps" using reply(3,4) by (metis nth_mem)
    then obtain e v h where "en e v" "served (hs e v) h (Await q k)"
      using reach_step(3) [of "Await q k"] reply(1) by force
    then have "\<exists>e w h. en e w \<and> served (hs e w) h p'"
      using reply(6) by (blast intro: served_reply)
    ultimately show ?thesis using reach_step(3) reply(1) by auto
  qed
qed simp

lemma asks_advance: "asks A p \<Longrightarrow> asks A (fst (advance p w))"
  by (induction p arbitrary: w) auto

lemma asks_served: "served p h p' \<Longrightarrow> asks A p \<Longrightarrow> asks A p'"
proof (induction rule: served.induct)
  case (served_start w p' w')
  then show ?case using asks_advance [of A p w] by simp
next
  case (served_reply h q k r w p' w')
  then show ?case using asks_advance [of A "k r" w] by simp
qed

lemma asks_request: "asks A p \<Longrightarrow> request_of p = Some q \<Longrightarrow> A q"
  by (cases p) simp_all

section \<open>Protocols that end\<close>

text \<open>
  The interface of a protocol: a rank that every request lowers. Then a handler that follows it
  makes a bounded number of requests, in every interleaving.
\<close>

locale ranked_protocol =
  fixes al :: "'s \<Rightarrow> 'q \<Rightarrow> bool" and nx :: "'s \<Rightarrow> 'q \<Rightarrow> 'r \<Rightarrow> 's" and rank :: "'s \<Rightarrow> nat"
  assumes rank_falls: "al s q \<Longrightarrow> rank (nx s q r) < rank s"
begin

lemma history_bounded: "phase_after al nx s h = Some s' \<Longrightarrow> length h + rank s' \<le> rank s"
proof (induction h arbitrary: s)
  case (Cons x h)
  then have "length h + rank s' \<le> rank (nx s (fst x) (snd x))" "rank (nx s (fst x) (snd x)) < rank s"
    by (simp_all add: rank_falls split: if_splits)
  then show ?case by simp
qed simp

lemma requests_bounded:
  assumes "served p h p'" "follows al nx p s Q E"
  shows "length h + (case request_of p' of None \<Rightarrow> 0 | Some q \<Rightarrow> 1) \<le> rank s"
proof -
  obtain s' where s: "phase_after al nx s h = Some s'" "follows al nx p' s' Q E"
    using served_follows [OF assms] by blast
  show ?thesis
  proof (cases "request_of p'")
    case None
    then show ?thesis using history_bounded [OF s(1)] by simp
  next
    case (Some q)
    have "rank (nx s' q undefined) < rank s'" by (rule rank_falls) (rule follows_request [OF s(2) Some])
    then show ?thesis using history_bounded [OF s(1)] Some by simp
  qed
qed

end

end
