(* ===== verification/Wallet_Protocol.thy ===== *)
theory Wallet_Protocol
  imports Protocol Checkout_Page
begin

text \<open>
  The protocol between the page and server, wallet and chain during one payment from the wallet, as
  a machine of seven phases, and the proof that \<open>startWalletPayment\<close> follows it in every
  interleaving with the other handlers of the page. The machine has no page: what it
  promises about the order of requests is read off its two functions.
\<close>

section \<open>The machine\<close>

text \<open>The arguments are the session, the reference and the signature.\<close>

datatype wallet_phase =
    Idle
  | OldRoute
  | Invoiced jstr jstr
  | Sent jstr jstr jstr
  | OnChain jstr jstr jstr
  | Unpaid jstr jstr
  | Over

definition invoice_of :: "reply \<Rightarrow> (jstr \<times> jstr) option" where
  "invoice_of r = (case r of
       Http (Response n t (Some b)) \<Rightarrow>
         if ok_status n then map_option (\<lambda>(sid, ref, a). (sid, ref)) (invoice_json b) else None
     | _ \<Rightarrow> None)"

definition status_of :: "reply \<Rightarrow> checkout_status option" where
  "status_of r = (case r of
       Http (Response n t (Some b)) \<Rightarrow> if ok_status n then status_json b else None | _ \<Rightarrow> None)"

definition unsettled :: "jstr \<Rightarrow> jstr \<Rightarrow> jstr \<Rightarrow> wallet_phase" where
  "unsettled sid ref g = (if truthy g then Over else Unpaid sid ref)"

fun wallet_next :: "wallet_phase \<Rightarrow> 'i request \<Rightarrow> reply \<Rightarrow> wallet_phase" where
  "wallet_next Idle q r = (case r of
       Http (Response n t b) \<Rightarrow>
         if ok_status n then (case invoice_of r of Some (sid, ref) \<Rightarrow> Invoiced sid ref | None \<Rightarrow> Over) else OldRoute
     | _ \<Rightarrow> Over)"
| "wallet_next OldRoute q r = (case invoice_of r of Some (sid, ref) \<Rightarrow> Invoiced [] ref | None \<Rightarrow> Over)"
| "wallet_next (Invoiced sid ref) (SendTransaction tx) r =
     (case r of Signed g \<Rightarrow> Sent sid ref g | _ \<Rightarrow> Unpaid sid ref)"
| "wallet_next (Sent sid ref g) q r = (if r = Confirmed False then OnChain sid ref g else unsettled sid ref g)"
| "wallet_next (OnChain sid ref g) q r = (case status_of r of Some d \<Rightarrow> Over | None \<Rightarrow> unsettled sid ref g)"
| "wallet_next _ q r = Over"

definition may_cancel :: "jstr \<Rightarrow> jstr \<Rightarrow> 'i request \<Rightarrow> bool" where
  "may_cancel sid ref q \<longleftrightarrow> truthy ref \<and> q = cancel_request sid ref"

fun wallet_allows :: "('k, 'i) env \<Rightarrow> 'k \<Rightarrow> event_data \<Rightarrow> obj \<Rightarrow> wallet_phase \<Rightarrow> 'i request \<Rightarrow> bool" where
  "wallet_allows env key ev d Idle (PostSession k b) =
     (b = \<lparr>ib_slug = slug env, ib_walletAddress = toBase58 (spl_lib env) key, ib_participantData = d, ib_paymentMethod = Wallet\<rparr>)"
| "wallet_allows env key ev d OldRoute (PostInvoice b) =
     (b = \<lparr>ib_slug = slug env, ib_walletAddress = toBase58 (spl_lib env) key, ib_participantData = d, ib_paymentMethod = Wallet\<rparr>)"
| "wallet_allows env key ev d (Invoiced sid ref) (SendTransaction tx) = transfer_for env key ev ref tx"
| "wallet_allows env key ev d (Invoiced sid ref) q = may_cancel sid ref q"
| "wallet_allows env key ev d (Sent sid ref g) q = (q = ConfirmTransaction g)"
| "wallet_allows env key ev d (OnChain sid ref g) q = (q = submit_request sid ref g)"
| "wallet_allows env key ev d (Unpaid sid ref) q = may_cancel sid ref q"
| "wallet_allows env key ev d _ q = False"

primrec wallet_rank :: "wallet_phase \<Rightarrow> nat" where
  "wallet_rank Idle = 6"
| "wallet_rank OldRoute = 5"
| "wallet_rank (Invoiced sid ref) = 4"
| "wallet_rank (Sent sid ref g) = 3"
| "wallet_rank (OnChain sid ref g) = 2"
| "wallet_rank (Unpaid sid ref) = 1"
| "wallet_rank Over = 0"

lemma rank_wallet:
  "wallet_allows env key ev d s q \<Longrightarrow> wallet_rank (wallet_next s q r) < wallet_rank s"
  by (cases s; cases q)
    (auto simp: unsettled_def split: reply.splits http.splits option.splits if_splits)

interpretation wallet: ranked_protocol "wallet_allows env key ev d" wallet_next wallet_rank
  by unfold_locales (rule rank_wallet)

section \<open>The payment follows it\<close>

lemma await_follows:
  "follows al nx (await_http q) s Q E \<longleftrightarrow> al s q \<and> (\<forall>r. case r of
     Http (Response n t b) \<Rightarrow> Q (Response n t b) (nx s q r) | Http (Rejected e) \<Rightarrow> E e (nx s q r)
   | Refused e \<Rightarrow> E e (nx s q r) | _ \<Rightarrow> E OtherExn (nx s q r))"
  "follows al nx (await_sign q) s Q' E \<longleftrightarrow> al s q \<and> (\<forall>r. case r of
     Signed g \<Rightarrow> Q' g (nx s q r) | Refused e \<Rightarrow> E e (nx s q r) | _ \<Rightarrow> E OtherExn (nx s q r))"
  "follows al nx (await_confirmed q) s Q'' E \<longleftrightarrow> al s q \<and> (\<forall>r. case r of
     Confirmed b \<Rightarrow> Q'' b (nx s q r) | Refused e \<Rightarrow> E e (nx s q r) | _ \<Rightarrow> E OtherExn (nx s q r))"
  by (auto simp: await_http_def await_sign_def await_confirmed_def split: reply.split http.split)

lemma json_follows:
  "follows al nx (require_ok r) s Q1 E \<longleftrightarrow> (case r of
     Response n t b \<Rightarrow> if ok_status n then Q1 () s else E (ErrorExn t) s | Rejected e \<Rightarrow> E e s)"
  "follows al nx (json_as sel r) s Q2 E \<longleftrightarrow> (case r of
     Response n t (Some b) \<Rightarrow> (case sel b of Some x \<Rightarrow> Q2 x s | None \<Rightarrow> E syntax_error s)
   | _ \<Rightarrow> E syntax_error s)"
  by (auto simp: require_ok_def json_as_def res_json_def split: http.split option.split)

lemmas follow_rules = follows_rules await_follows json_follows

lemma failed_follows:
  assumes "truthy ref \<and> \<not> truthy g \<longrightarrow> (s = Unpaid sid ref \<or> s = Invoiced sid ref)"
  shows "follows (wallet_allows env key ev d) wallet_next (walletFailed ref sid g e) s (\<lambda>_ _. True) (\<lambda>_ _. True)"
proof -
  have "wallet_allows env key ev d (Invoiced sid ref) q = may_cancel sid ref q" if "q = cancel_request sid ref" for q
    using that by (simp add: cancel_request_def)
  then show ?thesis
    using assms by (auto simp: walletFailed_def follow_rules may_cancel_def cancel_request_def
        split: reply.split http.split)
qed

lemma confirm_follows:
  "follows (wallet_allows env key ev d) wallet_next (confirmPayment sid ref g) (Sent sid ref g)
     (\<lambda>_ _. True) (\<lambda>e s. s = unsettled sid ref g)"
  by (auto simp: confirmPayment_def follow_rules submit_request_def status_of_def split: reply.split http.split option.split)

lemma sign_follows:
  "follows (wallet_allows env key ev d) wallet_next (signTransfer env key ev ref) (Invoiced sid ref)
     (\<lambda>g s. s = Sent sid ref g) (\<lambda>e s. s = Invoiced sid ref \<or> s = Unpaid sid ref)"
  by (auto simp: signTransfer_def follow_rules transfer_for_def split: sum.split reply.split)

lemma invoice_follows:
  assumes "addr = toBase58 (spl_lib env) key" "d = participantData c"
  shows "follows (wallet_allows env key ev d) wallet_next (createInvoice env c addr Wallet) Idle
     (\<lambda>(sid, ref, a) s. s = Invoiced sid ref) (\<lambda>_ _. True)"
  using assms
  by (auto simp: createInvoice_def Let_def follow_rules invoice_of_def http_ok_def split: reply.split http.split option.split)

lemma follows_mono:
  "follows al nx p s Q E \<Longrightarrow> (\<And>a s. Q a s \<Longrightarrow> Q' a s) \<Longrightarrow> (\<And>e s. E e s \<Longrightarrow> E' e s) \<Longrightarrow> follows al nx p s Q' E'"
proof (induction p arbitrary: s Q E)
  case (Await q k)
  from Await.prems(1) have "al s q" and k: "follows al nx (k r) (nx s q r) Q E" for r by simp_all
  then show ?case using Await.IH [OF rangeI k Await.prems(2,3)] by simp
next
  case (Look f)
  then have "follows al nx (f w) s Q E" for w by simp
  from Look.IH [OF rangeI this Look.prems(2,3)] show ?case by simp
qed auto

lemma created_follows:
  "follows (wallet_allows env key ev d) wallet_next (payCreated env key ev sid ref) (Invoiced sid ref) (\<lambda>_ _. True) (\<lambda>_ _. True)"
proof -
  have "follows (wallet_allows env key ev d) wallet_next (catch (confirmPayment sid ref g) (walletFailed ref (or_else sid []) g))
      (Sent sid ref g) (\<lambda>_ _. True) (\<lambda>_ _. True)" for g
    unfolding follows_catch
    by (rule follows_mono [OF confirm_follows]) (auto intro!: failed_follows simp: unsettled_def)
  then show ?thesis
    unfolding payCreated_def follows.simps follows_attempt
    by (intro follows_mono [OF sign_follows]) (auto intro!: failed_follows)
qed

lemma payment_follows:
  assumes "publicKey c = Some key" "eventData c = Some ev"
  shows "follows (wallet_allows env key ev (participantData c)) wallet_next (startWalletPayment env c) Idle (\<lambda>_ _. True) (\<lambda>_ _. True)"
  unfolding startWalletPayment_def assms option.case prod.case follows.simps follows_finally follows_attempt
  by (rule follows_mono [OF invoice_follows [OF refl refl]])
    (auto intro: created_follows simp: walletFailed_def)

section \<open>What the machine promises\<close>

text \<open>How a phase was entered.\<close>

lemma entered:
  "wallet_allows env key ev d s q \<Longrightarrow> wallet_next s q r = OnChain sid ref g \<Longrightarrow>
     s = Sent sid ref g \<and> q = ConfirmTransaction g \<and> r = Confirmed False"
  "wallet_allows env key ev d s q \<Longrightarrow> wallet_next s q r = Sent sid ref g \<Longrightarrow>
     s = Invoiced sid ref \<and> (\<exists>tx. q = SendTransaction tx \<and> transfer_for env key ev ref tx) \<and> r = Signed g"
  by (cases s; cases q; auto simp: unsettled_def split: reply.splits http.splits option.splits if_splits)+

lemma phase_snoc:
  "phase_after al nx s (h @ [(q, r)]) = Some s' \<longleftrightarrow> (\<exists>t. phase_after al nx s h = Some t \<and> al t q \<and> s' = nx t q r)"
  by (auto simp: phase_after_append split: bind_splits)

lemma sent_after:
  assumes "phase_after (wallet_allows env key ev d) wallet_next Idle h = Some (Sent sid ref g)"
  shows "\<exists>h0 tx. h = h0 @ [(SendTransaction tx, Signed g)] \<and> transfer_for env key ev ref tx"
  using assms
proof (cases h rule: rev_cases)
  case (snoc h0 x)
  then show ?thesis using assms by (cases x) (auto simp: phase_snoc dest: entered(2) [OF _ sym])
qed simp

lemma on_chain_after:
  assumes "phase_after (wallet_allows env key ev d) wallet_next Idle h = Some (OnChain sid ref g)"
  shows "\<exists>h0 tx. h = h0 @ [(SendTransaction tx, Signed g), (ConfirmTransaction g, Confirmed False)]
    \<and> transfer_for env key ev ref tx"
  using assms
proof (cases h rule: rev_cases)
  case (snoc h0 x)
  obtain q r where "x = (q, r)" by (cases x)
  with snoc assms obtain "phase_after (wallet_allows env key ev d) wallet_next Idle h0 = Some (Sent sid ref g)"
    "q = ConfirmTransaction g" "r = Confirmed False"
    by (auto simp: phase_snoc dest: entered(1) [OF _ sym])
  then show ?thesis using sent_after snoc \<open>x = (q, r)\<close> by fastforce
qed simp

lemma allows_submit: "wallet_allows env key ev d s q \<Longrightarrow> submits g q \<Longrightarrow> \<exists>sid ref. s = OnChain sid ref g"
  by (cases s; cases q) (auto simp: submits_def may_cancel_def cancel_request_def submit_request_def split: if_splits)

text \<open>No other handler of the page submits a signature.\<close>

lemma only_payment_submits:
  assumes "e \<noteq> ClickDeposit" "e \<noteq> ClickRefresh"
  shows "asks (\<lambda>q. \<not> submits g q) (handler env e c)"
proof -
  let ?A = "\<lambda>q. \<not> submits g q"
  have "asks ?A (loadEvent env)" "asks ?A (restorePending c)" "asks ?A (lookupClick env c)" "asks ?A (continueStep1 env c)"
    "asks ?A (backStep3 c b)" "asks ?A (startQrSession env c b)" for b
    by (auto simp: loadEvent_def restorePending_def refreshStatus_def lookupClick_def Let_def submits_def continueStep1_def
        validateStep1_def backStep3_def cancelCurrentSession_def startQrSession_def createInvoice_def openQrWindow_def
        split: option.split stored_text.split sum.split intro!: asks_rules asks_awaits asks_participant asks_http)
  then show ?thesis
    using assms
    by (cases e) (auto simp: tickTimeLeft_def onMessage_def onBeforeUnload_def onPageHide_def runTimer_def editField_def
      selectMethod_def continueStep2_def split: option.split timer.split)
qed

section \<open>A payment on the concrete page\<close>

text \<open>A payment of the concrete page that waits for the chain and for the server.\<close>

definition signed_payment :: "jstr \<Rightarrow> jstr \<Rightarrow> (jstr checkout, demo_ix request, reply, unit) prog" where
  "signed_payment ref g = finally_do (catch (confirmPayment [] ref g) (walletFailed ref [] g)) (\<lambda>w. w\<lparr>loadingPay := False\<rparr>)"

definition confirmed_payment :: "jstr \<Rightarrow> jstr \<Rightarrow> (jstr checkout, demo_ix request, reply, unit) prog" where
  "confirmed_payment ref g = fst (advance (reply_of (signed_payment ref g) (Confirmed False)) demo_ready)"

lemma demo_steps:
  "request_of (signed_payment ref g) = Some (ConfirmTransaction g)"
  "advance (signed_payment ref g) w = (signed_payment ref g, w)"
  "request_of (confirmed_payment ref g) = Some (PostConfirm ref g)"
  "advance (reply_of (signed_payment ref g) (Confirmed False)) w = (confirmed_payment ref g, w)"
  by (simp_all add: signed_payment_def confirmed_payment_def confirmPayment_def prog_simps await_confirmed_def await_http_def)

lemma demo_sign:
  fixes c w v u :: "jstr checkout" and ref g :: jstr
  assumes "publicKey c = Some ''payer''" "eventData c = Some demo_event"
  defines "a \<equiv> fst (advance (startWalletPayment demo_env c) w)"
  defines "b \<equiv> fst (advance (reply_of a (demo_invoice ref)) v)"
  shows "snd (advance (reply_of a (demo_invoice ref)) v) = persistPending ref Wallet [] []
      (v\<lparr>activeSessionId := [], reference := ref, statusData := Some (pending_status ref ''devnet'' Wallet),
         sessionMethod := Some Wallet, paymentMethod := Wallet\<rparr>)"
    and "advance (reply_of b (Signed g)) u = (signed_payment ref g, persistPending ref Wallet g [] u)"
  using assms
  by (simp_all add: a_def b_def startWalletPayment_def createInvoice_def payCreated_def signTransfer_def demo_invoice_def
      prog_simps Let_def await_http_def await_sign_def json_as_def res_json_def http_ok_def invoice_json_def
      demo_transfer [simplified demo_fields] demo_transfer_any [simplified demo_fields] signed_payment_def
      confirmPayment_def await_confirmed_def)

lemma demo_signed_reached:
  obtains w ps where "reach enabled (handler demo_env) fits page_start (w, ps @ [signed_payment ''ref1'' ''sig1''])"
    "pending w = kept_session [] ''ref1'' ''sig1'' (now w)" "enabled (ClickBack3 True) w" "hasActiveSession w"
    "activeSessionId w = []" "reference w = ''ref1''" "loadingPay w"
proof -
  let ?R = "reach enabled (handler demo_env) fits page_start"
  note d = demo_ready_def demo_start_def initial_checkout_def
  obtain p0 p1 p2 where r: "?R (demo_ready, [p0, p1, p2])" using demo_mounted .
  have w: "publicKey demo_ready = Some ''payer''" "eventData demo_ready = Some demo_event"
    by (simp_all add: demo_ready_def)
  note shown = step3_shown_def rendered_def chosenMethod_def isPaid_def status_text_def time_over_def
  define w1 where "w1 = demo_ready\<lparr>loadingPay := True, page_error := []\<rparr>"
  define a where "a = fst (advance (startWalletPayment demo_env demo_ready) demo_ready)"
  have en: "enabled ClickDeposit demo_ready" by (simp add: deposit_enabled_def shown d)
  have r1: "?R (w1, [p0, p1, p2] @ [a])"
    by (rule reach_fire [OF r en]) (simp add: prod_eq_iff a_def w1_def demo_deposit(1) [OF w])
  obtain k x where q: "request_of a = Some (PostSession k x)"
    using demo_deposit(2) [OF w, of demo_ready] unfolding a_def by blast
  define b where "b = fst (advance (reply_of a (demo_invoice ''ref1'')) w1)"
  define w2 where "w2 = snd (advance (reply_of a (demo_invoice ''ref1'')) w1)"
  have r2: "?R (w2, ([p0, p1, p2] @ [a])[3 := b])"
    by (rule reach_reply [OF r1, where q = "PostSession k x" and r = "demo_invoice ''ref1''"])
      (simp_all add: q b_def w2_def, simp add: demo_invoice_def invoice_json_def)
  define w3 where "w3 = persistPending ''ref1'' Wallet ''sig1'' [] w2"
  have "?R (w3, (([p0, p1, p2] @ [a])[3 := b])[3 := signed_payment ''ref1'' ''sig1''])"
    by (rule reach_reply [OF r2, where q = "SendTransaction (demo_transfer_tx ''ref1'')" and r = "Signed ''sig1''"])
      (use demo_deposit(3) [OF w] demo_sign(2) [OF w] in \<open>simp_all add: a_def b_def w3_def\<close>)
  moreover have w2: "w2 = persistPending ''ref1'' Wallet [] [] (w1\<lparr>activeSessionId := [], reference := ''ref1'',
      statusData := Some (pending_status ''ref1'' ''devnet'' Wallet), sessionMethod := Some Wallet, paymentMethod := Wallet\<rparr>)"
    unfolding w2_def a_def by (rule demo_sign(1) [OF w])
  moreover have "toLowerCase ''pending_payment'' = ''pending_payment''" by code_simp
  ultimately show ?thesis
    by (intro that [of w3 "[p0, p1, p2]"])
      (simp_all add: w3_def w1_def persist_pending persistPending_def kept_session_def d pending_status_def hasActiveSession_def
        closed_statuses_def back3_shown_def shown Let_def)
qed

section \<open>Properties\<close>

text \<open>
  C2. A wallet payment refines its protocol, in every interleaving with the other handlers of the page and
  whatever the replies: the requests it has made are accepted by the machine, the one it waits for is
  allowed, and there are at most six.
\<close>

theorem wallet_refines_protocol:
  assumes "served (startWalletPayment env c) h p" "publicKey c = Some key" "eventData c = Some ev"
  shows "\<exists>s. phase_after (wallet_allows env key ev (participantData c)) wallet_next Idle h = Some s
     \<and> (\<forall>q. request_of p = Some q \<longrightarrow> wallet_allows env key ev (participantData c) s q)
     \<and> length h + (case request_of p of None \<Rightarrow> 0 | Some q \<Rightarrow> 1) \<le> 6"
  using served_follows [OF assms(1) payment_follows [OF assms(2,3)]]
    wallet.requests_bounded [OF assms(1) payment_follows [OF assms(2,3)]] follows_request by fastforce

theorem wallet_refines_protocol_witness:
  "phase_after (wallet_allows demo_env ''payer'' demo_event []) wallet_next Idle
     (answered (history (startWalletPayment demo_env demo_page) demo_page demo_paid)) = Some Over"
proof -
  have d: "publicKey demo_page = Some ''payer''" "eventData demo_page = Some demo_event" "participantData demo_page = []"
    by (simp_all add: demo_page_def initial_checkout_def)
  obtain p where "served (startWalletPayment demo_env demo_page)
      (answered (history (startWalletPayment demo_env demo_page) demo_page demo_paid)) p"
    by (rule exE [OF served_run])
  from wallet_refines_protocol [OF this d(1,2)] show ?thesis
    by (simp add: demo_history d(3) invoice_of_def invoice_json_def status_of_def status_json_def submit_request_def split: if_splits)
qed



end
