(* ===== verification/Checkout_Races.thy ===== *)
theory Checkout_Races
  imports Checkout_View Wallet_Protocol
begin

text \<open>
  Interleavings of the checkout page's handlers that lose a payment: going back asks the server to
  cancel the session, and the page forgets the session when the replies have come, also when
  the wallet has signed the payment, or the payment has been reported as paid in the meantime.
\<close>

section \<open>Cancelling a session\<close>

definition ok_reply :: reply where
  "ok_reply = Http (Response 200 [] None)"

definition paid_message :: checkout_status where
  "paid_message = \<lparr>cs_reference = ''ref0'', cs_status = ''paid'', cs_signature = ''sig'', cs_network = ''devnet'',
     cs_solscanUrl = [], cs_paymentMethod = Some Qr, cs_participantData = None\<rparr>"

text \<open>The three parts of the run of \<open>backStep3\<close>: up to each of its requests, and to its end.\<close>

lemma back_run:
  fixes c w v u :: "'k checkout"
  assumes "hasActiveSession c" "activeSessionId c = sid" "reference c = ref" "truthy sid"
  defines "p \<equiv> fst (advance (backStep3 c True) w)"
  defines "q \<equiv> fst (advance (reply_of p ok_reply) v)"
  shows "snd (advance (backStep3 c True) w) = w" "request_of p = Some (CancelSession sid)"
    and "snd (advance (reply_of p ok_reply) v) = v" "request_of q = Some (PostCancel ref)"
    and "advance (reply_of q ok_reply) u = (Ret (), (clearPending u)\<lparr>statusData := None, step := 1\<rparr>)"
proof -
  have "truthy ref" using assms(1,3) by (simp add: hasActiveSession_def split: if_splits)
  then show "snd (advance (backStep3 c True) w) = w" "request_of p = Some (CancelSession sid)"
    "snd (advance (reply_of p ok_reply) v) = v" "request_of q = Some (PostCancel ref)"
    "advance (reply_of q ok_reply) u = (Ret (), (clearPending u)\<lparr>statusData := None, step := 1\<rparr>)"
    using assms(1-4)
    by (simp_all add: p_def q_def backStep3_def cancelCurrentSession_def await_http_def prog_simps ok_reply_def clearPending_def)
qed

section \<open>Properties\<close>

text \<open>
  C26. A receipt can be lost: there is a reachable state in which the page shows a payment as paid, while the
  requests of a cancelled session are under way; their replies, which a server that has
  recorded the payment may well send, take the receipt from the page and leave it at the
  choice of a payment method, with nothing stored of the payment.
\<close>

theorem paid_receipt_lost:
  "\<exists>w ps i w'. reach enabled (handler demo_env) fits page_start (w, ps) \<and> isPaid w
     \<and> i < length ps \<and> request_of (ps ! i) = Some (PostCancel ''ref0'')
     \<and> reach enabled (handler demo_env) fits page_start (w', ps[i := Ret ()])
     \<and> w' = snd (advance (reply_of (ps ! i) ok_reply) w)
     \<and> statusData w' = None \<and> reference w' = [] \<and> pending w' = None \<and> enabled ClickContinue2 w'"
proof -
  let ?R = "reach enabled (handler demo_env) fits page_start"
  note d = demo_ready_def demo_start_def initial_checkout_def
  obtain p0 p1 p2 where r0: "?R (demo_ready, [p0, p1, p2])" using demo_mounted .
  have a: "hasActiveSession demo_ready" "activeSessionId demo_ready = ''s0''" "reference demo_ready = ''ref0''" "truthy ''s0''"
  proof -
    have "toLowerCase ''pending_payment'' = ''pending_payment''" by code_simp
    then show "hasActiveSession demo_ready"
      by (simp add: hasActiveSession_def status_text_def closed_statuses_def d)
  qed (simp_all add: d)
  define p :: "(jstr checkout, demo_ix request, reply, unit) prog" where "p = fst (advance (backStep3 demo_ready True) demo_ready)"
  have b: "advance (backStep3 demo_ready True) demo_ready = (p, demo_ready)" "request_of p = Some (CancelSession ''s0'')"
      "snd (advance (reply_of p ok_reply) v) = v" "request_of (fst (advance (reply_of p ok_reply) v)) = Some (PostCancel ''ref0'')"
      "advance (reply_of (fst (advance (reply_of p ok_reply) v)) ok_reply) u = (Ret (), (clearPending u)\<lparr>statusData := None, step := 1\<rparr>)"
    for u v
    unfolding p_def by (simp_all add: prod_eq_iff back_run(1) [OF a] back_run(2-5) [OF a])
  have en: "enabled (ClickBack3 True) demo_ready"
    by (simp add: back3_shown_def step3_shown_def rendered_def isPaid_def status_text_def d)
  have r1: "?R (demo_ready, [p0, p1, p2] @ [p])"
    by (rule reach_fire [OF r0 en]) (simp add: b(1))
  define w where "w = (hydrateStatus paid_message demo_ready)\<lparr>page_error := []\<rparr>"
  have r2: "?R (w, [p0, p1, p2, p] @ [Ret ()])"
    by (rule reach_fire [OF r1 [simplified], where e = "Message (Some (Some paid_message))"])
      (simp_all add: onMessage_def w_def paid_message_def)
  define q where "q = fst (advance (reply_of p ok_reply) w)"
  have f: "fits (CancelSession x) ok_reply" "fits (PostCancel x) ok_reply" for x
    by (simp_all add: ok_reply_def)
  have "?R (w, ([p0, p1, p2, p] @ [Ret ()])[3 := q])"
    by (rule reach_reply [OF r2, where q = "CancelSession ''s0''" and r = ok_reply])
      (simp_all add: prod_eq_iff b(2,3) f q_def)
  then have r3: "?R (w, [p0, p1, p2, q, Ret ()])" by simp
  define w' where "w' = (clearPending w)\<lparr>statusData := None, step := 1\<rparr>"
  have "?R (w', [p0, p1, p2, q, Ret ()][3 := Ret ()])"
    by (rule reach_reply [OF r3, where q = "PostCancel ''ref0''" and r = ok_reply])
      (simp_all add: b(4,5) f q_def w'_def)
  moreover have "isPaid w"
    by (simp add: w_def isPaid_def status_text_def hydrateStatus_def paid_message_def clearPending_def Let_def)
  moreover have "statusData w' = None \<and> reference w' = [] \<and> pending w' = None \<and> enabled ClickContinue2 w'"
    by (simp add: w'_def w_def clearPending_def hydrateStatus_def paid_message_def step2_shown_def rendered_def d Let_def)
  ultimately show ?thesis
    using r3 b(4,5) by (intro exI [of _ w] exI [of _ "[p0, p1, p2, q, Ret ()]"] exI [of _ 3] exI [of _ w'])
      (simp add: q_def w'_def)
qed

text \<open>
  C34. A payment that the wallet has signed can be cancelled from the page: the button Back of the last step is
  there while the page waits for the chain to confirm the signature. It asks the server to
  cancel the session, and takes the stored signature out of the browser; a wallet payment by
  itself does neither.
\<close>

theorem signed_payment_cancelled:
  "\<exists>w ps w'. reach enabled (handler demo_env) fits page_start (w, ps @ [signed_payment ''ref1'' ''sig1''])
     \<and> request_of (signed_payment ''ref1'' ''sig1'') = Some (ConfirmTransaction ''sig1'')
     \<and> pending w = kept_session [] ''ref1'' ''sig1'' (now w) \<and> enabled (ClickBack3 True) w
     \<and> requests (handler demo_env (ClickBack3 True) w) w [ok_reply] = [PostCancel ''ref1'']
     \<and> w' = final (handler demo_env (ClickBack3 True) w) w [ok_reply]
     \<and> reach enabled (handler demo_env) fits page_start (w', ps @ [signed_payment ''ref1'' ''sig1'', Ret ()])
     \<and> pending w' = None \<and> reference w' = [] \<and> loadingPay w'"
proof -
  let ?R = "reach enabled (handler demo_env) fits page_start" and ?s = "signed_payment ''ref1'' ''sig1''"
  obtain w ps where r: "?R (w, ps @ [?s])" "pending w = kept_session [] ''ref1'' ''sig1'' (now w)"
    "enabled (ClickBack3 True) w" "hasActiveSession w" "activeSessionId w = []" "reference w = ''ref1''" "loadingPay w"
    using demo_signed_reached .
  let ?h = "handler demo_env (ClickBack3 True) w"
  define w' where "w' = final ?h w [ok_reply]"
  note bk = backStep3_def cancelCurrentSession_def await_http_def prog_simps ok_reply_def
  have h: "advance ?h w = (fst (advance ?h w), w)" "request_of (fst (advance ?h w)) = Some (PostCancel ''ref1'')"
    "advance (reply_of (fst (advance ?h w)) ok_reply) w = (Ret (), w')"
    by (simp_all add: bk r(4-6) w'_def)
  have "?R (w, (ps @ [?s]) @ [fst (advance ?h w)])"
    by (rule reach_fire [OF r(1,3) h(1)])
  then have "?R (w', ((ps @ [?s]) @ [fst (advance ?h w)])[Suc (length ps) := Ret ()])"
    by (rule reach_reply [where q = "PostCancel ''ref1''" and r = ok_reply])
      (use h(2,3) in \<open>simp_all add: nth_append\<close>, simp add: ok_reply_def)
  then have r2: "?R (w', ps @ [?s, Ret ()])" by (simp add: list_update_append)
  have "requests ?h w [ok_reply] = [PostCancel ''ref1'']" "pending w' = None \<and> reference w' = [] \<and> loadingPay w'"
    by (simp_all add: bk r(4-7) w'_def clearPending_def)
  with r r2 show ?thesis
    by (intro exI [of _ w] exI [of _ ps] exI [of _ w']) (simp add: w'_def demo_steps(1))
qed

end
