(* ===== verification/Checkout_Guards.thy ===== *)
theory Checkout_Guards
  imports Checkout_Races
begin

text \<open>
  Who may ask the server, the wallet and the chain for what: for every request of the checkout page the
  event it comes from and the guards of that event, as a table (\<open>page_may_ask\<close>) that every handler keeps
  to; and when a session can be cancelled.
\<close>

section \<open>The table\<close>

definition is_payment :: "'k event \<Rightarrow> bool" where
  "is_payment e \<longleftrightarrow> e = ClickDeposit \<or> e = ClickRefresh"

definition invoice_for :: "('k, 'i) env \<Rightarrow> 'k event \<Rightarrow> 'k checkout \<Rightarrow> invoice_body \<Rightarrow> bool" where
  "invoice_for env e c b \<longleftrightarrow> ib_slug b = slug env \<and> ib_participantData b = participantData c \<and> eventData c \<noteq> None \<and>
     (is_payment e \<and> ib_paymentMethod b = Wallet \<and> (\<exists>key. publicKey c = Some key \<and> ib_walletAddress b = toBase58 (spl_lib env) key) \<or>
      (\<exists>blocked. e = ClickQr blocked) \<and> ib_paymentMethod b = Qr \<and> ib_walletAddress b = [])"

text \<open>\<open>page_may_ask env e c q\<close>: the handler of event \<open>e\<close>, created by the render of \<open>c\<close>, may ask for \<open>q\<close>.\<close>

fun page_may_ask :: "('k, 'i) env \<Rightarrow> 'k event \<Rightarrow> 'k checkout \<Rightarrow> 'i request \<Rightarrow> bool" where
  "page_may_ask env e c (GetEvent s) = (e = MountLoad \<and> s = slug env)"
| "page_may_ask env e c (GetStatus r) = (e = MountRestore \<and> r \<noteq> [])"
| "page_may_ask env e c (PostParticipantStatus s m) = (s = slug env \<and> m \<noteq> [] \<and>
     (e = ClickLookup \<and> m = toLowerCase (trim (lookupEmail c)) \<or>
      e = ClickContinue1 \<and> m = emailFromParticipantData (participantData c)))"
| "page_may_ask env e c (PostSession k b) = invoice_for env e c b"
| "page_may_ask env e c (PostInvoice b) = invoice_for env e c b"
| "page_may_ask env e c (SendTransaction tx) = (is_payment e \<and> (\<exists>key ev ref. publicKey c = Some key \<and>
     eventData c = Some ev \<and> transfer_for env key ev ref tx))"
| "page_may_ask env e c (ConfirmTransaction g) = is_payment e"
| "page_may_ask env e c (SubmitSignature sid g) = is_payment e"
| "page_may_ask env e c (PostConfirm ref g) = is_payment e"
| "page_may_ask env e c (CancelSession sid) = (sid \<noteq> [] \<and>
     (is_payment e \<or> e = ClickBack3 True \<and> hasActiveSession c \<and> sid = activeSessionId c))"
| "page_may_ask env e c (PostCancel ref) = (ref \<noteq> [] \<and>
     (is_payment e \<or> e = ClickBack3 True \<and> hasActiveSession c \<and> ref = reference c))"

section \<open>Every handler keeps to it\<close>

lemma asks_await:
  "A q \<Longrightarrow> asks A (await_sign q)" "A q \<Longrightarrow> asks A (await_confirmed q)"
  by (auto simp: await_sign_def await_confirmed_def split: reply.split)

lemma asks_invoice:
  assumes "\<And>k. A (PostSession k b)" "A (PostInvoice b)"
    and "b = \<lparr>ib_slug = slug env, ib_walletAddress = a, ib_participantData = participantData c, ib_paymentMethod = m\<rparr>"
  shows "asks A (createInvoice env c a m)"
  using assms by (auto simp: createInvoice_def Let_def intro!: asks_rules asks_awaits asks_http)

lemma payment_keeps:
  assumes "is_payment e"
  shows "asks (page_may_ask env e c) (startWalletPayment env c)"
proof (cases "publicKey c = None \<or> eventData c = None")
  case True
  then show ?thesis by (auto simp: startWalletPayment_def split: option.split)
next
  case False
  then obtain key ev where k: "publicKey c = Some key" "eventData c = Some ev" by auto
  let ?A = "page_may_ask env e c"
  have failed: "asks ?A (walletFailed ref sid g err)" for ref sid g err
    using assms by (auto simp: walletFailed_def truthy_def intro!: asks_rules asks_awaits)
  have confirmed: "asks ?A (confirmPayment sid ref g)" for sid ref g
    using assms by (auto simp: confirmPayment_def intro!: asks_rules asks_awaits asks_await asks_http)
  have signed: "asks ?A (signTransfer env key ev ref)" for ref
    using assms k by (auto simp: signTransfer_def transfer_for_def split: sum.split intro!: asks_await)
  have created: "asks ?A (payCreated env key ev sid ref)" for sid ref
    by (auto simp: payCreated_def intro!: asks_rules failed confirmed signed)
  have "asks ?A (createInvoice env c (toBase58 (spl_lib env) key) Wallet)"
    using assms k by (auto simp: invoice_for_def intro!: asks_invoice)
  then show ?thesis by (auto simp: startWalletPayment_def k intro!: asks_rules failed created)
qed

lemma qr_keeps: "asks (page_may_ask env (ClickQr b) c) (startQrSession env c b)"
  by (auto simp: startQrSession_def openQrWindow_def invoice_for_def Let_def split: option.split
      intro!: asks_rules asks_invoice)

lemma back_keeps: "asks (page_may_ask env (ClickBack3 ok) c) (backStep3 c ok)"
  by (auto simp: backStep3_def cancelCurrentSession_def truthy_def intro!: asks_rules asks_awaits)

lemma page_handlers_keep: "asks (page_may_ask env e c) (handler env e c)"
proof (cases e)
  case MountLoad
  then show ?thesis by (auto simp: loadEvent_def intro!: asks_rules asks_awaits asks_http)
next
  case MountRestore
  then show ?thesis by (auto simp: restorePending_def refreshStatus_def Let_def truthy_def
      split: option.split stored_text.split intro!: asks_rules asks_awaits)
next
  case ClickLookup
  then show ?thesis by (auto simp: lookupClick_def Let_def truthy_def split: option.split
      intro!: asks_rules asks_participant)
next
  case ClickContinue1
  then show ?thesis by (auto simp: continueStep1_def validateStep1_def Let_def truthy_def split: option.split sum.split
      intro!: asks_rules asks_participant)
next
  case (ClickQr b)
  then show ?thesis using qr_keeps by simp
next
  case (ClickBack3 ok)
  then show ?thesis using back_keeps by simp
qed (auto simp: payment_keeps is_payment_def tickTimeLeft_def onMessage_def onBeforeUnload_def onPageHide_def runTimer_def
  editField_def selectMethod_def continueStep2_def split: option.split timer.split)

text \<open>A payment that has its signature does not come back to a phase that cancels.\<close>

definition signed_phase :: "wallet_phase \<Rightarrow> bool" where
  "signed_phase s \<longleftrightarrow> (case s of Sent sid ref g \<Rightarrow> truthy g | OnChain sid ref g \<Rightarrow> truthy g | Over \<Rightarrow> True | _ \<Rightarrow> False)"

lemma signed_next:
  "wallet_allows env key ev d s q \<Longrightarrow> signed_phase s \<or> (\<exists>tx g. q = SendTransaction tx \<and> r = Signed g \<and> truthy g) \<Longrightarrow>
     signed_phase (wallet_next s q r)"
  by (cases s; cases q) (auto simp: signed_phase_def unsettled_def may_cancel_def cancel_request_def submit_request_def
      split: option.split if_splits)

lemma signed_after:
  assumes "phase_after (wallet_allows env key ev d) wallet_next Idle h = Some s"
    and "(SendTransaction tx, Signed g) \<in> set h" "truthy g"
  shows "signed_phase s"
  using assms
proof (induction h arbitrary: s rule: rev_induct)
  case (snoc x h)
  obtain q r where x: "x = (q, r)" by (cases x)
  with snoc.prems(1) obtain t where "phase_after (wallet_allows env key ev d) wallet_next Idle h = Some t"
    "wallet_allows env key ev d t q" "s = wallet_next t q r"
    by (auto simp: phase_snoc)
  with snoc x show ?case by (auto intro!: signed_next)
qed simp

lemma cancels_unsigned:
  assumes "served (startWalletPayment env c) h p" "request_of p = Some q" "q = CancelSession sid \<or> q = PostCancel ref"
    and "(SendTransaction tx, Signed g) \<in> set h"
  shows "g = []"
proof (rule ccontr)
  assume "g \<noteq> []"
  then have g: "truthy g" by (simp add: truthy_def)
  have "asks (\<lambda>_. False) (startWalletPayment env c)" if "publicKey c = None \<or> eventData c = None"
    using that by (auto simp: startWalletPayment_def split: option.split)
  then obtain key ev where k: "publicKey c = Some key" "eventData c = Some ev"
    using asks_request [OF asks_served [OF assms(1)] assms(2)] by (cases "publicKey c"; cases "eventData c") auto
  obtain s where s: "phase_after (wallet_allows env key ev (participantData c)) wallet_next Idle h = Some s"
    "follows (wallet_allows env key ev (participantData c)) wallet_next p s (\<lambda>_ _. True) (\<lambda>_ _. True)"
    using served_follows [OF assms(1) payment_follows [OF k]] by (elim exE conjE)
  have "signed_phase s" by (rule signed_after [OF s(1) assms(4) g])
  with follows_request [OF s(2) assms(2)] assms(3) show False
    by (cases s) (auto simp: signed_phase_def submit_request_def split: if_splits)
qed

section \<open>Properties\<close>





end
