(* ===== verification/Qr_Window.thy ===== *)
theory Qr_Window
  imports Checkout_Page
begin

text \<open>
  The script of the QR popup that \<open>openQrWindow\<close> writes: a clock, a loop that asks the server whether
  the payment has arrived, and the countdown that closes the window. The timers of the window
  are part of its state; a timer fires at its time or later. \<open>qr_step\<close> is one turn of the
  window's event loop.
\<close>

section \<open>State\<close>

text \<open>
  \<open>pollTimers\<close> are the pending calls of \<open>detectPayment\<close> (identifier and due time), \<open>tickTimers\<close> those of
  \<open>tick\<close>; \<open>closing\<close> is the variable \<open>n\<close> of the interval of \<open>finishAndClose\<close> while it runs.
  \<open>asked\<close> lists the times of the requests, \<open>posted\<close> the messages to the opener.
\<close>

record qr_window =
  qw_reference :: jstr
  qw_expiresAt :: int
  qw_now :: int
  isClosed :: bool
  polling :: bool
  pollHandle :: "nat option"
  pollDelay :: int
  pollTimers :: "(nat \<times> int) list"
  nextTimer :: nat
  tickTimers :: "int list"
  closing :: "int option"
  timerText :: jstr
  statusText :: jstr
  statusClass :: jstr
  resultText :: jstr
  resultClass :: jstr
  openerThere :: bool
  posted :: "checkout_status list"
  asked :: "int list"
  gone :: bool

text \<open>What \<open>fetch\<close> and \<open>res.text()\<close> give; the payload is the parsed text, where it parses.\<close>

datatype poll_reply = PollReply int jstr "checkout_status option" | PollError exn

section \<open>The functions of the script\<close>

definition fmt :: "int \<Rightarrow> jstr" where
  "fmt seconds = pad_start 2 (CHR ''0'') (show_int (seconds div 60)) @ '':'' @
     pad_start 2 (CHR ''0'') (show_int (max 0 (seconds mod 60)))"

definition seconds_left :: "qr_window \<Rightarrow> int" where
  "seconds_left w = (qw_expiresAt w - qw_now w) div 1000"

definition setStatus :: "jstr \<Rightarrow> jstr \<Rightarrow> qr_window \<Rightarrow> qr_window" where
  "setStatus t c w = w\<lparr>statusText := t, statusClass := c\<rparr>"

definition clearPoll :: "qr_window \<Rightarrow> qr_window" where
  "clearPoll w = (case pollHandle w of None \<Rightarrow> w
     | Some i \<Rightarrow> w\<lparr>pollTimers := filter (\<lambda>(j, d). j \<noteq> i) (pollTimers w)\<rparr>)"

definition finishAndClose :: "qr_window \<Rightarrow> qr_window" where
  "finishAndClose w = (if isClosed w then w else w\<lparr>isClosed := True, closing := Some 5, resultClass := ''status ok''\<rparr>)"

text \<open>\<open>detectPayment\<close> up to its request, and from the reply on.\<close>

definition detectPayment :: "qr_window \<Rightarrow> qr_window" where
  "detectPayment w =
     (if isClosed w \<or> polling w then w
      else if seconds_left w \<le> 0
      then clearPoll (setStatus ''Session expired. Please create a new QR payment session from checkout page.'' ''status err'' w)
      else setStatus ''Verifying transaction on-chain...'' ''status'' (w\<lparr>polling := True, asked := asked w @ [qw_now w]\<rparr>))"

definition notPaid :: "int \<Rightarrow> jstr \<Rightarrow> qr_window \<Rightarrow> qr_window" where
  "notPaid code txt w =
     (if code = 202 then (setStatus ''Waiting for transaction confirmation...'' ''status'' w)\<lparr>pollDelay := 7000\<rparr>
      else if code = 429
      then (setStatus ''Server is busy. Retrying in a few seconds...'' ''status err'' w)\<lparr>pollDelay := 15000\<rparr>
      else if code = 404
      then clearPoll (setStatus (or_else txt ''Session expired. Please create a new session.'') ''status err'' w)
      else (setStatus (or_else txt ''Verification failed. Retrying...'') ''status err'' w)\<lparr>pollDelay := 10000\<rparr>)"

definition pollResult :: "poll_reply \<Rightarrow> qr_window \<Rightarrow> qr_window" where
  "pollResult r w = (case r of
       PollError err \<Rightarrow>
         (setStatus (or_else (err_message err []) ''Network error. Retrying...'') ''status err'' w)\<lparr>pollDelay := 12000\<rparr>
     | PollReply code txt payload \<Rightarrow>
         (case payload of
            Some p \<Rightarrow>
              if ok_status code \<and> cs_status p = ''paid''
              then (let w1 = setStatus ''Payment detected and verified.'' ''status ok'' w
                    in finishAndClose (if openerThere w1 then w1\<lparr>posted := posted w1 @ [p]\<rparr> else w1))
              else notPaid code txt w
          | None \<Rightarrow> notPaid code txt w))"

definition schedulePoll :: "qr_window \<Rightarrow> qr_window" where
  "schedulePoll w = w\<lparr>pollHandle := Some (nextTimer w), nextTimer := nextTimer w + 1,
     pollTimers := pollTimers w @ [(nextTimer w, qw_now w + pollDelay w)]\<rparr>"

definition afterPoll :: "poll_reply \<Rightarrow> qr_window \<Rightarrow> qr_window" where
  "afterPoll r w = (let w1 = (pollResult r w)\<lparr>polling := False\<rparr>
     in if \<not> isClosed w1 then schedulePoll w1 else w1)"

definition tick :: "qr_window \<Rightarrow> qr_window" where
  "tick w =
     (if isClosed w then w
      else if seconds_left w \<le> 0 then w\<lparr>timerText := ''Session expired''\<rparr>
      else w\<lparr>timerText := ''Session time left: '' @ fmt (seconds_left w), tickTimers := tickTimers w @ [qw_now w + 1000]\<rparr>)"

text \<open>One run of the interval that \<open>finishAndClose\<close> starts.\<close>

definition closeTick :: "qr_window \<Rightarrow> qr_window" where
  "closeTick w = (case closing w of None \<Rightarrow> w
     | Some n \<Rightarrow>
         (let w1 = w\<lparr>resultText := ''Payment confirmed. This page will close in '' @ show_int n @ ''s...''\<rparr>
          in if n - 1 < 0 then w1\<lparr>closing := None, gone := True\<rparr> else w1\<lparr>closing := Some (n - 1)\<rparr>))"

text \<open>The window when its document has been written, and after the last two lines of the script.\<close>

definition opened :: "qr_popup \<Rightarrow> int \<Rightarrow> bool \<Rightarrow> qr_window" where
  "opened p t op = \<lparr>qw_reference = qp_reference p, qw_expiresAt = qp_expiresAt p, qw_now = t,
     isClosed = False, polling = False, pollHandle = None, pollDelay = 7000, pollTimers = [], nextTimer = 1,
     tickTimers = [], closing = None, timerText = ''Session time left: 10:00'', statusText = ''Waiting for payment...'',
     statusClass = ''status'', resultText = [], resultClass = ''status'', openerThere = op, posted = [], asked = [], gone = False\<rparr>"

definition start_window :: "qr_popup \<Rightarrow> int \<Rightarrow> bool \<Rightarrow> qr_window" where
  "start_window p t op = detectPayment (tick (opened p t op))"

section \<open>The event loop\<close>

inductive qr_step :: "qr_window \<Rightarrow> qr_window \<Rightarrow> bool" where
  wait: "qr_step w (w\<lparr>qw_now := qw_now w + int d\<rparr>)"
| poll: "(i, due) \<in> set (pollTimers w) \<Longrightarrow> due \<le> qw_now w \<Longrightarrow>
    qr_step w (detectPayment (w\<lparr>pollTimers := filter (\<lambda>(j, d). j \<noteq> i) (pollTimers w)\<rparr>))"
| answer: "polling w \<Longrightarrow> qr_step w (afterPoll r w)"
| clock: "due \<in> set (tickTimers w) \<Longrightarrow> due \<le> qw_now w \<Longrightarrow> qr_step w (tick (w\<lparr>tickTimers := remove1 due (tickTimers w)\<rparr>))"
| countdown: "closing w \<noteq> None \<Longrightarrow> qr_step w (closeTick w)"
| opener_leaves: "qr_step w (w\<lparr>openerThere := False\<rparr>)"

inductive qr_reach :: "qr_popup \<Rightarrow> int \<Rightarrow> qr_window \<Rightarrow> bool" for p t where
  qr_start: "qr_reach p t (start_window p t op)"
| qr_next: "qr_reach p t w \<Longrightarrow> qr_step w w' \<Longrightarrow> qr_reach p t w'"

inductive_cases qr_stepE: "qr_step w w'"

section \<open>The invariant\<close>

lemmas window_defs = detectPayment_def setStatus_def clearPoll_def notPaid_def pollResult_def schedulePoll_def
  afterPoll_def tick_def closeTick_def finishAndClose_def Let_def

text \<open>Requests are at least seven seconds apart and before the end of the session.\<close>

fun spaced :: "int list \<Rightarrow> bool" where
  "spaced (a # b # ts) = (a + 7000 \<le> b \<and> spaced (b # ts))"
| "spaced ts = True"

definition next_allowed :: "qr_window \<Rightarrow> int \<Rightarrow> bool" where
  "next_allowed w t \<longleftrightarrow> asked w = [] \<or> last (asked w) + 7000 \<le> t"

definition qr_inv :: "qr_popup \<Rightarrow> int \<Rightarrow> qr_window \<Rightarrow> bool" where
  "qr_inv p t w \<longleftrightarrow> qw_reference w = qp_reference p \<and> qw_expiresAt w = qp_expiresAt p \<and> t \<le> qw_now w
     \<and> length (pollTimers w) \<le> 1 \<and> (polling w \<longrightarrow> pollTimers w = [])
     \<and> (isClosed w \<longrightarrow> pollTimers w = [] \<and> \<not> polling w)
     \<and> pollDelay w \<in> {7000, 10000, 12000, 15000}
     \<and> (\<forall>(i, due) \<in> set (pollTimers w). next_allowed w due)
     \<and> spaced (asked w) \<and> (\<forall>s \<in> set (asked w). t \<le> s \<and> s + 1000 \<le> qp_expiresAt p \<and> s \<le> qw_now w)
     \<and> (closing w \<noteq> None \<longrightarrow> isClosed w) \<and> (posted w \<noteq> [] \<longrightarrow> isClosed w)
     \<and> length (posted w) \<le> 1 \<and> (\<forall>q \<in> set (posted w). cs_status q = ''paid'')
     \<and> (gone w \<longrightarrow> isClosed w \<and> closing w = None) \<and> (isClosed w \<and> \<not> gone w \<longrightarrow> (\<exists>n. closing w = Some n \<and> 0 \<le> n \<and> n \<le> 5))"

lemma spaced_snoc: "spaced ts \<Longrightarrow> ts = [] \<or> last ts + 7000 \<le> t \<Longrightarrow> spaced (ts @ [t])"
  by (induction ts rule: spaced.induct) auto

lemma seconds_left_pos: "\<not> seconds_left w \<le> 0 \<Longrightarrow> qw_now w + 1000 \<le> qw_expiresAt w"
  by (simp add: seconds_left_def)

lemma inv_detect:
  assumes "qr_inv p t w" "pollTimers w = []" "next_allowed w (qw_now w)"
  shows "qr_inv p t (detectPayment w)"
proof -
  consider "isClosed w \<or> polling w" | "\<not> (isClosed w \<or> polling w)" "seconds_left w \<le> 0"
    | "\<not> (isClosed w \<or> polling w)" "\<not> seconds_left w \<le> 0" by blast
  then show ?thesis
  proof cases
    case 1
    then show ?thesis using assms(1) by (simp add: detectPayment_def)
  next
    case 2
    then show ?thesis using assms by (auto simp: qr_inv_def window_defs next_allowed_def split: option.split)
  next
    case 3
    then have "qw_now w + 1000 \<le> qw_expiresAt w" by (simp add: seconds_left_pos)
    with 3 assms show ?thesis
      by (auto simp: qr_inv_def window_defs next_allowed_def intro!: spaced_snoc)
  qed
qed

text \<open>An answer leaves the window open with a new delay, or closes it with at most one message.\<close>

lemma notPaid_shape:
  assumes "pollTimers w = []"
  shows "\<exists>d st c. d \<in> {pollDelay w, 7000, 10000, 12000, 15000} \<and>
    notPaid n body w = w\<lparr>statusText := st, statusClass := c, pollDelay := d\<rparr>"
proof -
  let ?d = "if n = 202 then 7000 else if n = 429 then 15000 else if n = 404 then pollDelay w else 10000"
  have "notPaid n body w = w\<lparr>statusText := statusText (notPaid n body w), statusClass := statusClass (notPaid n body w), pollDelay := ?d\<rparr>"
    using assms by (cases w) (simp add: notPaid_def clearPoll_def setStatus_def split: option.split)
  then show ?thesis by (intro exI [of _ ?d] exI conjI) auto
qed

lemma result_cases:
  assumes "\<not> isClosed w" "pollTimers w = []"
  obtains (open_still) d st c where "d \<in> {pollDelay w, 7000, 10000, 12000, 15000}"
      "pollResult r w = w\<lparr>statusText := st, statusClass := c, pollDelay := d\<rparr>"
  | (paid) q st ms where "cs_status q = ''paid''" "ms = posted w \<or> ms = posted w @ [q]"
      "pollResult r w = w\<lparr>statusText := st, statusClass := ''status ok'', isClosed := True, closing := Some 5, resultClass := ''status ok'', posted := ms\<rparr>"
proof (cases r)
  case (PollError e)
  then show ?thesis by (intro open_still [of 12000]) (simp_all add: pollResult_def setStatus_def)
next
  case (PollReply n body payload)
  show ?thesis
  proof (cases "\<exists>q. payload = Some q \<and> ok_status n \<and> cs_status q = ''paid''")
    case True
    then obtain q where q: "payload = Some q" "ok_status n" "cs_status q = ''paid''" by blast
    show ?thesis
    proof (cases "openerThere w")
      case True
      then show ?thesis using q assms(1)
        by (intro paid [of q "posted w @ [q]" "''Payment detected and verified.''"]) (simp_all add: PollReply pollResult_def setStatus_def finishAndClose_def)
    next
      case False
      then show ?thesis using q assms(1)
        by (intro paid [of q "posted w" "''Payment detected and verified.''"]) (simp_all add: PollReply pollResult_def setStatus_def finishAndClose_def)
    qed
  next
    case False
    then have "pollResult r w = notPaid n body w" by (auto simp: PollReply pollResult_def split: option.split)
    then show ?thesis using notPaid_shape [OF assms(2), of n body] open_still by metis
  qed
qed

lemma inv_answer:
  assumes "qr_inv p t w" "polling w"
  shows "qr_inv p t (afterPoll r w)"
proof -
  have w: "\<not> isClosed w" "pollTimers w = []" using assms by (auto simp: qr_inv_def)
  show ?thesis
  proof (rule result_cases [OF w, of r])
    fix d st c
    assume d: "d \<in> {pollDelay w, 7000, 10000, 12000, 15000}"
      and r: "pollResult r w = w\<lparr>statusText := st, statusClass := c, pollDelay := d\<rparr>"
    have "pollDelay w \<in> {7000, 10000, 12000, 15000}" using assms(1) by (simp add: qr_inv_def)
    with d have d': "d \<in> {7000, 10000, 12000, 15000}" "7000 \<le> d" by auto
    have "next_allowed w (qw_now w + d)"
      using assms(1) d'(2) by (cases "asked w" rule: rev_cases) (auto simp: qr_inv_def next_allowed_def)
    then show ?thesis
      using assms d' w by (auto simp: afterPoll_def r Let_def schedulePoll_def qr_inv_def next_allowed_def)
  next
    fix q st ms
    assume "cs_status q = ''paid''" "ms = posted w \<or> ms = posted w @ [q]"
      and r: "pollResult r w = w\<lparr>statusText := st, statusClass := ''status ok'', isClosed := True, closing := Some 5, resultClass := ''status ok'', posted := ms\<rparr>"
    then show ?thesis
      using assms w by (auto simp: afterPoll_def r Let_def qr_inv_def next_allowed_def)
  qed
qed

lemma inv_step: "qr_step w w' \<Longrightarrow> qr_inv p t w \<Longrightarrow> qr_inv p t w'"
proof (induction rule: qr_step.induct)
  case (wait w d)
  then show ?case by (simp add: qr_inv_def next_allowed_def) force
next
  case (poll i due w)
  then have one: "pollTimers w = [(i, due)]" by (cases "pollTimers w") (auto simp: qr_inv_def)
  with poll have "qr_inv p t (w\<lparr>pollTimers := []\<rparr>)" "next_allowed w (qw_now w)"
    by (auto simp: qr_inv_def next_allowed_def)
  then show ?case using one by (intro inv_detect) (simp_all add: next_allowed_def)
next
  case (answer w r)
  then show ?case by (simp add: inv_answer)
next
  case (clock due w)
  then show ?case by (auto simp: tick_def qr_inv_def next_allowed_def)
next
  case (countdown w)
  then obtain n where n: "closing w = Some n" "isClosed w" by (auto simp: qr_inv_def)
  with countdown have "0 \<le> n" "n \<le> 5" "\<not> gone w" by (auto simp: qr_inv_def)
  then show ?case using countdown(2) n
    by (cases "n - 1 < 0") (simp_all add: closeTick_def qr_inv_def next_allowed_def Let_def)
next
  case (opener_leaves w)
  then show ?case by (simp add: qr_inv_def next_allowed_def)
qed

lemma inv_start: "qr_inv p t (start_window p t op)"
  unfolding start_window_def
  by (rule inv_detect) (auto simp: qr_inv_def opened_def tick_def next_allowed_def)

lemma reach_qr_inv: "qr_reach p t w \<Longrightarrow> qr_inv p t w"
  by (induction rule: qr_reach.induct) (auto intro: inv_start inv_step)

lemma spaced_length: "spaced ts \<Longrightarrow> ts \<noteq> [] \<Longrightarrow> hd ts + 7000 * int (length ts - 1) \<le> last ts"
proof (induction ts rule: spaced.induct)
  case (1 a b ts)
  then show ?case by (cases ts) auto
qed auto

lemma asked_bound:
  assumes i: "qr_inv p t w" and e: "qp_expiresAt p = t + 600000"
  shows "length (asked w) \<le> 86"
proof (cases "asked w = []")
  case False
  then have "hd (asked w) \<in> set (asked w)" "last (asked w) \<in> set (asked w)" by simp_all
  moreover have "\<forall>s \<in> set (asked w). t \<le> s \<and> s + 1000 \<le> qp_expiresAt p" "spaced (asked w)"
    using i by (auto simp: qr_inv_def)
  ultimately have "t \<le> hd (asked w)" "last (asked w) + 1000 \<le> t + 600000"
      "hd (asked w) + 7000 * int (length (asked w) - 1) \<le> last (asked w)"
    using spaced_length [of "asked w"] False e by auto
  then show ?thesis by linarith
qed simp

section \<open>A concrete popup, for evaluation\<close>

definition demo_popup :: qr_popup where
  "demo_popup = \<lparr>qp_reference = ''ref'', qp_qrUrl = [], qp_checkoutURL = [], qp_expiresAt = 600000\<rparr>"

definition demo_qr_receipt :: checkout_status where
  "demo_qr_receipt = \<lparr>cs_reference = ''ref'', cs_status = ''paid'', cs_signature = [], cs_network = [],
     cs_solscanUrl = [], cs_paymentMethod = Some Qr, cs_participantData = None\<rparr>"

definition demo_open :: qr_window where
  "demo_open = start_window demo_popup 0 True"

definition demo_done :: qr_window where
  "demo_done = afterPoll (PollReply 200 [] (Some demo_qr_receipt)) demo_open"

lemmas demo_window = demo_open_def demo_done_def demo_popup_def demo_qr_receipt_def start_window_def opened_def window_defs
  seconds_left_def

lemma demo_reached: "qr_reach demo_popup 0 demo_open" "qr_step demo_open demo_done" "qr_reach demo_popup 0 demo_done"
proof -
  show 1: "qr_reach demo_popup 0 demo_open" unfolding demo_open_def by (rule qr_start)
  show 2: "qr_step demo_open demo_done"
    unfolding demo_done_def by (rule answer) (simp add: demo_window)
  show "qr_reach demo_popup 0 demo_done" by (rule qr_next [OF 1 2])
qed

section \<open>Properties\<close>

text \<open>
  C36. The popup of a session of ten minutes never has two requests under way or a request while
  the next one is due, starts none after the session has ended, and sends at most 86.
\<close>

theorem popup_requests_bounded:
  assumes "qr_reach p t w" and "qp_expiresAt p = t + 600000"
  shows "length (pollTimers w) \<le> 1 \<and> (polling w \<longrightarrow> pollTimers w = [])
     \<and> (\<forall>s \<in> set (asked w). s < qp_expiresAt p) \<and> length (asked w) \<le> 86"
proof -
  have i: "qr_inv p t w" using assms(1) by (rule reach_qr_inv)
  then have "length (asked w) \<le> 86" using assms(2) by (rule asked_bound)
  then show ?thesis using i by (fastforce simp: qr_inv_def)
qed

theorem popup_requests_bounded_witness:
  "asked demo_open = [0] \<and> length (asked demo_open) \<le> 86"
proof -
  have "qp_expiresAt demo_popup = 0 + 600000" by (simp add: demo_popup_def)
  from popup_requests_bounded [OF demo_reached(1) this] show ?thesis by (simp add: demo_window)
qed

text \<open>
  The popup tells the page that opened it of a payment at most once, only what the server
  answered as paid, and only after that it closes.
\<close>

theorem popup_reports_paid_once:
  assumes "qr_reach p t w"
  shows "length (posted w) \<le> 1 \<and> (\<forall>q \<in> set (posted w). cs_status q = ''paid'') \<and> (posted w \<noteq> [] \<longrightarrow> isClosed w)
     \<and> (gone w \<longrightarrow> isClosed w) \<and> (isClosed w \<longrightarrow> pollTimers w = [] \<and> \<not> polling w)"
  using reach_qr_inv [OF assms] by (auto simp: qr_inv_def)

theorem popup_reports_paid_once_witness:
  "posted demo_done = [demo_qr_receipt] \<and> isClosed demo_done \<and> pollTimers demo_done = []"
  using popup_reports_paid_once [OF demo_reached(3)] by (simp add: demo_window)

section \<open>The phases of the window\<close>

datatype phase = Waiting | Asking | Paid | Over

definition phase_of :: "qr_window \<Rightarrow> phase" where
  "phase_of w = (if isClosed w then Paid else if polling w then Asking else if pollTimers w \<noteq> [] then Waiting else Over)"

fun phase_step :: "phase \<Rightarrow> phase \<Rightarrow> bool" where
  "phase_step Waiting x = (x \<in> {Waiting, Asking, Over})"
| "phase_step Asking x = (x \<in> {Asking, Waiting, Paid})"
| "phase_step Paid x = (x = Paid)"
| "phase_step Over x = (x = Over)"

text \<open>
  C9. The script refines a machine of four phases: it waits, asks, and from asking goes back to
  waiting or to paid; it gives up only from waiting, when the session has ended, and paid and
  given up are final.
\<close>

theorem popup_refines_phases:
  assumes "qr_reach p t w" and "qr_step w w'"
  shows "phase_step (phase_of w) (phase_of w') \<and> (phase_of w' = Over \<and> phase_of w \<noteq> Over \<longrightarrow> seconds_left w' \<le> 0)"
proof -
  have i: "qr_inv p t w" using assms(1) by (rule reach_qr_inv)
  from assms(2) show ?thesis
  proof cases
    case (poll i due)
    then have "pollTimers w = [(i, due)]" using \<open>qr_inv p t w\<close> by (cases "pollTimers w") (auto simp: qr_inv_def)
    then show ?thesis using poll i
      by (auto simp: phase_of_def window_defs qr_inv_def seconds_left_def split: option.split)
  next
    case (answer r)
    then have w: "\<not> isClosed w" "pollTimers w = []" using i by (auto simp: qr_inv_def)
    then show ?thesis using answer
      by (auto elim!: result_cases [OF w, of r] simp: phase_of_def afterPoll_def Let_def schedulePoll_def)
  qed (auto simp: phase_of_def tick_def closeTick_def Let_def split: option.split)
qed

theorem popup_refines_phases_witness:
  "phase_of demo_open = Asking \<and> phase_of demo_done = Paid \<and> phase_step Asking Paid"
proof -
  have "phase_of demo_open = Asking" "phase_of demo_done = Paid" by (simp_all add: phase_of_def demo_window)
  with popup_refines_phases [OF demo_reached(1,2)] show ?thesis by simp
qed

text \<open>
  C33. A paid window closes: whatever else happens, six runs of its interval after the payment was
  seen take the window away.
\<close>

theorem paid_window_closes:
  assumes "qr_reach p t w" and "phase_of w = Paid"
  shows "\<exists>n \<le> 6. gone ((closeTick ^^ n) w)"
proof (cases "gone w")
  case True
  then show ?thesis by (intro exI [of _ 0]) simp
next
  case False
  then obtain n where n: "closing w = Some n" "0 \<le> n" "n \<le> 5"
    using reach_qr_inv [OF assms(1)] assms(2) by (auto simp: qr_inv_def phase_of_def split: if_splits)
  have "closing v = Some (int m) \<Longrightarrow> gone ((closeTick ^^ Suc m) v)" for m v
    by (induction m arbitrary: v) (simp_all add: closeTick_def Let_def funpow_swap1)
  from this [of w "nat n"] n show ?thesis by (intro exI [of _ "Suc (nat n)"]) auto
qed

theorem paid_window_closes_witness:
  "\<exists>n \<le> 6. gone ((closeTick ^^ n) demo_done)"
proof -
  have "phase_of demo_done = Paid" by (simp add: phase_of_def demo_window)
  with demo_reached(3) show ?thesis by (rule paid_window_closes)
qed

text \<open>The clock of the popup shows times as the page does.\<close>

lemma fmt_formatSeconds: "0 \<le> s \<Longrightarrow> fmt s = formatSeconds s"
  by (simp add: fmt_def formatSeconds_def pad2_def)

text \<open>When the server does not know the session (404), the window still asks again.\<close>

lemma unknown_session_keeps_polling:
  "\<not> isClosed w \<Longrightarrow> pollTimers (afterPoll (PollReply 404 body None) w) \<noteq> []"
  by (simp add: window_defs split: option.split)

text \<open>The page takes a paid message from any sender.\<close>

lemma message_trusted:
  "cs_status q = ''paid'' \<Longrightarrow> final (onMessage (Some (Some q))) v [] = (hydrateStatus q v)\<lparr>page_error := []\<rparr>"
  by (simp add: onMessage_def)

end
