(* ===== verification/Qr_Document.thy ===== *)
theory Qr_Document
  imports Qr_Window
begin

text \<open>
  The document that \<open>openQrWindow\<close> writes into the popup: the texts that its template makes of the
  reference, the image address, the address of the page and the time, and what a browser reads
  from them, the HTML tokenizer first and then JavaScript. The functions of the script are the subject of
  \<open>Qr_Window\<close>; here its first three lines, which give them their arguments.
\<close>

section \<open>\<open>JSON.stringify\<close>\<close>

definition lower_hex :: "nat \<Rightarrow> char" where
  "lower_hex n = (if n < 10 then char_of (48 + n) else char_of (87 + n))"

definition json_char :: "char \<Rightarrow> jstr" where
  "json_char c = (let n = (of_char c :: nat) in
     if c = CHR 0x22 then [CHR 0x5C, CHR 0x22]
     else if c = CHR 0x5C then [CHR 0x5C, CHR 0x5C]
     else if n = 8 then [CHR 0x5C, CHR ''b'']
     else if n = 9 then [CHR 0x5C, CHR ''t'']
     else if n = 10 then [CHR 0x5C, CHR ''n'']
     else if n = 12 then [CHR 0x5C, CHR ''f'']
     else if n = 13 then [CHR 0x5C, CHR ''r'']
     else if n < 32 then [CHR 0x5C, CHR ''u'', CHR ''0'', CHR ''0'', lower_hex (n div 16), lower_hex (n mod 16)]
     else [c])"

definition json_string :: "jstr \<Rightarrow> jstr" where
  "json_string s = CHR 0x22 # concat (map json_char s) @ [CHR 0x22]"

section \<open>The template\<close>

definition text_of :: "jstr list \<Rightarrow> jstr" where
  "text_of ls = concat (map (\<lambda>l. CHR 0x0A # l) ls)"

definition popup_top :: jstr where
  "popup_top = text_of [
    ''      <html>'',
    ''        <head>'',
    ''          <title>QR Payment</title>'',
    ''          <style>'',
    ''            body { font-family: Arial, sans-serif; padding: 20px; line-height: 1.45; color: #0f172a; }'',
    ''            .card { border: 1px solid #e2e8f0; border-radius: 12px; padding: 14px; margin-top: 12px; }'',
    ''            .status { min-height: 22px; margin-top: 10px; color: #334155; }'',
    ''            .ok { color: #166534; }'',
    ''            .err { color: #b91c1c; }'',
    ''            code { background: #f1f5f9; padding: 2px 6px; border-radius: 6px; }'',
    ''          </style>'',
    ''        </head>'',
    ''        <body>'',
    ''          <h2>Scan to Pay</h2>'',
    ''          <p>Reference: <code>'']"

definition popup_image :: jstr where
  "popup_image = ''</code></p>'' @ text_of [
    ''          <div class=\"card\" style=\"text-align:center;\">'',
    ''            <img src=\"'']"

definition popup_cards :: jstr where
  "popup_cards = ''\" alt=\"QR code\" />'' @ text_of [
    ''            <p id=\"timer\" style=\"font-weight:600; margin-top: 10px;\">Session time left: 10:00</p>'',
    ''          </div>'',
    ''          <div class=\"card\">'',
    ''            <div id=\"status\" class=\"status\">Waiting for payment...</div>'',
    ''            <div id=\"result\" class=\"status\"></div>'',
    ''          </div>'',
    '''',
    ''          <script>'']"

text \<open>The values are inserted as \<open>${referenceJSON}\<close>, \<open>${checkoutURLJSON}\<close>, \<open>${expiresAtJSON}\<close>.\<close>

definition popup_constants :: "jstr \<Rightarrow> jstr \<Rightarrow> int \<Rightarrow> jstr" where
  "popup_constants ref url t = text_of [
    ''            const reference = '' @ json_string ref @ '';'',
    ''            const checkoutURL = '' @ json_string url @ '';'',
    ''            const expiresAt = '' @ show_int t @ '';'']"

text \<open>\<open>rest\<close> is the constant rest of the script and the end of the document.\<close>

definition popup_document :: "qr_popup \<Rightarrow> jstr \<Rightarrow> jstr" where
  "popup_document p rest = popup_top @ qp_reference p @ popup_image @ qp_qrUrl p @ popup_cards
     @ popup_constants (qp_reference p) (qp_checkoutURL p) (qp_expiresAt p) @ rest"

section \<open>Reading a document\<close>

text \<open>
  As far as it matters here: a text ends at the next \<open><\<close>, a quoted attribute at the next quote, a script at the
  next end tag of a script. Character references do not occur in what is read (\<open>&data=\<close> is none).
\<close>

fun after_text :: "jstr \<Rightarrow> jstr \<Rightarrow> jstr" where
  "after_text n [] = []"
| "after_text n (c # s) = (if starts_with (c # s) n then drop (length n) (c # s) else after_text n s)"

definition ends_script :: "jstr \<Rightarrow> bool" where
  "ends_script s \<longleftrightarrow> starts_with (toLowerCase s) ''</script'' \<and> (case drop 8 s of [] \<Rightarrow> False
     | c # t \<Rightarrow> c \<in> {CHR 0x09, CHR 0x0A, CHR 0x0C, CHR '' '', CHR ''/'', CHR ''>''})"

fun until_end_tag :: "jstr \<Rightarrow> jstr" where
  "until_end_tag [] = []"
| "until_end_tag (c # s) = (if ends_script (c # s) then [] else c # until_end_tag s)"

definition shown_reference :: "jstr \<Rightarrow> jstr" where
  "shown_reference d = takeWhile (\<lambda>c. c \<noteq> CHR ''<'') (after_text ''<code>'' d)"

definition image_source :: "jstr \<Rightarrow> jstr" where
  "image_source d = takeWhile (\<lambda>c. c \<noteq> CHR 0x22) (after_text ''<img src=\"'' d)"

definition script_of :: "jstr \<Rightarrow> jstr" where
  "script_of d = until_end_tag (after_text ''<script>'' d)"

text \<open>A JavaScript string literal in double quotes, after its first quote: its value and what follows it.\<close>

definition hex_digit_val :: "char \<Rightarrow> nat" where
  "hex_digit_val c = (let n = (of_char c :: nat) in if n \<le> 57 then n - 48 else n - 87)"

definition unescape :: "char \<Rightarrow> char" where
  "unescape e = (if e = CHR ''b'' then CHR 0x08 else if e = CHR ''t'' then CHR 0x09 else if e = CHR ''n'' then CHR 0x0A
     else if e = CHR ''f'' then CHR 0x0C else if e = CHR ''r'' then CHR 0x0D else e)"

fun read_chars :: "jstr \<Rightarrow> (jstr \<times> jstr) option" where
  "read_chars [] = None"
| "read_chars (c # s) =
     (if c = CHR 0x22 then Some ([], s)
      else if c = CHR 0x0A \<or> c = CHR 0x0D then None
      else if c = CHR 0x5C
      then (case s of
          [] \<Rightarrow> None
        | e # t \<Rightarrow>
            if e = CHR ''u''
            then (case t of
                a # b # x # y # r \<Rightarrow>
                  map_option (\<lambda>(v, z). (char_of (((hex_digit_val a * 16 + hex_digit_val b) * 16 + hex_digit_val x) * 16
                    + hex_digit_val y) # v, z)) (read_chars r)
              | _ \<Rightarrow> None)
            else map_option (\<lambda>(v, z). (unescape e # v, z)) (read_chars t))
      else map_option (\<lambda>(v, z). (c # v, z)) (read_chars s))"

definition expect :: "jstr \<Rightarrow> jstr \<Rightarrow> jstr option" where
  "expect k s = (let t = dropWhile (\<lambda>c. c = CHR '' '' \<or> c = CHR 0x0A) s
     in if starts_with t k then Some (drop (length k) t) else None)"

definition read_string :: "jstr \<Rightarrow> (jstr \<times> jstr) option" where
  "read_string s = Option.bind (expect [CHR 0x22] s) read_chars"

text \<open>The three declarations at the start of the script.\<close>

definition read_constants :: "jstr \<Rightarrow> (jstr \<times> jstr \<times> nat) option" where
  "read_constants s =
     Option.bind (expect ''const reference = '' s) (\<lambda>s. Option.bind (read_string s) (\<lambda>(ref, s).
     Option.bind (expect '';'' s) (\<lambda>s. Option.bind (expect ''const checkoutURL = '' s) (\<lambda>s.
     Option.bind (read_string s) (\<lambda>(url, s). Option.bind (expect '';'' s) (\<lambda>s.
     Option.bind (expect ''const expiresAt = '' s) (\<lambda>s.
       map_option (\<lambda>_. (ref, url, nat_of_digits (takeWhile is_digit s))) (expect '';'' (dropWhile is_digit s)))))))))"

section \<open>Searching a text in pieces\<close>

lemma starts_with_append [simp]: "starts_with (k @ s) k"
  by (induction k) simp_all

lemma after_found [simp]: "after_text (c # n) ((c # n) @ s) = s"
proof -
  have "starts_with ((c # n) @ s) (c # n)" by (rule starts_with_append)
  then show ?thesis by simp
qed

lemma after_skips: "c \<notin> set x \<Longrightarrow> after_text (c # n) (x @ y) = after_text (c # n) y"
  by (induction x) auto

text \<open>\<open>no_match n k\<close>: \<open>n\<close> does not start within the closed text \<open>k\<close>, whatever follows it.\<close>

fun agrees :: "jstr \<Rightarrow> jstr \<Rightarrow> bool" where
  "agrees [] n = True"
| "agrees s [] = True"
| "agrees (c # s) (d # n) = (c = d \<and> agrees s n)"

fun no_match :: "jstr \<Rightarrow> jstr \<Rightarrow> bool" where
  "no_match n [] = True"
| "no_match n (c # k) = (\<not> agrees (c # k) n \<and> no_match n k)"

lemma starts_agrees: "starts_with (k @ y) n \<Longrightarrow> agrees k n"
  by (induction k n rule: agrees.induct) auto

lemma after_no_match: "no_match n k \<Longrightarrow> after_text n (k @ y) = after_text n y"
proof (induction k)
  case (Cons c k)
  then have "\<not> starts_with ((c # k) @ y) n" using starts_agrees [of "c # k" y n] by auto
  then show ?case using Cons by simp
qed simp

lemma of_char_60: "(of_char (CHR ''<'') :: nat) = 60"
  by simp

lemma until_skips: "CHR ''<'' \<notin> set x \<Longrightarrow> until_end_tag (x @ y) = x @ until_end_tag y"
proof (induction x)
  case (Cons c x)
  have "lower_char c \<noteq> CHR ''<''" if "c \<noteq> CHR ''<''"
  proof
    assume "lower_char c = CHR ''<''"
    then have "(of_char (lower_char c) :: nat) = 60" by simp
    then have "(of_char c :: nat) = 60" by (auto simp: lower_char_def Let_def split: if_splits)
    then show False using that by (metis of_char_eq_iff of_char_60)
  qed
  then have "\<not> ends_script (c # x @ y)" using Cons.prems by (auto simp: ends_script_def toLowerCase_def)
  then show ?case using Cons by simp
qed simp

section \<open>Reading the parts\<close>

lemma read_json_char: "read_chars (json_char c @ s) = map_option (\<lambda>(v, z). (c # v, z)) (read_chars s)"
proof -
  let ?n = "of_char c :: nat"
  have h: "hex_digit_val (lower_hex k) = k" if "k < 16" for k
    using that by (simp add: hex_digit_val_def lower_hex_def)
  have "char_of (16 * (?n div 16) + ?n mod 16) = c" by simp
  then have u: "char_of (?n div 16 * 16 + ?n mod 16) = c" by (simp add: mult.commute)
  have eq: "c = char_of ?n" by simp
  consider "c = CHR 0x22" | "c = CHR 0x5C" | "?n \<in> {8, 9, 10, 12, 13}" | "c \<noteq> CHR 0x22" "c \<noteq> CHR 0x5C" "?n \<notin> {8, 9, 10, 12, 13}" "?n < 32"
    | "c \<noteq> CHR 0x22" "c \<noteq> CHR 0x5C" "\<not> ?n < 32" by auto
  then show ?thesis
  proof cases
    case 3
    then have "c \<in> char_of ` {8, 9, 10, 12, 13 :: nat}" using eq by (rule_tac image_eqI)
    then have "c \<in> {CHR 0x08, CHR 0x09, CHR 0x0A, CHR 0x0C, CHR 0x0D}" by (simp add: char_of_def bit_0)
    then show ?thesis by (auto simp: json_char_def unescape_def)
  next
    case 4
    then have "?n div 16 < 16" "?n mod 16 < 16" by simp_all
    then show ?thesis using 4 u by (simp add: json_char_def Let_def h) (simp add: hex_digit_val_def)
  next
    case 5
    then have "c \<noteq> CHR 0x0A" "c \<noteq> CHR 0x0D" by auto
    then show ?thesis using 5 by (auto simp: json_char_def Let_def)
  qed (simp_all add: json_char_def unescape_def)
qed

lemma read_json_chars: "read_chars (concat (map json_char s) @ CHR 0x22 # t) = Some (s, t)"
  by (induction s) (simp_all add: read_json_char)

lemma read_json_string: "read_string (json_string s @ t) = Some (s, t)"
  by (simp add: read_string_def expect_def json_string_def read_json_chars)

lemma not_in_if: "x \<notin> set p \<Longrightarrow> x \<notin> set q \<Longrightarrow> x \<notin> set (if b then p else q)"
  by simp

lemma json_plain: "CHR ''<'' \<notin> set s \<Longrightarrow> CHR ''<'' \<notin> set (json_string s)"
proof -
  have j: "CHR ''<'' \<notin> set (json_char c)" if "c \<noteq> CHR ''<''" for c
  proof -
    have h: "CHR ''<'' \<noteq> lower_hex k" if "k < 16" for k
    proof -
      have "(of_char (lower_hex k) :: nat) \<noteq> 60" using that by (auto simp: lower_hex_def)
      then show ?thesis by (metis of_char_60)
    qed
    define x y where "x = lower_hex (of_char c div 16)" and "y = lower_hex (of_char c mod 16)"
    have "CHR ''<'' \<noteq> x" "CHR ''<'' \<noteq> y"
      unfolding x_def y_def by (rule h [OF high_digit], rule h, simp)
    moreover have "CHR ''<'' \<noteq> c" using that by (rule not_sym)
    ultimately show ?thesis
      unfolding json_char_def Let_def x_def [symmetric] y_def [symmetric] by (intro not_in_if) simp_all
  qed
  assume "CHR ''<'' \<notin> set s"
  then have "\<forall>c \<in> set s. CHR ''<'' \<notin> set (json_char c)" using j by metis
  then show ?thesis by (simp add: json_string_def)
qed

lemma show_int_plain: "CHR ''<'' \<notin> set (show_int t)"
proof -
  have "\<not> is_digit (CHR ''<'')" by (simp add: is_digit_def)
  then show ?thesis using show_nat_digits by (auto simp: show_int_def list_all_iff)
qed

text \<open>The address of the image has neither a quote nor a \<open><\<close>.\<close>

lemma uri_plain: "c \<in> set (encodeURIComponent s) \<Longrightarrow> c \<noteq> CHR 0x22 \<and> c \<noteq> CHR ''<''"
proof -
  have a: "\<not> is_alnum (CHR 0x22)" "\<not> is_alnum (CHR ''<'')" by (simp_all add: is_alnum_def)
  have h: "upper_hex k \<noteq> CHR 0x22 \<and> upper_hex k \<noteq> CHR ''<''" if "k < 16" for k
  proof -
    have "(of_char (upper_hex k) :: nat) \<notin> {34, 60}" using that by (auto simp: upper_hex_def)
    then show ?thesis by auto
  qed
  have "CHR 0x22 \<notin> set (uri_char d) \<and> CHR ''<'' \<notin> set (uri_char d)" for d
    using a h [of "of_char d div 16"] h [of "of_char d mod 16"] high_digit [of d]
    by (auto simp: uri_char_def percent_def)
  then show "c \<in> set (encodeURIComponent s) \<Longrightarrow> ?thesis" by (auto simp: encodeURIComponent_def)
qed

lemma qrUrl_plain: "CHR 0x22 \<notin> set (qrUrl env ev ref) \<and> CHR ''<'' \<notin> set (qrUrl env ev ref)"
  using uri_plain by (auto simp: qrUrl_def)

lemma constants_read:
  assumes "0 \<le> t"
  shows "read_constants (popup_constants ref url t @ rest) = Some (ref, url, nat t)"
proof -
  have d: "list_all is_digit (show_nat (nat t))" by (rule show_nat_digits)
  have "\<not> is_digit (CHR '';'')" by (simp add: is_digit_def)
  then have "takeWhile is_digit (show_nat (nat t) @ CHR '';'' # rest) = show_nat (nat t)"
    "dropWhile is_digit (show_nat (nat t) @ CHR '';'' # rest) = CHR '';'' # rest"
    using d by (auto simp: takeWhile_append2 dropWhile_append2 list_all_iff)
  then show ?thesis
    using assms by (simp add: read_constants_def popup_constants_def text_of_def expect_def read_json_string show_int_def)
qed

text \<open>None of the three texts that are looked for starts within the constant parts before it.\<close>

lemma parts_clear:
  "no_match ''<code>'' (take (length popup_top - 6) popup_top)" "drop (length popup_top - 6) popup_top = ''<code>''"
  "no_match ''<img src=\"'' popup_top" "no_match ''<img src=\"'' (take (length popup_image - 10) popup_image)"
  "drop (length popup_image - 10) popup_image = ''<img src=\"''"
  "no_match ''<script>'' popup_top" "no_match ''<script>'' popup_image"
  "no_match ''<script>'' (take (length popup_cards - 8) popup_cards)" "drop (length popup_cards - 8) popup_cards = ''<script>''"
  by code_simp+

lemma after_end:
  assumes "no_match (c # n) (take k x)" "drop k x = c # n"
  shows "after_text (c # n) (x @ y) = y"
proof -
  have "x @ y = take k x @ ((c # n) @ y)" using assms(2) by (metis append.assoc append_take_drop_id)
  then show ?thesis using after_no_match [OF assms(1)] after_found by metis
qed

lemma document_parts:
  assumes "CHR ''<'' \<notin> set (qp_reference p)" "CHR ''<'' \<notin> set (qp_qrUrl p)" "CHR 0x22 \<notin> set (qp_qrUrl p)"
  shows "shown_reference (popup_document p rest) = qp_reference p"
    and "image_source (popup_document p rest) = qp_qrUrl p"
    and "script_of (popup_document p rest) =
      until_end_tag (popup_constants (qp_reference p) (qp_checkoutURL p) (qp_expiresAt p) @ rest)"
proof -
  note cl = parts_clear
  let ?i = "popup_image @ qp_qrUrl p @ popup_cards @ popup_constants (qp_reference p) (qp_checkoutURL p) (qp_expiresAt p) @ rest"
  have i: "\<exists>z. ?i = CHR ''<'' # z" by (simp add: popup_image_def)
  have "after_text ''<code>'' (popup_document p rest) = qp_reference p @ ?i"
    unfolding popup_document_def by (rule after_end [OF cl(1,2)])
  then show "shown_reference (popup_document p rest) = qp_reference p"
    using i span_eq [OF assms(1)] by (auto simp: shown_reference_def)
  have "after_text ''<img src=\"'' (popup_document p rest) =
      qp_qrUrl p @ popup_cards @ popup_constants (qp_reference p) (qp_checkoutURL p) (qp_expiresAt p) @ rest"
    unfolding popup_document_def after_no_match [OF cl(3)] after_skips [OF assms(1)] by (rule after_end [OF cl(4,5)])
  then have "image_source (popup_document p rest) = takeWhile (\<lambda>c. c \<noteq> CHR 0x22) (qp_qrUrl p @ popup_cards @ popup_constants
      (qp_reference p) (qp_checkoutURL p) (qp_expiresAt p) @ rest)"
    by (simp only: image_source_def)
  then show "image_source (popup_document p rest) = qp_qrUrl p"
    using span_eq [OF assms(3)] by (simp add: popup_cards_def)
  have "after_text ''<script>'' (popup_document p rest) =
      popup_constants (qp_reference p) (qp_checkoutURL p) (qp_expiresAt p) @ rest"
    unfolding popup_document_def after_no_match [OF cl(6)] after_skips [OF assms(1)] after_no_match [OF cl(7)]
      after_skips [OF assms(2)] by (rule after_end [OF cl(8,9)])
  then show "script_of (popup_document p rest) =
      until_end_tag (popup_constants (qp_reference p) (qp_checkoutURL p) (qp_expiresAt p) @ rest)"
    by (simp add: script_of_def)
qed

lemma constants_plain:
  "CHR ''<'' \<notin> set ref \<Longrightarrow> CHR ''<'' \<notin> set url \<Longrightarrow> CHR ''<'' \<notin> set (popup_constants ref url t)"
  using json_plain [of ref] json_plain [of url] show_int_plain [of t] by (simp add: popup_constants_def text_of_def)

section \<open>Properties\<close>

text \<open>
  C31. The popup gets its arguments: what a browser reads from the document that \<open>openQrWindow\<close> writes is
  the reference in the text, the address of the QR code in the image, and in the script the reference, the address of the
  page and the end of the session, each as it was put in; as long as reference and page address hold no \<open><\<close>.
\<close>

theorem popup_reads_arguments:
  assumes "eventData c = Some ev" "popupRef (final (openQrWindow env c False ref) w []) = Some p"
    and "0 \<le> now w" "CHR ''<'' \<notin> set ref" "CHR ''<'' \<notin> set (origin env)" "CHR ''<'' \<notin> set (slug env)"
  shows "shown_reference (popup_document p rest) = ref \<and> image_source (popup_document p rest) = qrUrl env ev ref
    \<and> read_constants (script_of (popup_document p rest)) =
        Some (ref, origin env @ ''/checkout/'' @ slug env, nat (now w + 600000))"
proof -
  have p: "p = \<lparr>qp_reference = ref, qp_qrUrl = qrUrl env ev ref, qp_checkoutURL = origin env @ ''/checkout/'' @ slug env,
      qp_expiresAt = now w + 600000\<rparr>"
    using assms(1,2) by (simp add: openQrWindow_def Let_def)
  have u: "CHR ''<'' \<notin> set (origin env @ ''/checkout/'' @ slug env)" using assms(5,6) by simp
  have q: "CHR ''<'' \<notin> set (qp_reference p)" "CHR ''<'' \<notin> set (qp_qrUrl p)" "CHR 0x22 \<notin> set (qp_qrUrl p)"
    using assms(4) qrUrl_plain [of env ev ref] by (simp_all add: p)
  have "script_of (popup_document p rest) = popup_constants ref (origin env @ ''/checkout/'' @ slug env) (now w + 600000) @ until_end_tag rest"
    using document_parts(3) [OF q] until_skips [OF constants_plain [OF assms(4) u]] by (simp add: p)
  moreover have "0 \<le> now w + 600000" using assms(3) by simp
  ultimately show ?thesis
    using document_parts(1,2) [OF q] constants_read by (simp add: p)
qed

theorem popup_reads_arguments_witness:
  "\<exists>p. popupRef (final (openQrWindow demo_env demo_page False ''ref1'') demo_page []) = Some p
     \<and> read_constants (script_of (popup_document p [])) = Some (''ref1'', ''https://payknot.example/checkout/meetup'', 601000)"
proof -
  have e: "eventData demo_page = Some demo_event" "now demo_page = 1000"
    by (simp_all add: demo_page_def initial_checkout_def)
  then obtain p where p: "popupRef (final (openQrWindow demo_env demo_page False ''ref1'') demo_page []) = Some p"
    by (simp add: openQrWindow_def Let_def)
  from popup_reads_arguments [OF e(1) p] show ?thesis using p e(2) by auto
qed

text \<open>
  The reference is not escaped: one that holds the tag of a script takes the arguments from the popup's own.
\<close>

theorem popup_reference_unescaped:
  "read_constants (script_of (popup_document (p\<lparr>qp_reference := ''<script>''\<rparr>) rest)) = None"
proof -
  have "popup_document (p\<lparr>qp_reference := ''<script>''\<rparr>) rest = popup_top @ (''<script>'' @ (popup_image @ qp_qrUrl p @ popup_cards
      @ popup_constants ''<script>'' (qp_checkoutURL p) (qp_expiresAt p) @ rest))" (is "_ = _ @ (_ @ ?r)")
    by (simp add: popup_document_def)
  then have "script_of (popup_document (p\<lparr>qp_reference := ''<script>''\<rparr>) rest) = until_end_tag ?r"
    using after_no_match [OF parts_clear(6)] after_found by (simp only: script_of_def)
  moreover have "?r = CHR ''<'' # CHR ''/'' # CHR ''c'' # drop 3 ?r" by (simp add: popup_image_def)
  then have "\<exists>z. until_end_tag ?r = CHR ''<'' # z"
  proof -
    have "lower_char (CHR ''c'') = CHR ''c''" by code_simp
    then have "\<not> ends_script (CHR ''<'' # CHR ''/'' # CHR ''c'' # drop 3 ?r)" by (simp add: ends_script_def toLowerCase_def)
    then show ?thesis using \<open>?r = _\<close> by (metis until_end_tag.simps(2))
  qed
  ultimately show ?thesis by (auto simp: read_constants_def expect_def)
qed

end
