(* ===== verification/Form_Dates.thy ===== *)
theory Form_Dates
  imports Js_Date
begin

text \<open>
  The two date conversions of the dashboard's event form: \<open>toLocalDateTimeInput\<close> fills a
  \<^verbatim>\<open>datetime-local\<close> input from a time stamp of the server, \<open>datetimeLocalToRFC3339Local\<close> makes the
  time stamp that is sent from the content of the input.
\<close>

section \<open>The functions\<close>

definition input_text :: "fields \<Rightarrow> jstr" where
  "input_text f = show_int (year f) @ ''-'' @ pad2 (month f) @ ''-'' @ pad2 (date f) @ ''T'' @
     pad2 (hours f) @ '':'' @ pad2 (minutes f)"

definition toLocalDateTimeInput :: "zone \<Rightarrow> jstr \<Rightarrow> jstr" where
  "toLocalDateTimeInput z value = (if \<not> truthy value then []
     else (case parse_date z value of None \<Rightarrow> []
           | Some t \<Rightarrow> input_text (fields_of_local (local_time z t))))"

definition datetimeLocalToRFC3339Local :: "zone \<Rightarrow> jstr \<Rightarrow> jstr" where
  "datetimeLocalToRFC3339Local z value = (if \<not> truthy value then []
     else (case parse_date z value of None \<Rightarrow> []
           | Some t \<Rightarrow>
               (let f = fields_of_local (local_time z t);
                    offsetMin = - getTimezoneOffset z t;
                    sign = (if 0 \<le> offsetMin then ''+'' else ''-'');
                    abs = \<bar>offsetMin\<bar>
                in input_text f @ '':'' @ ''00'' @ sign @ pad2 (abs div 60) @ '':'' @ pad2 (abs mod 60))))"

section \<open>Reading back what they print\<close>

lemma take_digits_append:
  "list_all is_digit d \<Longrightarrow> length d = n \<Longrightarrow> take_digits n (d @ s) = Some (int (nat_of_digits d), s)"
  by (simp add: take_digits_def)

lemma take_digits_pad2: "0 \<le> n \<Longrightarrow> n < 100 \<Longrightarrow> take_digits 2 (pad2 n @ s) = Some (n, s)"
  using take_digits_append [OF pad2_nat(1,2), of n s] by (simp add: pad2_nat(3))

lemma year_text:
  assumes "1000 \<le> y" "y \<le> 9999"
  shows "take_digits 4 (show_int y @ s) = Some (y, s)"
proof -
  have n: "1000 \<le> nat y" "nat y < 10000" using assms by auto
  have "length (show_nat (nat y)) \<le> 4" using n by (intro length_show_nat_le) simp_all
  moreover have "3 < length (show_nat (nat y))" using n by (intro length_show_nat_ge) simp
  ultimately have "length (show_nat (nat y)) = 4" by simp
  then show ?thesis
    using assms take_digits_append [OF show_nat_digits, of "nat y" 4 s] by (simp add: show_int_def)
qed

text \<open>A field record that the input can hold: a real date and a year of four digits.\<close>

definition input_fields :: "fields \<Rightarrow> bool" where
  "input_fields f \<longleftrightarrow> valid_fields f \<and> 1000 \<le> year f \<and> year f \<le> 9999"

lemma days_in_month_le: "1 \<le> m \<Longrightarrow> m \<le> 12 \<Longrightarrow> days_in_month y m \<le> 31"
proof -
  assume "1 \<le> m" "m \<le> 12"
  then have "nat (m - 1) < 12" by auto
  then have "days_in_month y m \<in> set (month_lengths y)"
    unfolding days_in_month_def by (intro nth_mem) simp
  then show ?thesis by (auto simp: month_lengths_def split: if_splits)
qed

lemma input_fields_bounds:
  assumes "input_fields f"
  shows "0 \<le> month f" "month f < 100" "0 \<le> date f" "date f < 100"
    "0 \<le> hours f" "hours f < 100" "0 \<le> minutes f" "minutes f < 100"
  using assms days_in_month_le [of "month f" "year f"]
  by (auto simp: input_fields_def valid_fields_def valid_date_def)

lemma parse_day_input:
  assumes "input_fields f"
  shows "parse_day (input_text f) = Some (day_of_date (year f) (month f) (date f),
     ''T'' @ pad2 (hours f) @ '':'' @ pad2 (minutes f))"
    and "parse_day (input_text f @ s) = Some (day_of_date (year f) (month f) (date f),
     ''T'' @ pad2 (hours f) @ '':'' @ pad2 (minutes f) @ s)"
proof -
  note b = input_fields_bounds [OF assms]
  have y: "1000 \<le> year f" "year f \<le> 9999" and v: "valid_date (year f) (month f) (date f)"
    using assms by (auto simp: input_fields_def valid_fields_def)
  show *: "parse_day (input_text f @ s) = Some (day_of_date (year f) (month f) (date f),
     ''T'' @ pad2 (hours f) @ '':'' @ pad2 (minutes f) @ s)" for s
    using v by (simp add: parse_day_def input_text_def year_text [OF y] expect_def
        take_digits_pad2 b valid_date_def)
  show "parse_day (input_text f) = Some (day_of_date (year f) (month f) (date f),
     ''T'' @ pad2 (hours f) @ '':'' @ pad2 (minutes f))"
    using * [of "[]"] by simp
qed

lemma expect_simps [simp]:
  "expect c [] = None" "expect c (x # t) = (if x = c then Some t else None)"
  by (simp_all add: expect_def)

lemma parse_time_input:
  assumes "input_fields f"
  shows "parse_time (pad2 (hours f) @ '':'' @ pad2 (minutes f))
      = Some (3600000 * hours f + 60000 * minutes f, [])"
    and "x \<noteq> CHR ''.'' \<Longrightarrow> parse_time (pad2 (hours f) @ '':'' @ pad2 (minutes f) @ '':00'' @ x # s)
      = Some (3600000 * hours f + 60000 * minutes f, x # s)"
proof -
  note b = input_fields_bounds [OF assms]
  have h: "hours f \<le> 23" "minutes f \<le> 59" using assms by (auto simp: input_fields_def valid_fields_def)
  have e: "take_digits 2 (pad2 (minutes f)) = Some (minutes f, [])"
    using take_digits_pad2 [of "minutes f" "[]"] b by simp
  show "parse_time (pad2 (hours f) @ '':'' @ pad2 (minutes f))
      = Some (3600000 * hours f + 60000 * minutes f, [])"
    using h by (simp add: parse_time_def take_digits_pad2 b e)
  have z: "take_digits 2 (CHR ''0'' # CHR ''0'' # x # s) = Some (0, x # s)"
    by (simp add: take_digits_def is_digit_def nat_of_digits_def digit_val_def numeral_2_eq_2)
  show "parse_time (pad2 (hours f) @ '':'' @ pad2 (minutes f) @ '':00'' @ x # s)
      = Some (3600000 * hours f + 60000 * minutes f, x # s)" if "x \<noteq> CHR ''.''"
    using h that by (simp add: parse_time_def take_digits_pad2 b z)
qed

definition offset_text :: "int \<Rightarrow> jstr" where
  "offset_text m = (if 0 \<le> m then ''+'' else ''-'') @ pad2 (\<bar>m\<bar> div 60) @ '':'' @ pad2 (\<bar>m\<bar> mod 60)"

lemma parse_zone_offset:
  assumes "\<bar>m\<bar> < 1440"
  shows "parse_zone (offset_text m) = Some (Some m)"
proof -
  have d: "0 \<le> \<bar>m\<bar> div 60" "\<bar>m\<bar> div 60 \<le> 23" "0 \<le> \<bar>m\<bar> mod 60" "\<bar>m\<bar> mod 60 \<le> 59"
    using assms by auto
  have e: "take_digits 2 (pad2 (\<bar>m\<bar> mod 60)) = Some (\<bar>m\<bar> mod 60, [])"
    using take_digits_pad2 [of "\<bar>m\<bar> mod 60" "[]"] d by simp
  define h mi where "h = \<bar>m\<bar> div 60" and "mi = \<bar>m\<bar> mod 60"
  have t: "60 * h + mi = \<bar>m\<bar>" by (simp add: h_def mi_def)
  have o: "offset_text m = (if 0 \<le> m then ''+'' else ''-'') @ pad2 h @ '':'' @ pad2 mi"
    by (simp only: offset_text_def h_def mi_def)
  show ?thesis
    using d [folded h_def mi_def] e [folded mi_def] t
    by (cases "0 \<le> m") (simp_all add: parse_zone_def o take_digits_pad2)
qed

section \<open>Properties\<close>

text \<open>The offset at a local time that the clock shows once.\<close>

definition settled :: "zone \<Rightarrow> fields \<Rightarrow> bool" where
  "settled z f \<longleftrightarrow> (let l = local_of_fields f; m = offset_of_local z l
     in offset_at z (l - 60000 * m) = m \<and> \<bar>m\<bar> < 1440)"

lemma parse_local_input:
  assumes "input_fields f"
  shows "parse_date z (input_text f)
    = Some (local_of_fields f - 60000 * offset_of_local z (local_of_fields f))"
proof -
  have "parse_standard z (input_text f)
      = Some (local_of_fields f - 60000 * offset_of_local z (local_of_fields f))"
    using parse_day_input(1) [OF assms] parse_time_input(1) [OF assms]
    by (simp add: parse_standard_def parse_zone_def Let_def local_of_fields_def add.assoc)
  then show ?thesis by (simp add: parse_date_def)
qed

lemma parse_stamp:
  assumes "input_fields f" "\<bar>m\<bar> < 1440"
  shows "parse_date z (input_text f @ '':00'' @ offset_text m) = Some (local_of_fields f - 60000 * m)"
proof -
  define x where "x = (if 0 \<le> m then CHR ''+'' else CHR ''-'')"
  define s where "s = pad2 (\<bar>m\<bar> div 60) @ '':'' @ pad2 (\<bar>m\<bar> mod 60)"
  have x: "offset_text m = x # s" "x \<noteq> CHR ''.''"
    by (simp_all add: offset_text_def x_def s_def)
  have "parse_standard z (input_text f @ '':00'' @ offset_text m) = Some (local_of_fields f - 60000 * m)"
    using parse_day_input(2) [OF assms(1)] parse_time_input(2) [OF assms(1) x(2)]
      parse_zone_offset [OF assms(2)]
    unfolding x(1) by (simp add: parse_standard_def Let_def local_of_fields_def add.assoc)
  then show ?thesis by (simp add: parse_date_def)
qed

lemma input_text_nonempty [simp]: "truthy (input_text f)"
  by (simp add: truthy_def input_text_def)

lemma stamp_text:
  assumes "input_fields f" and "settled z f"
  shows "datetimeLocalToRFC3339Local z (input_text f)
     = input_text f @ '':00'' @ offset_text (offset_of_local z (local_of_fields f))"
proof -
  let ?m = "offset_of_local z (local_of_fields f)"
  have m: "offset_at z (local_of_fields f - 60000 * ?m) = ?m"
    using assms(2) by (simp add: settled_def Let_def)
  have "fields_of_local (local_of_fields f) = f"
    using fields_of_local_of_fields [of f 0] assms(1) by (simp add: input_fields_def)
  then show ?thesis
    by (simp add: datetimeLocalToRFC3339Local_def parse_local_input [OF assms(1)] m local_time_def
        getTimezoneOffset_def Let_def offset_text_def)
qed

lemma form_date_back:
  assumes "input_fields f" and "settled z f"
  shows "toLocalDateTimeInput z (datetimeLocalToRFC3339Local z (input_text f)) = input_text f"
proof -
  let ?m = "offset_of_local z (local_of_fields f)"
  have m: "offset_at z (local_of_fields f - 60000 * ?m) = ?m" and b: "\<bar>?m\<bar> < 1440"
    using assms(2) by (auto simp: settled_def Let_def)
  have "fields_of_local (local_of_fields f) = f"
    using fields_of_local_of_fields [of f 0] assms(1) by (simp add: input_fields_def)
  moreover have "truthy (input_text f @ '':00'' @ offset_text ?m)" by (simp add: truthy_def)
  ultimately show ?thesis
    unfolding stamp_text [OF assms] toLocalDateTimeInput_def parse_stamp [OF assms(1) b]
    by (simp add: local_time_def m)
qed

text \<open>
  What is sent for a date and time that the host picked: the same local date and time
  with seconds zero, and the browser's UTC offset at that moment.
\<close>

theorem stamp_of_input:
  assumes "input_fields f" and "settled z f"
  shows "datetimeLocalToRFC3339Local z (input_text f)
     = input_text f @ '':00'' @ offset_text (offset_of_local z (local_of_fields f))"
  using assms by (rule stamp_text)

theorem stamp_of_input_witness:
  "datetimeLocalToRFC3339Local (fixed_zone 420)
     (input_text \<lparr>year = 2026, month = 3, date = 1, hours = 9, minutes = 5\<rparr>) = ''2026-03-01T09:05:00+07:00''"
proof -
  let ?f = "\<lparr>year = 2026, month = 3, date = 1, hours = 9, minutes = 5\<rparr>"
  have "input_fields ?f"
    by (simp add: input_fields_def valid_fields_def valid_date_def days_in_month_def month_lengths_def)
  moreover have "settled (fixed_zone 420) ?f" by (simp add: settled_def fixed_zone_def Let_def)
  ultimately have "datetimeLocalToRFC3339Local (fixed_zone 420) (input_text ?f)
      = input_text ?f @ '':00'' @ offset_text 420"
    using stamp_of_input [of ?f "fixed_zone 420"] by (simp add: fixed_zone_def)
  also have "\<dots> = ''2026-03-01T09:05:00+07:00''" by code_simp
  finally show ?thesis .
qed

text \<open>
  C22. Editing an event does not shift its dates: the time stamp that the form sends fills the
  form, when the event is loaded again in the same browser, with the text the host entered.
\<close>

theorem form_date_roundtrip:
  assumes "input_fields f" and "settled z f"
  shows "toLocalDateTimeInput z (datetimeLocalToRFC3339Local z (input_text f)) = input_text f"
  using assms by (rule form_date_back)

theorem form_date_roundtrip_witness:
  "toLocalDateTimeInput (fixed_zone (- 330)) (datetimeLocalToRFC3339Local (fixed_zone (- 330))
     (input_text \<lparr>year = 2024, month = 2, date = 29, hours = 23, minutes = 59\<rparr>)) = ''2024-02-29T23:59''"
proof -
  let ?f = "\<lparr>year = 2024, month = 2, date = 29, hours = 23, minutes = 59\<rparr>"
  have "input_fields ?f"
    by (simp add: input_fields_def valid_fields_def valid_date_def days_in_month_def month_lengths_def leap_def)
  moreover have "settled (fixed_zone (- 330)) ?f" by (simp add: settled_def fixed_zone_def Let_def)
  ultimately have "toLocalDateTimeInput (fixed_zone (- 330)) (datetimeLocalToRFC3339Local (fixed_zone (- 330)) (input_text ?f)) = input_text ?f"
    by (rule form_date_roundtrip)
  also have "\<dots> = ''2024-02-29T23:59''" by code_simp
  finally show ?thesis .
qed

text \<open>A year below 1000 is printed without its leading zeros: the text is not a date any more.\<close>

lemma early_year_lost:
  "datetimeLocalToRFC3339Local (fixed_zone 0) ''0999-01-01T00:00'' = ''999-01-01T00:00:00+00:00''
   \<and> toLocalDateTimeInput (fixed_zone 0) ''999-01-01T00:00:00+00:00'' = []"
  by code_simp

end
