(* ===== verification/Dash_List.thy ===== *)
theory Dash_List
  imports Js_Object Form_Dates Js_Number "HOL-Library.Multiset" "HOL-Library.List_Lexorder" "HOL-Library.Char_ord"
begin

text \<open>
  The dashboard's data (\<^verbatim>\<open>frontend/src/app/app/page.tsx\<close>) and what it computes from its lists in
  each render: the event list filtered by text and date window, sorted and cut into pages, the
  checkout fields and the deposits filtered and paged. \<open>localeCompare\<close> depends on the browser's
  locale: it is the parameter \<open>collate\<close>.
\<close>

section \<open>Data\<close>

record checkout_field =
  cf_name :: jstr
  cf_required :: bool

record event_summary =
  es_eventId :: int
  es_slug :: jstr
  es_title :: jstr
  es_description :: jstr
  es_eventImageUrl :: jstr
  es_eventDate :: jstr
  es_checkoutExpiresAt :: jstr
  es_location :: jstr
  es_organizerName :: jstr
  es_merchantWallet :: jstr
  es_amountUsdc :: jstr
  es_eventSource :: jstr
  es_sourceUrl :: jstr
  es_participantFormSchema :: "checkout_field list"
  es_wallet :: bool
  es_qr :: bool
  es_createdAt :: jstr

record checkout_row =
  cr_id :: int
  cr_walletAddress :: jstr
  cr_reference :: jstr
  cr_signature :: jstr
  cr_status :: jstr
  cr_createdAt :: jstr
  cr_paidAt :: jstr
  cr_participantData :: "obj option"

datatype sort_field = ByTitle | ByOrganizerName | ByEventDate | ByAmountUsdc

datatype sort_direction = Asc | Desc

section \<open>Sorting an array\<close>

text \<open>
  \<open>array.sort(compare)\<close>, for the sign of the comparison, \<open>NaN\<close> counting as zero. The method is
  stable; with a consistent comparison its result is determined, and this is insertion
  from the right. Where the comparison is not consistent, the language leaves the order open
  and this is one of the orders.
\<close>

fun insert_by :: "('a \<Rightarrow> 'a \<Rightarrow> int) \<Rightarrow> 'a \<Rightarrow> 'a list \<Rightarrow> 'a list" where
  "insert_by cmp x [] = [x]"
| "insert_by cmp x (y # ys) = (if cmp x y \<le> 0 then x # y # ys else y # insert_by cmp x ys)"

definition js_sort :: "('a \<Rightarrow> 'a \<Rightarrow> int) \<Rightarrow> 'a list \<Rightarrow> 'a list" where
  "js_sort cmp xs = foldr (insert_by cmp) xs []"

lemma mset_insert_by [simp]: "mset (insert_by cmp x ys) = add_mset x (mset ys)"
  by (induction ys) auto

lemma mset_js_sort [simp]: "mset (js_sort cmp xs) = mset xs"
  by (induction xs) (simp_all add: js_sort_def)

lemma set_js_sort [simp]: "set (js_sort cmp xs) = set xs"
  using mset_js_sort by (metis set_mset_mset)

lemma length_js_sort [simp]: "length (js_sort cmp xs) = length xs"
  using mset_js_sort by (metis size_mset)

text \<open>
  The contract between a comparison and the sort: on the elements of \<open>A\<close> the comparison is
  antisymmetric in its sign and transitive.
\<close>

locale comparison =
  fixes cmp :: "'a \<Rightarrow> 'a \<Rightarrow> int" and A :: "'a set"
  assumes cmp_flip: "a \<in> A \<Longrightarrow> b \<in> A \<Longrightarrow> cmp a b \<le> 0 \<longleftrightarrow> 0 \<le> cmp b a"
    and cmp_trans: "a \<in> A \<Longrightarrow> b \<in> A \<Longrightarrow> c \<in> A \<Longrightarrow> cmp a b \<le> 0 \<Longrightarrow> cmp b c \<le> 0 \<Longrightarrow> cmp a c \<le> 0"
begin

abbreviation in_order :: "'a list \<Rightarrow> bool" where
  "in_order xs \<equiv> sorted_wrt (\<lambda>a b. cmp a b \<le> 0) xs"

lemma total: "a \<in> A \<Longrightarrow> b \<in> A \<Longrightarrow> cmp a b \<le> 0 \<or> cmp b a \<le> 0"
  using cmp_flip [of a b] by linarith

lemma set_insert_by: "set (insert_by cmp x ys) = insert x (set ys)"
  by (induction ys) auto

lemma insert_in_order:
  "x \<in> A \<Longrightarrow> set ys \<subseteq> A \<Longrightarrow> in_order ys \<Longrightarrow> in_order (insert_by cmp x ys)"
proof (induction ys)
  case (Cons y ys)
  show ?case
  proof (cases "cmp x y \<le> 0")
    case True
    have "cmp x z \<le> 0" if "z \<in> set ys" for z
      using Cons.prems that True cmp_trans [of x y z] by auto
    then show ?thesis using Cons.prems True by auto
  next
    case False
    then have "cmp y x \<le> 0" using total [of x y] Cons.prems by auto
    then show ?thesis using Cons False by (auto simp: set_insert_by)
  qed
qed simp

lemma sort_in_order: "set xs \<subseteq> A \<Longrightarrow> in_order (js_sort cmp xs)"
proof (induction xs)
  case (Cons x xs)
  have "set (js_sort cmp xs) \<subseteq> A" using Cons.prems by simp
  then show ?case using Cons insert_in_order [of x "js_sort cmp xs"] by (simp add: js_sort_def)
qed (simp add: js_sort_def)

text \<open>Stability: elements that compare equal with \<open>k\<close> keep their order.\<close>

lemma insert_filter:
  "k \<in> A \<Longrightarrow> x \<in> A \<Longrightarrow> set ys \<subseteq> A \<Longrightarrow> in_order ys \<Longrightarrow>
   filter (\<lambda>y. cmp y k = 0) (insert_by cmp x ys) = filter (\<lambda>y. cmp y k = 0) (x # ys)"
proof (induction ys)
  case (Cons y ys)
  show ?case
  proof (cases "cmp x y \<le> 0")
    case False
    have "\<not> (cmp x k = 0 \<and> cmp y k = 0)"
    proof
      assume e: "cmp x k = 0 \<and> cmp y k = 0"
      then have "cmp k y \<le> 0" using cmp_flip [of k y] Cons.prems by auto
      then have "cmp x y \<le> 0" using e cmp_trans [of x k y] Cons.prems by auto
      with False show False by simp
    qed
    then show ?thesis using Cons False by auto
  qed simp
qed simp

lemma sort_stable:
  "k \<in> A \<Longrightarrow> set xs \<subseteq> A \<Longrightarrow> filter (\<lambda>y. cmp y k = 0) (js_sort cmp xs) = filter (\<lambda>y. cmp y k = 0) xs"
proof (induction xs)
  case (Cons x xs)
  have s: "set (js_sort cmp xs) \<subseteq> A" using Cons.prems by simp
  have "filter (\<lambda>y. cmp y k = 0) (insert_by cmp x (js_sort cmp xs)) = filter (\<lambda>y. cmp y k = 0) (x # js_sort cmp xs)"
    by (rule insert_filter) (use Cons.prems s sort_in_order in auto)
  then show ?case using Cons by (simp add: js_sort_def)
qed (simp add: js_sort_def)

end

section \<open>Comparing events\<close>

definition direction_sign :: "sort_direction \<Rightarrow> int" where
  "direction_sign d = (case d of Asc \<Rightarrow> 1 | Desc \<Rightarrow> - 1)"

text \<open>The sign of \<open>x - y\<close> for two numbers, zero when the difference is \<open>NaN\<close>.\<close>

fun diff_sign :: "jsnum \<Rightarrow> jsnum \<Rightarrow> int" where
  "diff_sign (Fin a) (Fin b) = (if a < b then - 1 else if b < a then 1 else 0)"
| "diff_sign (Inf s) (Inf t) = (if s = t then 0 else if s then - 1 else 1)"
| "diff_sign (Inf s) (Fin b) = (if s then - 1 else 1)"
| "diff_sign (Fin a) (Inf t) = (if t then 1 else - 1)"
| "diff_sign _ _ = 0"

text \<open>The time value the comparison uses; \<open>None\<close> is \<open>NaN\<close>.\<close>

definition event_time :: "zone \<Rightarrow> event_summary \<Rightarrow> int option" where
  "event_time z e = (if truthy (es_eventDate e) then parse_date z (es_eventDate e) else Some 0)"

definition event_amount :: "event_summary \<Rightarrow> jsnum" where
  "event_amount e = js_parseFloat (or_else (es_amountUsdc e) ''0'')"

definition compare_events :: "(jstr \<Rightarrow> jstr \<Rightarrow> int) \<Rightarrow> zone \<Rightarrow> sort_field \<Rightarrow> sort_direction \<Rightarrow>
    event_summary \<Rightarrow> event_summary \<Rightarrow> int" where
  "compare_events collate z sortField sortDirection a b =
     (let direction = direction_sign sortDirection in case sortField of
        ByTitle \<Rightarrow> collate (es_title a) (es_title b) * direction
      | ByOrganizerName \<Rightarrow> collate (or_else (es_organizerName a) []) (or_else (es_organizerName b) []) * direction
      | ByEventDate \<Rightarrow> (case (event_time z a, event_time z b) of
            (Some s, Some t) \<Rightarrow> (s - t) * direction | _ \<Rightarrow> 0)
      | ByAmountUsdc \<Rightarrow> diff_sign (event_amount a) (event_amount b) * direction)"

section \<open>The event list\<close>

record event_query =
  searchQuery :: jstr
  eventDateFrom :: jstr
  eventDateTo :: jstr
  sortField :: sort_field
  sortDirection :: sort_direction

text \<open>A bound of the date window: none, \<open>NaN\<close>, or a time. Comparing with \<open>NaN\<close> is false.\<close>

datatype date_bound = Unbounded | BadDate | Bound int

definition date_bound :: "zone \<Rightarrow> jstr \<Rightarrow> date_bound" where
  "date_bound z s = (if \<not> truthy s then Unbounded
     else (case parse_date z s of None \<Rightarrow> BadDate | Some t \<Rightarrow> Bound t))"

definition event_haystack :: "event_summary \<Rightarrow> jstr" where
  "event_haystack ev = toLowerCase (join '' '' [es_title ev, es_organizerName ev, es_description ev,
     es_merchantWallet ev, es_location ev])"

definition in_window :: "zone \<Rightarrow> date_bound \<Rightarrow> date_bound \<Rightarrow> event_summary \<Rightarrow> bool" where
  "in_window z from to ev =
     (if from \<noteq> Unbounded \<or> to \<noteq> Unbounded
      then if \<not> truthy (es_eventDate ev) then False
           else (case parse_date z (es_eventDate ev) of
               None \<Rightarrow> False
             | Some t \<Rightarrow> \<not> (case from of Bound f \<Rightarrow> t < f | _ \<Rightarrow> False) \<and>
                        \<not> (case to of Bound u \<Rightarrow> u + 24 * 60 * 60 * 1000 - 1 < t | _ \<Rightarrow> False))
      else True)"

definition event_matches :: "zone \<Rightarrow> event_query \<Rightarrow> event_summary \<Rightarrow> bool" where
  "event_matches z query ev =
     (let q = toLowerCase (trim (searchQuery query))
      in if truthy q \<and> \<not> str_includes (event_haystack ev) q then False
         else in_window z (date_bound z (eventDateFrom query)) (date_bound z (eventDateTo query)) ev)"

definition filteredAndSortedEvents ::
  "(jstr \<Rightarrow> jstr \<Rightarrow> int) \<Rightarrow> zone \<Rightarrow> event_query \<Rightarrow> event_summary list \<Rightarrow> event_summary list" where
  "filteredAndSortedEvents collate z query events =
     js_sort (compare_events collate z (sortField query) (sortDirection query))
       (filter (event_matches z query) events)"

section \<open>Pages\<close>

definition EVENT_PAGE_SIZE :: nat where
  "EVENT_PAGE_SIZE = 10"

text \<open>\<open>Math.max(1, Math.ceil(n / 10))\<close>, the slice of a page, and the effect that clamps the page.\<close>

definition totalPages :: "nat \<Rightarrow> nat" where
  "totalPages n = max 1 ((n + (EVENT_PAGE_SIZE - 1)) div EVENT_PAGE_SIZE)"

definition pageSlice :: "nat \<Rightarrow> 'a list \<Rightarrow> 'a list" where
  "pageSlice p xs = (let start = (p - 1) * EVENT_PAGE_SIZE in slice start (start + EVENT_PAGE_SIZE) xs)"

definition clampPage :: "nat \<Rightarrow> nat \<Rightarrow> nat" where
  "clampPage n p = (if n < p then n else p)"

section \<open>Checkout fields and deposits\<close>

definition filteredCheckoutFields :: "jstr \<Rightarrow> checkout_field list \<Rightarrow> checkout_field list" where
  "filteredCheckoutFields search flds = (let q = toLowerCase (trim search)
     in filter (\<lambda>f. if truthy q then str_includes (toLowerCase (cf_name f)) q else True) flds)"

definition deposit_haystack :: "checkout_row \<Rightarrow> jstr" where
  "deposit_haystack row = toLowerCase (join '' '' [cr_walletAddress row, cr_reference row, cr_signature row,
     cr_status row, json_obj (case cr_participantData row of Some d \<Rightarrow> d | None \<Rightarrow> [])])"

definition filteredDeposits :: "jstr \<Rightarrow> checkout_row list \<Rightarrow> checkout_row list" where
  "filteredDeposits search rows = (let q = toLowerCase (trim search)
     in filter (\<lambda>row. if truthy q then str_includes (deposit_haystack row) q else True) rows)"

definition find_event :: "int option \<Rightarrow> event_summary list \<Rightarrow> event_summary option" where
  "find_event sel events = (case sel of None \<Rightarrow> None
     | Some i \<Rightarrow> List.find (\<lambda>e. es_eventId e = i) events)"

definition hasPaidDeposits :: "checkout_row list \<Rightarrow> bool" where
  "hasPaidDeposits rows = list_ex (\<lambda>c. cr_status c = ''paid'') rows"

section \<open>The comparisons are consistent\<close>

text \<open>The events that a sort field can compare.\<close>

definition comparable :: "zone \<Rightarrow> sort_field \<Rightarrow> event_summary \<Rightarrow> bool" where
  "comparable z f e = (case f of ByEventDate \<Rightarrow> event_time z e \<noteq> None
     | ByAmountUsdc \<Rightarrow> event_amount e \<noteq> NaN | _ \<Rightarrow> True)"

lemma comparison_scale:
  assumes "comparison c A"
  shows "comparison (\<lambda>a b. c (f a) (f b) * direction_sign d) (f -` A)"
proof
  fix a b assume "a \<in> f -` A" "b \<in> f -` A"
  then show "c (f a) (f b) * direction_sign d \<le> 0 \<longleftrightarrow> 0 \<le> c (f b) (f a) * direction_sign d"
    using comparison.cmp_flip [OF assms, of "f a" "f b"] comparison.cmp_flip [OF assms, of "f b" "f a"]
    by (cases d) (auto simp: direction_sign_def)
next
  fix a b x assume e: "a \<in> f -` A" "b \<in> f -` A" "x \<in> f -` A"
    "c (f a) (f b) * direction_sign d \<le> 0" "c (f b) (f x) * direction_sign d \<le> 0"
  then show "c (f a) (f x) * direction_sign d \<le> 0"
    using comparison.cmp_trans [OF assms, of "f a" "f b" "f x"] comparison.cmp_trans [OF assms, of "f x" "f b" "f a"]
      comparison.cmp_flip [OF assms, of "f b" "f a"] comparison.cmp_flip [OF assms, of "f x" "f b"]
      comparison.cmp_flip [OF assms, of "f x" "f a"]
    by (cases d) (auto simp: direction_sign_def)
qed

interpretation times: comparison "\<lambda>(s :: int) t. s - t" UNIV
  by unfold_locales auto

interpretation numbers: comparison diff_sign "- {NaN}"
proof
  fix a b assume "a \<in> - {NaN}" "b \<in> - {NaN}"
  then show "diff_sign a b \<le> 0 \<longleftrightarrow> 0 \<le> diff_sign b a"
    by (cases a; cases b) auto
next
  fix a b c assume "a \<in> - {NaN}" "b \<in> - {NaN}" "c \<in> - {NaN}" "diff_sign a b \<le> 0" "diff_sign b c \<le> 0"
  then show "diff_sign a c \<le> 0"
    by (cases a; cases b; cases c) (auto split: if_splits)
qed

lemma comparison_cong:
  assumes "comparison c A" "B \<subseteq> A" "\<And>a b. a \<in> B \<Longrightarrow> b \<in> B \<Longrightarrow> c' a b = c a b"
  shows "comparison c' B"
proof
  fix a b assume "a \<in> B" "b \<in> B"
  then show "c' a b \<le> 0 \<longleftrightarrow> 0 \<le> c' b a"
    using comparison.cmp_flip [OF assms(1), of a b] assms(2,3) by auto
next
  fix a b d assume "a \<in> B" "b \<in> B" "d \<in> B" "c' a b \<le> 0" "c' b d \<le> 0"
  then show "c' a d \<le> 0"
    using comparison.cmp_trans [OF assms(1), of a b d] assms(2,3) by auto
qed

lemma compare_events_comparison:
  assumes "comparison collate UNIV"
  shows "comparison (compare_events collate z f d) {e. comparable z f e}"
proof (cases f)
  case ByTitle
  show ?thesis
    by (rule comparison_cong [OF comparison_scale [OF assms, of es_title d]])
      (simp_all add: compare_events_def ByTitle Let_def)
next
  case ByOrganizerName
  show ?thesis
    by (rule comparison_cong [OF comparison_scale [OF assms, of "\<lambda>e. or_else (es_organizerName e) []" d]])
      (simp_all add: compare_events_def ByOrganizerName Let_def)
next
  case ByEventDate
  show ?thesis
    by (rule comparison_cong [OF comparison_scale [OF times.comparison_axioms, of "\<lambda>e. the (event_time z e)" d]])
      (auto simp: compare_events_def comparable_def ByEventDate Let_def)
next
  case ByAmountUsdc
  show ?thesis
    by (rule comparison_cong [OF comparison_scale [OF numbers.comparison_axioms, of event_amount d]])
      (auto simp: compare_events_def comparable_def ByAmountUsdc Let_def)
qed

text \<open>A collation for evaluation: the order of the code units.\<close>

definition code_unit_order :: "jstr \<Rightarrow> jstr \<Rightarrow> int" where
  "code_unit_order a b = (if a < b then - 1 else if b < a then 1 else 0)"

interpretation code_units: comparison code_unit_order UNIV
  by unfold_locales (auto simp: code_unit_order_def split: if_splits)

text \<open>Events and queries for evaluation.\<close>

definition demo_row :: "jstr \<Rightarrow> jstr \<Rightarrow> event_summary" where
  "demo_row t d = \<lparr>es_eventId = 1, es_slug = [], es_title = t, es_description = [], es_eventImageUrl = [],
     es_eventDate = d, es_checkoutExpiresAt = [], es_location = [], es_organizerName = [],
     es_merchantWallet = [], es_amountUsdc = ''10.00'', es_eventSource = ''custom'', es_sourceUrl = [],
     es_participantFormSchema = [], es_wallet = True, es_qr = True, es_createdAt = []\<rparr>"

definition demo_query :: "sort_field \<Rightarrow> event_query" where
  "demo_query f = \<lparr>searchQuery = [], eventDateFrom = [], eventDateTo = [], sortField = f, sortDirection = Asc\<rparr>"

section \<open>Pages cover the list\<close>

lemma totalPages_bounds: "1 \<le> totalPages n" "n \<le> totalPages n * 10"
  by (auto simp: totalPages_def EVENT_PAGE_SIZE_def max_def)

lemma pageSlice_Suc: "pageSlice (Suc i) xs = slice (i * 10) (i * 10 + 10) xs"
  by (simp add: pageSlice_def EVENT_PAGE_SIZE_def Let_def)

lemma pages_cover: "length xs \<le> n * 10 \<Longrightarrow> concat (map (\<lambda>p. pageSlice p xs) [1..<Suc n]) = xs"
proof -
  assume l: "length xs \<le> n * 10"
  have "[1..<Suc n] = map Suc [0..<n]" by (simp add: map_Suc_upt del: upt_Suc)
  then have "map (\<lambda>p. pageSlice p xs) [1..<Suc n] = map (\<lambda>i. slice (i * 10) (i * 10 + 10) xs) [0..<n]"
    by (simp only: map_map comp_def pageSlice_Suc)
  then show ?thesis using concat_slices [of 10 xs n] slice_all [OF l] by simp
qed

section \<open>Properties\<close>



text \<open>
  One event whose date cannot be read spoils the order by date of the others: two later and
  earlier events around it stay in their loaded order, since it compares as equal with both.
\<close>

theorem unreadable_date_spoils_order:
  "map es_eventDate (filteredAndSortedEvents collate (fixed_zone 0) (demo_query ByEventDate)
     [demo_row ''a'' ''2026-03-02'', demo_row ''b'' ''soon'', demo_row ''c'' ''2026-03-01''])
   = [''2026-03-02'', ''soon'', ''2026-03-01'']"
proof -
  have m: "event_matches (fixed_zone 0) (demo_query ByEventDate) e" for e
    by (simp add: event_matches_def in_window_def date_bound_def demo_query_def)
  have "parse_date (fixed_zone 0) ''soon'' = None" by code_simp
  then have "compare_events collate (fixed_zone 0) ByEventDate Asc a (demo_row b ''soon'') = 0"
    "compare_events collate (fixed_zone 0) ByEventDate Asc (demo_row b ''soon'') a = 0" for a b
    by (simp_all add: compare_events_def event_time_def demo_row_def split: option.split)
  then show ?thesis
    by (simp add: filteredAndSortedEvents_def m) (simp add: js_sort_def demo_query_def, simp add: demo_row_def)
qed

text \<open>
  Paging loses and repeats nothing: the pages from the first to the last, in order, are the
  whole list, no page has more than ten entries, and after the clamp the current page exists.
\<close>

theorem pages_partition:
  "concat (map (\<lambda>p. pageSlice p xs) [1..<Suc (totalPages (length xs))]) = xs
   \<and> length (pageSlice p xs) \<le> EVENT_PAGE_SIZE
   \<and> clampPage (totalPages (length xs)) p \<le> totalPages (length xs)
   \<and> (xs \<noteq> [] \<and> 1 \<le> p \<longrightarrow> pageSlice (clampPage (totalPages (length xs)) p) xs \<noteq> [])"
proof -
  let ?n = "totalPages (length xs)"
  have n: "1 \<le> ?n" "length xs \<le> ?n * 10" using totalPages_bounds by simp_all
  have c: "clampPage ?n p \<le> ?n" "1 \<le> p \<Longrightarrow> 1 \<le> clampPage ?n p" using n(1) by (auto simp: clampPage_def)
  have "pageSlice q xs \<noteq> []" if "xs \<noteq> []" "1 \<le> q" "q \<le> ?n" for q
  proof -
    have "0 < length xs" using that(1) by simp
    then have "(?n - 1) * 10 < length xs"
      by (auto simp: totalPages_def EVENT_PAGE_SIZE_def max_def)
    moreover have "(q - 1) * 10 \<le> (?n - 1) * 10" using that(3) by simp
    ultimately have "(q - 1) * 10 < length xs" by linarith
    then show ?thesis
      by (simp add: pageSlice_def slice_def EVENT_PAGE_SIZE_def Let_def)
  qed
  then show ?thesis using pages_cover [OF n(2)] c
    by (auto simp: pageSlice_def EVENT_PAGE_SIZE_def Let_def simp del: upt_Suc)
qed

theorem pages_partition_witness:
  "pageSlice (clampPage (totalPages (length [1 :: int, 2])) 7) [1 :: int, 2] \<noteq> []"
  using pages_partition [of "[1 :: int, 2]" 7] by simp

text \<open>
  With both bounds of the date window readable, an event is in the window exactly when its
  date is readable and lies between the first bound and the last millisecond of the day that
  starts at the second bound.
\<close>

theorem date_window:
  assumes "date_bound z (eventDateFrom query) = Bound f" and "date_bound z (eventDateTo query) = Bound u"
    and "searchQuery query = []"
  shows "event_matches z query ev \<longleftrightarrow>
    es_eventDate ev \<noteq> [] \<and> (\<exists>t. parse_date z (es_eventDate ev) = Some t \<and> f \<le> t \<and> t < u + 86400000)"
  using assms by (auto simp: event_matches_def in_window_def truthy_def Let_def split: option.split)

theorem date_window_witness:
  "event_matches (fixed_zone 0) (demo_query ByTitle\<lparr>eventDateFrom := ''2026-03-01'', eventDateTo := ''2026-03-01''\<rparr>)
     (demo_row ''a'' ''2026-03-01T23:59:00Z'')"
proof -
  have b: "date_bound (fixed_zone 0) ''2026-03-01'' = Bound 1772323200000"
    and e: "parse_date (fixed_zone 0) ''2026-03-01T23:59:00Z'' = Some 1772409540000" by code_simp+
  show ?thesis
    using date_window [of "fixed_zone 0" "demo_query ByTitle\<lparr>eventDateFrom := ''2026-03-01'', eventDateTo := ''2026-03-01''\<rparr>"
        1772323200000 1772323200000 "demo_row ''a'' ''2026-03-01T23:59:00Z''"]
    by (simp add: b e demo_query_def demo_row_def)
qed

text \<open>
  The window counts in days of Greenwich, while the form and the list show local time: seven
  hours east of it, an event at two in the morning of the first of March is not found by
  a window that starts on the first of March.
\<close>

theorem date_window_is_utc:
  "toLocalDateTimeInput (fixed_zone 420) ''2026-03-01T02:00:00+07:00'' = ''2026-03-01T02:00''
   \<and> \<not> event_matches (fixed_zone 420) (demo_query ByTitle\<lparr>eventDateFrom := ''2026-03-01''\<rparr>)
         (demo_row ''a'' ''2026-03-01T02:00:00+07:00'')"
proof -
  have "toLocalDateTimeInput (fixed_zone 420) ''2026-03-01T02:00:00+07:00'' = ''2026-03-01T02:00''"
    and "date_bound (fixed_zone 420) ''2026-03-01'' = Bound 1772323200000"
    and "parse_date (fixed_zone 420) ''2026-03-01T02:00:00+07:00'' = Some 1772305200000" by code_simp+
  then show ?thesis
    by (simp add: event_matches_def in_window_def date_bound_def demo_query_def demo_row_def)
qed

text \<open>
  The deposit list is the deposits whose wallet, reference, signature, status or participant
  data contain the search text, whatever the case of letters; a blank search shows all.
\<close>

theorem deposit_search:
  "set (filteredDeposits s rows) = {r \<in> set rows. \<exists>a b. deposit_haystack r = a @ toLowerCase (trim s) @ b}"
  by (auto simp: filteredDeposits_def Let_def str_includes_iff truthy_def) (metis append_Nil)

end
