(* ===== verification/Dash_State.thy ===== *)
theory Dash_State
  imports Dash_List Page_Runtime Html_Filter
begin

text \<open>
  The state of the dashboard (\<open>Home\<close> in \<^verbatim>\<open>frontend/src/app/app/page.tsx\<close>) as a chain of records, one per
  part of the page: signing in, the event form, the event list and the detail panel, agent
  security; the last one adds what is outside the component. Then the requests it sends
  and the replies it gets. Cells of pure layout (heights, the pinned header) are left out.
\<close>

section \<open>Signing in\<close>

record app_user =
  us_id :: int
  us_name :: jstr
  us_email :: jstr
  us_provider :: jstr

datatype auth_mode = Login | Register | Forgot

record auth_cells =
  currentUser :: "app_user option"
  authLoading :: bool
  authCheckNonce :: nat
  authSubmitting :: bool
  authInfoMessage :: jstr
  resendCooldown :: int
  authMode :: auth_mode
  authName :: jstr
  authEmail :: jstr
  authPassword :: jstr
  dash_error :: jstr

section \<open>The event form\<close>

record upload_file =
  uf_name :: jstr
  uf_type :: jstr
  uf_size :: int

record form_cells = auth_cells +
  title :: jstr
  description :: jstr
  eventDate :: jstr
  checkoutExpiresAt :: jstr
  location :: jstr
  organizerName :: jstr
  merchantWallet :: jstr
  amountUsdc :: jstr
  eventImageUrl :: jstr
  eventSource :: jstr
  sourceUrl :: jstr
  importingLuma :: bool
  importedLumaImageURL :: jstr
  participantFields :: "checkout_field list"
  imageFileList :: "upload_file list"
  eventFormErrors :: obj

definition default_fields :: "checkout_field list" where
  "default_fields = [\<lparr>cf_name = ''name'', cf_required = True\<rparr>, \<lparr>cf_name = ''email'', cf_required = True\<rparr>]"

section \<open>Event list, detail panel, deposits\<close>

datatype detail_mode = Create | Edit

datatype detail_tab = InfoTab | CheckoutFormTab | DepositsTab

record event_cells = form_cells +
  events :: "event_summary list"
  selectedEventID :: "int option"
  detailRender :: bool
  detailClosing :: bool
  detailMode :: detail_mode
  detailTab :: detail_tab
  showCheckoutFormSection :: bool
  showDepositsSection :: bool
  checkoutFormAccordionOpen :: bool
  depositAccordionOpen :: bool
  checkoutFormSearchTerm :: jstr
  checkoutFormPage :: nat
  depositSearchTerm :: jstr
  depositPage :: nat
  isMobile :: bool
  list_query :: event_query
  eventPage :: nat
  creating :: bool
  updating :: bool
  deleting :: bool
  loadingEvents :: bool
  checkouts :: "checkout_row list"
  loadingCheckouts :: bool

section \<open>Agent security\<close>

record agent_pat =
  ap_id :: jstr
  ap_name :: jstr
  ap_tokenHint :: jstr
  ap_scope :: jstr
  ap_createdAt :: jstr
  ap_lastUsedAt :: jstr
  ap_expiresAt :: jstr
  ap_revokedAt :: jstr

record agent_key =
  ak_agentId :: jstr
  ak_publicKeyBase64 :: jstr
  ak_active :: bool
  ak_createdBy :: jstr
  ak_createdAt :: jstr
  ak_revokedAt :: jstr

record agent_cells = event_cells +
  agentPats :: "agent_pat list"
  agentKeys :: "agent_key list"
  agentSecurityMode :: bool
  agentSecurityLoading :: bool
  creatingPat :: bool
  savingAgentKey :: bool
  patName :: jstr
  patExpiresInDays :: jstr
  createdPatValue :: jstr
  createdPatName :: jstr
  agentKeyID :: jstr
  agentKeyPublicKey :: jstr

section \<open>Outside the component\<close>

datatype toast = Success jstr | Failure jstr | Info jstr

text \<open>
  Toasts shown, the timer of the closing panel, the file handed to the crop dialog, the stored
  mode, and, for each effect that depends on state, the values it last ran with
  (\<open>None\<close> before its first run).
\<close>

record dash = agent_cells +
  toasts :: "toast list"
  closeTimer :: bool
  uploadInputPresent :: bool
  cropped :: "upload_file list"
  storedAgentMode :: "jstr option"
  seenSession :: "nat option"
  seenUser :: "app_user option option"
  seenStored :: "bool option"
  seenAgent :: "(app_user option \<times> bool) option"
  seenSelected :: "int option option"
  seenFieldDeps :: "(jstr \<times> int option \<times> nat) option"
  seenDepositDeps :: "(jstr \<times> int option \<times> nat) option"
  seenQuery :: "event_query option"

definition initial_query :: event_query where
  "initial_query = \<lparr>searchQuery = [], eventDateFrom = [], eventDateTo = [],
     sortField = ByEventDate, sortDirection = Asc\<rparr>"

definition initial_dash :: "jstr option \<Rightarrow> dash" where
  "initial_dash mode = \<lparr>currentUser = None, authLoading = True, authCheckNonce = 0, authSubmitting = False,
     authInfoMessage = [], resendCooldown = 0, authMode = Login, authName = [], authEmail = [],
     authPassword = [], dash_error = [],
     title = [], description = [], eventDate = [], checkoutExpiresAt = [], location = [],
     organizerName = [], merchantWallet = [], amountUsdc = ''10'', eventImageUrl = [],
     eventSource = ''custom'', sourceUrl = [], importingLuma = False, importedLumaImageURL = [],
     participantFields = default_fields, imageFileList = [], eventFormErrors = [],
     events = [], selectedEventID = None, detailRender = False, detailClosing = False,
     detailMode = Create, detailTab = InfoTab, showCheckoutFormSection = True, showDepositsSection = True,
     checkoutFormAccordionOpen = True, depositAccordionOpen = True, checkoutFormSearchTerm = [],
     checkoutFormPage = 1, depositSearchTerm = [], depositPage = 1, isMobile = False,
     list_query = initial_query, eventPage = 1, creating = False, updating = False, deleting = False,
     loadingEvents = False, checkouts = [], loadingCheckouts = False,
     agentPats = [], agentKeys = [], agentSecurityMode = False, agentSecurityLoading = False,
     creatingPat = False, savingAgentKey = False, patName = ''Codex runtime'', patExpiresInDays = ''90'',
     createdPatValue = [], createdPatName = [], agentKeyID = [], agentKeyPublicKey = [],
     toasts = [], closeTimer = False, uploadInputPresent = False, cropped = [], storedAgentMode = mode,
     seenSession = None, seenUser = None, seenStored = None, seenAgent = None, seenSelected = None,
     seenFieldDeps = None, seenDepositDeps = None, seenQuery = None\<rparr>"

text \<open>What does not change: the time zone, the locale's collation, the origin of the page.\<close>

record dash_env =
  dash_zone :: zone
  collation :: "jstr \<Rightarrow> jstr \<Rightarrow> int"
  dash_origin :: jstr

definition toast :: "toast \<Rightarrow> dash \<Rightarrow> dash" where
  "toast t w = w\<lparr>toasts := toasts w @ [t]\<rparr>"

section \<open>Derived values\<close>

definition selectedEvent :: "dash \<Rightarrow> event_summary option" where
  "selectedEvent w = find_event (selectedEventID w) (events w)"

definition fullCheckoutLink :: "dash_env \<Rightarrow> dash \<Rightarrow> jstr" where
  "fullCheckoutLink env w = (case selectedEvent w of None \<Rightarrow> []
     | Some e \<Rightarrow> dash_origin env @ ''/checkout/'' @ es_slug e)"

definition shown_events :: "dash_env \<Rightarrow> dash \<Rightarrow> event_summary list" where
  "shown_events env w = filteredAndSortedEvents (collation env) (dash_zone env) (list_query w) (events w)"

section \<open>Requests and replies\<close>

record event_body =
  eb_title :: jstr
  eb_description :: jstr
  eb_eventImageUrl :: jstr
  eb_eventDate :: jstr
  eb_checkoutExpiresAt :: jstr
  eb_location :: jstr
  eb_organizerName :: jstr
  eb_merchantWallet :: jstr
  eb_amountUsdc :: "rat option"              \<comment> \<open>\<open>None\<close> is \<open>null\<close>\<close>
  eb_eventSource :: jstr
  eb_sourceUrl :: jstr
  eb_participantFormSchema :: "checkout_field list"
  eb_wallet :: bool
  eb_qr :: bool

datatype dash_request =
    GetMe
  | PostLogin jstr jstr
  | PostRegister jstr jstr jstr
  | PostForgot jstr
  | PostGoogle jstr
  | PostResend jstr
  | PostLogout
  | GetEvents
  | PostEvent event_body
  | PutEvent int event_body
  | DeleteEvent int
  | GetCheckouts int
  | PostImport jstr
  | GetImage jstr
  | ReadFile upload_file
  | GetAgentSecurity                         \<comment> \<open>both requests of the \<open>Promise.all\<close>\<close>
  | PostPat jstr rat
  | PostPatRevoke jstr
  | PostAgentKey jstr jstr
  | PostAgentKeyRevoke jstr
  | WriteClipboard jstr

record luma_data =
  ld_title :: jstr
  ld_descriptionHtml :: jstr
  ld_description :: jstr
  ld_eventDate :: jstr
  ld_location :: jstr
  ld_organizerName :: jstr
  ld_eventImageUrl :: jstr
  ld_warning :: jstr

text \<open>
  The JSON of a reply, by the fields the code reads; \<open>None\<close> is a missing field, and every field
  is missing in JSON of another shape.
\<close>

datatype dash_json =
    UserJson "app_user option"
  | MessageJson jstr
  | EventsJson "event_summary list option"
  | CreatedJson "int option"
  | CheckoutsJson "checkout_row list option"
  | LumaJson luma_data
  | BlobJson jstr int                        \<comment> \<open>type and size of the blob\<close>
  | TextJson jstr                            \<comment> \<open>the text of a file\<close>
  | PatsJson "agent_pat list option"
  | KeysJson "agent_key list option"
  | PatJson "jstr option" "jstr option"

datatype dash_reply =
    One "dash_json http"
  | Two "dash_json http" "dash_json http"

type_synonym 'a dash_prog = "(dash, dash_request, dash_reply, 'a) prog"

definition dash_fetch :: "dash_request \<Rightarrow> (dash_json http) dash_prog" where
  "dash_fetch q = Await q (\<lambda>r. case r of
       One (Response s t b) \<Rightarrow> Ret (Response s t b) | One (Rejected e) \<Rightarrow> Throw e | Two a b \<Rightarrow> Throw OtherExn)"

text \<open>\<open>Promise.all\<close> of two requests: rejected as soon as one is.\<close>

definition dash_fetch2 :: "dash_request \<Rightarrow> (dash_json http \<times> dash_json http) dash_prog" where
  "dash_fetch2 q = Await q (\<lambda>r. case r of
       Two (Response s t b) (Response s' t' b') \<Rightarrow> Ret (Response s t b, Response s' t' b')
     | Two (Rejected e) _ \<Rightarrow> Throw e
     | Two _ (Rejected e) \<Rightarrow> Throw e
     | One _ \<Rightarrow> Throw OtherExn)"

definition dash_json_as :: "(dash_json \<Rightarrow> 'a option) \<Rightarrow> dash_json http \<Rightarrow> 'a dash_prog" where
  "dash_json_as sel r = bind (res_json r) (\<lambda>b. case sel b of Some x \<Rightarrow> Ret x | None \<Rightarrow> Throw syntax_error)"

definition user_json :: "dash_json \<Rightarrow> app_user option option" where
  "user_json b = (case b of UserJson u \<Rightarrow> Some u | _ \<Rightarrow> Some None)"

definition message_json :: "dash_json \<Rightarrow> jstr option" where
  "message_json b = (case b of MessageJson m \<Rightarrow> Some m | _ \<Rightarrow> Some [])"

definition events_json :: "dash_json \<Rightarrow> event_summary list option" where
  "events_json b = (case b of EventsJson (Some es) \<Rightarrow> Some es | _ \<Rightarrow> Some [])"

definition created_json :: "dash_json \<Rightarrow> int option option" where
  "created_json b = (case b of CreatedJson i \<Rightarrow> Some i | _ \<Rightarrow> Some None)"

definition checkouts_json :: "dash_json \<Rightarrow> checkout_row list option" where
  "checkouts_json b = (case b of CheckoutsJson (Some cs) \<Rightarrow> Some cs | _ \<Rightarrow> Some [])"

definition no_luma_data :: luma_data where
  "no_luma_data = \<lparr>ld_title = [], ld_descriptionHtml = [], ld_description = [], ld_eventDate = [],
     ld_location = [], ld_organizerName = [], ld_eventImageUrl = [], ld_warning = []\<rparr>"

definition luma_json :: "dash_json \<Rightarrow> luma_data option" where
  "luma_json b = (case b of LumaJson l \<Rightarrow> Some l | _ \<Rightarrow> Some no_luma_data)"

definition blob_json :: "dash_json \<Rightarrow> (jstr \<times> int) option" where
  "blob_json b = (case b of BlobJson m n \<Rightarrow> Some (m, n) | _ \<Rightarrow> None)"

definition text_json :: "dash_json \<Rightarrow> jstr option" where
  "text_json b = (case b of TextJson t \<Rightarrow> Some t | _ \<Rightarrow> None)"

definition pats_json :: "dash_json \<Rightarrow> agent_pat list option" where
  "pats_json b = (case b of PatsJson (Some ps) \<Rightarrow> Some ps | _ \<Rightarrow> Some [])"

definition keys_json :: "dash_json \<Rightarrow> agent_key list option" where
  "keys_json b = (case b of KeysJson (Some ks) \<Rightarrow> Some ks | _ \<Rightarrow> Some [])"

definition pat_json :: "dash_json \<Rightarrow> (jstr option \<times> jstr option) option" where
  "pat_json b = (case b of PatJson t n \<Rightarrow> Some (t, n) | _ \<Rightarrow> Some (None, None))"

lemma dash_fetch_always:
  "always (dash_fetch q) w P \<longleftrightarrow>
     P Blocked w [(q, None)] \<and>
     (\<forall>s t b. P (Done (Response s t b)) w [(q, Some (One (Response s t b)))]) \<and>
     (\<forall>e. P (Failed e) w [(q, Some (One (Rejected e)))]) \<and>
     (\<forall>a b. P (Failed OtherExn) w [(q, Some (Two a b))])"
  unfolding dash_fetch_def by (auto split: dash_reply.split http.split)

lemma dash_fetch2_always:
  "always (dash_fetch2 q) w P \<longleftrightarrow>
     P Blocked w [(q, None)] \<and>
     (\<forall>s t b s' t' b'. P (Done (Response s t b, Response s' t' b')) w
        [(q, Some (Two (Response s t b) (Response s' t' b')))]) \<and>
     (\<forall>e x. P (Failed e) w [(q, Some (Two (Rejected e) x))]) \<and>
     (\<forall>s t b e. P (Failed e) w [(q, Some (Two (Response s t b) (Rejected e)))]) \<and>
     (\<forall>a. P (Failed OtherExn) w [(q, Some (One a))])"
  unfolding dash_fetch2_def by (auto split: dash_reply.split http.split)

lemma dash_json_always:
  "always (dash_json_as sel r) w P \<longleftrightarrow> (case r of
     Response s t (Some b) \<Rightarrow> (case sel b of Some x \<Rightarrow> P (Done x) w [] | None \<Rightarrow> P (Failed syntax_error) w [])
   | _ \<Rightarrow> P (Failed syntax_error) w [])"
  by (auto simp: dash_json_as_def res_json_def split: http.split option.split)

lemma dash_require_always:
  "always (require_ok r :: unit dash_prog) w P \<longleftrightarrow> (case r of
     Response s t j \<Rightarrow> if ok_status s then P (Done ()) w [] else P (Failed (ErrorExn t)) w []
   | Rejected e \<Rightarrow> P (Failed e) w [])"
  by (simp add: require_ok_def split: http.split)

lemma keeps_dash [inv_rules]:
  "keeps R I (dash_fetch q)" "keeps R I (dash_fetch2 q)" "keeps R I (dash_json_as sel r)"
  by (simp_all add: dash_fetch_def dash_fetch2_def dash_json_as_def res_json_def
      split: dash_reply.split http.split option.split)

lemma asks_dash:
  "A q \<Longrightarrow> asks A (dash_fetch q)" "A q \<Longrightarrow> asks A (dash_fetch2 q)" "asks A (dash_json_as sel r)"
  by (auto simp: dash_fetch_def dash_fetch2_def dash_json_as_def split: dash_reply.split http.split option.split
      intro!: asks_bind)

lemmas dash_rules = always_rules dash_fetch_always dash_fetch2_always dash_json_always dash_require_always

end
