(* ===== verification/Dash_Form.thy ===== *)
theory Dash_Form
  imports Dash_State
begin

text \<open>
  The event form of the dashboard: filling and resetting it, the edits of its inputs, the
  participant fields, the image upload, and the validation before it is saved.
\<close>

section \<open>Filling, resetting, errors\<close>

definition clearEventFormError :: "jstr \<Rightarrow> dash \<Rightarrow> dash" where
  "clearEventFormError field w = w\<lparr>eventFormErrors :=
     (if \<not> prop_truthy (obj_get (eventFormErrors w) field) then eventFormErrors w
      else obj_delete (eventFormErrors w) field)\<rparr>"

definition fillFormFromEvent :: "dash_env \<Rightarrow> event_summary \<Rightarrow> dash \<Rightarrow> dash" where
  "fillFormFromEvent env ev w = w\<lparr>
     title := es_title ev,
     description := or_else (es_description ev) [],
     eventDate := (if truthy (es_eventDate ev) then toLocalDateTimeInput (dash_zone env) (es_eventDate ev) else []),
     checkoutExpiresAt := (if truthy (es_checkoutExpiresAt ev)
       then toLocalDateTimeInput (dash_zone env) (es_checkoutExpiresAt ev) else []),
     location := or_else (es_location ev) [],
     organizerName := or_else (es_organizerName ev) [],
     merchantWallet := or_else (es_merchantWallet ev) [],
     amountUsdc := or_else (es_amountUsdc ev) ''10'',
     eventImageUrl := or_else (es_eventImageUrl ev) [],
     eventSource := or_else (es_eventSource ev) ''custom'',
     sourceUrl := or_else (es_sourceUrl ev) [],
     participantFields := (if es_participantFormSchema ev \<noteq> [] then es_participantFormSchema ev else default_fields),
     importedLumaImageURL := [],
     imageFileList := []\<rparr>"

definition resetForm :: "dash \<Rightarrow> dash" where
  "resetForm w = w\<lparr>
     title := [], description := [], eventDate := [], checkoutExpiresAt := [], location := [],
     organizerName := [], merchantWallet := [], amountUsdc := ''10'', eventImageUrl := [],
     eventSource := ''custom'', sourceUrl := [], importedLumaImageURL := [],
     participantFields := default_fields, imageFileList := [], eventFormErrors := []\<rparr>"

section \<open>Inputs\<close>

datatype text_field = TitleField | OrganizerField | LocationField | EventDateField | ExpiresField
  | SourceUrlField | MerchantField | AmountField

fun editText :: "text_field \<Rightarrow> jstr \<Rightarrow> dash \<Rightarrow> dash" where
  "editText TitleField v w = clearEventFormError ''title'' (w\<lparr>title := v\<rparr>)"
| "editText OrganizerField v w = w\<lparr>organizerName := v\<rparr>"
| "editText LocationField v w = w\<lparr>location := v\<rparr>"
| "editText EventDateField v w = w\<lparr>eventDate := v\<rparr>"
| "editText ExpiresField v w = clearEventFormError ''checkoutExpiresAt'' (w\<lparr>checkoutExpiresAt := v\<rparr>)"
| "editText SourceUrlField v w = clearEventFormError ''sourceUrl'' (w\<lparr>sourceUrl := v\<rparr>)"
| "editText MerchantField v w = clearEventFormError ''merchantWallet'' (w\<lparr>merchantWallet := v\<rparr>)"
| "editText AmountField v w = clearEventFormError ''amountUsdc'' (w\<lparr>amountUsdc := v\<rparr>)"

definition selectSource :: "jstr \<Rightarrow> dash \<Rightarrow> dash" where
  "selectSource nextSource w =
     (let w1 = w\<lparr>eventSource := nextSource\<rparr>;
          w2 = (if nextSource \<noteq> ''luma''
                then clearEventFormError ''eventImageUrl'' (w1\<lparr>importedLumaImageURL := []\<rparr>) else w1)
      in clearEventFormError ''sourceUrl'' (clearEventFormError ''eventSource'' w2))"

text \<open>
  The description editor: its buttons with their commands, typing, and a formatting command. \<open>html\<close> is the content of the
  editable element afterwards; \<open>href\<close> the answer to the prompt of \<open>createLink\<close>.
\<close>

definition editor_commands :: "(jstr \<times> jstr) list" where
  "editor_commands = [(''Bold'', ''bold''), (''Italic'', ''italic''), (''Bullet'', ''insertUnorderedList''),
     (''Numbered'', ''insertOrderedList''), (''Link'', ''createLink'')]"

definition inputDescription :: "jstr \<Rightarrow> dash \<Rightarrow> dash" where
  "inputDescription html w = w\<lparr>description := sanitizeRichHtml html\<rparr>"

definition applyDescriptionCommand :: "jstr \<Rightarrow> jstr \<Rightarrow> jstr \<Rightarrow> dash \<Rightarrow> dash" where
  "applyDescriptionCommand command href html w =
     (if command = ''createLink'' \<and> \<not> truthy href then w
      else w\<lparr>description := sanitizeRichHtml html\<rparr>)"

section \<open>Participant fields\<close>

text \<open>
  The page shows the fields that the search keeps, each with its place in the whole list (the
  code finds it by identity); the fields called \<open>name\<close> and \<open>email\<close> cannot be changed.
\<close>

definition pagedCheckoutFields :: "dash \<Rightarrow> (nat \<times> checkout_field) list" where
  "pagedCheckoutFields w =
     (let q = toLowerCase (trim (checkoutFormSearchTerm w))
      in pageSlice (checkoutFormPage w)
           (filter (\<lambda>(i, f). if truthy q then str_includes (toLowerCase (cf_name f)) q else True)
             (enumerate 0 (participantFields w))))"

definition fixed_field :: "checkout_field \<Rightarrow> bool" where
  "fixed_field f \<longleftrightarrow> cf_name f = ''name'' \<or> cf_name f = ''email''"

definition addParticipantField :: "dash \<Rightarrow> dash" where
  "addParticipantField w = w\<lparr>participantFields := participantFields w @ [\<lparr>cf_name = [], cf_required = False\<rparr>]\<rparr>"

definition update_at :: "nat \<Rightarrow> (checkout_field \<Rightarrow> checkout_field) \<Rightarrow> checkout_field list \<Rightarrow> checkout_field list" where
  "update_at i u fs = map (\<lambda>(j, f). if j = i then u f else f) (enumerate 0 fs)"

definition renameField :: "nat \<Rightarrow> jstr \<Rightarrow> dash \<Rightarrow> dash" where
  "renameField i v w = w\<lparr>participantFields := update_at i (\<lambda>f. f\<lparr>cf_name := v\<rparr>) (participantFields w)\<rparr>"

definition requireField :: "nat \<Rightarrow> bool \<Rightarrow> dash \<Rightarrow> dash" where
  "requireField i b w = w\<lparr>participantFields := update_at i (\<lambda>f. f\<lparr>cf_required := b\<rparr>) (participantFields w)\<rparr>"

definition removeField :: "checkout_field \<Rightarrow> nat \<Rightarrow> dash \<Rightarrow> dash" where
  "removeField f i w = (if fixed_field f then w
     else w\<lparr>participantFields := map snd (filter (\<lambda>(j, g). j \<noteq> i) (enumerate 0 (participantFields w)))\<rparr>)"

section \<open>Image upload\<close>

definition beforeUpload :: "upload_file \<Rightarrow> toast option" where
  "beforeUpload file =
     (if uf_type file \<notin> {''image/jpeg'', ''image/png'', ''image/webp''}
      then Some (Failure ''Image format must be JPG, PNG, or WEBP'')
      else if 2 * 1024 * 1024 < uf_size file then Some (Failure ''Image must be <= 2MB'')
      else None)"

text \<open>\<open>onChange\<close> with the new file list; \<open>toBase64\<close> is the request \<open>ReadFile\<close>.\<close>

definition onUploadChange :: "upload_file list \<Rightarrow> unit dash_prog" where
  "onUploadChange fs =
     (let nextList = (if fs = [] then [] else [last fs])
      in Upd (\<lambda>w. w\<lparr>imageFileList := nextList\<rparr>)
         (case nextList of
            [] \<Rightarrow> Upd (\<lambda>w. w\<lparr>eventImageUrl := []\<rparr>) (Ret ())
          | target # _ \<Rightarrow>
              bind (dash_fetch (ReadFile target)) (\<lambda>r.
              bind (dash_json_as text_json r) (\<lambda>b64.
              Upd (\<lambda>w. clearEventFormError ''eventImageUrl'' (w\<lparr>eventImageUrl := b64, importedLumaImageURL := []\<rparr>))
                (Ret ())))))"

definition onUploadRemove :: "dash \<Rightarrow> dash" where
  "onUploadRemove w = w\<lparr>imageFileList := [], eventImageUrl := []\<rparr>"

section \<open>Validation\<close>

definition add_error :: "bool \<Rightarrow> jstr \<Rightarrow> jstr \<Rightarrow> obj \<Rightarrow> obj" where
  "add_error bad field msg errs = (if bad then obj_assign errs field msg else errs)"

definition event_errors :: "dash \<Rightarrow> obj" where
  "event_errors c =
     add_error (\<not> truthy (trim (amountUsdc c)) \<or> num_le0 (js_Number (amountUsdc c)))
       ''amountUsdc'' ''USDC amount is required and must be greater than 0.''
     (add_error (\<not> truthy (trim (merchantWallet c)))
       ''merchantWallet'' ''Merchant wallet address is required.''
     (add_error (\<not> truthy (trim (checkoutExpiresAt c)))
       ''checkoutExpiresAt'' ''Checkout expires at is required.''
     (add_error (eventSource c = ''luma'' \<and> truthy (importedLumaImageURL c) \<and> \<not> truthy (eventImageUrl c))
       ''eventImageUrl'' ''Please upload and crop the imported Luma image before saving.''
     (add_error (eventSource c = ''luma'' \<and> \<not> truthy (trim (sourceUrl c)))
       ''sourceUrl'' ''Luma event URL is required when event source is Luma.com.''
     (add_error (\<not> truthy (trim (title c)))
       ''title'' ''Event title is required.''
     (add_error (\<not> truthy (trim (eventSource c)))
       ''eventSource'' ''Event source is required.'' []))))))"

text \<open>Where the first bad field is shown; the scrolling that follows changes no state.\<close>

definition focusEventFormField :: "dash \<Rightarrow> jstr \<Rightarrow> dash \<Rightarrow> dash" where
  "focusEventFormField c field w =
     (let isCheckoutTabField = (field = ''merchantWallet'' \<or> field = ''amountUsdc'')
      in if isMobile c
         then (let w1 = w\<lparr>detailTab := (if isCheckoutTabField then CheckoutFormTab else InfoTab)\<rparr>
               in if isCheckoutTabField then w1\<lparr>checkoutFormAccordionOpen := True\<rparr> else w1)
         else if isCheckoutTabField then w\<lparr>showCheckoutFormSection := True\<rparr> else w)"

definition validateEventForm :: "dash \<Rightarrow> bool dash_prog" where
  "validateEventForm c =
     (let nextErrors = event_errors c
      in Upd (\<lambda>w. w\<lparr>eventFormErrors := nextErrors\<rparr>)
         (case nextErrors of
            (firstField, msg) # _ \<Rightarrow>
              Upd (\<lambda>w. focusEventFormField c firstField (toast (Failure msg) (w\<lparr>dash_error := msg\<rparr>))) (Ret False)
          | [] \<Rightarrow> Upd (\<lambda>w. w\<lparr>dash_error := []\<rparr>) (Ret True)))"

section \<open>Lemmas\<close>

text \<open>What a form must satisfy to be saved.\<close>

definition form_complete :: "dash \<Rightarrow> bool" where
  "form_complete c \<longleftrightarrow> trim (eventSource c) \<noteq> [] \<and> trim (title c) \<noteq> [] \<and> trim (checkoutExpiresAt c) \<noteq> [] \<and>
     trim (merchantWallet c) \<noteq> [] \<and> trim (amountUsdc c) \<noteq> [] \<and> \<not> num_le0 (js_Number (amountUsdc c)) \<and>
     (eventSource c = ''luma'' \<longrightarrow> trim (sourceUrl c) \<noteq> [] \<and> (importedLumaImageURL c = [] \<or> eventImageUrl c \<noteq> []))"

lemma add_error_eq_Nil: "f \<noteq> ''__proto__'' \<Longrightarrow> add_error b f m errs = [] \<longleftrightarrow> \<not> b \<and> errs = []"
  by (simp add: add_error_def obj_assign_nonempty)

lemma event_errors_Nil: "event_errors c = [] \<longleftrightarrow> form_complete c"
  by (auto simp: event_errors_def add_error_eq_Nil form_complete_def truthy_def)

lemma validate_always:
  "always (validateEventForm c) w (\<lambda>x w' h. h = [] \<and> x = Done (form_complete c))"
  by (cases "event_errors c") (auto simp: validateEventForm_def event_errors_Nil [symmetric] Let_def)

lemma asks_validate: "asks A (validateEventForm c)"
  by (auto simp: validateEventForm_def Let_def split: list.split)

lemma update_at_Nil [simp]: "update_at i u [] = []"
  by (simp add: update_at_def)

lemma map_enumerate_Suc:
  "map (\<lambda>(j, f). if j = Suc i then u f else f) (enumerate (Suc n) fs)
     = map (\<lambda>(j, f). if j = i then u f else f) (enumerate n fs)"
  by (induction fs arbitrary: n) simp_all

lemma update_at_alt: "update_at i u fs = (if i < length fs then fs[i := u (fs ! i)] else fs)"
  by (rule nth_equalityI) (simp_all add: update_at_def nth_enumerate_eq nth_list_update)

lemma set_update_at:
  "f \<in> set fs \<Longrightarrow> (i < length fs \<Longrightarrow> fs ! i \<noteq> f) \<Longrightarrow> f \<in> set (update_at i u fs)"
  by (auto simp: update_at_alt in_set_conv_nth nth_list_update)

lemma set_remove_at:
  assumes "f \<in> set fs" "i < length fs \<Longrightarrow> fs ! i \<noteq> f"
  shows "f \<in> set (map snd (filter (\<lambda>(j, g). j \<noteq> i) (enumerate 0 fs)))"
proof -
  obtain k where k: "k < length fs" "fs ! k = f" using assms(1) by (auto simp: in_set_conv_nth)
  then have "k \<noteq> i" using assms(2) by auto
  moreover have "(k, f) \<in> set (enumerate 0 fs)"
    using k by (auto simp: in_set_conv_nth nth_enumerate_eq intro!: exI [of _ k])
  ultimately show ?thesis by force
qed

text \<open>The edits of the field list as the page offers them: a fixed field's controls are disabled.\<close>

datatype form_edit = Add | Rename nat jstr | Require nat bool | Remove nat

fun field_edit :: "dash \<Rightarrow> form_edit \<Rightarrow> dash" where
  "field_edit w Add = addParticipantField w"
| "field_edit w (Rename i v) = (case map_of (pagedCheckoutFields w) i of
     Some f \<Rightarrow> if fixed_field f then w else renameField i v w | None \<Rightarrow> w)"
| "field_edit w (Require i b) = (case map_of (pagedCheckoutFields w) i of
     Some f \<Rightarrow> if fixed_field f then w else requireField i b w | None \<Rightarrow> w)"
| "field_edit w (Remove i) = (case map_of (pagedCheckoutFields w) i of
     Some f \<Rightarrow> removeField f i w | None \<Rightarrow> w)"

lemma paged_field:
  assumes "map_of (pagedCheckoutFields w) i = Some f"
  shows "i < length (participantFields w) \<and> participantFields w ! i = f"
proof -
  have "(i, f) \<in> set (pagedCheckoutFields w)" using assms by (rule map_of_SomeD)
  then have "(i, f) \<in> set (enumerate 0 (participantFields w))"
    unfolding pagedCheckoutFields_def Let_def pageSlice_def
    using set_slice_subset by fastforce
  then show ?thesis by (auto simp: in_set_conv_nth nth_enumerate_eq)
qed

lemma field_edit_keeps:
  assumes "f \<in> set (participantFields w)" "fixed_field f"
  shows "f \<in> set (participantFields (field_edit w e))"
proof (cases e)
  case Add
  then show ?thesis using assms by (simp add: addParticipantField_def)
next
  case (Rename i v)
  show ?thesis
  proof (cases "map_of (pagedCheckoutFields w) i")
    case (Some g)
    then show ?thesis using assms paged_field [OF Some]
      by (auto simp: Rename renameField_def intro!: set_update_at)
  qed (simp add: Rename assms)
next
  case (Require i b)
  show ?thesis
  proof (cases "map_of (pagedCheckoutFields w) i")
    case (Some g)
    then show ?thesis using assms paged_field [OF Some]
      by (auto simp: Require requireField_def intro!: set_update_at)
  qed (simp add: Require assms)
next
  case (Remove i)
  show ?thesis
  proof (cases "map_of (pagedCheckoutFields w) i")
    case (Some g)
    then show ?thesis using assms paged_field [OF Some] set_remove_at [OF assms(1), of i]
      by (cases "fixed_field g") (auto simp: Remove removeField_def)
  qed (simp add: Remove assms)
qed

definition required_order :: "jstr list" where
  "required_order = [''eventSource'', ''title'', ''sourceUrl'', ''eventImageUrl'', ''checkoutExpiresAt'',
     ''merchantWallet'', ''amountUsdc'']"

definition field_bad :: "dash \<Rightarrow> jstr \<Rightarrow> bool" where
  "field_bad c f \<longleftrightarrow>
     f = ''eventSource'' \<and> trim (eventSource c) = [] \<or>
     f = ''title'' \<and> trim (title c) = [] \<or>
     f = ''sourceUrl'' \<and> eventSource c = ''luma'' \<and> trim (sourceUrl c) = [] \<or>
     f = ''eventImageUrl'' \<and> eventSource c = ''luma'' \<and> importedLumaImageURL c \<noteq> [] \<and> eventImageUrl c = [] \<or>
     f = ''checkoutExpiresAt'' \<and> trim (checkoutExpiresAt c) = [] \<or>
     f = ''merchantWallet'' \<and> trim (merchantWallet c) = [] \<or>
     f = ''amountUsdc'' \<and> (trim (amountUsdc c) = [] \<or> num_le0 (js_Number (amountUsdc c)))"

lemma keys_add_error:
  "f \<notin> fst ` set errs \<Longrightarrow> f \<noteq> ''__proto__'' \<Longrightarrow> map fst (add_error b f m errs) = map fst errs @ (if b then [f] else [])"
  by (simp add: add_error_def obj_assign_def obj_define_def)

lemma key_add_error: "g \<in> fst ` set (add_error b f m errs) \<Longrightarrow> g = f \<or> g \<in> fst ` set errs"
  by (auto simp: add_error_def obj_assign_def obj_define_def split: if_splits)

text \<open>The checks as a list: whether it fails, the field, the message.\<close>

definition checks :: "dash \<Rightarrow> (bool \<times> jstr \<times> jstr) list" where
  "checks c = [
     (\<not> truthy (trim (eventSource c)), ''eventSource'', ''Event source is required.''),
     (\<not> truthy (trim (title c)), ''title'', ''Event title is required.''),
     (eventSource c = ''luma'' \<and> \<not> truthy (trim (sourceUrl c)), ''sourceUrl'',
        ''Luma event URL is required when event source is Luma.com.''),
     (eventSource c = ''luma'' \<and> truthy (importedLumaImageURL c) \<and> \<not> truthy (eventImageUrl c), ''eventImageUrl'',
        ''Please upload and crop the imported Luma image before saving.''),
     (\<not> truthy (trim (checkoutExpiresAt c)), ''checkoutExpiresAt'', ''Checkout expires at is required.''),
     (\<not> truthy (trim (merchantWallet c)), ''merchantWallet'', ''Merchant wallet address is required.''),
     (\<not> truthy (trim (amountUsdc c)) \<or> num_le0 (js_Number (amountUsdc c)), ''amountUsdc'',
        ''USDC amount is required and must be greater than 0.'')]"

lemma event_errors_checks: "event_errors c = foldl (\<lambda>errs (b, f, m). add_error b f m errs) [] (checks c)"
  by (simp only: event_errors_def checks_def foldl.simps prod.case)

lemma keys_fold:
  "distinct (map (fst \<circ> snd) cs) \<Longrightarrow> ''__proto__'' \<notin> (fst \<circ> snd) ` set cs \<Longrightarrow>
   fst ` set errs \<inter> (fst \<circ> snd) ` set cs = {} \<Longrightarrow>
   map fst (foldl (\<lambda>errs (b, f, m). add_error b f m errs) errs cs) = map fst errs @ map (fst \<circ> snd) (filter fst cs)"
proof (induction cs arbitrary: errs)
  case (Cons x cs)
  obtain b f m where x: "x = (b, f, m)" by (cases x)
  have "fst ` set (add_error b f m errs) \<inter> (fst \<circ> snd) ` set cs = {}"
    using Cons.prems x by (auto dest!: key_add_error)
  then have "map fst (foldl (\<lambda>errs (b, f, m). add_error b f m errs) (add_error b f m errs) cs)
      = map fst (add_error b f m errs) @ map (fst \<circ> snd) (filter fst cs)"
    using Cons by simp
  moreover have "map fst (add_error b f m errs) = map fst errs @ (if b then [f] else [])"
    by (rule keys_add_error) (use Cons.prems x in auto)
  ultimately show ?case by (simp add: x)
qed simp

lemma event_error_keys: "map fst (event_errors c) = filter (field_bad c) required_order"
proof -
  have "map fst (event_errors c) = map (fst \<circ> snd) (filter fst (checks c))"
    unfolding event_errors_checks by (subst keys_fold) (simp_all add: checks_def)
  also have "\<dots> = filter (field_bad c) required_order"
    by (simp add: checks_def required_order_def field_bad_def truthy_def)
  finally show ?thesis .
qed

section \<open>Properties\<close>

text \<open>
  C29. The fields that the payment needs cannot be lost by editing: whatever sequence of additions,
  renamings, required marks and removals the page offers, on whatever search and page, a
  field called \<open>name\<close> or \<open>email\<close> that was in the form stays in it unchanged.
\<close>

theorem fixed_fields_survive:
  assumes "f \<in> set (participantFields w)" and "fixed_field f"
  shows "f \<in> set (participantFields (foldl field_edit w es))"
  using assms(1)
proof (induction es arbitrary: w)
  case (Cons e es)
  then show ?case using field_edit_keeps [OF _ assms(2), of w e] by simp
qed simp

theorem fixed_fields_survive_witness:
  "\<lparr>cf_name = ''email'', cf_required = True\<rparr>
     \<in> set (participantFields (foldl field_edit (initial_dash None) [Remove 1, Add, Rename 1 ''mail'', Require 0 False]))"
  by (rule fixed_fields_survive) (simp_all add: initial_dash_def default_fields_def fixed_field_def)

text \<open>
  C30. Before an event is saved the form is checked: the fields marked are exactly the bad ones, in
  the order of the page, the form passes when there is none, and otherwise the message of
  the first bad field is shown.
\<close>

theorem validation_marks_bad_fields:
  "map fst (event_errors c) = filter (field_bad c) required_order
   \<and> result (validateEventForm c) w rs = Done (filter (field_bad c) required_order = [])
   \<and> eventFormErrors (final (validateEventForm c) w rs) = event_errors c
   \<and> dash_error (final (validateEventForm c) w rs) = (case event_errors c of [] \<Rightarrow> [] | (f, m) # _ \<Rightarrow> m)"
proof -
  have m: "map fst (event_errors c) = filter (field_bad c) required_order"
    by (rule event_error_keys)
  then have "event_errors c = [] \<longleftrightarrow> filter (field_bad c) required_order = []"
    by (metis map_is_Nil_conv)
  moreover have "eventFormErrors (focusEventFormField c f v) = eventFormErrors v"
    "dash_error (focusEventFormField c f v) = dash_error v" for f v
    by (simp_all add: focusEventFormField_def Let_def)
  ultimately show ?thesis using m
    by (cases "event_errors c") (auto simp: validateEventForm_def Let_def toast_def)
qed

end
