(* ===== verification/Dash_Events.thy ===== *)
theory Dash_Events
  imports Dash_Form
begin

text \<open>
  The events of the dashboard: loading, creating, changing, deleting and importing them, their
  deposits, and the detail panel. \<open>c\<close> is the world of the render that created the handler.
\<close>

section \<open>Loading\<close>

definition loadEvents :: "unit dash_prog" where
  "loadEvents =
     Upd (\<lambda>w. w\<lparr>loadingEvents := True\<rparr>) (Upd (\<lambda>w. w\<lparr>dash_error := []\<rparr>)
     (finally_do
       (catch
         (bind (dash_fetch GetEvents) (\<lambda>res.
          bind (require_ok res) (\<lambda>_.
          bind (dash_json_as events_json res) (\<lambda>fetched.
          Upd (\<lambda>w. w\<lparr>events := fetched\<rparr>)
          (Upd (\<lambda>w. w\<lparr>selectedEventID :=
              (case selectedEventID w of
                 Some prev \<Rightarrow> if list_ex (\<lambda>e. es_eventId e = prev) fetched then Some prev else None
               | None \<Rightarrow> None)\<rparr>) (Ret ()))))))
         (\<lambda>err. Upd (\<lambda>w. w\<lparr>dash_error := err_message err ''Failed to load events''\<rparr>) (Ret ())))
       (\<lambda>w. w\<lparr>loadingEvents := False\<rparr>)))"

definition refreshCheckouts :: "dash \<Rightarrow> int option \<Rightarrow> unit dash_prog" where
  "refreshCheckouts c eventID =
     (case (case eventID of Some i \<Rightarrow> Some i | None \<Rightarrow> map_option es_eventId (selectedEvent c)) of
        None \<Rightarrow> Ret ()
      | Some i \<Rightarrow>
          if i = 0 then Ret ()
          else Upd (\<lambda>w. w\<lparr>loadingCheckouts := True\<rparr>)
            (finally_do
              (catch
                (bind (dash_fetch (GetCheckouts i)) (\<lambda>res.
                 bind (require_ok res) (\<lambda>_.
                 bind (dash_json_as checkouts_json res) (\<lambda>rows.
                 Upd (\<lambda>w. w\<lparr>checkouts := rows\<rparr>) (Ret ())))))
                (\<lambda>err. Upd (\<lambda>w. w\<lparr>dash_error := err_message err ''Failed to load checkouts''\<rparr>) (Ret ())))
              (\<lambda>w. w\<lparr>loadingCheckouts := False\<rparr>)))"

section \<open>Saving\<close>

definition event_body_of :: "dash_env \<Rightarrow> dash \<Rightarrow> event_body" where
  "event_body_of env c = \<lparr>
     eb_title = title c,
     eb_description = sanitizeRichHtml (description c),
     eb_eventImageUrl = eventImageUrl c,
     eb_eventDate = (if truthy (eventDate c) then datetimeLocalToRFC3339Local (dash_zone env) (eventDate c) else []),
     eb_checkoutExpiresAt = datetimeLocalToRFC3339Local (dash_zone env) (checkoutExpiresAt c),
     eb_location = location c,
     eb_organizerName = organizerName c,
     eb_merchantWallet = merchantWallet c,
     eb_amountUsdc = json_num (js_Number (amountUsdc c)),
     eb_eventSource = eventSource c,
     eb_sourceUrl = sourceUrl c,
     eb_participantFormSchema = participantFields c,
     eb_wallet = True,
     eb_qr = True\<rparr>"

definition fail_with :: "jstr \<Rightarrow> dash \<Rightarrow> dash" where
  "fail_with msg w = toast (Failure msg) (w\<lparr>dash_error := msg\<rparr>)"

definition createEvent :: "dash_env \<Rightarrow> dash \<Rightarrow> unit dash_prog" where
  "createEvent env c =
     (if currentUser c = None then Upd (fail_with ''Please login first.'') (Ret ())
      else Upd (\<lambda>w. w\<lparr>dash_error := [], creating := True\<rparr>)
        (finally_do
          (catch
            (bind (dash_fetch (PostEvent (event_body_of env c))) (\<lambda>res.
             bind (require_ok res) (\<lambda>_.
             bind (dash_json_as created_json res) (\<lambda>eventId.
             bind loadEvents (\<lambda>_.
             Upd (\<lambda>w. toast (Success ''Event created successfully.'')
               (w\<lparr>selectedEventID := eventId, detailMode := Edit\<rparr>)) (Ret ()))))))
            (\<lambda>err. Upd (fail_with (err_message err ''Failed to create event'')) (Ret ())))
          (\<lambda>w. w\<lparr>creating := False\<rparr>)))"

definition updateEvent :: "dash_env \<Rightarrow> dash \<Rightarrow> unit dash_prog" where
  "updateEvent env c = (case (currentUser c, selectedEvent c) of
       (Some u, Some ev) \<Rightarrow>
         Upd (\<lambda>w. w\<lparr>updating := True, dash_error := []\<rparr>)
         (finally_do
           (catch
             (bind (dash_fetch (PutEvent (es_eventId ev) (event_body_of env c))) (\<lambda>res.
              bind (require_ok res) (\<lambda>_.
              bind loadEvents (\<lambda>_.
              Upd (toast (Success ''Event updated successfully.'')) (Ret ())))))
             (\<lambda>err. Upd (fail_with (err_message err ''Failed to update event'')) (Ret ())))
           (\<lambda>w. w\<lparr>updating := False\<rparr>))
     | _ \<Rightarrow> Ret ())"

definition no_edit_message :: jstr where
  "no_edit_message = ''This event has successful participant deposits and can no longer be edited.''"

definition no_delete_message :: jstr where
  "no_delete_message = ''This event has successful participant deposits and can no longer be deleted.''"

definition saveEventChanges :: "dash_env \<Rightarrow> dash \<Rightarrow> unit dash_prog" where
  "saveEventChanges env c =
     (if detailMode c = Edit \<and> hasPaidDeposits (checkouts c) then Upd (fail_with no_edit_message) (Ret ())
      else bind (validateEventForm c) (\<lambda>ok.
        if \<not> ok then Ret ()
        else if detailMode c = Create then createEvent env c
        else updateEvent env c))"

text \<open>\<open>ok\<close> is the answer to \<open>window.confirm\<close>.\<close>

definition deleteEvent :: "dash \<Rightarrow> bool \<Rightarrow> unit dash_prog" where
  "deleteEvent c ok = (case (currentUser c, selectedEvent c) of
       (Some u, Some ev) \<Rightarrow>
         if hasPaidDeposits (checkouts c) then Upd (fail_with no_delete_message) (Ret ())
         else if \<not> ok then Ret ()
         else Upd (\<lambda>w. w\<lparr>deleting := True, dash_error := []\<rparr>)
           (finally_do
             (catch
               (bind (dash_fetch (DeleteEvent (es_eventId ev))) (\<lambda>res.
                bind (require_ok res) (\<lambda>_.
                bind loadEvents (\<lambda>_.
                Upd (\<lambda>w. w\<lparr>checkouts := []\<rparr>)
                (Upd (\<lambda>w. if selectedEventID c = Some (es_eventId ev)
                          then resetForm (w\<lparr>selectedEventID := None\<rparr>) else w)
                (Upd (toast (Success ''Event deleted successfully.'')) (Ret ())))))))
               (\<lambda>err. Upd (fail_with (err_message err ''Failed to delete event'')) (Ret ())))
             (\<lambda>w. w\<lparr>deleting := False\<rparr>))
     | _ \<Rightarrow> Ret ())"

section \<open>Importing from Luma\<close>

definition image_extension :: "jstr \<Rightarrow> jstr" where
  "image_extension mime = (if mime = ''image/png'' then ''png'' else if mime = ''image/webp'' then ''webp'' else ''jpg'')"

text \<open>Taking over the imported texts.\<close>

definition takeImported :: "dash_env \<Rightarrow> luma_data \<Rightarrow> dash \<Rightarrow> dash" where
  "takeImported env d w =
     (let w1 = (if truthy (ld_title d) then w\<lparr>title := ld_title d\<rparr> else w);
          w2 = (if truthy (ld_descriptionHtml d) then w1\<lparr>description := sanitizeRichHtml (ld_descriptionHtml d)\<rparr>
                else if truthy (ld_description d) then w1\<lparr>description := sanitizeRichHtml (ld_description d)\<rparr> else w1);
          w3 = (if truthy (ld_eventDate d) then w2\<lparr>eventDate := toLocalDateTimeInput (dash_zone env) (ld_eventDate d)\<rparr> else w2);
          w4 = (if truthy (ld_location d) then w3\<lparr>location := ld_location d\<rparr> else w3)
      in if truthy (ld_organizerName d) then w4\<lparr>organizerName := ld_organizerName d\<rparr> else w4)"

text \<open>The imported image goes, as a file, to the upload input, which opens the crop dialog.\<close>

definition importImage :: "jstr \<Rightarrow> unit dash_prog" where
  "importImage url =
     Upd (\<lambda>w. w\<lparr>importedLumaImageURL := url, eventImageUrl := [], imageFileList := []\<rparr>)
     (catch
       (bind (dash_fetch (GetImage url)) (\<lambda>imageRes.
        bind (if (case imageRes of Response s t j \<Rightarrow> ok_status s | Rejected e \<Rightarrow> False) then Ret ()
              else Throw (ErrorExn ''Unable to load imported image'')) (\<lambda>_.
        bind (dash_json_as blob_json imageRes) (\<lambda>(blobType, blobSize).
        let mime = or_else blobType ''image/jpeg''
        in Look (\<lambda>w.
           if \<not> uploadInputPresent w then Throw (ErrorExn ''Upload input unavailable'')
           else Upd (\<lambda>w. toast (Success ''Luma image imported. Crop modal opened.'')
                  (w\<lparr>cropped := cropped w @ [\<lparr>uf_name = ''luma-import.'' @ image_extension mime, uf_type = mime, uf_size = blobSize\<rparr>]\<rparr>))
                (Ret ()))))))
       (\<lambda>_. Upd (toast (Info ''Luma image imported. Click upload area to crop before saving.'')) (Ret ())))"

definition importLumaEvent :: "dash_env \<Rightarrow> dash \<Rightarrow> unit dash_prog" where
  "importLumaEvent env c =
     (if eventSource c \<noteq> ''luma'' \<or> \<not> truthy (trim (sourceUrl c)) then Ret ()
      else Upd (\<lambda>w. w\<lparr>importingLuma := True, dash_error := []\<rparr>)
        (finally_do
          (catch
            (bind (dash_fetch (PostImport (trim (sourceUrl c)))) (\<lambda>res.
             bind (require_ok res) (\<lambda>_.
             bind (dash_json_as luma_json res) (\<lambda>d.
             Upd (takeImported env d)
               (bind (if truthy (ld_eventImageUrl d) then importImage (ld_eventImageUrl d) else Ret ()) (\<lambda>_.
                if truthy (ld_warning d) then Upd (\<lambda>w. w\<lparr>dash_error := ld_warning d\<rparr>) (Ret ()) else Ret ()))))))
            (\<lambda>err. Upd (\<lambda>w. w\<lparr>dash_error :=
               err_message err ''Failed to import Luma event. If private, set event to public.''\<rparr>) (Ret ())))
          (\<lambda>w. w\<lparr>importingLuma := False\<rparr>)))"

definition copyText :: "jstr \<Rightarrow> unit dash_prog" where
  "copyText s =
     catch
       (bind (dash_fetch (WriteClipboard s)) (\<lambda>_. Upd (toast (Success ''Copied'')) (Ret ())))
       (\<lambda>_. Upd (\<lambda>w. w\<lparr>dash_error := ''Failed to copy text''\<rparr>) (Ret ()))"

section \<open>The detail panel\<close>

text \<open>The \<open>useEffect\<close> on \<open>[selectedEventID]\<close>.\<close>

definition selectionEffect :: "dash_env \<Rightarrow> dash \<Rightarrow> unit dash_prog" where
  "selectionEffect env c =
     Upd (\<lambda>w. w\<lparr>seenSelected := Some (selectedEventID c), eventFormErrors := []\<rparr>)
     (case selectedEvent c of
        None \<Rightarrow> Ret ()
      | Some ev \<Rightarrow> Upd (fillFormFromEvent env ev) (Upd (\<lambda>w. w\<lparr>checkouts := []\<rparr>)
          (refreshCheckouts c (Some (es_eventId ev)))))"

definition openCreateDetail :: "dash \<Rightarrow> dash \<Rightarrow> dash" where
  "openCreateDetail c w =
     (let shouldKeepDraft = (\<not> detailRender c \<and> detailMode c = Create \<and>
            (truthy (trim (title c)) \<or> truthy (trim (description c)) \<or> truthy (trim (eventDate c)) \<or>
             truthy (trim (checkoutExpiresAt c)) \<or> truthy (trim (location c)) \<or> truthy (trim (organizerName c)) \<or>
             truthy (trim (merchantWallet c)) \<or> truthy (trim (eventImageUrl c))));
          w1 = w\<lparr>closeTimer := False, detailMode := Create, selectedEventID := None, eventFormErrors := []\<rparr>;
          w2 = (if \<not> shouldKeepDraft then resetForm w1 else w1)
      in w2\<lparr>checkouts := [], detailTab := InfoTab, detailRender := True, detailClosing := False\<rparr>)"

definition openEditDetail :: "int \<Rightarrow> dash \<Rightarrow> dash" where
  "openEditDetail eventID w = w\<lparr>closeTimer := False, detailMode := Edit, eventFormErrors := [],
     selectedEventID := Some eventID, detailTab := InfoTab, detailRender := True, detailClosing := False\<rparr>"

text \<open>Closing plays an animation: a timer of 260 ms takes the panel away.\<close>

definition closeDetail :: "dash \<Rightarrow> dash" where
  "closeDetail w = w\<lparr>detailClosing := True, closeTimer := True\<rparr>"

definition closeTimerFires :: "dash \<Rightarrow> dash" where
  "closeTimerFires w = w\<lparr>detailRender := False, detailClosing := False, closeTimer := False\<rparr>"

definition resetDetailFields :: "dash_env \<Rightarrow> dash \<Rightarrow> dash \<Rightarrow> dash" where
  "resetDetailFields env c w =
     (let w1 = w\<lparr>eventFormErrors := []\<rparr>
      in case selectedEvent c of
           Some ev \<Rightarrow> if detailMode c = Edit then fillFormFromEvent env ev w1 else resetForm w1
         | None \<Rightarrow> resetForm w1)"

section \<open>Lemmas\<close>

text \<open>A request that saves an event, and one that loads something.\<close>

definition saves :: "dash_request \<Rightarrow> bool" where
  "saves q \<longleftrightarrow> (case q of PostEvent b \<Rightarrow> True | PutEvent i b \<Rightarrow> True | DeleteEvent i \<Rightarrow> True | _ \<Rightarrow> False)"

lemma saves_simps [simp]:
  "saves (PostEvent b)" "saves (PutEvent i b)" "saves (DeleteEvent i)" "\<not> saves GetEvents" "\<not> saves (GetCheckouts i)"
  by (simp_all add: saves_def)

lemma asks_require: "asks A (require_ok r)"
  by (simp add: require_ok_def split: http.split)

lemma asks_load: "A GetEvents \<Longrightarrow> asks A loadEvents"
  by (auto simp: loadEvents_def intro!: asks_rules asks_dash asks_require)

definition may_save :: "dash_env \<Rightarrow> dash \<Rightarrow> dash_request \<Rightarrow> bool" where
  "may_save env c q \<longleftrightarrow> saves q \<longrightarrow>
     form_complete c \<and> currentUser c \<noteq> None \<and> \<not> (detailMode c = Edit \<and> hasPaidDeposits (checkouts c)) \<and>
     (q = PostEvent (event_body_of env c) \<and> detailMode c = Create \<or>
      (\<exists>ev. selectedEvent c = Some ev \<and> q = PutEvent (es_eventId ev) (event_body_of env c) \<and> detailMode c = Edit))"

lemma may_save_load: "may_save env c GetEvents"
  by (simp add: may_save_def)

lemma save_complete_only:
  assumes "asks A (Ret ())" "form_complete c \<Longrightarrow> asks A k"
  shows "asks A (bind (validateEventForm c) (\<lambda>ok. if \<not> ok then Ret () else k))"
proof (cases "form_complete c")
  case True
  then show ?thesis using assms(2) by (intro asks_rules asks_validate) simp
next
  case False
  then obtain f m t where "event_errors c = (f, m) # t"
    using event_errors_Nil [of c] by (cases "event_errors c") auto
  then show ?thesis by (simp add: validateEventForm_def)
qed

lemma asks_save: "asks (may_save env c) (saveEventChanges env c)"
proof -
  have "asks (may_save env c) (if detailMode c = Create then createEvent env c else updateEvent env c)"
    if "form_complete c" "\<not> (detailMode c = Edit \<and> hasPaidDeposits (checkouts c))"
    using that by (cases "detailMode c")
      (auto simp: createEvent_def updateEvent_def may_save_def intro!: asks_rules asks_dash asks_require asks_load
        split: option.split)
  then show ?thesis
    unfolding saveEventChanges_def by (auto intro!: save_complete_only)
qed

section \<open>Properties\<close>

text \<open>
  The button that saves an event sends it only when the form is complete, the host is signed
  in and, for an existing event, no deposit in the loaded list is paid; a new event is
  posted, an existing one is put under its own id, both with the content of the form.
\<close>

theorem save_sends_complete_form:
  assumes "(q, r) \<in> set (history (saveEventChanges env c) w rs)" and "saves q"
  shows "form_complete c \<and> currentUser c \<noteq> None \<and> \<not> (detailMode c = Edit \<and> hasPaidDeposits (checkouts c)) \<and>
     (q = PostEvent (event_body_of env c) \<and> detailMode c = Create \<or>
      (\<exists>ev. selectedEvent c = Some ev \<and> q = PutEvent (es_eventId ev) (event_body_of env c) \<and> detailMode c = Edit))"
  using asks_history [OF asks_save assms(1)] assms(2) by (simp add: may_save_def)

definition sample_form :: "dash \<Rightarrow> dash" where
  "sample_form w = w\<lparr>currentUser := Some \<lparr>us_id = 7, us_name = ''Ann'', us_email = ''a@b.c'', us_provider = ''email''\<rparr>,
     title := ''Meetup'', checkoutExpiresAt := ''2026-03-01T09:05'', merchantWallet := ''wallet'', amountUsdc := ''25''\<rparr>"

theorem save_sends_complete_form_witness:
  "form_complete (sample_form (initial_dash None))"
proof -
  let ?c = "sample_form (initial_dash None)"
  let ?env = "\<lparr>dash_zone = fixed_zone 0, collation = (\<lambda>_ _. 0), dash_origin = []\<rparr>"
  have n: "event_errors ?c = []"
    by (simp add: event_errors_checks checks_def sample_form_def initial_dash_def add_error_def) code_simp
  have u: "currentUser ?c \<noteq> None" "detailMode ?c = Create"
    by (simp_all add: sample_form_def initial_dash_def)
  then have "(PostEvent (event_body_of ?env ?c), None) \<in> set (history (saveEventChanges ?env ?c) ?c [])"
    by (simp add: saveEventChanges_def validateEventForm_def n Let_def createEvent_def dash_fetch_def catch_def)
  from save_sends_complete_form [OF this] show ?thesis by simp
qed

text \<open>
  The button that deletes an event sends nothing unless the host is signed in, confirms, and
  no deposit in the loaded list is paid; then it deletes the selected event.
\<close>

theorem delete_sends_selected:
  assumes "(q, r) \<in> set (history (deleteEvent c ok) w rs)" and "saves q"
  shows "ok \<and> currentUser c \<noteq> None \<and> \<not> hasPaidDeposits (checkouts c) \<and>
     (\<exists>ev. selectedEvent c = Some ev \<and> q = DeleteEvent (es_eventId ev))"
proof -
  let ?A = "\<lambda>q. saves q \<longrightarrow> ok \<and> currentUser c \<noteq> None \<and> \<not> hasPaidDeposits (checkouts c) \<and>
     (\<exists>ev. selectedEvent c = Some ev \<and> q = DeleteEvent (es_eventId ev))"
  have "asks ?A (deleteEvent c ok)"
    by (auto simp: deleteEvent_def intro!: asks_rules asks_dash asks_require asks_load split: option.split)
  from asks_history [OF this assms(1)] assms(2) show ?thesis by blast
qed

theorem delete_sends_selected_witness:
  "\<exists>ev. selectedEvent ((sample_form (initial_dash None))\<lparr>events := [demo_row ''a'' []], selectedEventID := Some 1\<rparr>) = Some ev
     \<and> es_eventId ev = 1"
proof -
  let ?e = "demo_row ''a'' []"
  let ?c = "(sample_form (initial_dash None))\<lparr>events := [?e], selectedEventID := Some 1\<rparr>"
  have s: "selectedEvent ?c = Some ?e" "currentUser ?c \<noteq> None" "\<not> hasPaidDeposits (checkouts (initial_dash None))"
      "checkouts ?c = checkouts (initial_dash None)" "es_eventId ?e = 1"
    by (simp_all add: selectedEvent_def find_event_def hasPaidDeposits_def initial_dash_def sample_form_def demo_row_def)
  then have "(DeleteEvent 1, None) \<in> set (history (deleteEvent ?c True) ?c [])"
    by (auto simp: deleteEvent_def dash_fetch_def catch_def)
  from delete_sends_selected [OF this] show ?thesis by simp
qed


definition demo_event_summary :: event_summary where
  "demo_event_summary = \<lparr>es_eventId = 3, es_slug = ''meetup'', es_title = ''Meetup'', es_description = ''See you'',
     es_eventImageUrl = [], es_eventDate = datetimeLocalToRFC3339Local (fixed_zone 120)
       (input_text \<lparr>year = 2026, month = 3, date = 1, hours = 9, minutes = 5\<rparr>),
     es_checkoutExpiresAt = datetimeLocalToRFC3339Local (fixed_zone 120)
       (input_text \<lparr>year = 2026, month = 2, date = 28, hours = 23, minutes = 59\<rparr>),
     es_location = [], es_organizerName = ''Ann'', es_merchantWallet = ''wallet'', es_amountUsdc = ''25.00'',
     es_eventSource = ''custom'', es_sourceUrl = [], es_participantFormSchema = default_fields,
     es_wallet = True, es_qr = True, es_createdAt = []\<rparr>"


end
