(* ===== verification/Dash_Auth.thy ===== *)
theory Dash_Auth
  imports Dash_Form
begin

text \<open>
  Signing in on the dashboard: the session check, the forms for login, registration and password
  reset, Google, the verification mail with its cooldown, and signing out. \<open>c\<close> is the world of
  the render that created the handler.
\<close>

section \<open>The session check\<close>

text \<open>
  The effect on \<open>[authCheckNonce]\<close>. The next run of it cancels this one: \<open>cancelled\<close> is set and
  the request aborted, so the last run is the one whose nonce \<open>seenSession\<close> holds.
\<close>

definition still_checking :: "nat \<Rightarrow> dash \<Rightarrow> bool" where
  "still_checking n w \<longleftrightarrow> seenSession w = Some n"

definition sessionCheck :: "dash \<Rightarrow> unit dash_prog" where
  "sessionCheck c = (let n = authCheckNonce c;
       set_user = (\<lambda>u. Upd (\<lambda>w. if still_checking n w then w\<lparr>currentUser := u\<rparr> else w) (Ret ()))
     in Upd (\<lambda>w. w\<lparr>seenSession := Some n\<rparr>)
        (Upd (\<lambda>w. w\<lparr>authLoading := True\<rparr>)
        (finally_do
          (catch
            (bind (dash_fetch GetMe) (\<lambda>res.
             if \<not> (case res of Response s t b \<Rightarrow> ok_status s | Rejected e \<Rightarrow> False) then set_user None
             else bind (dash_json_as user_json res) set_user))
            (\<lambda>_. set_user None))
          (\<lambda>w. if still_checking n w then w\<lparr>authLoading := False\<rparr> else w))))"

definition retrySession :: "dash \<Rightarrow> dash" where
  "retrySession w = w\<lparr>authCheckNonce := authCheckNonce w + 1\<rparr>"

section \<open>Signing in and registering\<close>

definition googleCallback :: "jstr \<Rightarrow> unit dash_prog" where
  "googleCallback credential =
     finally_do
       (catch
         (Upd (\<lambda>w. w\<lparr>authSubmitting := True\<rparr>)
          (bind (dash_fetch (PostGoogle credential)) (\<lambda>loginRes.
           bind (require_ok loginRes) (\<lambda>_.
           bind (dash_json_as user_json loginRes) (\<lambda>user.
           Upd (\<lambda>w. w\<lparr>currentUser := user\<rparr>) (Upd (\<lambda>w. w\<lparr>dash_error := []\<rparr>) (Ret ())))))))
         (\<lambda>err. Upd (\<lambda>w. w\<lparr>dash_error := err_message err ''Google sign-in failed''\<rparr>) (Ret ())))
       (\<lambda>w. w\<lparr>authSubmitting := False\<rparr>)"

definition auth_request :: "dash \<Rightarrow> dash_request" where
  "auth_request c = (let email = toLowerCase (trim (authEmail c)); password = authPassword c; name = trim (authName c)
     in case authMode c of
          Register \<Rightarrow> PostRegister name email password
        | Forgot \<Rightarrow> PostForgot email
        | Login \<Rightarrow> PostLogin email password)"

definition take_auth_reply :: "dash \<Rightarrow> dash_json http \<Rightarrow> unit dash_prog" where
  "take_auth_reply c res = (case authMode c of
       Register \<Rightarrow> bind (dash_json_as message_json res) (\<lambda>m.
         Upd (\<lambda>w. w\<lparr>authInfoMessage :=
                or_else m ''Registration successful. Please verify your email before login.''\<rparr>)
         (Upd (\<lambda>w. w\<lparr>authMode := Login\<rparr>) (Upd (\<lambda>w. w\<lparr>authPassword := []\<rparr>) (Ret ()))))
     | Forgot \<Rightarrow> bind (dash_json_as message_json res) (\<lambda>m.
         Upd (\<lambda>w. w\<lparr>authInfoMessage := or_else m ''If the email exists, a reset link has been sent.''\<rparr>) (Ret ()))
     | Login \<Rightarrow> bind (dash_json_as user_json res) (\<lambda>u. Upd (\<lambda>w. w\<lparr>currentUser := u\<rparr>) (Ret ())))"

definition auth_failure :: "exn \<Rightarrow> jstr" where
  "auth_failure err = (let msg = err_message err ''Authentication failed''
     in if str_includes msg ''EMAIL_NOT_VERIFIED'' then ''Please verify your email before login.'' else msg)"

definition onAuthSubmit :: "dash \<Rightarrow> unit dash_prog" where
  "onAuthSubmit c = (let email = toLowerCase (trim (authEmail c)); password = authPassword c; name = trim (authName c);
       complain = (\<lambda>m. Upd (\<lambda>w. w\<lparr>dash_error := m\<rparr>) (Ret ()))
     in Upd (\<lambda>w. w\<lparr>dash_error := []\<rparr>) (Upd (\<lambda>w. w\<lparr>authInfoMessage := []\<rparr>)
        (if \<not> truthy email then complain ''Email is required''
         else if authMode c \<noteq> Forgot \<and> \<not> truthy password then complain ''Email and password are required''
         else if authMode c = Register \<and> \<not> truthy name then complain ''Name is required for register''
         else Upd (\<lambda>w. w\<lparr>authSubmitting := True\<rparr>)
           (finally_do
             (catch
               (bind (dash_fetch (auth_request c)) (\<lambda>res.
                bind (require_ok res) (\<lambda>_.
                bind (take_auth_reply c res) (\<lambda>_.
                Upd (\<lambda>w. w\<lparr>dash_error := []\<rparr>) (Ret ())))))
               (\<lambda>err. complain (auth_failure err)))
             (\<lambda>w. w\<lparr>authSubmitting := False\<rparr>)))))"

text \<open>The three buttons above the form, and the link below it.\<close>

definition chooseMode :: "auth_mode \<Rightarrow> dash \<Rightarrow> dash" where
  "chooseMode m w = w\<lparr>authMode := m\<rparr>"

definition forgotLink :: "dash \<Rightarrow> dash" where
  "forgotLink w = w\<lparr>authMode := Forgot, dash_error := [], authInfoMessage := []\<rparr>"

section \<open>The verification mail\<close>

text \<open>The interval of the cooldown effect, once a second while the cooldown is positive.\<close>

definition cooldownTick :: "dash \<Rightarrow> dash" where
  "cooldownTick w = w\<lparr>resendCooldown := (if 0 < resendCooldown w then resendCooldown w - 1 else 0)\<rparr>"

definition resendVerification :: "dash \<Rightarrow> unit dash_prog" where
  "resendVerification c =
     (if 0 < resendCooldown c then Ret ()
      else let email = toLowerCase (trim (authEmail c))
        in if \<not> truthy email then Upd (\<lambda>w. w\<lparr>dash_error := ''Enter your email first to resend verification.''\<rparr>) (Ret ())
           else catch
             (bind (dash_fetch (PostResend email)) (\<lambda>res.
              bind (require_ok res) (\<lambda>_.
              bind (dash_json_as message_json res) (\<lambda>m.
              Upd (\<lambda>w. w\<lparr>authInfoMessage := or_else m ''If the email exists, a verification message has been sent.''\<rparr>)
              (Upd (\<lambda>w. w\<lparr>resendCooldown := 60\<rparr>) (Upd (\<lambda>w. w\<lparr>dash_error := []\<rparr>) (Ret ())))))))
             (\<lambda>err. Upd (\<lambda>w. w\<lparr>dash_error := err_message err ''Failed to resend email''\<rparr>) (Ret ())))"

text \<open>Whether the button for it is there.\<close>

definition resend_offered :: "dash \<Rightarrow> bool" where
  "resend_offered w \<longleftrightarrow> authMode w = Login \<and> str_includes (dash_error w) ''verify''"

section \<open>Signing out\<close>

definition clear_session :: "dash \<Rightarrow> dash" where
  "clear_session w = resetForm (w\<lparr>currentUser := None, events := [], selectedEventID := None, checkouts := []\<rparr>)"

definition logout :: "unit dash_prog" where
  "logout = bind (catch (bind (dash_fetch PostLogout) (\<lambda>_. Ret ())) (\<lambda>_. Ret ())) (\<lambda>_. Upd clear_session (Ret ()))"

section \<open>Lemmas\<close>

lemma lower_lower [simp]: "toLowerCase (toLowerCase s) = toLowerCase s"
  by (simp add: toLowerCase_def comp_def)

text \<open>A text as the server expects an email: not empty, no space around it, in lower case.\<close>

definition normal_email :: "jstr \<Rightarrow> bool" where
  "normal_email e \<longleftrightarrow> e \<noteq> [] \<and> trim e = e \<and> toLowerCase e = e"

lemma normal_email_input: "truthy (toLowerCase (trim s)) \<Longrightarrow> normal_email (toLowerCase (trim s))"
  by (simp add: normal_email_def truthy_def trim_toLowerCase)

definition good_credentials :: "dash_request \<Rightarrow> bool" where
  "good_credentials q \<longleftrightarrow> (case q of
       PostLogin e p \<Rightarrow> normal_email e \<and> p \<noteq> []
     | PostRegister n e p \<Rightarrow> normal_email e \<and> p \<noteq> [] \<and> n \<noteq> [] \<and> trim n = n
     | PostForgot e \<Rightarrow> normal_email e
     | _ \<Rightarrow> False)"

lemma asks_auth: "asks good_credentials (onAuthSubmit c)"
proof -
  have "good_credentials (auth_request c)"
    if "truthy (toLowerCase (trim (authEmail c)))" "authMode c \<noteq> Forgot \<longrightarrow> truthy (authPassword c)"
      "authMode c = Register \<longrightarrow> truthy (trim (authName c))"
    using that normal_email_input [OF that(1)]
    by (cases "authMode c") (simp_all add: auth_request_def good_credentials_def truthy_def)
  moreover have "asks good_credentials (take_auth_reply c res)" for res
    by (cases "authMode c") (auto simp: take_auth_reply_def intro!: asks_rules asks_dash)
  ultimately show ?thesis
    by (auto simp: onAuthSubmit_def Let_def intro!: asks_rules asks_dash asks_http)
qed

lemma ticks: "0 \<le> resendCooldown w \<Longrightarrow> resendCooldown ((cooldownTick ^^ n) w) = max 0 (resendCooldown w - int n)"
  by (induction n) (auto simp: cooldownTick_def)

section \<open>Properties\<close>

text \<open>
  The sign-in form sends credentials only when they are complete: the email is not empty,
  trimmed and in lower case, the password not empty, the name of a registration not blank.
\<close>

theorem credentials_normalised:
  assumes "(q, r) \<in> set (history (onAuthSubmit c) w rs)"
  shows "(\<exists>e p. q = PostLogin e p \<and> normal_email e \<and> p \<noteq> []) \<or>
    (\<exists>n e p. q = PostRegister n e p \<and> normal_email e \<and> p \<noteq> [] \<and> n \<noteq> [] \<and> trim n = n) \<or>
    (\<exists>e. q = PostForgot e \<and> normal_email e)"
  using asks_history [OF asks_auth assms] by (cases q) (auto simp: good_credentials_def)

theorem credentials_normalised_witness:
  "normal_email ''ann@x.io''"
proof -
  let ?c = "(initial_dash None)\<lparr>authEmail := '' Ann@X.io '', authPassword := ''pw''\<rparr>"
  have e: "toLowerCase (trim (authEmail ?c)) = ''ann@x.io''" by code_simp
  have "(PostLogin ''ann@x.io'' ''pw'', None) \<in> set (history (onAuthSubmit ?c) ?c [])"
    using e by (simp add: onAuthSubmit_def Let_def dash_fetch_def catch_def auth_request_def initial_dash_def)
  from credentials_normalised [OF this] show ?thesis by simp
qed

text \<open>
  The page takes a user only from the server: when the sign-in form changes the current user,
  it was a login that the server answered with a success status and that user.
\<close>

theorem user_from_server:
  "currentUser (final (onAuthSubmit c) w rs) \<noteq> currentUser w \<longrightarrow>
     (\<exists>e p s t b. (PostLogin e p, Some (One (Response s t (Some b)))) \<in> set (history (onAuthSubmit c) w rs) \<and>
        ok_status s \<and> user_json b = Some (currentUser (final (onAuthSubmit c) w rs)))"
proof -
  have "always (onAuthSubmit c) w (\<lambda>x w' h. currentUser w' \<noteq> currentUser w \<longrightarrow>
     (\<exists>e p s t b. (PostLogin e p, Some (One (Response s t (Some b)))) \<in> set h \<and>
        ok_status s \<and> user_json b = Some (currentUser w')))"
    by (cases "authMode c")
      (auto simp: onAuthSubmit_def Let_def dash_rules take_auth_reply_def auth_request_def split: option.split)
  from always_run [OF this] show ?thesis by blast
qed

definition demo_user :: app_user where
  "demo_user = \<lparr>us_id = 7, us_name = ''Ann'', us_email = ''a@b.c'', us_provider = ''email''\<rparr>"

theorem user_from_server_witness:
  "\<exists>e p. (PostLogin e p, Some (One (Response 200 [] (Some (UserJson (Some demo_user))))))
     \<in> set (history (onAuthSubmit ((initial_dash None)\<lparr>authEmail := ''a@b'', authPassword := ''p''\<rparr>)) (initial_dash None)
         [One (Response 200 [] (Some (UserJson (Some demo_user))))])"
proof -
  let ?c = "(initial_dash None)\<lparr>authEmail := ''a@b'', authPassword := ''p''\<rparr>"
  let ?r = "One (Response 200 [] (Some (UserJson (Some demo_user))))"
  have "truthy (toLowerCase (trim ''a@b''))" by code_simp
  then have "currentUser (final (onAuthSubmit ?c) (initial_dash None) [?r]) \<noteq> currentUser (initial_dash None)"
    and h: "\<exists>q. history (onAuthSubmit ?c) (initial_dash None) [?r] = [(q, Some ?r)]"
    by (simp_all add: onAuthSubmit_def Let_def dash_fetch_def catch_def auth_request_def require_ok_def
        take_auth_reply_def dash_json_as_def res_json_def user_json_def initial_dash_def)
  with user_from_server [of ?c "initial_dash None" "[?r]"] show ?thesis by fastforce
qed

text \<open>
  A registration that the server accepts does not sign the user in: the form goes back to
  login with the password cleared and says to verify the email.
\<close>

theorem register_returns_to_login:
  assumes "authMode c = Register" and "truthy (trim (authEmail c))" and "truthy (authPassword c)"
    and "truthy (trim (authName c))" and "ok_status s"
  shows "let w' = final (onAuthSubmit c) w [One (Response s t (Some (MessageJson [])))]
     in authMode w' = Login \<and> authPassword w' = [] \<and> currentUser w' = currentUser w \<and> \<not> authSubmitting w' \<and>
        dash_error w' = [] \<and> authInfoMessage w' = ''Registration successful. Please verify your email before login.''"
proof -
  have "truthy (toLowerCase (trim (authEmail c)))" using assms(2) by (simp add: toLowerCase_def truthy_def)
  then show ?thesis using assms
    by (simp add: onAuthSubmit_def Let_def dash_fetch_def catch_def auth_request_def require_ok_def
        take_auth_reply_def dash_json_as_def res_json_def message_json_def)
qed

theorem register_returns_to_login_witness:
  "authMode (final (onAuthSubmit ((initial_dash None)\<lparr>authMode := Register, authEmail := ''a@b'', authPassword := ''p'',
      authName := ''n''\<rparr>)) (initial_dash None) [One (Response 201 [] (Some (MessageJson [])))]) = Login"
proof -
  let ?c = "(initial_dash None)\<lparr>authMode := Register, authEmail := ''a@b'', authPassword := ''p'', authName := ''n''\<rparr>"
  have "truthy (trim ''a@b'')" "truthy (trim ''n'')" by code_simp+
  then show ?thesis
    using register_returns_to_login [of ?c 201 "initial_dash None" "[]"] by (simp add: Let_def ok_status_def)
qed

text \<open>
  A login refused because the email is not verified offers to send the verification again.
\<close>

theorem unverified_login_offers_resend:
  assumes "authMode c = Login" "authMode w = Login" and "truthy (trim (authEmail c))" and "truthy (authPassword c)"
    and "\<not> ok_status s" and "str_includes t ''EMAIL_NOT_VERIFIED''"
  shows "resend_offered (final (onAuthSubmit c) w [One (Response s t b)])"
proof -
  have "truthy (toLowerCase (trim (authEmail c)))" using assms(3) by (simp add: toLowerCase_def truthy_def)
  moreover have "str_includes ''Please verify your email before login.'' ''verify''" by code_simp
  ultimately show ?thesis using assms
    by (simp add: onAuthSubmit_def Let_def dash_fetch_def catch_def auth_request_def require_ok_def
        auth_failure_def resend_offered_def)
qed

theorem unverified_login_offers_resend_witness:
  "resend_offered (final (onAuthSubmit ((initial_dash None)\<lparr>authEmail := ''a@b'', authPassword := ''p''\<rparr>))
     (initial_dash None) [One (Response 403 ''EMAIL_NOT_VERIFIED'' None)])"
proof -
  have "truthy (trim ''a@b'')" "str_includes ''EMAIL_NOT_VERIFIED'' ''EMAIL_NOT_VERIFIED''" by code_simp+
  then show ?thesis by (intro unverified_login_offers_resend) (simp_all add: initial_dash_def ok_status_def)
qed

text \<open>
  C32. The page never waits for the session check for ever: whatever the reply or exception of the
  last check, it ends with the loading state cleared; and a check that a retry has
  superseded changes neither the user nor the loading state.
\<close>

theorem session_check_settles:
  "let p = fst (advance (sessionCheck c) w); w0 = snd (advance (sessionCheck c) w)
   in p \<noteq> Ret () \<and> authLoading w0
    \<and> (\<forall>w1 r. seenSession w1 = Some (authCheckNonce c) \<longrightarrow>
         advance (reply_of p r) w1 = (Ret (), snd (advance (reply_of p r) w1)) \<and>
         \<not> authLoading (snd (advance (reply_of p r) w1)))
    \<and> (\<forall>w1 r. seenSession w1 \<noteq> Some (authCheckNonce c) \<longrightarrow> advance (reply_of p r) w1 = (Ret (), w1))"
  by (auto simp: sessionCheck_def Let_def dash_fetch_def catch_def dash_json_as_def res_json_def
      still_checking_def split: dash_reply.split http.split option.split)

theorem session_check_settles_witness:
  "\<not> authLoading (snd (advance (reply_of (fst (advance (sessionCheck (initial_dash None)) (initial_dash None)))
     (One (Rejected OtherExn))) ((initial_dash None)\<lparr>seenSession := Some 0\<rparr>)))"
proof -
  let ?w = "(initial_dash None)\<lparr>seenSession := Some 0\<rparr>"
  have "seenSession ?w = Some (authCheckNonce (initial_dash None))" by (simp add: initial_dash_def)
  then show ?thesis
    using session_check_settles [of "initial_dash None" "initial_dash None"] unfolding Let_def by blast
qed

text \<open>
  The verification mail can be asked for at most once a minute: an accepted request starts a
  cooldown of 60, no request is sent while it is positive, and 60 ticks end it.
\<close>

theorem resend_cooldown:
  "(0 < resendCooldown c \<longrightarrow> history (resendVerification c) w rs = [])
   \<and> (resendCooldown (final (resendVerification c) w rs) \<in> {resendCooldown w, 60})
   \<and> (resendCooldown v = 60 \<longrightarrow> (\<forall>n. 0 < resendCooldown ((cooldownTick ^^ n) v) \<longleftrightarrow> n < 60))"
proof -
  have "always (resendVerification c) w (\<lambda>x w' h. resendCooldown w' \<in> {resendCooldown w, 60})"
    by (auto simp: resendVerification_def Let_def dash_rules split: option.split http.split)
  from always_run [OF this] have "resendCooldown (final (resendVerification c) w rs) \<in> {resendCooldown w, 60}" .
  moreover have "0 < resendCooldown c \<longrightarrow> history (resendVerification c) w rs = []"
    by (simp add: resendVerification_def)
  ultimately show ?thesis using ticks [of v] by auto
qed

theorem resend_cooldown_witness:
  "0 < resendCooldown ((cooldownTick ^^ 59) ((initial_dash None)\<lparr>resendCooldown := 60\<rparr>))"
  using resend_cooldown [where v = "(initial_dash None)\<lparr>resendCooldown := 60\<rparr>"] by simp

text \<open>
  Signing out, whether or not the server answers, leaves no user, event, selection or deposit
  on the page and an empty form.
\<close>

theorem logout_clears:
  "result logout w [r] = Done () \<and>
   (let w' = final logout w [r] in currentUser w' = None \<and> events w' = [] \<and> selectedEventID w' = None \<and>
      checkouts w' = [] \<and> title w' = [] \<and> description w' = [] \<and> merchantWallet w' = [] \<and>
      participantFields w' = default_fields)"
  by (auto simp: logout_def dash_fetch_def catch_def clear_session_def resetForm_def Let_def
      split: dash_reply.split http.split)

text \<open>But the password of the form, a created token and the lists of keys stay in the page.\<close>

lemma logout_keeps_secrets:
  "let w' = final logout w [r] in authPassword w' = authPassword w \<and> createdPatValue w' = createdPatValue w \<and>
     agentPats w' = agentPats w \<and> agentKeys w' = agentKeys w"
  by (auto simp: logout_def dash_fetch_def catch_def clear_session_def resetForm_def Let_def
      split: dash_reply.split http.split)

end
