(* ===== verification/Agent_Security.thy ===== *)
theory Agent_Security
  imports Dash_Form
begin

text \<open>
  Agent security on the dashboard: the lists of access tokens and agent keys, creating and
  revoking them, and the switch that opens the section and stores its position. \<open>c\<close> is the
  world of the render that created the handler.
\<close>

section \<open>Operations\<close>

definition loadAgentSecurity :: "dash \<Rightarrow> unit dash_prog" where
  "loadAgentSecurity c =
     (if currentUser c = None then Ret ()
      else Upd (\<lambda>w. w\<lparr>agentSecurityLoading := True\<rparr>)
        (finally_do
          (catch
            (bind (dash_fetch2 GetAgentSecurity) (\<lambda>(patsRes, keysRes).
             bind (require_ok patsRes) (\<lambda>_.
             bind (require_ok keysRes) (\<lambda>_.
             bind (dash_json_as pats_json patsRes) (\<lambda>pats.
             bind (dash_json_as keys_json keysRes) (\<lambda>keys.
             Upd (\<lambda>w. w\<lparr>agentPats := pats\<rparr>) (Upd (\<lambda>w. w\<lparr>agentKeys := keys\<rparr>) (Ret ()))))))))
            (\<lambda>err. Upd (\<lambda>w. w\<lparr>dash_error := err_message err ''Failed to load agent security settings''\<rparr>) (Ret ())))
          (\<lambda>w. w\<lparr>agentSecurityLoading := False\<rparr>)))"

text \<open>\<open>Number.isFinite(expires) ? Math.max(0, expires) : 90\<close>.\<close>

definition pat_days :: "jstr \<Rightarrow> rat" where
  "pat_days s = (case js_parseInt10 s of Fin n \<Rightarrow> max 0 n | _ \<Rightarrow> 90)"

definition createAgentPat :: "dash \<Rightarrow> unit dash_prog" where
  "createAgentPat c = (let nextName = trim (patName c)
     in if \<not> truthy nextName then Upd (toast (Failure ''PAT name is required.'')) (Ret ())
        else Upd (\<lambda>w. w\<lparr>creatingPat := True\<rparr>)
          (finally_do
            (catch
              (bind (dash_fetch (PostPat nextName (pat_days (patExpiresInDays c)))) (\<lambda>res.
               bind (require_ok res) (\<lambda>_.
               bind (dash_json_as pat_json res) (\<lambda>(tok, nm).
               Upd (\<lambda>w. w\<lparr>createdPatValue := (case tok of Some t \<Rightarrow> t | None \<Rightarrow> [])\<rparr>)
               (Upd (\<lambda>w. w\<lparr>createdPatName := (case nm of Some n \<Rightarrow> n | None \<Rightarrow> nextName)\<rparr>)
               (bind (loadAgentSecurity c) (\<lambda>_.
                Upd (toast (Success ''PAT created. Copy it now, it is only shown once.'')) (Ret ()))))))))
              (\<lambda>err. Upd (toast (Failure (err_message err ''Failed to create PAT''))) (Ret ())))
            (\<lambda>w. w\<lparr>creatingPat := False\<rparr>)))"

text \<open>\<open>ok\<close> is the answer to \<open>window.confirm\<close>.\<close>

definition revokePat :: "dash \<Rightarrow> jstr \<Rightarrow> bool \<Rightarrow> unit dash_prog" where
  "revokePat c tokenID ok =
     (if \<not> ok then Ret ()
      else catch
        (bind (dash_fetch (PostPatRevoke tokenID)) (\<lambda>res.
         bind (require_ok res) (\<lambda>_.
         bind (loadAgentSecurity c) (\<lambda>_.
         Upd (toast (Success ''PAT revoked.'')) (Ret ())))))
        (\<lambda>err. Upd (toast (Failure (err_message err ''Failed to revoke PAT''))) (Ret ())))"

definition saveAgentKey :: "dash \<Rightarrow> unit dash_prog" where
  "saveAgentKey c = (let nextID = trim (agentKeyID c); nextPublicKey = trim (agentKeyPublicKey c)
     in if \<not> truthy nextID \<or> \<not> truthy nextPublicKey
        then Upd (toast (Failure ''Agent id and public key are required.'')) (Ret ())
        else Upd (\<lambda>w. w\<lparr>savingAgentKey := True\<rparr>)
          (finally_do
            (catch
              (bind (dash_fetch (PostAgentKey nextID nextPublicKey)) (\<lambda>res.
               bind (require_ok res) (\<lambda>_.
               Upd (\<lambda>w. w\<lparr>agentKeyID := []\<rparr>) (Upd (\<lambda>w. w\<lparr>agentKeyPublicKey := []\<rparr>)
               (bind (loadAgentSecurity c) (\<lambda>_.
                Upd (toast (Success ''Agent key saved.'')) (Ret ())))))))
              (\<lambda>err. Upd (toast (Failure (err_message err ''Failed to save agent key''))) (Ret ())))
            (\<lambda>w. w\<lparr>savingAgentKey := False\<rparr>)))"

definition revokeAgentKey :: "dash \<Rightarrow> jstr \<Rightarrow> bool \<Rightarrow> unit dash_prog" where
  "revokeAgentKey c agentId ok =
     (if \<not> ok then Ret ()
      else catch
        (bind (dash_fetch (PostAgentKeyRevoke agentId)) (\<lambda>res.
         bind (require_ok res) (\<lambda>_.
         bind (loadAgentSecurity c) (\<lambda>_.
         Upd (toast (Success ''Agent key revoked.'')) (Ret ())))))
        (\<lambda>err. Upd (toast (Failure (err_message err ''Failed to revoke agent key''))) (Ret ())))"

text \<open>Which entries have a button to revoke them.\<close>

definition revocable_pats :: "dash \<Rightarrow> agent_pat list" where
  "revocable_pats w = filter (\<lambda>t. \<not> truthy (ap_revokedAt t)) (agentPats w)"

definition revocable_keys :: "dash \<Rightarrow> agent_key list" where
  "revocable_keys w = filter ak_active (agentKeys w)"

section \<open>The switch\<close>

text \<open>\<open>localStorage["payknot-agent-security-mode"]\<close>: read once, written after every change.\<close>

definition loadAgentMode :: "dash \<Rightarrow> dash" where
  "loadAgentMode w = w\<lparr>agentSecurityMode := (storedAgentMode w = Some ''true'')\<rparr>"

definition bool_text :: "bool \<Rightarrow> jstr" where
  "bool_text b = (if b then ''true'' else ''false'')"

definition storeAgentMode :: "dash \<Rightarrow> dash \<Rightarrow> dash" where
  "storeAgentMode c w = w\<lparr>storedAgentMode := Some (bool_text (agentSecurityMode c)),
     seenStored := Some (agentSecurityMode c)\<rparr>"

definition toggleAgentMode :: "dash \<Rightarrow> dash \<Rightarrow> dash" where
  "toggleAgentMode c w = (let next = \<not> agentSecurityMode c; w1 = w\<lparr>agentSecurityMode := next\<rparr>
     in if next then w1\<lparr>detailRender := False, detailClosing := False\<rparr> else w1)"

section \<open>Lemmas\<close>

lemma asks_load_security: "A GetAgentSecurity \<Longrightarrow> asks A (loadAgentSecurity c)"
  by (auto simp: loadAgentSecurity_def intro!: asks_rules asks_dash asks_http)

lemma load_security_keeps:
  "always (loadAgentSecurity c) w (\<lambda>x w' h. (x = Done () \<or> x = Blocked) \<and> createdPatValue w' = createdPatValue w \<and>
     agentKeyID w' = agentKeyID w \<and> agentKeyPublicKey w' = agentKeyPublicKey w)"
  by (auto simp: loadAgentSecurity_def dash_rules split: option.split http.split)

text \<open>The integer at the start of a text of digits.\<close>

lemma js_parseInt_nat: "n < 2 ^ 53 \<Longrightarrow> js_parseInt10 (show_nat n) = Fin (of_nat n)"
proof -
  assume n: "n < 2 ^ 53"
  have dig: "list_all is_digit (show_nat n)" by (rule show_nat_digits)
  obtain c t where ct: "show_nat n = c # t" by (cases "show_nat n") auto
  with dig have c: "is_digit c" by simp
  then have "\<not> is_space c" "c \<noteq> CHR ''-''" "c \<noteq> CHR ''+''"
    by (auto simp: is_digit_not_space is_digit_def)
  moreover have "takeWhile is_digit (c # t) = c # t"
    using dig ct by (metis list_all_iff takeWhile_eq_all_conv)
  moreover have "nat_of_digits (c # t) = n" using ct nat_of_digits_show [of n] by simp
  ultimately show ?thesis using n ct
    by (simp add: js_parseInt10_def scan_sign_def to_double_nat)
qed

section \<open>Properties\<close>

text \<open>
  The lifetime sent for a token is never negative; the days the user typed are sent as they
  are, and a text that is no number means 90.
\<close>

theorem pat_lifetime:
  "0 \<le> pat_days s \<and> (n < 2 ^ 53 \<longrightarrow> pat_days (show_nat n) = of_nat n) \<and> pat_days ''-7'' = 0 \<and> pat_days ''soon'' = 90"
proof -
  have "pat_days ''-7'' = 0" by code_simp
  moreover have "pat_days ''soon'' = 90" by code_simp
  moreover have "0 \<le> pat_days s" by (simp add: pat_days_def split: jsnum.split)
  ultimately show ?thesis by (simp add: pat_days_def js_parseInt_nat)
qed

theorem pat_lifetime_witness:
  "pat_days (show_nat 30) = 30"
  using pat_lifetime [of "[]" 30] by simp

text \<open>
  Creating a token asks for a name without space around it, and shows only what the server
  returned: the value on the page afterwards is the old one or the token of a successful
  reply, and when the server did return one it is shown even if the lists fail to load again.
\<close>

theorem created_token_shown:
  "(\<forall>q r. (q, r) \<in> set (history (createAgentPat c) w rs) \<longrightarrow>
      q = GetAgentSecurity \<or> q = PostPat (trim (patName c)) (pat_days (patExpiresInDays c)) \<and> trim (patName c) \<noteq> [])
   \<and> (trim (patName c) \<noteq> [] \<and> ok_status s \<longrightarrow>
      createdPatValue (final (createAgentPat c) w (One (Response s t (Some (PatJson (Some v) nm))) # rs)) = v)"
proof -
  let ?A = "\<lambda>q. q = GetAgentSecurity \<or> q = PostPat (trim (patName c)) (pat_days (patExpiresInDays c)) \<and> trim (patName c) \<noteq> []"
  have "asks ?A (createAgentPat c)"
    by (auto simp: createAgentPat_def Let_def truthy_def intro!: asks_rules asks_dash asks_http asks_load_security)
  then have 1: "(q, r) \<in> set (history (createAgentPat c) w rs) \<Longrightarrow> ?A q" for q r
    by (rule asks_history)
  have "always (createAgentPat c) w (\<lambda>x w' h. \<forall>q s t v nm h'. h = (q, Some (One (Response s t (Some (PatJson (Some v) nm))))) # h' \<longrightarrow>
      ok_status s \<longrightarrow> createdPatValue w' = v)"
    by (auto simp: createAgentPat_def Let_def dash_rules pat_json_def toast_def split: option.split http.split
        intro!: always_mono [OF load_security_keeps])
  note run = always_run [OF this, of "One (Response s t (Some (PatJson (Some v) nm))) # rs"]
  have "\<exists>q h'. history (createAgentPat c) w (r # rs) = (q, Some r) # h'" if "trim (patName c) \<noteq> []" for r
    using that by (auto simp: createAgentPat_def Let_def truthy_def dash_fetch_def catch_def)
  with run have "trim (patName c) \<noteq> [] \<and> ok_status s \<longrightarrow>
      createdPatValue (final (createAgentPat c) w (One (Response s t (Some (PatJson (Some v) nm))) # rs)) = v"
    by blast
  with 1 show ?thesis by blast
qed

theorem created_token_shown_witness:
  "createdPatValue (final (createAgentPat (initial_dash None)) (initial_dash None)
     [One (Response 200 [] (Some (PatJson (Some ''pk_live'') None))), One (Rejected OtherExn)]) = ''pk_live''"
proof -
  have "trim (patName (initial_dash None)) \<noteq> []" by (simp add: initial_dash_def) code_simp
  then show ?thesis
    using created_token_shown [where rs = "[One (Rejected OtherExn)]" and s = 200 and nm = None] by simp
qed

text \<open>
  What the user typed for an agent key is cleared only after the server accepted it, and
  the request has both texts, trimmed and not empty.
\<close>

theorem agent_key_kept_until_saved:
  "agentKeyID (final (saveAgentKey c) w rs) \<noteq> agentKeyID w \<longrightarrow>
     (\<exists>s t b. (PostAgentKey (trim (agentKeyID c)) (trim (agentKeyPublicKey c)), Some (One (Response s t b)))
        \<in> set (history (saveAgentKey c) w rs) \<and> ok_status s) \<and>
     trim (agentKeyID c) \<noteq> [] \<and> trim (agentKeyPublicKey c) \<noteq> []"
proof -
  have "always (saveAgentKey c) w (\<lambda>x w' h. agentKeyID w' \<noteq> agentKeyID w \<longrightarrow>
     (\<exists>s t b. (PostAgentKey (trim (agentKeyID c)) (trim (agentKeyPublicKey c)), Some (One (Response s t b))) \<in> set h
        \<and> ok_status s) \<and> trim (agentKeyID c) \<noteq> [] \<and> trim (agentKeyPublicKey c) \<noteq> [])"
    by (auto simp: saveAgentKey_def Let_def dash_rules toast_def truthy_def split: option.split http.split
        intro!: always_mono [OF load_security_keeps]) blast+
  from always_run [OF this] show ?thesis by simp
qed

theorem agent_key_kept_until_saved_witness:
  "trim ''bot'' \<noteq> [] \<and> trim ''AAAA'' \<noteq> []"
proof -
  let ?c = "(initial_dash None)\<lparr>agentKeyID := ''bot'', agentKeyPublicKey := ''AAAA''\<rparr>"
  have "truthy (trim ''bot'')" "truthy (trim ''AAAA'')" by code_simp+
  then have "agentKeyID (final (saveAgentKey ?c) ?c [One (Response 200 [] None)]) \<noteq> agentKeyID ?c"
    by (simp add: saveAgentKey_def Let_def dash_fetch_def catch_def require_ok_def loadAgentSecurity_def initial_dash_def toast_def)
  with agent_key_kept_until_saved [of ?c ?c "[One (Response 200 [] None)]"] show ?thesis by simp
qed

text \<open>
  The position of the switch survives a reload: the effects that run when the page opens with
  what was stored restore it and store the same again.
\<close>

theorem agent_mode_roundtrip:
  "let stored = storedAgentMode (storeAgentMode c w);
       w1 = storeAgentMode (initial_dash stored) (loadAgentMode (initial_dash stored));
       w2 = storeAgentMode w1 w1
   in agentSecurityMode w2 = agentSecurityMode c \<and> storedAgentMode w2 = stored"
  by (simp add: storeAgentMode_def loadAgentMode_def initial_dash_def bool_text_def Let_def)

end
