(* ===== verification/Dash_Page.thy ===== *)
theory Dash_Page
  imports Dash_Events Dash_Auth Agent_Security
begin

text \<open>
  The dashboard as a whole: the pagers, which part of the page a render shows, which control runs
  which handler, and what holds in every state it can reach, with any number of handlers
  running at once and replies in any order.
\<close>

section \<open>Pagers\<close>

definition fieldPages :: "dash \<Rightarrow> nat" where
  "fieldPages w = totalPages (length (filteredCheckoutFields (checkoutFormSearchTerm w) (participantFields w)))"

definition depositPages :: "dash \<Rightarrow> nat" where
  "depositPages w = totalPages (length (filteredDeposits (depositSearchTerm w) (checkouts w)))"

definition eventPages :: "dash_env \<Rightarrow> dash \<Rightarrow> nat" where
  "eventPages env w = totalPages (length (shown_events env w))"

definition paginatedEvents :: "dash_env \<Rightarrow> dash \<Rightarrow> event_summary list" where
  "paginatedEvents env w = pageSlice (eventPage w) (shown_events env w)"

definition pagedDeposits :: "dash \<Rightarrow> checkout_row list" where
  "pagedDeposits w = pageSlice (depositPage w) (filteredDeposits (depositSearchTerm w) (checkouts w))"

text \<open>The buttons \<open>Prev\<close> and \<open>Next\<close>; \<open>n\<close> is the number of pages of the render.\<close>

definition prevPage :: "nat \<Rightarrow> nat" where
  "prevPage p = max 1 (p - 1)"

definition nextPage :: "nat \<Rightarrow> nat \<Rightarrow> nat" where
  "nextPage n p = min n (p + 1)"

text \<open>The effects that go back to the first page when what is listed changes.\<close>

definition fieldDeps :: "dash \<Rightarrow> jstr \<times> int option \<times> nat" where
  "fieldDeps w = (checkoutFormSearchTerm w, selectedEventID w, length (participantFields w))"

definition depositDeps :: "dash \<Rightarrow> jstr \<times> int option \<times> nat" where
  "depositDeps w = (depositSearchTerm w, selectedEventID w, length (checkouts w))"

definition resetFieldPage :: "dash \<Rightarrow> dash \<Rightarrow> dash" where
  "resetFieldPage c w = w\<lparr>seenFieldDeps := Some (fieldDeps c), checkoutFormPage := 1\<rparr>"

definition resetDepositPage :: "dash \<Rightarrow> dash \<Rightarrow> dash" where
  "resetDepositPage c w = w\<lparr>seenDepositDeps := Some (depositDeps c), depositPage := 1\<rparr>"

definition resetEventPage :: "dash \<Rightarrow> dash \<Rightarrow> dash" where
  "resetEventPage c w = w\<lparr>seenQuery := Some (list_query c), eventPage := 1\<rparr>"

text \<open>The effects that clamp the page.\<close>

definition clampFieldPage :: "dash \<Rightarrow> dash \<Rightarrow> dash" where
  "clampFieldPage c w = (if fieldPages c < checkoutFormPage c then w\<lparr>checkoutFormPage := fieldPages c\<rparr> else w)"

definition clampDepositPage :: "dash \<Rightarrow> dash \<Rightarrow> dash" where
  "clampDepositPage c w = (if depositPages c < depositPage c then w\<lparr>depositPage := depositPages c\<rparr> else w)"

definition clampEventPage :: "dash_env \<Rightarrow> dash \<Rightarrow> dash \<Rightarrow> dash" where
  "clampEventPage env c w = (if eventPages env c < eventPage c then w\<lparr>eventPage := eventPages env c\<rparr> else w)"

section \<open>The query of the list\<close>

datatype query_edit = Search jstr | DateFrom jstr | DateTo jstr | SortBy sort_field | Direction sort_direction

fun editQuery :: "query_edit \<Rightarrow> event_query \<Rightarrow> event_query" where
  "editQuery (Search s) q = q\<lparr>searchQuery := s\<rparr>"
| "editQuery (DateFrom s) q = q\<lparr>eventDateFrom := s\<rparr>"
| "editQuery (DateTo s) q = q\<lparr>eventDateTo := s\<rparr>"
| "editQuery (SortBy f) q = q\<lparr>sortField := f\<rparr>"
| "editQuery (Direction d) q = q\<lparr>sortDirection := d\<rparr>"

definition resetFilters :: "event_query \<Rightarrow> event_query" where
  "resetFilters q = q\<lparr>searchQuery := [], eventDateFrom := [], eventDateTo := [],
     sortField := ByEventDate, sortDirection := Desc\<rparr>"

section \<open>What a render shows\<close>

datatype view = Checking | SignIn | AgentView | EventView

definition page_view :: "dash \<Rightarrow> view" where
  "page_view w = (if authLoading w then Checking
     else if currentUser w = None then SignIn
     else if agentSecurityMode w then AgentView else EventView)"

definition signed_in_view :: "dash \<Rightarrow> bool" where
  "signed_in_view w \<longleftrightarrow> page_view w = AgentView \<or> page_view w = EventView"

definition panel_shown :: "dash \<Rightarrow> bool" where
  "panel_shown w \<longleftrightarrow> signed_in_view w \<and> detailRender w"

text \<open>The three sections of the panel: tabs on a narrow window, one below the other on a wide one.\<close>

definition info_shown :: "dash \<Rightarrow> bool" where
  "info_shown w \<longleftrightarrow> panel_shown w \<and> (isMobile w \<longrightarrow> detailTab w = InfoTab)"

definition fields_shown :: "dash \<Rightarrow> bool" where
  "fields_shown w \<longleftrightarrow> panel_shown w \<and>
     (if isMobile w then detailTab w = CheckoutFormTab \<and> checkoutFormAccordionOpen w else showCheckoutFormSection w)"

definition deposits_shown :: "dash \<Rightarrow> bool" where
  "deposits_shown w \<longleftrightarrow> panel_shown w \<and>
     (if isMobile w then detailTab w = DepositsTab \<and> depositAccordionOpen w else showDepositsSection w)"

definition deposit_table_shown :: "dash \<Rightarrow> bool" where
  "deposit_table_shown w \<longleftrightarrow> deposits_shown w \<and> detailMode w = Edit \<and> \<not> loadingCheckouts w \<and> pagedDeposits w \<noteq> []"

definition delete_enabled :: "dash \<Rightarrow> bool" where
  "delete_enabled w \<longleftrightarrow> panel_shown w \<and> detailMode w = Edit \<and>
     \<not> (deleting w \<or> selectedEvent w = None \<or> hasPaidDeposits (checkouts w))"

definition save_enabled :: "dash \<Rightarrow> bool" where
  "save_enabled w \<longleftrightarrow> panel_shown w \<and>
     \<not> (creating w \<or> updating w \<or> detailMode w = Edit \<and> hasPaidDeposits (checkouts w))"

definition event_list_shown :: "dash_env \<Rightarrow> dash \<Rightarrow> bool" where
  "event_list_shown env w \<longleftrightarrow> page_view w = EventView \<and> events w \<noteq> [] \<and> shown_events env w \<noteq> []"

section \<open>Events\<close>

datatype auth_field = AuthName | AuthEmail | AuthPassword

fun editAuth :: "auth_field \<Rightarrow> jstr \<Rightarrow> dash \<Rightarrow> dash" where
  "editAuth AuthName v w = w\<lparr>authName := v\<rparr>"
| "editAuth AuthEmail v w = w\<lparr>authEmail := v\<rparr>"
| "editAuth AuthPassword v w = w\<lparr>authPassword := v\<rparr>"

datatype agent_field = PatName | PatDays | KeyID | KeyText

fun editAgent :: "agent_field \<Rightarrow> jstr \<Rightarrow> dash \<Rightarrow> dash" where
  "editAgent PatName v w = w\<lparr>patName := v\<rparr>"
| "editAgent PatDays v w = w\<lparr>patExpiresInDays := v\<rparr>"
| "editAgent KeyID v w = w\<lparr>agentKeyID := v\<rparr>"
| "editAgent KeyText v w = w\<lparr>agentKeyPublicKey := v\<rparr>"

datatype switch = FormSection | DepositSection | FormAccordion | DepositAccordion

fun flipSwitch :: "switch \<Rightarrow> dash \<Rightarrow> dash" where
  "flipSwitch FormSection w = w\<lparr>showCheckoutFormSection := \<not> showCheckoutFormSection w\<rparr>"
| "flipSwitch DepositSection w = w\<lparr>showDepositsSection := \<not> showDepositsSection w\<rparr>"
| "flipSwitch FormAccordion w = w\<lparr>checkoutFormAccordionOpen := \<not> checkoutFormAccordionOpen w\<rparr>"
| "flipSwitch DepositAccordion w = w\<lparr>depositAccordionOpen := \<not> depositAccordionOpen w\<rparr>"

text \<open>
  When an event can happen, and its handler, in groups. An effect runs when what it depends
  on has changed since its last run; a user, compared by identity, may be a new object with
  the same content.
\<close>

definition local_update :: "(dash \<Rightarrow> dash) \<Rightarrow> unit dash_prog" where
  "local_update u = Upd u (Ret ())"

text \<open>The effects, the window and the timers.\<close>

datatype effect_event =
    SessionEffect | UserEffect | MountAgentMode | StoreMode | AgentEffect | SelectionEffect
  | FieldPageEffect | FieldClampEffect | DepositPageEffect | DepositClampEffect | EventPageEffect
  | EventClampEffect | Resize bool | CooldownTick | CloseTimer

fun effect_enabled :: "dash_env \<Rightarrow> effect_event \<Rightarrow> dash \<Rightarrow> bool" where
  "effect_enabled env SessionEffect w = (seenSession w \<noteq> Some (authCheckNonce w))"
| "effect_enabled env UserEffect w = (seenUser w \<noteq> Some (currentUser w) \<or> currentUser w \<noteq> None)"
| "effect_enabled env MountAgentMode w = (seenStored w = None)"
| "effect_enabled env StoreMode w = (case seenStored w of None \<Rightarrow> False | Some b \<Rightarrow> b \<noteq> agentSecurityMode w)"
| "effect_enabled env AgentEffect w = (seenAgent w \<noteq> Some (currentUser w, agentSecurityMode w) \<or> currentUser w \<noteq> None)"
| "effect_enabled env SelectionEffect w = (seenSelected w \<noteq> Some (selectedEventID w))"
| "effect_enabled env FieldPageEffect w = (seenFieldDeps w \<noteq> Some (fieldDeps w))"
| "effect_enabled env FieldClampEffect w = True"
| "effect_enabled env DepositPageEffect w = (seenDepositDeps w \<noteq> Some (depositDeps w))"
| "effect_enabled env DepositClampEffect w = True"
| "effect_enabled env EventPageEffect w = (seenQuery w \<noteq> Some (list_query w))"
| "effect_enabled env EventClampEffect w = True"
| "effect_enabled env (Resize x) w = True"
| "effect_enabled env CooldownTick w = (0 < resendCooldown w)"
| "effect_enabled env CloseTimer w = closeTimer w"

fun effect_handler :: "dash_env \<Rightarrow> effect_event \<Rightarrow> dash \<Rightarrow> unit dash_prog" where
  "effect_handler env SessionEffect c = sessionCheck c"
| "effect_handler env UserEffect c = Upd (\<lambda>w. w\<lparr>seenUser := Some (currentUser c)\<rparr>)
     (if currentUser c = None then Ret () else loadEvents)"
| "effect_handler env MountAgentMode c = local_update (\<lambda>w. storeAgentMode c (loadAgentMode w))"
| "effect_handler env StoreMode c = local_update (storeAgentMode c)"
| "effect_handler env AgentEffect c = Upd (\<lambda>w. w\<lparr>seenAgent := Some (currentUser c, agentSecurityMode c)\<rparr>)
     (if currentUser c = None \<or> \<not> agentSecurityMode c then Ret () else loadAgentSecurity c)"
| "effect_handler env SelectionEffect c = selectionEffect env c"
| "effect_handler env FieldPageEffect c = local_update (resetFieldPage c)"
| "effect_handler env FieldClampEffect c = local_update (clampFieldPage c)"
| "effect_handler env DepositPageEffect c = local_update (resetDepositPage c)"
| "effect_handler env DepositClampEffect c = local_update (clampDepositPage c)"
| "effect_handler env EventPageEffect c = local_update (resetEventPage c)"
| "effect_handler env EventClampEffect c = local_update (clampEventPage env c)"
| "effect_handler env (Resize b) c = local_update (\<lambda>w. w\<lparr>isMobile := b\<rparr>)"
| "effect_handler env CooldownTick c = local_update cooldownTick"
| "effect_handler env CloseTimer c = local_update closeTimerFires"

text \<open>Signing in and out.\<close>

datatype auth_event =
    ClickRetrySession | GoogleCredential jstr | SubmitAuth | ChooseMode auth_mode | ClickForgotLink
  | TypeAuth auth_field jstr | ClickResend | ClickLogout

fun auth_enabled :: "dash_env \<Rightarrow> auth_event \<Rightarrow> dash \<Rightarrow> bool" where
  "auth_enabled env ClickRetrySession w = (page_view w = Checking)"
| "auth_enabled env (GoogleCredential x) w = True"
| "auth_enabled env SubmitAuth w = (page_view w = SignIn \<and> \<not> authSubmitting w)"
| "auth_enabled env (ChooseMode m) w = (page_view w = SignIn)"
| "auth_enabled env ClickForgotLink w = (page_view w = SignIn \<and> authMode w = Login)"
| "auth_enabled env (TypeAuth f v) w = (page_view w = SignIn \<and> (f = AuthName \<longrightarrow> authMode w = Register) \<and>
     (f = AuthPassword \<longrightarrow> authMode w \<noteq> Forgot))"
| "auth_enabled env ClickResend w = (page_view w = SignIn \<and> resend_offered w \<and> resendCooldown w \<le> 0)"
| "auth_enabled env ClickLogout w = signed_in_view w"

fun auth_handler :: "dash_env \<Rightarrow> auth_event \<Rightarrow> dash \<Rightarrow> unit dash_prog" where
  "auth_handler env ClickRetrySession c = local_update retrySession"
| "auth_handler env (GoogleCredential k) c = googleCallback k"
| "auth_handler env SubmitAuth c = onAuthSubmit c"
| "auth_handler env (ChooseMode m) c = local_update (chooseMode m)"
| "auth_handler env ClickForgotLink c = local_update forgotLink"
| "auth_handler env (TypeAuth f v) c = local_update (editAuth f v)"
| "auth_handler env ClickResend c = resendVerification c"
| "auth_handler env ClickLogout c = logout"

text \<open>Agent security.\<close>

datatype agent_event =
    ClickAgentSwitch | ClickRefreshSecurity | ClickCreatePat | ClickRevokePat jstr bool
  | ClickSaveKey | ClickRevokeKey jstr bool | TypeAgent agent_field jstr | ClickCopyPat

fun agent_enabled :: "dash_env \<Rightarrow> agent_event \<Rightarrow> dash \<Rightarrow> bool" where
  "agent_enabled env ClickAgentSwitch w = signed_in_view w"
| "agent_enabled env ClickRefreshSecurity w = (page_view w = AgentView \<and> \<not> agentSecurityLoading w)"
| "agent_enabled env ClickCreatePat w = (page_view w = AgentView \<and> \<not> creatingPat w)"
| "agent_enabled env (ClickRevokePat i b) w = (page_view w = AgentView \<and> i \<in> set (map ap_id (revocable_pats w)))"
| "agent_enabled env ClickSaveKey w = (page_view w = AgentView \<and> \<not> savingAgentKey w)"
| "agent_enabled env (ClickRevokeKey i b) w = (page_view w = AgentView \<and> i \<in> set (map ak_agentId (revocable_keys w)))"
| "agent_enabled env (TypeAgent f v) w = (page_view w = AgentView)"
| "agent_enabled env ClickCopyPat w = (page_view w = AgentView \<and> truthy (createdPatValue w))"

fun agent_handler :: "dash_env \<Rightarrow> agent_event \<Rightarrow> dash \<Rightarrow> unit dash_prog" where
  "agent_handler env ClickAgentSwitch c = local_update (toggleAgentMode c)"
| "agent_handler env ClickRefreshSecurity c = loadAgentSecurity c"
| "agent_handler env ClickCreatePat c = createAgentPat c"
| "agent_handler env (ClickRevokePat i b) c = revokePat c i b"
| "agent_handler env ClickSaveKey c = saveAgentKey c"
| "agent_handler env (ClickRevokeKey i b) c = revokeAgentKey c i b"
| "agent_handler env (TypeAgent f v) c = local_update (editAgent f v)"
| "agent_handler env ClickCopyPat c = copyText (createdPatValue c)"

text \<open>The event list.\<close>

datatype list_event =
    TypeQuery query_edit | ClickResetFilters | ClickRefreshEvents | ClickCreate | ClickEvent int
  | ClickEventPrev | ClickEventNext

fun list_enabled :: "dash_env \<Rightarrow> list_event \<Rightarrow> dash \<Rightarrow> bool" where
  "list_enabled env (TypeQuery q) w = (page_view w = EventView)"
| "list_enabled env ClickResetFilters w = (page_view w = EventView)"
| "list_enabled env ClickRefreshEvents w = (page_view w = EventView \<and> \<not> loadingEvents w)"
| "list_enabled env ClickCreate w = (page_view w = EventView)"
| "list_enabled env (ClickEvent i) w = (page_view w = EventView \<and> i \<in> set (map es_eventId (paginatedEvents env w)))"
| "list_enabled env ClickEventPrev w = (event_list_shown env w \<and> 1 < eventPage w)"
| "list_enabled env ClickEventNext w = (event_list_shown env w \<and> eventPage w < eventPages env w)"

fun list_handler :: "dash_env \<Rightarrow> list_event \<Rightarrow> dash \<Rightarrow> unit dash_prog" where
  "list_handler env (TypeQuery q) c = local_update (\<lambda>w. w\<lparr>list_query := editQuery q (list_query w)\<rparr>)"
| "list_handler env ClickResetFilters c = local_update (\<lambda>w. w\<lparr>list_query := resetFilters (list_query w)\<rparr>)"
| "list_handler env ClickRefreshEvents c = (if currentUser c = None then Ret () else loadEvents)"
| "list_handler env ClickCreate c = local_update (openCreateDetail c)"
| "list_handler env (ClickEvent i) c = local_update (openEditDetail i)"
| "list_handler env ClickEventPrev c = local_update (\<lambda>w. w\<lparr>eventPage := prevPage (eventPage w)\<rparr>)"
| "list_handler env ClickEventNext c = local_update (\<lambda>w. w\<lparr>eventPage := nextPage (eventPages env c) (eventPage w)\<rparr>)"

text \<open>The detail panel and its information section.\<close>

datatype panel_event =
    ClickClose | ChooseTab detail_tab | FlipSwitch switch | ClickResetFields | ClickSave
  | ClickDelete bool | ChooseSource jstr | TypeText text_field jstr | ClickImport
  | TypeDescription jstr | FormatDescription jstr jstr jstr | UploadChange "upload_file list"
  | UploadRemove | ClickCopyLink

fun panel_enabled :: "dash_env \<Rightarrow> panel_event \<Rightarrow> dash \<Rightarrow> bool" where
  "panel_enabled env ClickClose w = panel_shown w"
| "panel_enabled env (ChooseTab t) w = (panel_shown w \<and> isMobile w)"
| "panel_enabled env (FlipSwitch s) w = (panel_shown w \<and> (case s of
       FormAccordion \<Rightarrow> isMobile w \<and> detailTab w = CheckoutFormTab
     | DepositAccordion \<Rightarrow> isMobile w \<and> detailTab w = DepositsTab | _ \<Rightarrow> \<not> isMobile w))"
| "panel_enabled env ClickResetFields w = panel_shown w"
| "panel_enabled env ClickSave w = save_enabled w"
| "panel_enabled env (ClickDelete b) w = delete_enabled w"
| "panel_enabled env (ChooseSource s) w = (info_shown w \<and> s \<in> {''custom'', ''luma''})"
| "panel_enabled env (TypeText f v) w = (if f = MerchantField \<or> f = AmountField then fields_shown w
     else info_shown w \<and> (f = SourceUrlField \<longrightarrow> eventSource w = ''luma''))"
| "panel_enabled env ClickImport w = (info_shown w \<and> eventSource w = ''luma'' \<and> \<not> importingLuma w)"
| "panel_enabled env (TypeDescription h) w = info_shown w"
| "panel_enabled env (FormatDescription c l h) w = (info_shown w \<and> c \<in> snd ` set editor_commands)"
| "panel_enabled env (UploadChange x) w = True"
| "panel_enabled env UploadRemove w = True"
| "panel_enabled env ClickCopyLink w = (info_shown w \<and> detailMode w = Edit \<and> selectedEvent w \<noteq> None)"

fun panel_handler :: "dash_env \<Rightarrow> panel_event \<Rightarrow> dash \<Rightarrow> unit dash_prog" where
  "panel_handler env ClickClose c = local_update closeDetail"
| "panel_handler env (ChooseTab t) c = local_update (\<lambda>w. w\<lparr>detailTab := t\<rparr>)"
| "panel_handler env (FlipSwitch s) c = local_update (flipSwitch s)"
| "panel_handler env ClickResetFields c = local_update (resetDetailFields env c)"
| "panel_handler env ClickSave c = saveEventChanges env c"
| "panel_handler env (ClickDelete b) c = deleteEvent c b"
| "panel_handler env (ChooseSource s) c = local_update (selectSource s)"
| "panel_handler env (TypeText f v) c = local_update (editText f v)"
| "panel_handler env ClickImport c = importLumaEvent env c"
| "panel_handler env (TypeDescription h) c = local_update (inputDescription h)"
| "panel_handler env (FormatDescription f l h) c = local_update (applyDescriptionCommand f l h)"
| "panel_handler env (UploadChange fs) c = onUploadChange fs"
| "panel_handler env UploadRemove c = local_update onUploadRemove"
| "panel_handler env ClickCopyLink c = copyText (fullCheckoutLink env c)"

text \<open>The checkout form and deposit sections of the panel.\<close>

datatype section_event =
    TypeFieldSearch jstr | ClickAddField | TypeFieldName nat jstr | TickFieldRequired nat bool
  | ClickRemoveField nat | ClickFieldPrev | ClickFieldNext | TypeDepositSearch jstr
  | ClickRefreshDeposits | ClickDepositPrev | ClickDepositNext

fun section_enabled :: "dash_env \<Rightarrow> section_event \<Rightarrow> dash \<Rightarrow> bool" where
  "section_enabled env (TypeFieldSearch v) w = fields_shown w"
| "section_enabled env ClickAddField w = fields_shown w"
| "section_enabled env (TypeFieldName i v) w = (fields_shown w \<and>
     (case map_of (pagedCheckoutFields w) i of Some f \<Rightarrow> \<not> fixed_field f | None \<Rightarrow> False))"
| "section_enabled env (TickFieldRequired i b) w = (fields_shown w \<and>
     (case map_of (pagedCheckoutFields w) i of Some f \<Rightarrow> \<not> fixed_field f | None \<Rightarrow> False))"
| "section_enabled env (ClickRemoveField i) w = (fields_shown w \<and>
     (case map_of (pagedCheckoutFields w) i of Some f \<Rightarrow> \<not> fixed_field f | None \<Rightarrow> False))"
| "section_enabled env ClickFieldPrev w = (fields_shown w \<and> 1 < checkoutFormPage w)"
| "section_enabled env ClickFieldNext w = (fields_shown w \<and> checkoutFormPage w < fieldPages w)"
| "section_enabled env (TypeDepositSearch v) w = deposits_shown w"
| "section_enabled env ClickRefreshDeposits w = (deposits_shown w \<and> detailMode w = Edit)"
| "section_enabled env ClickDepositPrev w = (deposit_table_shown w \<and> 1 < depositPage w)"
| "section_enabled env ClickDepositNext w = (deposit_table_shown w \<and> depositPage w < depositPages w)"

fun section_handler :: "dash_env \<Rightarrow> section_event \<Rightarrow> dash \<Rightarrow> unit dash_prog" where
  "section_handler env (TypeFieldSearch v) c = local_update (\<lambda>w. w\<lparr>checkoutFormSearchTerm := v\<rparr>)"
| "section_handler env ClickAddField c = local_update addParticipantField"
| "section_handler env (TypeFieldName i v) c = local_update (renameField i v)"
| "section_handler env (TickFieldRequired i b) c = local_update (requireField i b)"
| "section_handler env (ClickRemoveField i) c = (case map_of (pagedCheckoutFields c) i of
     Some f \<Rightarrow> local_update (removeField f i) | None \<Rightarrow> Ret ())"
| "section_handler env ClickFieldPrev c = local_update (\<lambda>w. w\<lparr>checkoutFormPage := prevPage (checkoutFormPage w)\<rparr>)"
| "section_handler env ClickFieldNext c = local_update (\<lambda>w. w\<lparr>checkoutFormPage := nextPage (fieldPages c) (checkoutFormPage w)\<rparr>)"
| "section_handler env (TypeDepositSearch v) c = local_update (\<lambda>w. w\<lparr>depositSearchTerm := v\<rparr>)"
| "section_handler env ClickRefreshDeposits c = refreshCheckouts c None"
| "section_handler env ClickDepositPrev c = local_update (\<lambda>w. w\<lparr>depositPage := prevPage (depositPage w)\<rparr>)"
| "section_handler env ClickDepositNext c = local_update (\<lambda>w. w\<lparr>depositPage := nextPage (depositPages c) (depositPage w)\<rparr>)"

datatype dash_event =
    Effect effect_event
  | Auth auth_event
  | Agent agent_event
  | List list_event
  | Panel panel_event
  | Section section_event

fun dash_enabled :: "dash_env \<Rightarrow> dash_event \<Rightarrow> dash \<Rightarrow> bool" where
  "dash_enabled env (Effect e) w = effect_enabled env e w"
| "dash_enabled env (Auth e) w = auth_enabled env e w"
| "dash_enabled env (Agent e) w = agent_enabled env e w"
| "dash_enabled env (List e) w = list_enabled env e w"
| "dash_enabled env (Panel e) w = panel_enabled env e w"
| "dash_enabled env (Section e) w = section_enabled env e w"

fun dash_handler :: "dash_env \<Rightarrow> dash_event \<Rightarrow> dash \<Rightarrow> unit dash_prog" where
  "dash_handler env (Effect e) c = effect_handler env e c"
| "dash_handler env (Auth e) c = auth_handler env e c"
| "dash_handler env (Agent e) c = agent_handler env e c"
| "dash_handler env (List e) c = list_handler env e c"
| "dash_handler env (Panel e) c = panel_handler env e c"
| "dash_handler env (Section e) c = section_handler env e c"

text \<open>One reply for one request, two for the pair of agent security.\<close>

fun dash_fits :: "dash_request \<Rightarrow> dash_reply \<Rightarrow> bool" where
  "dash_fits q (One h) = (q \<noteq> GetAgentSecurity)"
| "dash_fits q (Two h k) = (q = GetAgentSecurity)"

definition dash_start :: "dash \<Rightarrow> bool" where
  "dash_start w \<longleftrightarrow> (\<exists>mode. w = initial_dash mode)"

section \<open>The invariant\<close>

definition dash_inv :: "dash \<Rightarrow> bool" where
  "dash_inv w \<longleftrightarrow> 0 \<le> resendCooldown w \<and> resendCooldown w \<le> 60
     \<and> 1 \<le> checkoutFormPage w \<and> 1 \<le> depositPage w \<and> 1 \<le> eventPage w
     \<and> length (imageFileList w) \<le> 1
     \<and> fst ` set (eventFormErrors w) \<subseteq> set required_order
     \<and> (detailClosing w \<longrightarrow> closeTimer w)
     \<and> (detailMode w = Create \<longrightarrow> selectedEventID w = None)"

text \<open>Pieces that several handlers are made of.\<close>

lemma inv_fill: "dash_inv w \<Longrightarrow> dash_inv (fillFormFromEvent env ev w)"
  by (simp add: dash_inv_def fillFormFromEvent_def)

lemma inv_reset: "dash_inv w \<Longrightarrow> dash_inv (resetForm w)"
  by (simp add: dash_inv_def resetForm_def)

lemma inv_focus: "dash_inv w \<Longrightarrow> dash_inv (focusEventFormField c f w)"
  by (simp add: dash_inv_def focusEventFormField_def Let_def)

lemma inv_toast: "dash_inv w \<Longrightarrow> dash_inv (toast t w)"
  by (simp add: dash_inv_def toast_def)

lemma inv_fail: "dash_inv w \<Longrightarrow> dash_inv (fail_with m w)"
  by (simp add: dash_inv_def toast_def fail_with_def)

lemma inv_clear_error: "dash_inv w \<Longrightarrow> dash_inv (clearEventFormError f w)"
  by (auto simp: dash_inv_def clearEventFormError_def obj_delete_def)

lemma inv_event_errors: "fst ` set (event_errors c) \<subseteq> set required_order"
  using event_error_keys [of c] by (metis filter_is_subset list.set_map)

lemma inv_edit: "dash_inv w \<Longrightarrow> dash_inv (editText f v w)"
  by (cases f; auto intro!: inv_clear_error; simp add: dash_inv_def)

lemma inv_source: "dash_inv w \<Longrightarrow> dash_inv (selectSource s w)"
  by (auto simp: selectSource_def Let_def intro!: inv_clear_error) (auto simp: dash_inv_def)

lemmas piece_rules = inv_fill inv_reset inv_focus inv_toast inv_fail inv_clear_error inv_edit inv_source

section \<open>Every handler keeps it\<close>

lemma inv_local: "(\<And>w. dash_inv w \<Longrightarrow> dash_inv (u w)) \<Longrightarrow> keeps R dash_inv (local_update u)"
  by (simp add: local_update_def)

lemma inv_load: "keeps R dash_inv loadEvents"
  unfolding loadEvents_def by (auto intro!: inv_rules simp: dash_inv_def split: option.split)

lemma inv_checkouts: "keeps R dash_inv (refreshCheckouts c i)"
  unfolding refreshCheckouts_def by (auto intro!: inv_rules simp: dash_inv_def split: option.split)

lemma inv_session: "keeps R dash_inv (sessionCheck c)"
  unfolding sessionCheck_def Let_def by (auto intro!: inv_rules simp: dash_inv_def)

lemma inv_google: "keeps R dash_inv (googleCallback k)"
  unfolding googleCallback_def by (auto intro!: inv_rules simp: dash_inv_def)

lemma inv_auth: "keeps R dash_inv (onAuthSubmit c)"
  unfolding onAuthSubmit_def Let_def take_auth_reply_def
  by (auto intro!: inv_rules simp: dash_inv_def split: auth_mode.split)

lemma inv_resend: "keeps R dash_inv (resendVerification c)"
  unfolding resendVerification_def Let_def by (auto intro!: inv_rules simp: dash_inv_def)

lemma inv_logout: "keeps R dash_inv logout"
  unfolding logout_def clear_session_def
  by (auto intro!: inv_rules inv_reset) (auto simp: dash_inv_def)

lemma inv_security: "keeps R dash_inv (loadAgentSecurity c)"
  unfolding loadAgentSecurity_def by (auto intro!: inv_rules simp: dash_inv_def)

lemma inv_agent:
  "keeps R dash_inv (createAgentPat c)" "keeps R dash_inv (revokePat c i b)"
  "keeps R dash_inv (saveAgentKey c)" "keeps R dash_inv (revokeAgentKey c i b)"
  unfolding createAgentPat_def revokePat_def saveAgentKey_def revokeAgentKey_def Let_def
  by (auto intro!: inv_rules inv_security inv_toast simp: split_beta) (auto simp: dash_inv_def)

lemma inv_copy: "keeps R dash_inv (copyText s)"
  unfolding copyText_def by (auto intro!: inv_rules inv_toast) (auto simp: dash_inv_def)

lemma inv_validate: "keeps R dash_inv (validateEventForm c)"
  using inv_event_errors [of c] unfolding validateEventForm_def Let_def
  by (auto intro!: inv_focus inv_toast split: list.split) (auto simp: dash_inv_def)

lemma inv_create: "keeps R dash_inv (createEvent env c)"
  unfolding createEvent_def
  by (auto intro!: inv_rules inv_load inv_fail inv_toast) (auto simp: dash_inv_def)

lemma inv_update: "keeps R dash_inv (updateEvent env c)"
  unfolding updateEvent_def
  by (auto intro!: inv_rules inv_load inv_fail inv_toast split: option.split) (auto simp: dash_inv_def)

lemma inv_save: "keeps R dash_inv (saveEventChanges env c)"
  unfolding saveEventChanges_def
  by (auto intro!: inv_rules inv_fail inv_validate inv_create inv_update)

lemma inv_delete: "keeps R dash_inv (deleteEvent c b)"
  unfolding deleteEvent_def
  by (auto intro!: inv_rules inv_load inv_fail inv_toast inv_reset split: option.split) (auto simp: dash_inv_def)

lemma inv_imported: "dash_inv w \<Longrightarrow> dash_inv (takeImported env d w)"
  by (simp add: takeImported_def Let_def dash_inv_def)

lemma inv_import: "keeps R dash_inv (importLumaEvent env c)"
  unfolding importLumaEvent_def importImage_def Let_def
  by (auto intro!: inv_rules inv_imported inv_toast simp: split_beta) (auto simp: dash_inv_def)

lemma inv_upload: "keeps R dash_inv (onUploadChange fs)"
  unfolding onUploadChange_def Let_def
  by (auto intro!: inv_rules inv_clear_error split: list.split) (auto simp: dash_inv_def)

lemma inv_selection: "keeps R dash_inv (selectionEffect env c)"
  unfolding selectionEffect_def
  by (auto intro!: inv_rules inv_checkouts inv_fill split: option.split) (auto simp: dash_inv_def)

lemma pages_positive: "1 \<le> fieldPages w" "1 \<le> depositPages w" "1 \<le> eventPages env w"
  by (simp_all add: fieldPages_def depositPages_def eventPages_def totalPages_def)

lemma inv_effect: "keeps R dash_inv (effect_handler env e c)"
  using pages_positive(1,2) [of c] pages_positive(3) [of env c]
  by (cases e) (auto intro!: inv_local inv_load inv_security inv_session inv_selection
    simp: storeAgentMode_def loadAgentMode_def resetFieldPage_def clampFieldPage_def resetDepositPage_def
      clampDepositPage_def resetEventPage_def clampEventPage_def cooldownTick_def closeTimerFires_def dash_inv_def)

lemma inv_auth_event: "keeps R dash_inv (auth_handler env e c)"
proof (cases e)
  case (TypeAuth f v)
  then show ?thesis by (cases f) (auto intro!: inv_local simp: dash_inv_def)
qed (auto intro!: inv_local inv_google inv_auth inv_resend inv_logout
    simp: retrySession_def chooseMode_def forgotLink_def dash_inv_def)

lemma inv_agent_event: "keeps R dash_inv (agent_handler env e c)"
proof (cases e)
  case (TypeAgent f v)
  then show ?thesis by (cases f) (auto intro!: inv_local simp: dash_inv_def)
qed (auto intro!: inv_local inv_security inv_agent inv_copy simp: toggleAgentMode_def Let_def dash_inv_def)

lemma inv_open: "dash_inv w \<Longrightarrow> dash_inv (openCreateDetail c w)" "dash_inv w \<Longrightarrow> dash_inv (openEditDetail i w)"
  by (auto simp: openCreateDetail_def openEditDetail_def Let_def dash_inv_def resetForm_def)

lemma inv_list_event: "keeps R dash_inv (list_handler env e c)"
  using pages_positive(3) [of env c]
  by (cases e) (auto intro!: inv_local inv_load inv_open simp: dash_inv_def prevPage_def nextPage_def)

lemma inv_reset_fields: "dash_inv w \<Longrightarrow> dash_inv (resetDetailFields env c w)"
  by (auto simp: resetDetailFields_def Let_def intro!: inv_fill inv_reset split: option.split)
    (auto simp: dash_inv_def)

lemma inv_panel_event: "keeps R dash_inv (panel_handler env e c)"
proof (cases e)
  case (FlipSwitch s)
  then show ?thesis by (cases s) (auto intro!: inv_local simp: dash_inv_def)
qed (auto intro!: inv_local inv_reset_fields inv_save inv_delete inv_source inv_edit inv_import inv_upload inv_copy
    simp: closeDetail_def inputDescription_def applyDescriptionCommand_def onUploadRemove_def dash_inv_def)

lemma inv_section_event: "keeps R dash_inv (section_handler env e c)"
  using pages_positive(1,2) [of c]
  by (cases e) (auto intro!: inv_local inv_checkouts split: option.split
    simp: addParticipantField_def renameField_def requireField_def removeField_def prevPage_def nextPage_def dash_inv_def)

lemma inv_handler: "keeps R dash_inv (dash_handler env e c)"
  by (cases e) (simp_all add: inv_effect inv_auth_event inv_agent_event inv_list_event inv_panel_event inv_section_event)

interpretation dashboard: page "dash_enabled env" "dash_handler env" dash_fits dash_start dash_inv for env
proof
  fix w :: dash
  assume "dash_start w"
  then show "dash_inv w" by (auto simp: dash_start_def initial_dash_def dash_inv_def)
qed (rule inv_handler)

section \<open>Properties\<close>

text \<open>
  C10. In every state the dashboard can reach, whatever the interleaving of clicks, effects and
  replies: the cooldown of the verification mail is between 0 and 60, the pages count from 1,
  there is at most one image, errors are marked only at the seven checked fields, a closing
  panel has its timer, and the form of a new event has no event selected.
\<close>

theorem dashboard_invariant:
  assumes "reach (dash_enabled env) (dash_handler env) dash_fits dash_start (w, ps)"
  shows "0 \<le> resendCooldown w \<and> resendCooldown w \<le> 60
     \<and> 1 \<le> checkoutFormPage w \<and> 1 \<le> depositPage w \<and> 1 \<le> eventPage w
     \<and> length (imageFileList w) \<le> 1 \<and> fst ` set (eventFormErrors w) \<subseteq> set required_order
     \<and> (detailClosing w \<longrightarrow> closeTimer w) \<and> (detailMode w = Create \<longrightarrow> selectedEvent w = None)"
  using dashboard.reach_inv [OF assms] by (auto simp: dash_inv_def selectedEvent_def find_event_def)

theorem dashboard_invariant_witness:
  "1 \<le> eventPage (initial_dash None) \<and> selectedEvent (initial_dash None) = None"
proof -
  have "reach (dash_enabled env) (dash_handler env) dash_fits dash_start (initial_dash None, [])" for env
    by (rule reach_start) (auto simp: dash_start_def)
  from dashboard_invariant [OF this] show ?thesis by (simp add: initial_dash_def)
qed

text \<open>
  Paging stays in range: from a page of the list, \<open>Prev\<close>, \<open>Next\<close> and the clamping effect lead
  to a page of the list, also when the list has shrunk since.
\<close>

theorem paging_in_range:
  assumes "1 \<le> p"
  shows "(p \<le> totalPages n \<longrightarrow> 1 \<le> prevPage p \<and> prevPage p \<le> totalPages n)
     \<and> 1 \<le> nextPage (totalPages n) p \<and> nextPage (totalPages n) p \<le> totalPages n
     \<and> (eventPage w = p \<longrightarrow> 1 \<le> eventPage (clampEventPage env w w) \<and> eventPage (clampEventPage env w w) \<le> eventPages env w)
     \<and> (depositPage w = p \<longrightarrow> 1 \<le> depositPage (clampDepositPage w w) \<and> depositPage (clampDepositPage w w) \<le> depositPages w)
     \<and> (checkoutFormPage w = p \<longrightarrow> 1 \<le> checkoutFormPage (clampFieldPage w w) \<and> checkoutFormPage (clampFieldPage w w) \<le> fieldPages w)"
  using assms totalPages_bounds(1) [of n] pages_positive(1,2) [of w] pages_positive(3) [of env w]
  by (auto simp: prevPage_def nextPage_def clampEventPage_def clampDepositPage_def clampFieldPage_def)

theorem paging_in_range_witness:
  "prevPage 1 = 1 \<and> nextPage (totalPages 25) 3 = 3"
  using paging_in_range [of 1 25] paging_in_range [of 3 25] by (simp add: totalPages_def EVENT_PAGE_SIZE_def prevPage_def nextPage_def)

text \<open>A program that ends with the flag off, whatever it was before; and one that does when it was off.\<close>

definition resets :: "('w \<Rightarrow> bool) \<Rightarrow> ('w, 'q, 'r, 'a) prog \<Rightarrow> bool" where
  "resets flag p \<longleftrightarrow> (\<forall>w rs. result p w rs \<noteq> Blocked \<longrightarrow> \<not> flag (final p w rs))"

definition keeps_off :: "('w \<Rightarrow> bool) \<Rightarrow> ('w, 'q, 'r, 'a) prog \<Rightarrow> bool" where
  "keeps_off flag p \<longleftrightarrow> (\<forall>w rs. \<not> flag w \<longrightarrow> result p w rs \<noteq> Blocked \<longrightarrow> \<not> flag (final p w rs))"

lemma resets_finally: "(\<And>w. \<not> flag (u w)) \<Longrightarrow> resets flag (finally_do q u)"
  unfolding resets_def by (metis finally_final)

lemma keeps_off_Ret: "keeps_off flag (Ret a)"
  by (simp add: keeps_off_def)

lemma keeps_off_note: "(\<And>w. flag (u w) = flag w) \<Longrightarrow> keeps_off flag (Upd u (Ret a))"
  by (simp add: keeps_off_def)

lemma keeps_off_finally: "(\<And>w. \<not> flag (u w)) \<Longrightarrow> keeps_off flag (finally_do q u)"
  using resets_finally unfolding resets_def keeps_off_def by metis

lemma keeps_off_job: "(\<And>w. \<not> flag (u w)) \<Longrightarrow> keeps_off flag (Upd v (finally_do q u))"
  using resets_finally [of flag u q] by (simp add: resets_def keeps_off_def)

lemma keeps_off_job2: "(\<And>w. \<not> flag (u w)) \<Longrightarrow> keeps_off flag (Upd v' (Upd v (finally_do q u)))"
  using resets_finally [of flag u q] by (simp add: resets_def keeps_off_def)

lemma keeps_off_Upd: "(\<And>w. flag (u w) = flag w) \<Longrightarrow> keeps_off flag p \<Longrightarrow> keeps_off flag (Upd u p)"
  by (simp add: keeps_off_def)

lemma note_flags: "creating (fail_with m w) = creating w" "deleting (fail_with m w) = deleting w" "deleting (toast t w) = deleting w"
  "creatingPat (toast t w) = creatingPat w" "savingAgentKey (toast t w) = savingAgentKey w"
  by (simp_all add: fail_with_def toast_def)

lemmas off_rules = keeps_off_Ret keeps_off_note keeps_off_finally keeps_off_job keeps_off_job2

text \<open>The handlers that disable a control while they run, each with the flag that does it.\<close>

definition busy_handlers :: "dash_env \<Rightarrow> dash \<Rightarrow> (unit dash_prog \<times> (dash \<Rightarrow> bool)) list" where
  "busy_handlers env c = [(loadEvents, loadingEvents), (refreshCheckouts c None, loadingCheckouts),
     (createEvent env c, creating), (updateEvent env c, updating), (deleteEvent c True, deleting),
     (importLumaEvent env c, importingLuma), (loadAgentSecurity c, agentSecurityLoading),
     (createAgentPat c, creatingPat), (saveAgentKey c, savingAgentKey), (onAuthSubmit c, authSubmitting)]"

lemma off_events:
  "keeps_off loadingEvents loadEvents" "keeps_off loadingCheckouts (refreshCheckouts c i)"
  "keeps_off creating (createEvent env c)" "keeps_off updating (updateEvent env c)" "keeps_off deleting (deleteEvent c b)"
  "keeps_off importingLuma (importLumaEvent env c)"
proof -
  show "keeps_off loadingEvents loadEvents"
    unfolding loadEvents_def by (auto intro!: off_rules)
  show "keeps_off loadingCheckouts (refreshCheckouts c i)"
    unfolding refreshCheckouts_def by (auto intro!: off_rules split: option.split)
  show "keeps_off creating (createEvent env c)"
    unfolding createEvent_def by (auto simp: note_flags intro!: off_rules)
  show "keeps_off updating (updateEvent env c)"
    unfolding updateEvent_def by (auto intro!: off_rules split: option.split)
  show "keeps_off deleting (deleteEvent c b)"
    unfolding deleteEvent_def by (auto simp: note_flags intro!: off_rules split: option.split)
  show "keeps_off importingLuma (importLumaEvent env c)"
    unfolding importLumaEvent_def by (auto intro!: off_rules)
qed

lemma off_agent:
  "keeps_off agentSecurityLoading (loadAgentSecurity c)" "keeps_off creatingPat (createAgentPat c)"
  "keeps_off savingAgentKey (saveAgentKey c)" "keeps_off authSubmitting (onAuthSubmit c)"
proof -
  show "keeps_off agentSecurityLoading (loadAgentSecurity c)"
    unfolding loadAgentSecurity_def by (auto intro!: off_rules)
  show "keeps_off creatingPat (createAgentPat c)"
    unfolding createAgentPat_def Let_def by (auto simp: note_flags intro!: off_rules)
  show "keeps_off savingAgentKey (saveAgentKey c)"
    unfolding saveAgentKey_def Let_def by (auto simp: note_flags intro!: off_rules)
  show "keeps_off authSubmitting (onAuthSubmit c)"
    unfolding onAuthSubmit_def Let_def
    by (rule keeps_off_Upd, simp, rule keeps_off_Upd, simp) (auto intro!: off_rules)
qed

lemma busy_handlers_off: "(p, flag) \<in> set (busy_handlers env c) \<Longrightarrow> keeps_off flag p"
  by (auto simp: busy_handlers_def off_events off_agent)

text \<open>
  C35. No control of the dashboard stays disabled: however a handler that sets a busy flag ends, by success,
  by a refusal of the server or by an exception, the flag is off.
\<close>

theorem dashboard_not_left_busy:
  assumes "(p, flag) \<in> set (busy_handlers env c)"
    and "result p w rs \<noteq> Blocked" and "\<not> flag w"
  shows "\<not> flag (final p w rs)"
proof -
  have "keeps_off flag p"
    using assms(1) busy_handlers_off by blast
  then show ?thesis using assms(2,3) by (simp add: keeps_off_def)
qed

theorem dashboard_not_left_busy_witness:
  "\<not> loadingEvents (final loadEvents (initial_dash None) [One (Rejected OtherExn)])"
proof (rule dashboard_not_left_busy)
  show "(loadEvents, loadingEvents) \<in> set (busy_handlers env (initial_dash None))" for env
    by (simp add: busy_handlers_def)
  show "result loadEvents (initial_dash None) [One (Rejected OtherExn)] \<noteq> Blocked"
    by (simp add: loadEvents_def dash_fetch_def catch_def)
qed (simp add: initial_dash_def)

end
