(* ===== verification/Dash_Races.thy ===== *)
theory Dash_Races
  imports Dash_Page
begin

text \<open>
  Interleavings of the dashboard's handlers that leave it in a state its guards do not expect. The
  deposits of an event are asked for when it is opened, and whatever reply arrives last is
  kept, also when another event has been opened since.
\<close>

section \<open>A signed-in host with two events\<close>

definition listed :: "app_user \<Rightarrow> event_summary list \<Rightarrow> dash \<Rightarrow> bool" where
  "listed u es w \<longleftrightarrow> \<not> authLoading w \<and> currentUser w = Some u \<and> \<not> agentSecurityMode w \<and> events w = es \<and>
     list_query w = initial_query \<and> eventPage w = 1 \<and> \<not> deleting w"

abbreviation dash_reach :: "dash_env \<Rightarrow> (dash, dash_request, dash_reply) config \<Rightarrow> bool" where
  "dash_reach env \<equiv> reach (dash_enabled env) (dash_handler env) dash_fits dash_start"

lemma both_shown:
  assumes "events w = [e1, e2]" "list_query w = initial_query" "eventPage w = 1"
  shows "set (paginatedEvents env w) = {e1, e2}"
proof -
  have "event_matches (dash_zone env) initial_query e" for e
    by (simp add: event_matches_def in_window_def date_bound_def initial_query_def Let_def)
  then have s: "shown_events env w = js_sort (compare_events (collation env) (dash_zone env) ByEventDate Asc) [e1, e2]"
    using assms by (simp add: shown_events_def filteredAndSortedEvents_def initial_query_def)
  then have "length (shown_events env w) = 2" "set (shown_events env w) = {e1, e2}"
    by (simp_all only: length_js_sort set_js_sort) simp_all
  then show ?thesis
    using assms(3) by (simp add: paginatedEvents_def pageSlice_def slice_def EVENT_PAGE_SIZE_def)
qed

lemma listed_reached:
  obtains w ps where "dash_reach env (w, ps)" "listed u [e1, e2] w" "seenSelected w = None" "\<not> loadingEvents w"
proof -
  let ?w0 = "initial_dash None"
  have r0: "dash_reach env (?w0, [])" by (rule reach_start) (auto simp: dash_start_def)
  define p1 w1 where "p1 = fst (advance (sessionCheck ?w0) ?w0)" and "w1 = snd (advance (sessionCheck ?w0) ?w0)"
  have r1: "dash_reach env (w1, [] @ [p1])"
    by (rule reach_fire [OF r0, where e = "Effect SessionEffect"])
      (simp_all add: initial_dash_def p1_def w1_def)
  define ok1 where "ok1 = One (Response 200 [] (Some (UserJson (Some u))))"
  define w2 where "w2 = snd (advance (reply_of p1 ok1) w1)"
  have f1: "request_of p1 = Some GetMe" "w2 = ?w0\<lparr>seenSession := Some 0, authLoading := False, currentUser := Some u\<rparr>"
    by (simp_all add: p1_def w2_def w1_def ok1_def sessionCheck_def Let_def dash_fetch_def catch_def
        dash_json_as_def res_json_def user_json_def still_checking_def initial_dash_def)
  define q1 where "q1 = fst (advance (reply_of p1 ok1) w1)"
  have r2: "dash_reach env (w2, ([] @ [p1])[0 := q1])"
    by (rule reach_reply [OF r1, where q = GetMe and r = ok1]) (simp_all add: f1(1) q1_def w2_def prod_eq_iff, simp add: ok1_def)
  define p3 w3 where "p3 = fst (advance (dash_handler env (Effect UserEffect) w2) w2)"
    and "w3 = snd (advance (dash_handler env (Effect UserEffect) w2) w2)"
  have r3: "dash_reach env (w3, ([] @ [p1])[0 := q1] @ [p3])"
    by (rule reach_fire [OF r2, where e = "Effect UserEffect"]) (simp_all add: f1(2) p3_def w3_def)
  define ok3 where "ok3 = One (Response 200 [] (Some (EventsJson (Some [e1, e2]))))"
  define q3 w4 where "q3 = fst (advance (reply_of p3 ok3) w3)" and "w4 = snd (advance (reply_of p3 ok3) w3)"
  have f3: "request_of p3 = Some GetEvents" "listed u [e1, e2] w4" "seenSelected w4 = None" "\<not> loadingEvents w4"
    by (simp_all add: p3_def w3_def w4_def ok3_def f1(2) loadEvents_def dash_fetch_def catch_def require_ok_def
        dash_json_as_def res_json_def events_json_def listed_def initial_dash_def)
  have "dash_reach env (w4, (([] @ [p1])[0 := q1] @ [p3])[1 := q3])"
    by (rule reach_reply [OF r3, where q = GetEvents and r = ok3]) (simp_all add: f3(1) q3_def w4_def prod_eq_iff, simp add: ok3_def)
  then show ?thesis using f3 that by blast
qed

definition rows_reply :: "checkout_row list \<Rightarrow> dash_reply" where
  "rows_reply rows = One (Response 200 [] (Some (CheckoutsJson (Some rows))))"

text \<open>Opening one of the two events: the panel shows it, and its deposits are asked for.\<close>

lemma open_event:
  assumes ids: "es_eventId e1 \<noteq> es_eventId e2" "es_eventId e1 \<noteq> 0" "es_eventId e2 \<noteq> 0"
    and reached: "dash_reach env (w, ps)" "listed u [e1, e2] w" "e \<in> {e1, e2}" "seenSelected w \<noteq> Some (Some (es_eventId e))"
  shows "\<exists>w' p. dash_reach env (w', ps @ [Ret (), p]) \<and> listed u [e1, e2] w' \<and>
     request_of p = Some (GetCheckouts (es_eventId e)) \<and> selectedEvent w' = Some e \<and>
     seenSelected w' = Some (Some (es_eventId e)) \<and> panel_shown w' \<and> detailMode w' = Edit \<and>
     detailTab w' = InfoTab \<and> description w' = or_else (es_description e) [] \<and>
     (\<forall>v rows. advance (reply_of p (rows_reply rows)) v = (Ret (), v\<lparr>checkouts := rows, loadingCheckouts := False\<rparr>))"
proof -
  let ?i = "es_eventId e"
  have v: "page_view w = EventView" using reached(2) by (simp add: page_view_def listed_def)
  have "?i \<in> set (map es_eventId (paginatedEvents env w))"
    using both_shown [of w] reached(2,3) by (auto simp: listed_def)
  then have "dash_reach env (openEditDetail ?i w, ps @ [Ret ()])"
    by (intro reach_fire [OF reached(1), where e = "List (ClickEvent ?i)"]) (simp_all add: v local_update_def)
  note r1 = this
  define w1 where "w1 = openEditDetail ?i w"
  have w1: "listed u [e1, e2] w1" "seenSelected w1 = seenSelected w" "selectedEvent w1 = Some e" "selectedEventID w1 = Some ?i"
      "detailRender w1" "detailMode w1 = Edit" "detailTab w1 = InfoTab"
    using reached(2,3) ids
    by (auto simp: w1_def openEditDetail_def listed_def selectedEvent_def find_event_def)
  define p w2 where "p = fst (advance (selectionEffect env w1) w1)" and "w2 = snd (advance (selectionEffect env w1) w1)"
  have "dash_reach env (w2, (ps @ [Ret ()]) @ [p])"
    by (rule reach_fire [OF r1 [folded w1_def], where e = "Effect SelectionEffect"])
      (use reached(4) w1 in \<open>simp_all add: p_def w2_def\<close>)
  moreover have i: "?i \<noteq> 0" using reached(3) ids by auto
  have "listed u [e1, e2] w2 \<and> selectedEvent w2 = Some e \<and> seenSelected w2 = Some (Some ?i) \<and> detailRender w2 \<and> detailMode w2 = Edit
      \<and> detailTab w2 = InfoTab \<and> description w2 = or_else (es_description e) []"
    using w1 i by (simp add: w2_def selectionEffect_def refreshCheckouts_def fillFormFromEvent_def listed_def
        selectedEvent_def catch_def dash_fetch_def)
  moreover have "request_of p = Some (GetCheckouts ?i)"
    using w1 i by (simp add: p_def selectionEffect_def refreshCheckouts_def catch_def dash_fetch_def)
  moreover have "advance (reply_of p (rows_reply rows)) v = (Ret (), v\<lparr>checkouts := rows, loadingCheckouts := False\<rparr>)" for v rows
    using w1 i by (simp add: p_def selectionEffect_def refreshCheckouts_def catch_def dash_fetch_def rows_reply_def
        require_ok_def dash_json_as_def res_json_def checkouts_json_def)
  ultimately show ?thesis
    by (intro exI [of _ w2] exI [of _ p]) (auto simp: panel_shown_def signed_in_view_def page_view_def listed_def)
qed

section \<open>Properties\<close>

text \<open>
  C12. A late reply can show the deposits of another event: with two events of a host there is a
  reachable state in which the second is open and its deposits (\<open>rows2\<close>) have arrived, and the
  pending reply for the first (\<open>rows1\<close>) then replaces them. If none of \<open>rows1\<close> is paid, the button
  that deletes the second event is enabled, whatever is paid in \<open>rows2\<close>.
\<close>

theorem stale_deposits_shown:
  fixes e1 e2 :: event_summary
  assumes "es_eventId e1 \<noteq> es_eventId e2" "es_eventId e1 \<noteq> 0" "es_eventId e2 \<noteq> 0"
  shows "\<exists>w ps i. dash_reach env (w, ps) \<and> selectedEvent w = Some e2 \<and> checkouts w = rows2
     \<and> i < length ps \<and> request_of (ps ! i) = Some (GetCheckouts (es_eventId e1))
     \<and> (let w' = snd (advance (reply_of (ps ! i) (rows_reply rows1)) w)
        in dash_reach env (w', ps[i := Ret ()]) \<and> selectedEvent w' = Some e2 \<and> checkouts w' = rows1
           \<and> (\<not> hasPaidDeposits rows1 \<longrightarrow> delete_enabled w'))"
proof -
  obtain w0 ps where r0: "dash_reach env (w0, ps)" "listed u [e1, e2] w0" "seenSelected w0 = None"
    by (rule listed_reached)
  have n: "seenSelected w0 \<noteq> Some (Some (es_eventId e1))" "e1 \<in> {e1, e2}" "e2 \<in> {e1, e2}" using r0(3) by auto
  obtain w1 p where r1: "dash_reach env (w1, ps @ [Ret (), p])" "listed u [e1, e2] w1"
      "request_of p = Some (GetCheckouts (es_eventId e1))" "seenSelected w1 = Some (Some (es_eventId e1))"
      "\<And>v rows. advance (reply_of p (rows_reply rows)) v = (Ret (), v\<lparr>checkouts := rows, loadingCheckouts := False\<rparr>)"
    using open_event [OF assms r0(1,2) n(2,1)] by blast
  have n1: "seenSelected w1 \<noteq> Some (Some (es_eventId e2))" using r1(4) assms by auto
  obtain w2 q where r2: "dash_reach env (w2, (ps @ [Ret (), p]) @ [Ret (), q])" "listed u [e1, e2] w2"
      "request_of q = Some (GetCheckouts (es_eventId e2))" "selectedEvent w2 = Some e2" "panel_shown w2" "detailMode w2 = Edit"
      "\<And>v rows. advance (reply_of q (rows_reply rows)) v = (Ret (), v\<lparr>checkouts := rows, loadingCheckouts := False\<rparr>)"
    using open_event [OF assms r1(1,2) n(3) n1] by blast
  define qs where "qs = ((ps @ [Ret (), p]) @ [Ret (), q])[length ps + 3 := Ret ()]"
  define w3 where "w3 = w2\<lparr>checkouts := rows2, loadingCheckouts := False\<rparr>"
  have r3: "dash_reach env (w3, qs)"
    unfolding w3_def qs_def using r2(1,3,7)
    by (intro reach_reply [OF r2(1), where q = "GetCheckouts (es_eventId e2)" and r = "rows_reply rows2"])
      (simp_all add: nth_append rows_reply_def)
  have i: "length ps + 1 < length qs" "qs ! (length ps + 1) = p" by (simp_all add: qs_def nth_append)
  have r4: "dash_reach env (w3\<lparr>checkouts := rows1, loadingCheckouts := False\<rparr>, qs[length ps + 1 := Ret ()])"
    using r1(3,5) i
    by (intro reach_reply [OF r3, where q = "GetCheckouts (es_eventId e1)" and r = "rows_reply rows1"])
      (simp_all add: rows_reply_def)
  show ?thesis
    using r2(2,4,5,6) r1(3,5) i r3 r4
    by (intro exI [of _ w3] exI [of _ qs] exI [of _ "length ps + 1"])
      (auto simp: w3_def Let_def delete_enabled_def selectedEvent_def panel_shown_def signed_in_view_def page_view_def listed_def)
qed

definition demo_dash_env :: dash_env where
  "demo_dash_env = \<lparr>dash_zone = fixed_zone 0, collation = (\<lambda>_ _. 0), dash_origin = []\<rparr>"

definition demo_deposit_row :: checkout_row where
  "demo_deposit_row = \<lparr>cr_id = 1, cr_walletAddress = [], cr_reference = ''ref'', cr_signature = [], cr_status = ''paid'',
     cr_createdAt = [], cr_paidAt = [], cr_participantData = None\<rparr>"

theorem stale_deposits_shown_witness:
  "\<exists>w ps i. dash_reach demo_dash_env (w, ps) \<and> hasPaidDeposits (checkouts w) \<and>
     delete_enabled (snd (advance (reply_of (ps ! i) (rows_reply [])) w))"
proof -
  let ?e1 = "demo_row ''a'' []" and ?e2 = "(demo_row ''b'' [])\<lparr>es_eventId := 2\<rparr>"
  have e: "es_eventId ?e1 \<noteq> es_eventId ?e2" "es_eventId ?e1 \<noteq> 0" "es_eventId ?e2 \<noteq> 0"
    by (simp_all add: demo_row_def)
  have "hasPaidDeposits [demo_deposit_row]" "\<not> hasPaidDeposits []"
    by (simp_all add: hasPaidDeposits_def demo_deposit_row_def)
  then show ?thesis using stale_deposits_shown [OF e, of demo_dash_env "[demo_deposit_row]" "[]"]
    unfolding Let_def by metis
qed

section \<open>Signing out\<close>

definition ok_response :: "dash_json \<Rightarrow> dash_reply" where
  "ok_response b = One (Response 200 [] (Some b))"

lemma logout_run:
  fixes w v :: dash
  defines "q \<equiv> fst (advance logout w)"
  shows "snd (advance logout w) = w" "request_of q = Some PostLogout"
    "advance (reply_of q (ok_response b)) v = (Ret (), clear_session v)"
  by (simp_all add: q_def logout_def dash_fetch_def catch_def ok_response_def prog_simps)

lemma load_run:
  fixes w v :: dash
  defines "p \<equiv> fst (advance loadEvents w)"
  shows "snd (advance loadEvents w) = w\<lparr>loadingEvents := True, dash_error := []\<rparr>" "request_of p = Some GetEvents"
    "advance (reply_of p (ok_response (EventsJson (Some es)))) v = (Ret (), v\<lparr>events := es,
       selectedEventID := (case selectedEventID v of None \<Rightarrow> None
         | Some prev \<Rightarrow> if list_ex (\<lambda>e. es_eventId e = prev) es then Some prev else None), loadingEvents := False\<rparr>)"
  by (simp_all add: p_def loadEvents_def dash_fetch_def catch_def ok_response_def require_ok_def dash_json_as_def
      res_json_def events_json_def prog_simps)

lemma google_run:
  fixes w v :: dash and k :: jstr
  defines "p \<equiv> fst (advance (googleCallback k) w)"
  shows "snd (advance (googleCallback k) w) = w\<lparr>authSubmitting := True\<rparr>" "request_of p = Some (PostGoogle k)"
    "advance (reply_of p (ok_response (UserJson (Some u)))) v =
       (Ret (), v\<lparr>currentUser := Some u, dash_error := [], authSubmitting := False\<rparr>)"
  by (simp_all add: p_def googleCallback_def dash_fetch_def catch_def ok_response_def require_ok_def dash_json_as_def
      res_json_def user_json_def prog_simps)

abbreviation dash_steps :: "dash_env \<Rightarrow> (dash, dash_request, dash_reply) config \<Rightarrow> (dash, dash_request, dash_reply) config \<Rightarrow> bool" where
  "dash_steps env \<equiv> (sys_step (dash_enabled env) (dash_handler env) dash_fits)\<^sup>*\<^sup>*"

text \<open>An event whose handler waits for one reply, and that reply: the handler has run.\<close>

lemma fire_and_reply:
  assumes "dash_enabled env e w" "advance (dash_handler env e w) w = (p, v)"
    and "request_of p = Some q" "dash_fits q r" "advance (reply_of p r) v = (Ret (), u)"
  shows "dash_steps env (w, ps) (u, ps @ [Ret ()])"
proof -
  obtain k where k: "p = Await q k" using assms(3) by (cases p) auto
  have "sys_step (dash_enabled env) (dash_handler env) dash_fits (v, ps @ [p]) (u, (ps @ [p])[length ps := Ret ()])"
    by (rule reply [where q = q and k = k and r = r]) (use assms(4,5) k in simp_all)
  then show ?thesis
    using fire [where en = "dash_enabled env" and hs = "dash_handler env" and R = dash_fits and ps = ps, OF assms(1,2)] by (simp add: converse_rtranclp_into_rtranclp)
qed

text \<open>
  C40. The events of one host can be shown to the next: signing out does not stop a load that is under way.
  A load \<open>i\<close> is started while \<open>u\<close> is signed in; \<open>u\<close> signs out, which empties the list; the reply to
  the load fills it again, and \<open>v\<close>, who signs in next, is shown that list.
\<close>

theorem events_after_logout:
  fixes u v :: app_user
  shows "\<exists>w1 ps i w2 w3 w4. dash_reach env (w1, ps) \<and> currentUser w1 = Some u \<and> i < length ps \<and> request_of (ps ! i) = Some GetEvents
     \<and> dash_steps env (w1, ps) (w2, ps @ [Ret ()]) \<and> currentUser w2 = None \<and> events w2 = []
     \<and> dash_steps env (w2, ps @ [Ret ()]) (w3, ps[i := Ret ()] @ [Ret ()])
     \<and> w3 = snd (advance (reply_of (ps ! i) (ok_response (EventsJson (Some [e1, e2])))) w2)
     \<and> dash_steps env (w3, ps[i := Ret ()] @ [Ret ()]) (w4, ps[i := Ret ()] @ [Ret (), Ret ()])
     \<and> page_view w4 = EventView \<and> currentUser w4 = Some v \<and> events w4 = [e1, e2]"
proof -
  obtain w0 ps where r0: "dash_reach env (w0, ps)" "listed u [e1, e2] w0" "\<not> loadingEvents w0"
    by (rule listed_reached)
  note l = r0(2) [unfolded listed_def]
  have f: "dash_fits PostLogout (ok_response (UserJson None))" "dash_fits GetEvents (ok_response (EventsJson x))"
    "dash_fits (PostGoogle k) (ok_response (UserJson y))" for x y k
    by (simp_all add: ok_response_def)
  define p w1 where "p = fst (advance loadEvents w0)" and "w1 = w0\<lparr>loadingEvents := True, dash_error := []\<rparr>"
  note load = load_run [of w0, folded p_def w1_def]
  have r1: "dash_reach env (w1, ps @ [p])"
    by (rule reach_fire [OF r0(1), where e = "List ClickRefreshEvents"])
      (use l r0(3) in \<open>simp_all add: page_view_def prod_eq_iff p_def load(1)\<close>)
  have s2: "dash_steps env (w1, ps @ [p]) (clear_session w1, (ps @ [p]) @ [Ret ()])"
    by (rule fire_and_reply [where e = "Auth ClickLogout" and v = w1, OF _ _ logout_run(2) f(1) logout_run(3)])
      (use l in \<open>simp_all add: signed_in_view_def page_view_def w1_def prod_eq_iff logout_run(1)\<close>)
  define w3 where "w3 = snd (advance (reply_of p (ok_response (EventsJson (Some [e1, e2])))) (clear_session w1))"
  have w3: "events w3 = [e1, e2]" "authLoading w3 = authLoading w0" "agentSecurityMode w3 = agentSecurityMode w0" "currentUser w3 = None"
    by (simp_all add: w3_def load(3) clear_session_def resetForm_def w1_def)
  obtain k where k: "p = Await GetEvents k" using load(2) by (cases p) auto
  have s3: "dash_steps env (clear_session w1, (ps @ [p]) @ [Ret ()]) (w3, (ps @ [p])[length ps := Ret ()] @ [Ret ()])"
    using reply_eq [of "length ps" "(ps @ [p]) @ [Ret ()]" GetEvents k dash_fits "ok_response (EventsJson (Some [e1, e2]))"
        "dash_enabled env" "dash_handler env" "clear_session w1"] load(3) [of "[e1, e2]" "clear_session w1"]
    by (simp add: nth_append k f w3_def r_into_rtranclp)
  define w4 where "w4 = w3\<lparr>authSubmitting := True, currentUser := Some v, dash_error := [], authSubmitting := False\<rparr>"
  have s4: "dash_steps env (w3, qs) (w4, qs @ [Ret ()])" for qs
    by (rule fire_and_reply [where e = "Auth (GoogleCredential ''credential'')" and v = "w3\<lparr>authSubmitting := True\<rparr>",
          OF _ _ google_run(2) f(3) google_run(3) [where u = v, THEN trans]])
      (use w3 l in \<open>simp_all add: prod_eq_iff google_run(1) w4_def\<close>)
  have "page_view w4 = EventView \<and> currentUser w4 = Some v \<and> events w4 = [e1, e2]"
    using w3 l by (simp add: w4_def page_view_def)
  then show ?thesis
    using r1 s2 s3 s4 [of "(ps @ [p])[length ps := Ret ()] @ [Ret ()]"] load(2) l
    by (intro exI [of _ w1] exI [of _ "ps @ [p]"] exI [of _ "length ps"] exI [of _ "clear_session w1"] exI [of _ w3] exI [of _ w4])
      (simp add: w3_def w1_def clear_session_def resetForm_def)
qed

end
