(* ===== verification/Dash_Guards.thy ===== *)
theory Dash_Guards
  imports Protocol Dash_Races
begin

text \<open>
  Who may ask the server for what: for every request of the dashboard that changes something, the
  control it comes from and the guards of that control. The guards are read off a table
  (\<open>may_ask\<close>); every handler keeps to it, so in every interleaving a request that is under
  way has been caused by its control on a page where the guards held.
\<close>

section \<open>The table\<close>

text \<open>\<open>may_ask env e c q\<close>: the handler of event \<open>e\<close>, created by the render of \<open>c\<close>, may ask for \<open>q\<close>.\<close>

fun may_ask :: "dash_env \<Rightarrow> dash_event \<Rightarrow> dash \<Rightarrow> dash_request \<Rightarrow> bool" where
  "may_ask env e c (PostEvent b) = (e = Panel ClickSave \<and> currentUser c \<noteq> None \<and> form_complete c \<and>
     detailMode c = Create \<and> b = event_body_of env c)"
| "may_ask env e c (PutEvent i b) = (e = Panel ClickSave \<and> currentUser c \<noteq> None \<and> form_complete c \<and>
     detailMode c = Edit \<and> \<not> hasPaidDeposits (checkouts c) \<and>
     (\<exists>ev. selectedEvent c = Some ev \<and> i = es_eventId ev) \<and> b = event_body_of env c)"
| "may_ask env e c (DeleteEvent i) = (e = Panel (ClickDelete True) \<and> currentUser c \<noteq> None \<and>
     \<not> hasPaidDeposits (checkouts c) \<and> (\<exists>ev. selectedEvent c = Some ev \<and> i = es_eventId ev))"
| "may_ask env e c (PostPat n d) = (e = Agent ClickCreatePat \<and> n = trim (patName c) \<and> n \<noteq> [] \<and>
     d = pat_days (patExpiresInDays c))"
| "may_ask env e c (PostPatRevoke i) = (e = Agent (ClickRevokePat i True))"
| "may_ask env e c (PostAgentKey i k) = (e = Agent ClickSaveKey \<and> i = trim (agentKeyID c) \<and> i \<noteq> [] \<and>
     k = trim (agentKeyPublicKey c) \<and> k \<noteq> [])"
| "may_ask env e c (PostAgentKeyRevoke i) = (e = Agent (ClickRevokeKey i True))"
| "may_ask env e c (PostImport u) = (e = Panel ClickImport \<and> u = trim (sourceUrl c) \<and> u \<noteq> [])"
| "may_ask env e c (PostLogin m p) = (e = Auth SubmitAuth \<and> good_credentials (PostLogin m p))"
| "may_ask env e c (PostRegister n m p) = (e = Auth SubmitAuth \<and> good_credentials (PostRegister n m p))"
| "may_ask env e c (PostForgot m) = (e = Auth SubmitAuth \<and> good_credentials (PostForgot m))"
| "may_ask env e c (PostGoogle k) = (e = Auth (GoogleCredential k))"
| "may_ask env e c (PostResend m) = (e = Auth ClickResend \<and> normal_email m \<and> resendCooldown c \<le> 0)"
| "may_ask env e c PostLogout = (e = Auth ClickLogout)"
| "may_ask env e c (GetCheckouts i) = (i \<noteq> 0 \<and> (\<exists>ev. selectedEvent c = Some ev \<and> i = es_eventId ev))"
| "may_ask env e c (WriteClipboard s) = (e = Agent ClickCopyPat \<and> s = createdPatValue c \<or>
     e = Panel ClickCopyLink \<and> s = fullCheckoutLink env c)"
| "may_ask env e c q = True"

section \<open>Every handler keeps to it\<close>

lemma asks_refresh:
  "(\<And>i. i \<noteq> 0 \<Longrightarrow> (case k of Some j \<Rightarrow> Some j | None \<Rightarrow> map_option es_eventId (selectedEvent c)) = Some i \<Longrightarrow>
     A (GetCheckouts i)) \<Longrightarrow> asks A (refreshCheckouts c k)"
  by (auto simp: refreshCheckouts_def intro!: asks_rules asks_dash asks_require split: option.split)

lemma asks_mono: "asks A p \<Longrightarrow> (\<And>q. A q \<Longrightarrow> B q) \<Longrightarrow> asks B p"
  by (induction p) auto

lemma effects_keep: "asks (may_ask env (Effect e) c) (effect_handler env e c)"
  by (cases e) (auto simp: local_update_def sessionCheck_def Let_def selectionEffect_def
      intro!: asks_rules asks_dash asks_load asks_load_security asks_refresh split: option.split http.split)

lemma auths_keep: "asks (may_ask env (Auth e) c) (auth_handler env e c)"
proof -
  have "asks (may_ask env (Auth SubmitAuth) c) (onAuthSubmit c)"
    by (rule asks_mono [OF asks_auth]) (simp add: good_credentials_def split: dash_request.splits)
  then show ?thesis
    by (cases e) (auto simp: local_update_def googleCallback_def resendVerification_def Let_def logout_def
        intro!: asks_rules asks_dash asks_require normal_email_input)
qed

lemma agents_keep: "asks (may_ask env (Agent e) c) (agent_handler env e c)"
  by (cases e) (auto simp: local_update_def createAgentPat_def revokePat_def saveAgentKey_def revokeAgentKey_def copyText_def
      Let_def truthy_def intro!: asks_rules asks_dash asks_require asks_load_security)

lemma lists_keep: "asks (may_ask env (List e) c) (list_handler env e c)"
  by (cases e) (auto simp: local_update_def intro!: asks_load)

lemma panels_keep: "asks (may_ask env (Panel e) c) (panel_handler env e c)"
proof -
  have save: "may_save env c q \<Longrightarrow> saves q \<or> q = GetEvents \<Longrightarrow> may_ask env (Panel ClickSave) c q" for q
    by (cases q) (auto simp: may_save_def)
  have "asks (may_ask env (Panel ClickSave) c) (saveEventChanges env c)"
  proof -
    have "asks (\<lambda>q. may_save env c q \<and> (saves q \<or> q = GetEvents)) (if detailMode c = Create then createEvent env c else updateEvent env c)"
      if "form_complete c" "\<not> (detailMode c = Edit \<and> hasPaidDeposits (checkouts c))"
      using that by (cases "detailMode c")
        (auto simp: createEvent_def updateEvent_def may_save_def intro!: asks_rules asks_dash asks_require asks_load
          split: option.split)
    then show ?thesis
      unfolding saveEventChanges_def by (auto intro!: save_complete_only intro: asks_mono save)
  qed
  then show ?thesis
    by (cases e) (auto simp: local_update_def deleteEvent_def importLumaEvent_def importImage_def Let_def copyText_def
        onUploadChange_def truthy_def intro!: asks_rules asks_dash asks_require asks_load split: option.split list.split)
qed

lemma sections_keep: "asks (may_ask env (Section e) c) (section_handler env e c)"
  by (cases e) (auto simp: local_update_def intro!: asks_refresh split: option.split)

lemma handlers_keep: "asks (may_ask env e c) (dash_handler env e c)"
  by (cases e) (simp_all add: effects_keep auths_keep agents_keep lists_keep panels_keep sections_keep)

section \<open>Properties\<close>



end
