(* ===== verification/Description_Editor.thy ===== *)
theory Description_Editor
  imports Dash_Races
begin

text \<open>
  The editor of an event's description in \<^verbatim>\<open>frontend/src/app/app/page.tsx\<close>: an element that the user edits and
  React does not control. Typing writes the state cell from the element (\<open>onInput\<close>), an effect on
  \<open>[description]\<close> writes the element from the cell. The element comes and goes with the general section
  of the panel, on its own time; the effect runs only when the cell changes.
\<close>

section \<open>The element and the effect\<close>

text \<open>
  \<open>editorHtml\<close> is the element's \<open>innerHTML\<close>, \<open>None\<close> while \<open>descriptionEditorRef.current\<close> is \<open>null\<close>;
  \<open>editorNarrow\<close> says in which of the two layouts it stands, which share no element; \<open>seenDescription\<close> is
  the value for which the effect has run last.
\<close>

record editor =
  editorHtml :: "jstr option"
  editorNarrow :: bool
  seenDescription :: jstr

text \<open>\<open>reads s\<close> is what \<open>innerHTML\<close> reads after \<open>s\<close> has been assigned to it: the browser's HTML parser and serializer.\<close>

definition syncDescription :: "(jstr \<Rightarrow> jstr) \<Rightarrow> jstr \<Rightarrow> jstr option \<Rightarrow> jstr option" where
  "syncDescription reads d h = (case h of None \<Rightarrow> None | Some t \<Rightarrow> if t \<noteq> d then Some (reads d) else Some t)"

text \<open>The element after React has updated the document: a new one is empty.\<close>

definition update_editor :: "dash \<Rightarrow> editor \<Rightarrow> jstr option" where
  "update_editor w ed = (if \<not> info_shown w then None
     else if editorNarrow ed = isMobile w then (case editorHtml ed of None \<Rightarrow> Some [] | Some t \<Rightarrow> Some t)
     else Some [])"

definition commit_editor :: "(jstr \<Rightarrow> jstr) \<Rightarrow> dash \<Rightarrow> editor \<Rightarrow> editor" where
  "commit_editor reads w ed = (let h = update_editor w ed
     in \<lparr>editorHtml = (if seenDescription ed \<noteq> description w then syncDescription reads (description w) h else h),
         editorNarrow = isMobile w, seenDescription = description w\<rparr>)"

definition mount_editor :: "dash \<Rightarrow> editor" where
  "mount_editor w = \<lparr>editorHtml = None, editorNarrow = isMobile w, seenDescription = description w\<rparr>"

text \<open>What an event does to the element itself.\<close>

fun typed :: "dash_event \<Rightarrow> editor \<Rightarrow> editor" where
  "typed (Panel (TypeDescription h)) ed = ed\<lparr>editorHtml := Some h\<rparr>"
| "typed (Panel (FormatDescription f l h)) ed =
     (if f = ''createLink'' \<and> \<not> truthy l then ed else ed\<lparr>editorHtml := Some h\<rparr>)"
| "typed e ed = ed"

section \<open>The dashboard with its editor\<close>

inductive editor_reach :: "(jstr \<Rightarrow> jstr) \<Rightarrow> dash_env \<Rightarrow> (dash, dash_request, dash_reply) config \<Rightarrow> editor \<Rightarrow> bool" for reads env where
  mounts: "dash_start w \<Longrightarrow> editor_reach reads env (w, []) (mount_editor w)"
| fires: "editor_reach reads env (w, ps) ed \<Longrightarrow> dash_enabled env e w \<Longrightarrow> advance (dash_handler env e w) w = (p, w') \<Longrightarrow>
    editor_reach reads env (w', ps @ [p]) (commit_editor reads w' (typed e ed))"
| answers: "editor_reach reads env (w, ps) ed \<Longrightarrow> i < length ps \<Longrightarrow> ps ! i = Await q k \<Longrightarrow> dash_fits q r \<Longrightarrow>
    advance (k r) w = (p, w') \<Longrightarrow> editor_reach reads env (w', ps[i := p]) (commit_editor reads w' ed)"

lemma editor_projects: "editor_reach reads env c ed \<Longrightarrow> dash_reach env c"
  by (induction rule: editor_reach.induct) (auto intro: reach_start reach_step fire reply)

lemma editor_exists: "dash_reach env c \<Longrightarrow> \<exists>ed. editor_reach reads env c ed"
proof (induction rule: reach.induct)
  case (reach_step c c')
  from reach_step(2,3) show ?case by cases (blast intro: fires answers)+
qed (blast intro: mounts)

text \<open>The element is there exactly when its section is, and the effect has run for the current value.\<close>

definition editor_inv :: "dash \<Rightarrow> editor \<Rightarrow> bool" where
  "editor_inv w ed \<longleftrightarrow> (editorHtml ed \<noteq> None \<longleftrightarrow> info_shown w) \<and> seenDescription ed = description w \<and>
     editorNarrow ed = isMobile w"

lemma commit_inv: "editor_inv w (commit_editor reads w ed)"
  by (auto simp: editor_inv_def commit_editor_def syncDescription_def update_editor_def Let_def split: option.split)

lemma start_hidden: "dash_start w \<Longrightarrow> \<not> info_shown w"
  by (auto simp: dash_start_def info_shown_def panel_shown_def initial_dash_def)

lemma editor_reach_inv: "editor_reach reads env c ed \<Longrightarrow> editor_inv (fst c) ed"
proof (induction rule: editor_reach.induct)
  case (mounts w)
  then show ?case by (simp add: editor_inv_def mount_editor_def start_hidden)
qed (simp_all add: commit_inv)

text \<open>A change of the value while the element stays reaches the element.\<close>

lemma editor_takes_change:
  assumes "editor_inv w ed" "description w' \<noteq> description w" "info_shown w'"
  shows "editorHtml (commit_editor reads w' ed) \<in> {Some (description w'), Some (reads (description w'))}"
  using assms by (auto simp: editor_inv_def commit_editor_def syncDescription_def update_editor_def Let_def split: option.split)

lemma editor_unchanged:
  assumes "editor_inv w ed" "description w' = description w" "info_shown w'" "\<not> info_shown w"
  shows "editorHtml (commit_editor reads w' ed) = Some []"
  using assms by (auto simp: editor_inv_def commit_editor_def update_editor_def Let_def)

section \<open>Properties\<close>



end
