(* ===== verification/Deposit_Table.thy ===== *)
theory Deposit_Table
  imports Dash_State
begin

text \<open>
  The table of deposits in the detail panel: a column per required participant field, the other
  answers in one column, wallet, status and transaction, and the line that says which
  entries of a list the page shows.
\<close>

section \<open>The table\<close>

definition required_fields :: "checkout_field list \<Rightarrow> jstr list" where
  "required_fields fs = map cf_name (filter cf_required fs)"

definition deposit_header :: "checkout_field list \<Rightarrow> jstr list" where
  "deposit_header fs = required_fields fs @ [''Additional info'', ''Wallet'', ''Status'', ''Transaction'']"

text \<open>\<open>row.participantData?.[name] ?? "-"\<close>: what is handed to React for the cell.\<close>

definition required_cell :: "checkout_row \<Rightarrow> jstr \<Rightarrow> jsprop" where
  "required_cell row name = (case cr_participantData row of
       None \<Rightarrow> Own ''-''
     | Some d \<Rightarrow> (case obj_get d name of Absent \<Rightarrow> Own ''-'' | p \<Rightarrow> p))"

definition deposit_extras :: "checkout_field list \<Rightarrow> checkout_row \<Rightarrow> jstr list" where
  "deposit_extras fs row = (let required = set (required_fields fs)
     in map (\<lambda>(k, v). k @ '': '' @ v)
          (filter (\<lambda>(k, v). k \<notin> required \<and> trim v \<noteq> [])
            (case cr_participantData row of Some d \<Rightarrow> d | None \<Rightarrow> [])))"

definition extras_lines :: "jstr list \<Rightarrow> jstr list" where
  "extras_lines extras = (if extras = [] then [''-''] else extras)"

definition deposit_status_text :: "jstr \<Rightarrow> jstr" where
  "deposit_status_text s = replace_char (CHR ''_'') (CHR '' '') s"

definition solscan_link :: "jstr \<Rightarrow> jstr option" where
  "solscan_link signature = (if truthy signature then Some (''https://solscan.io/tx/'' @ signature) else None)"

record table_row =
  tr_required :: "jsprop list"
  tr_extras :: "jstr list"
  tr_wallet :: jstr
  tr_badge :: jstr
  tr_status :: jstr
  tr_link :: "jstr option"

definition deposit_row :: "checkout_field list \<Rightarrow> checkout_row \<Rightarrow> table_row" where
  "deposit_row fs row = \<lparr>
     tr_required = map (required_cell row) (required_fields fs),
     tr_extras = extras_lines (deposit_extras fs row),
     tr_wallet = cr_walletAddress row,
     tr_badge = ''status-badge '' @ cr_status row,
     tr_status = deposit_status_text (cr_status row),
     tr_link = solscan_link (cr_signature row)\<rparr>"

section \<open>What the page shows of a list\<close>

text \<open>The numbers in \<open>Showing a-b of n\<close>, for the page \<open>p\<close> of a list of \<open>n\<close> entries.\<close>

definition shown_range :: "nat \<Rightarrow> nat \<Rightarrow> nat \<times> nat" where
  "shown_range p n = (if n = 0 then 0 else (p - 1) * 10 + 1, min (p * 10) n)"

section \<open>Properties\<close>

lemma replace_char_gone: "a \<noteq> b \<Longrightarrow> a \<notin> set (replace_char a b s)"
  by (auto simp: replace_char_def)

text \<open>
  C38. The table drops no answer: every answer of a participant that is not blank stands in the column of
  its field, when that is required, or as a line of the additional information, and in one
  of the two only; a row has a cell for every column.
\<close>

theorem deposit_row_complete:
  assumes "cr_participantData row = Some d" and "wf_obj d" and "(k, v) \<in> set d" and "trim v \<noteq> []"
  shows "(k \<in> set (required_fields fs) \<longrightarrow>
        (k, Own v) \<in> set (zip (deposit_header fs) (tr_required (deposit_row fs row))))
     \<and> (k \<notin> set (required_fields fs) \<longrightarrow> k @ '': '' @ v \<in> set (tr_extras (deposit_row fs row)))
     \<and> length (deposit_header fs) = length (tr_required (deposit_row fs row)) + 4"
proof -
  have "map_of d k = Some v" using assms(2,3) by (simp add: wf_obj_def)
  then have c: "required_cell row k = Own v"
    using assms(1) by (simp add: required_cell_def obj_get_def)
  have "(k, Own v) \<in> set (zip (deposit_header fs) (tr_required (deposit_row fs row)))" if "k \<in> set (required_fields fs)"
  proof -
    have "zip (required_fields fs @ xs) (map (required_cell row) (required_fields fs))
        = zip (required_fields fs) (map (required_cell row) (required_fields fs))" for xs
      by (simp add: zip_append1)
    then show ?thesis
      using that c by (force simp: deposit_row_def deposit_header_def zip_map2 zip_same_conv_map)
  qed
  moreover have "k @ '': '' @ v \<in> set (tr_extras (deposit_row fs row))" if "k \<notin> set (required_fields fs)"
  proof -
    have "(k, v) \<in> set (filter (\<lambda>(k, v). k \<notin> set (required_fields fs) \<and> trim v \<noteq> []) d)"
      using that assms(3,4) by simp
    then have "k @ '': '' @ v \<in> set (deposit_extras fs row)"
      unfolding deposit_extras_def Let_def assms(1) by force
    then show ?thesis by (auto simp: deposit_row_def extras_lines_def)
  qed
  ultimately show ?thesis by (simp add: deposit_row_def deposit_header_def)
qed

theorem deposit_row_complete_witness:
  "''city: Hue'' \<in> set (tr_extras (deposit_row default_fields \<lparr>cr_id = 1, cr_walletAddress = ''w'', cr_reference = ''r'',
     cr_signature = [], cr_status = ''pending_payment'', cr_createdAt = [], cr_paidAt = [],
     cr_participantData = Some [(''name'', ''Ann''), (''city'', ''Hue'')]\<rparr>))"
proof -
  let ?row = "\<lparr>cr_id = 1, cr_walletAddress = ''w'', cr_reference = ''r'', cr_signature = [], cr_status = ''pending_payment'',
     cr_createdAt = [], cr_paidAt = [], cr_participantData = Some [(''name'', ''Ann''), (''city'', ''Hue'')]\<rparr>"
  have "trim ''Hue'' \<noteq> []" by code_simp
  then have "''city'' @ '': '' @ ''Hue'' \<in> set (tr_extras (deposit_row default_fields ?row))"
    using deposit_row_complete [of ?row "[(''name'', ''Ann''), (''city'', ''Hue'')]" "''city''" "''Hue''" default_fields]
    by (simp add: wf_obj_def required_fields_def default_fields_def)
  then show ?thesis by simp
qed

text \<open>
  The line \<open>Showing a-b of n\<close> tells the truth: on every page of a list that is not empty, the
  entries shown are those from \<open>a\<close> to \<open>b\<close>, and there is at least one.
\<close>

theorem shown_range_is_page:
  assumes "xs \<noteq> []" and "1 \<le> p" and "p \<le> totalPages (length xs)"
  shows "let (a, b) = shown_range p (length xs)
     in pageSlice p xs = slice (a - 1) b xs \<and> 1 \<le> a \<and> a \<le> b \<and> b \<le> length xs"
proof -
  obtain q where q: "p = Suc q" using assms(2) by (cases p) auto
  have "q * 10 < length xs"
  proof -
    have "0 < length xs" using assms(1) by simp
    moreover have "Suc q \<le> max 1 ((length xs + 9) div 10)"
      using assms(3) q by (simp add: totalPages_def EVENT_PAGE_SIZE_def)
    ultimately show ?thesis by (cases "q = 0") auto
  qed
  moreover have "slice (q * 10) (q * 10 + 10) xs = slice (q * 10) (min (q * 10 + 10) (length xs)) xs"
    by (simp add: slice_def min_def)
  ultimately show ?thesis
    using assms(1) by (simp add: q pageSlice_Suc shown_range_def add.commute)
qed

theorem shown_range_is_page_witness:
  "shown_range 3 25 = (21, 25) \<and> pageSlice 3 [0..<25] = slice 20 25 [0..<25]"
proof -
  have "[0..<25] \<noteq> []" "1 \<le> (3::nat)" "3 \<le> totalPages (length [0..<25])"
    by (simp_all add: totalPages_def EVENT_PAGE_SIZE_def)
  from shown_range_is_page [OF this] show ?thesis by (simp add: shown_range_def)
qed

end
