(* ===== verification/Dash_View.thy ===== *)
theory Dash_View
  imports Dash_Page Deposit_Table
begin

text \<open>
  What a render of the dashboard shows: the value that \<open>Home\<close> returns, as a tree of records with the
  texts, values and controls of the markup, for the narrow and the wide window. Constant texts
  and classes that only style are left out; marks of fields, tabs and cards are kept.
\<close>

section \<open>The tree\<close>

text \<open>A button: whether it is disabled, and its text.\<close>

type_synonym button_view = "bool \<times> jstr"

text \<open>\<open>Prev\<close> and \<open>Next\<close> (disabled or not) around \<open>Page p / n\<close>; the line \<open>Showing a-b of n\<close>.\<close>

record pager_view =
  pv_prev_off :: bool
  pv_page :: nat
  pv_pages :: nat
  pv_next_off :: bool

type_synonym range_view = "nat \<times> nat \<times> nat"

text \<open>
  The login card. The inputs that only some modes have are options; \<open>si_google\<close> says whether the element
  of the Google button stands there or the hint that it is not configured.
\<close>

record sign_in_view =
  si_mode :: auth_mode
  si_name :: "jstr option"
  si_email :: jstr
  si_password :: "jstr option"
  si_submit :: button_view
  si_forgot :: bool
  si_google :: "bool option"
  si_info :: "jstr option"
  si_error :: "jstr option"
  si_resend :: "button_view option"

record pat_card =
  pc_id :: jstr
  pc_name :: jstr
  pc_hint :: jstr
  pc_scope :: jstr
  pc_created :: jstr
  pc_used :: jstr
  pc_status :: jstr
  pc_revoke :: bool

record key_card =
  kc_id :: jstr
  kc_key :: jstr
  kc_status :: jstr
  kc_revoke :: bool

record agent_view =
  av_refresh :: button_view
  av_name :: jstr
  av_days :: jstr
  av_create :: button_view
  av_created :: "(jstr \<times> jstr) option"
  av_pats :: "pat_card list"
  av_keyID :: jstr
  av_keyText :: jstr
  av_save :: button_view
  av_keys :: "key_card list"

record event_card =
  ec_id :: int
  ec_selected :: bool
  ec_image :: "jstr option"
  ec_title :: jstr
  ec_organizer :: jstr
  ec_date :: jstr
  ec_amount :: jstr
  ec_wallet :: jstr

datatype cards_view = NoEventYet | NoEventMatches | EventCards range_view "event_card list" pager_view

text \<open>The tools over the list: refresh, the query with the choices of its two menus, reset.\<close>

record tools_view =
  tv_refresh :: button_view
  tv_query :: event_query
  tv_sorts :: "(sort_field \<times> jstr) list"
  tv_directions :: "(sort_direction \<times> jstr) list"
  tv_reset :: jstr

record list_view =
  lv_tools :: tools_view
  lv_cards :: cards_view

text \<open>An input of the form with its value and the message under it, which also marks it.\<close>

record input_view =
  in_field :: text_field
  in_value :: jstr
  in_message :: "jstr option"

record info_view =
  if_source :: "jstr \<times> jstr option"
  if_inputs :: "input_view list"
  if_import :: "button_view option"
  if_commands :: "(jstr \<times> jstr) list"
  if_upload :: jstr
  if_imported :: "jstr option"
  if_image :: "jstr option"
  if_image_message :: "jstr option"
  if_link :: "(jstr \<times> jstr) option"

text \<open>A row of the participant fields: its index, its name, whether it is required, whether it is fixed.\<close>

record fields_view =
  fl_inputs :: "input_view list"
  fl_search :: jstr
  fl_range :: range_view
  fl_rows :: "(nat \<times> jstr \<times> bool \<times> bool) list"
  fl_pager :: pager_view

datatype deposits_body = SaveFirst | LoadingDeposits | NoDeposits
  | DepositTable range_view "jstr list" "table_row list" pager_view

record deposits_view =
  dp_search :: jstr
  dp_refresh_off :: bool
  dp_body :: deposits_body

text \<open>
  The detail panel. \<open>pn_tab\<close> is the chosen tab of the narrow window, which has tabs; the switches are the
  buttons that fold a section, with what they say (unfolded or not).
\<close>

record panel_view =
  pn_caption :: jstr
  pn_heading :: jstr
  pn_tab :: "detail_tab option"
  pn_info :: "info_view option"
  pn_switches :: "(switch \<times> bool) list"
  pn_fields :: "fields_view option"
  pn_deposits :: "deposits_view option"
  pn_notice :: bool
  pn_delete :: "button_view option"
  pn_save :: button_view

record home_view =
  hv_user :: "jstr \<times> jstr"
  hv_switch :: bool
  hv_agent :: "agent_view option"
  hv_list :: "list_view option"
  hv_panel :: "panel_view option"

datatype dash_screen = CheckingScreen | SignInScreen sign_in_view | HomeScreen home_view

section \<open>Parts\<close>

text \<open>
  What the page shows depends on the environment variable \<open>NEXT_PUBLIC_GOOGLE_CLIENT_ID\<close> and on how
  the browser writes a valid date (\<open>toLocaleString\<close>, \<open>toLocaleDateString\<close>).
\<close>

record show_env =
  sh_client :: jstr
  sh_time :: "int \<Rightarrow> jstr"
  sh_date :: "int \<Rightarrow> jstr"

definition date_text :: "(int \<Rightarrow> jstr) \<Rightarrow> dash_env \<Rightarrow> jstr \<Rightarrow> jstr" where
  "date_text as_text env s = (case parse_date (dash_zone env) s of Some t \<Rightarrow> as_text t | None \<Rightarrow> ''Invalid Date'')"

definition view_pager :: "nat \<Rightarrow> nat \<Rightarrow> pager_view" where
  "view_pager p n = \<lparr>pv_prev_off = (p \<le> 1), pv_page = p, pv_pages = n, pv_next_off = (n \<le> p)\<rparr>"

text \<open>The three pagers of the page.\<close>

definition event_pager :: "dash_env \<Rightarrow> dash \<Rightarrow> pager_view" where
  "event_pager env w = view_pager (eventPage w) (eventPages env w)"

definition field_pager :: "dash \<Rightarrow> pager_view" where
  "field_pager w = view_pager (checkoutFormPage w) (fieldPages w)"

definition deposit_pager :: "dash \<Rightarrow> pager_view" where
  "deposit_pager w = view_pager (depositPage w) (depositPages w)"

lemmas pager_defs = event_pager_def field_pager_def deposit_pager_def

definition view_range :: "nat \<Rightarrow> nat \<Rightarrow> range_view" where
  "view_range p n = (let (a, b) = shown_range p n in (a, b, n))"

definition view_sign_in :: "show_env \<Rightarrow> dash \<Rightarrow> sign_in_view" where
  "view_sign_in sh w = \<lparr>
     si_mode = authMode w,
     si_name = shown_if (authMode w = Register) (authName w),
     si_email = authEmail w,
     si_password = shown_if (authMode w \<noteq> Forgot) (authPassword w),
     si_submit = (authSubmitting w,
       if authSubmitting w then ''Please wait...''
       else case authMode w of Register \<Rightarrow> ''Create Account'' | Forgot \<Rightarrow> ''Send Reset Link'' | Login \<Rightarrow> ''Login''),
     si_forgot = (authMode w = Login),
     si_google = shown_if (authMode w \<noteq> Forgot) (truthy (sh_client sh)),
     si_info = shown_if (truthy (authInfoMessage w)) (authInfoMessage w),
     si_error = shown_if (truthy (dash_error w)) (dash_error w),
     si_resend = shown_if (authMode w = Login \<and> str_includes (dash_error w) ''verify'')
       (0 < resendCooldown w,
        if 0 < resendCooldown w then ''Resend verification in '' @ show_int (resendCooldown w) @ ''s''
        else ''Resend verification email'')\<rparr>"

definition view_pat :: "show_env \<Rightarrow> dash_env \<Rightarrow> agent_pat \<Rightarrow> pat_card" where
  "view_pat sh env t = \<lparr>
     pc_id = ap_id t, pc_name = ap_name t, pc_hint = ap_tokenHint t, pc_scope = ap_scope t,
     pc_created = date_text (sh_time sh) env (ap_createdAt t),
     pc_used = (if truthy (ap_lastUsedAt t) then date_text (sh_time sh) env (ap_lastUsedAt t) else ''Never''),
     pc_status = (if truthy (ap_revokedAt t) then ''Revoked'' else ''Active''),
     pc_revoke = (\<not> truthy (ap_revokedAt t))\<rparr>"

definition view_key :: "agent_key \<Rightarrow> key_card" where
  "view_key k = \<lparr>kc_id = ak_agentId k, kc_key = ak_publicKeyBase64 k,
     kc_status = (if ak_active k then ''Active'' else ''Revoked''), kc_revoke = ak_active k\<rparr>"

definition create_pat_button :: "dash \<Rightarrow> button_view" where
  "create_pat_button w = (creatingPat w, if creatingPat w then ''Creating...'' else ''Create PAT'')"

definition save_key_button :: "dash \<Rightarrow> button_view" where
  "save_key_button w = (savingAgentKey w, if savingAgentKey w then ''Saving...'' else ''Save Agent Key'')"

definition view_agent :: "show_env \<Rightarrow> dash_env \<Rightarrow> dash \<Rightarrow> agent_view" where
  "view_agent sh env w = \<lparr>
     av_refresh = (agentSecurityLoading w, if agentSecurityLoading w then ''Refreshing...'' else ''Refresh Security''),
     av_name = patName w,
     av_days = patExpiresInDays w,
     av_create = create_pat_button w,
     av_created = shown_if (truthy (createdPatValue w)) (createdPatName w, createdPatValue w),
     av_pats = map (view_pat sh env) (agentPats w),
     av_keyID = agentKeyID w,
     av_keyText = agentKeyPublicKey w,
     av_save = save_key_button w,
     av_keys = map view_key (agentKeys w)\<rparr>"

definition view_card :: "show_env \<Rightarrow> dash_env \<Rightarrow> dash \<Rightarrow> event_summary \<Rightarrow> event_card" where
  "view_card sh env w ev = \<lparr>
     ec_id = es_eventId ev,
     ec_selected = (selectedEventID w = Some (es_eventId ev)),
     ec_image = shown_if (truthy (es_eventImageUrl ev)) (es_eventImageUrl ev),
     ec_title = es_title ev,
     ec_organizer = or_else (es_organizerName ev) ''-'',
     ec_date = (if truthy (es_eventDate ev) then date_text (sh_date sh) env (es_eventDate ev) else ''-''),
     ec_amount = es_amountUsdc ev,
     ec_wallet = es_merchantWallet ev\<rparr>"

definition view_cards :: "show_env \<Rightarrow> dash_env \<Rightarrow> dash \<Rightarrow> cards_view" where
  "view_cards sh env w =
     (if events w = [] then NoEventYet
      else if shown_events env w = [] then NoEventMatches
      else EventCards (view_range (eventPage w) (length (shown_events env w)))
        (map (view_card sh env w) (paginatedEvents env w)) (event_pager env w))"

definition refresh_button :: "dash \<Rightarrow> button_view" where
  "refresh_button w = (loadingEvents w, if loadingEvents w then ''Loading...'' else ''Refresh'')"

text \<open>The tools stand twice in the document, and styles show those of the window's width.\<close>

definition narrow_tools :: "dash \<Rightarrow> tools_view" where
  "narrow_tools w = \<lparr>tv_refresh = refresh_button w, tv_query = list_query w,
     tv_sorts = [(ByTitle, ''Name''), (ByOrganizerName, ''Organizer''), (ByEventDate, ''Date''), (ByAmountUsdc, ''USDC'')],
     tv_directions = [(Desc, ''Desc''), (Asc, ''Asc'')],
     tv_reset = ''Reset''\<rparr>"

definition wide_tools :: "dash \<Rightarrow> tools_view" where
  "wide_tools w = \<lparr>tv_refresh = refresh_button w, tv_query = list_query w,
     tv_sorts = [(ByTitle, ''Event name''), (ByOrganizerName, ''Organizer name''), (ByEventDate, ''Event date & time''),
       (ByAmountUsdc, ''USDC amount'')],
     tv_directions = [(Desc, ''Descending''), (Asc, ''Ascending'')],
     tv_reset = ''Reset Filters''\<rparr>"

definition view_list :: "show_env \<Rightarrow> dash_env \<Rightarrow> dash \<Rightarrow> list_view" where
  "view_list sh env w = \<lparr>lv_tools = (if isMobile w then narrow_tools w else wide_tools w),
     lv_cards = view_cards sh env w\<rparr>"

section \<open>The panel\<close>

definition field_message_of :: "dash \<Rightarrow> jstr \<Rightarrow> jstr option" where
  "field_message_of w name = (case obj_get (eventFormErrors w) name of Own m \<Rightarrow> shown_if (truthy m) m | _ \<Rightarrow> None)"

definition view_input :: "text_field \<Rightarrow> jstr \<Rightarrow> jstr option \<Rightarrow> input_view" where
  "view_input f v m = \<lparr>in_field = f, in_value = v, in_message = m\<rparr>"

definition view_info :: "dash_env \<Rightarrow> dash \<Rightarrow> info_view" where
  "view_info env w = \<lparr>
     if_source = (eventSource w, field_message_of w ''eventSource''),
     if_inputs =
       (if eventSource w = ''luma'' then [view_input SourceUrlField (sourceUrl w) (field_message_of w ''sourceUrl'')] else []) @
       [view_input TitleField (title w) (field_message_of w ''title''),
        view_input OrganizerField (organizerName w) None,
        view_input LocationField (location w) None,
        view_input EventDateField (eventDate w) None,
        view_input ExpiresField (checkoutExpiresAt w) (field_message_of w ''checkoutExpiresAt'')],
     if_import = shown_if (eventSource w = ''luma'') (importingLuma w, if importingLuma w then ''...'' else ''Import''),
     if_commands = editor_commands,
     if_upload = (if isMobile w then ''Tap to upload and crop event image''
       else ''Drag & drop event image here, or click to upload''),
     if_imported = shown_if (truthy (importedLumaImageURL w)) (importedLumaImageURL w),
     if_image = shown_if (truthy (eventImageUrl w)) (eventImageUrl w),
     if_image_message = field_message_of w ''eventImageUrl'',
     if_link = (case selectedEvent w of None \<Rightarrow> None
       | Some ev \<Rightarrow> shown_if (detailMode w = Edit) (fullCheckoutLink env w, ''/checkout/'' @ es_slug ev))\<rparr>"

definition view_fields :: "dash \<Rightarrow> fields_view" where
  "view_fields w = \<lparr>
     fl_inputs = [view_input MerchantField (merchantWallet w) (field_message_of w ''merchantWallet''),
                  view_input AmountField (amountUsdc w) (field_message_of w ''amountUsdc'')],
     fl_search = checkoutFormSearchTerm w,
     fl_range = view_range (checkoutFormPage w)
       (length (filteredCheckoutFields (checkoutFormSearchTerm w) (participantFields w))),
     fl_rows = map (\<lambda>(i, f). (i, cf_name f, cf_required f, fixed_field f)) (pagedCheckoutFields w),
     fl_pager = field_pager w\<rparr>"

definition view_deposits :: "dash \<Rightarrow> deposits_view" where
  "view_deposits w = \<lparr>
     dp_search = depositSearchTerm w,
     dp_refresh_off = (detailMode w = Create),
     dp_body =
       (if detailMode w = Create then SaveFirst
        else if loadingCheckouts w then LoadingDeposits
        else if pagedDeposits w = [] then NoDeposits
        else DepositTable (view_range (depositPage w) (length (filteredDeposits (depositSearchTerm w) (checkouts w))))
          (deposit_header (participantFields w)) (map (deposit_row (participantFields w)) (pagedDeposits w))
          (deposit_pager w))\<rparr>"

text \<open>\<open>title || selectedEvent?.title || "New Event"\<close>.\<close>

definition panel_heading :: "dash \<Rightarrow> jstr" where
  "panel_heading w = or_else (title w)
     (case selectedEvent w of Some ev \<Rightarrow> or_else (es_title ev) ''New Event'' | None \<Rightarrow> ''New Event'')"

text \<open>The footer of the panel, which both windows have.\<close>

definition panel_locked :: "dash \<Rightarrow> bool" where
  "panel_locked w \<longleftrightarrow> detailMode w = Edit \<and> hasPaidDeposits (checkouts w)"

definition delete_button :: "dash \<Rightarrow> button_view option" where
  "delete_button w = shown_if (detailMode w = Edit)
     (deleting w \<or> selectedEvent w = None \<or> hasPaidDeposits (checkouts w), if deleting w then ''Deleting...'' else ''Delete'')"

definition save_button :: "dash \<Rightarrow> button_view" where
  "save_button w = (creating w \<or> updating w \<or> detailMode w = Edit \<and> hasPaidDeposits (checkouts w),
     if detailMode w = Create then if creating w then ''Creating...'' else ''Save Event''
     else if updating w then ''Saving...'' else ''Save Changes'')"

text \<open>The narrow window: tabs, the section of the chosen one, folded or not.\<close>

definition narrow_panel :: "dash_env \<Rightarrow> dash \<Rightarrow> panel_view" where
  "narrow_panel env w = \<lparr>
     pn_caption = (if detailMode w = Create then ''Create Event'' else ''Edit Event''),
     pn_heading = panel_heading w,
     pn_tab = Some (detailTab w),
     pn_info = shown_if (detailTab w = InfoTab) (view_info env w),
     pn_switches =
       (if detailTab w = CheckoutFormTab then [(FormAccordion, checkoutFormAccordionOpen w)] else []) @
       (if detailTab w = DepositsTab then [(DepositAccordion, depositAccordionOpen w)] else []),
     pn_fields = shown_if (detailTab w = CheckoutFormTab \<and> checkoutFormAccordionOpen w) (view_fields w),
     pn_deposits = shown_if (detailTab w = DepositsTab \<and> depositAccordionOpen w) (view_deposits w),
     pn_notice = panel_locked w,
     pn_delete = delete_button w,
     pn_save = save_button w\<rparr>"

text \<open>The wide window: all sections, the second and the third can be hidden.\<close>

definition wide_panel :: "dash_env \<Rightarrow> dash \<Rightarrow> panel_view" where
  "wide_panel env w = \<lparr>
     pn_caption = (if detailMode w = Create then ''Create Event'' else ''Event Detail''),
     pn_heading = panel_heading w,
     pn_tab = None,
     pn_info = Some (view_info env w),
     pn_switches = [(FormSection, showCheckoutFormSection w), (DepositSection, showDepositsSection w)],
     pn_fields = shown_if (showCheckoutFormSection w) (view_fields w),
     pn_deposits = shown_if (showDepositsSection w) (view_deposits w),
     pn_notice = panel_locked w,
     pn_delete = delete_button w,
     pn_save = save_button w\<rparr>"

definition view_panel :: "dash_env \<Rightarrow> dash \<Rightarrow> panel_view" where
  "view_panel env w = (if isMobile w then narrow_panel env w else wide_panel env w)"

section \<open>A render\<close>

definition view_home :: "show_env \<Rightarrow> dash_env \<Rightarrow> dash \<Rightarrow> app_user \<Rightarrow> home_view" where
  "view_home sh env w u = \<lparr>
     hv_user = (us_name u, us_email u),
     hv_switch = agentSecurityMode w,
     hv_agent = shown_if (agentSecurityMode w) (view_agent sh env w),
     hv_list = shown_if (\<not> agentSecurityMode w) (view_list sh env w),
     hv_panel = shown_if (detailRender w) (view_panel env w)\<rparr>"

definition render_dash :: "show_env \<Rightarrow> dash_env \<Rightarrow> dash \<Rightarrow> dash_screen" where
  "render_dash sh env w = (if authLoading w then CheckingScreen
     else (case currentUser w of None \<Rightarrow> SignInScreen (view_sign_in sh w) | Some u \<Rightarrow> HomeScreen (view_home sh env w u)))"

section \<open>The pinned header\<close>

text \<open>
  Two cells of pure layout: on a wide window the header of the page makes room for the header of the
  list once that has reached it. \<open>offsetHeight\<close> and \<open>rectTop\<close> are what the browser measures, \<open>None\<close>
  where the element is not on the page.
\<close>

record header_cells =
  desktopHeaderHeight :: int
  sessionsHeaderPinned :: bool

definition initial_header :: header_cells where
  "initial_header = \<lparr>desktopHeaderHeight = 0, sessionsHeaderPinned = False\<rparr>"

definition measureHeader :: "int option \<Rightarrow> header_cells \<Rightarrow> header_cells" where
  "measureHeader offsetHeight h = h\<lparr>desktopHeaderHeight := (case offsetHeight of Some n \<Rightarrow> n | None \<Rightarrow> 0)\<rparr>"

definition onScroll :: "bool \<Rightarrow> int option \<Rightarrow> header_cells \<Rightarrow> header_cells" where
  "onScroll mobile rectTop h =
     (if mobile then h\<lparr>sessionsHeaderPinned := False\<rparr>
      else case rectTop of None \<Rightarrow> h | Some t \<Rightarrow> h\<lparr>sessionsHeaderPinned := (t \<le> desktopHeaderHeight h + 8)\<rparr>)"

text \<open>Whether the header of the page is moved out, and the distance at which that of the list sticks.\<close>

definition header_view :: "bool \<Rightarrow> header_cells \<Rightarrow> bool \<times> int" where
  "header_view mobile h = (\<not> mobile \<and> sessionsHeaderPinned h,
     if sessionsHeaderPinned h then 0 else desktopHeaderHeight h + 8)"

text \<open>After the scroll handler has run the two never overlap and leave no gap larger than eight pixels.\<close>

lemma header_no_overlap:
  "header_view False (onScroll False (Some t) h) =
     (if t \<le> desktopHeaderHeight h + 8 then (True, 0) else (False, desktopHeaderHeight h + 8))"
  "fst (header_view True h') = False"
  by (simp_all add: header_view_def onScroll_def)

end
