(* ===== verification/Dash_Controls.thy ===== *)
theory Dash_Controls
  imports Dash_View
begin

text \<open>
  The controls of a render of the dashboard: which event each control of the tree fires, that these
  are the events that \<open>Dash_Page\<close> enables, and what the page does not show.
\<close>

section \<open>The controls of a screen\<close>

text \<open>Events of no control: effects, the callbacks of Google's library and of the upload dialog.\<close>

definition is_dash_control :: "dash_event \<Rightarrow> bool" where
  "is_dash_control e = (case e of Effect x \<Rightarrow> False | Auth (GoogleCredential k) \<Rightarrow> False
     | Panel (UploadChange fs) \<Rightarrow> False | Panel UploadRemove \<Rightarrow> False | _ \<Rightarrow> True)"

definition on_sign_in :: "dash_screen \<Rightarrow> (sign_in_view \<Rightarrow> bool) \<Rightarrow> bool" where
  "on_sign_in s has = (case s of SignInScreen v \<Rightarrow> has v | _ \<Rightarrow> False)"

definition on_home :: "dash_screen \<Rightarrow> (home_view \<Rightarrow> bool) \<Rightarrow> bool" where
  "on_home s has = (case s of HomeScreen h \<Rightarrow> has h | _ \<Rightarrow> False)"

definition on_part :: "'a option \<Rightarrow> ('a \<Rightarrow> bool) \<Rightarrow> bool" where
  "on_part x has = (case x of Some y \<Rightarrow> has y | None \<Rightarrow> False)"

definition pressable :: "button_view \<Rightarrow> bool" where
  "pressable b \<longleftrightarrow> \<not> fst b"

fun auth_offers :: "dash_screen \<Rightarrow> auth_event \<Rightarrow> bool" where
  "auth_offers s ClickRetrySession = (s = CheckingScreen)"
| "auth_offers s (GoogleCredential k) = False"
| "auth_offers s SubmitAuth = on_sign_in s (\<lambda>v. pressable (si_submit v))"
| "auth_offers s (ChooseMode m) = on_sign_in s (\<lambda>v. True)"
| "auth_offers s ClickForgotLink = on_sign_in s si_forgot"
| "auth_offers s (TypeAuth f x) = on_sign_in s (\<lambda>v. case f of AuthName \<Rightarrow> si_name v \<noteq> None
     | AuthEmail \<Rightarrow> True | AuthPassword \<Rightarrow> si_password v \<noteq> None)"
| "auth_offers s ClickResend = on_sign_in s (\<lambda>v. on_part (si_resend v) pressable)"
| "auth_offers s ClickLogout = on_home s (\<lambda>h. True)"

fun agent_offers :: "agent_view \<Rightarrow> agent_event \<Rightarrow> bool" where
  "agent_offers v ClickAgentSwitch = True"
| "agent_offers v ClickRefreshSecurity = pressable (av_refresh v)"
| "agent_offers v ClickCreatePat = pressable (av_create v)"
| "agent_offers v (ClickRevokePat i b) = list_ex (\<lambda>t. pc_id t = i \<and> pc_revoke t) (av_pats v)"
| "agent_offers v ClickSaveKey = pressable (av_save v)"
| "agent_offers v (ClickRevokeKey i b) = list_ex (\<lambda>k. kc_id k = i \<and> kc_revoke k) (av_keys v)"
| "agent_offers v (TypeAgent f x) = True"
| "agent_offers v ClickCopyPat = (av_created v \<noteq> None)"

definition on_cards :: "cards_view \<Rightarrow> (event_card list \<Rightarrow> pager_view \<Rightarrow> bool) \<Rightarrow> bool" where
  "on_cards v has = (case v of EventCards r cs p \<Rightarrow> has cs p | _ \<Rightarrow> False)"

fun list_offers :: "list_view \<Rightarrow> list_event \<Rightarrow> bool" where
  "list_offers v (TypeQuery q) = (case q of SortBy f \<Rightarrow> f \<in> fst ` set (tv_sorts (lv_tools v))
     | Direction d \<Rightarrow> d \<in> fst ` set (tv_directions (lv_tools v)) | _ \<Rightarrow> True)"
| "list_offers v ClickResetFilters = True"
| "list_offers v ClickRefreshEvents = pressable (tv_refresh (lv_tools v))"
| "list_offers v ClickCreate = True"
| "list_offers v (ClickEvent i) = on_cards (lv_cards v) (\<lambda>cs p. i \<in> ec_id ` set cs)"
| "list_offers v ClickEventPrev = on_cards (lv_cards v) (\<lambda>cs p. \<not> pv_prev_off p)"
| "list_offers v ClickEventNext = on_cards (lv_cards v) (\<lambda>cs p. \<not> pv_next_off p)"

fun panel_offers :: "panel_view \<Rightarrow> panel_event \<Rightarrow> bool" where
  "panel_offers v ClickClose = True"
| "panel_offers v (ChooseTab t) = (pn_tab v \<noteq> None)"
| "panel_offers v (FlipSwitch x) = (x \<in> fst ` set (pn_switches v))"
| "panel_offers v ClickResetFields = True"
| "panel_offers v ClickSave = pressable (pn_save v)"
| "panel_offers v (ClickDelete b) = on_part (pn_delete v) pressable"
| "panel_offers v (ChooseSource x) = (pn_info v \<noteq> None \<and> x \<in> {''custom'', ''luma''})"
| "panel_offers v (TypeText f x) = (on_part (pn_info v) (\<lambda>i. f \<in> in_field ` set (if_inputs i))
     \<or> on_part (pn_fields v) (\<lambda>i. f \<in> in_field ` set (fl_inputs i)))"
| "panel_offers v ClickImport = on_part (pn_info v) (\<lambda>i. on_part (if_import i) pressable)"
| "panel_offers v (TypeDescription h) = (pn_info v \<noteq> None)"
| "panel_offers v (FormatDescription c l h) = on_part (pn_info v) (\<lambda>i. c \<in> snd ` set (if_commands i))"
| "panel_offers v (UploadChange fs) = False"
| "panel_offers v UploadRemove = False"
| "panel_offers v ClickCopyLink = on_part (pn_info v) (\<lambda>i. if_link i \<noteq> None)"

text \<open>The name, the mark and the removal of a row, unless it is fixed.\<close>

definition row_free :: "fields_view \<Rightarrow> nat \<Rightarrow> bool" where
  "row_free v i = on_part (map_of (fl_rows v) i) (\<lambda>(name, req, fixed). \<not> fixed)"

definition on_table :: "deposits_body \<Rightarrow> (pager_view \<Rightarrow> bool) \<Rightarrow> bool" where
  "on_table v has = (case v of DepositTable r h rows p \<Rightarrow> has p | _ \<Rightarrow> False)"

fun section_offers :: "panel_view \<Rightarrow> section_event \<Rightarrow> bool" where
  "section_offers v (TypeFieldSearch x) = (pn_fields v \<noteq> None)"
| "section_offers v ClickAddField = (pn_fields v \<noteq> None)"
| "section_offers v (TypeFieldName i x) = on_part (pn_fields v) (\<lambda>f. row_free f i)"
| "section_offers v (TickFieldRequired i b) = on_part (pn_fields v) (\<lambda>f. row_free f i)"
| "section_offers v (ClickRemoveField i) = on_part (pn_fields v) (\<lambda>f. row_free f i)"
| "section_offers v ClickFieldPrev = on_part (pn_fields v) (\<lambda>f. \<not> pv_prev_off (fl_pager f))"
| "section_offers v ClickFieldNext = on_part (pn_fields v) (\<lambda>f. \<not> pv_next_off (fl_pager f))"
| "section_offers v (TypeDepositSearch x) = (pn_deposits v \<noteq> None)"
| "section_offers v ClickRefreshDeposits = on_part (pn_deposits v) (\<lambda>d. \<not> dp_refresh_off d)"
| "section_offers v ClickDepositPrev = on_part (pn_deposits v) (\<lambda>d. on_table (dp_body d) (\<lambda>p. \<not> pv_prev_off p))"
| "section_offers v ClickDepositNext = on_part (pn_deposits v) (\<lambda>d. on_table (dp_body d) (\<lambda>p. \<not> pv_next_off p))"

fun dash_offers :: "dash_screen \<Rightarrow> dash_event \<Rightarrow> bool" where
  "dash_offers s (Effect e) = False"
| "dash_offers s (Auth e) = auth_offers s e"
| "dash_offers s (Agent e) = on_home s (\<lambda>h. e = ClickAgentSwitch \<or> on_part (hv_agent h) (\<lambda>v. agent_offers v e))"
| "dash_offers s (List e) = on_home s (\<lambda>h. on_part (hv_list h) (\<lambda>v. list_offers v e))"
| "dash_offers s (Panel e) = on_home s (\<lambda>h. on_part (hv_panel h) (\<lambda>v. panel_offers v e))"
| "dash_offers s (Section e) = on_home s (\<lambda>h. on_part (hv_panel h) (\<lambda>v. section_offers v e))"

section \<open>They are the enabled events\<close>

text \<open>The menus offer every order, on both windows.\<close>

lemma tools_parts:
  "tv_refresh (lv_tools (view_list sh env w)) = refresh_button w"
  "fst ` set (tv_sorts (lv_tools (view_list sh env w))) = UNIV"
  "fst ` set (tv_directions (lv_tools (view_list sh env w))) = UNIV"
proof -
  show "fst ` set (tv_sorts (lv_tools (view_list sh env w))) = UNIV"
    using sort_field.exhaust by (auto simp: view_list_def narrow_tools_def wide_tools_def)
  show "fst ` set (tv_directions (lv_tools (view_list sh env w))) = UNIV"
    using sort_direction.exhaust by (auto simp: view_list_def narrow_tools_def wide_tools_def)
qed (simp add: view_list_def narrow_tools_def wide_tools_def)

lemma cards_part: "lv_cards (view_list sh env w) = view_cards sh env w"
  by (simp add: view_list_def)

lemma on_part_shown_if [simp]: "on_part (shown_if b x) has \<longleftrightarrow> b \<and> has x"
  by (simp add: shown_if_def on_part_def)

lemma on_part_simps [simp]: "on_part (Some x) has = has x" "\<not> on_part None has"
  by (simp_all add: on_part_def)

lemma on_screens [simp]:
  "on_home (HomeScreen h) has = has h" "\<not> on_home CheckingScreen has" "\<not> on_home (SignInScreen v) has"
  "on_sign_in (SignInScreen v) hs = hs v" "\<not> on_sign_in CheckingScreen hs" "\<not> on_sign_in (HomeScreen h) hs"
  by (simp_all add: on_home_def on_sign_in_def)

text \<open>The three screens.\<close>

lemma render_cases:
  obtains (loading) "render_dash sh env w = CheckingScreen" "page_view w = Checking"
  | (sign_in) "render_dash sh env w = SignInScreen (view_sign_in sh w)" "page_view w = SignIn"
  | (home) u where "render_dash sh env w = HomeScreen (view_home sh env w u)" "currentUser w = Some u" "signed_in_view w"
      "page_view w = (if agentSecurityMode w then AgentView else EventView)"
  by (cases "currentUser w"; cases "authLoading w"; auto simp: render_dash_def page_view_def signed_in_view_def)

lemma auth_controls:
  assumes "\<not> (\<exists>k. e = GoogleCredential k)"
  shows "auth_offers (render_dash sh env w) e \<longleftrightarrow> auth_enabled env e w"
proof (cases rule: render_cases [of sh env w])
  case loading
  then show ?thesis using assms by (cases e) (simp_all add: signed_in_view_def)
next
  case sign_in
  then show ?thesis
    using assms by (cases e) (auto simp: signed_in_view_def view_sign_in_def pressable_def resend_offered_def split: auth_field.split)
next
  case home
  then show ?thesis using assms by (cases e) (auto simp: signed_in_view_def)
qed

lemma agent_controls: "dash_offers (render_dash sh env w) (Agent e) \<longleftrightarrow> agent_enabled env e w"
proof (cases rule: render_cases [of sh env w])
  case loading
  then show ?thesis by (cases e) (simp_all add: signed_in_view_def)
next
  case sign_in
  then show ?thesis by (cases e) (simp_all add: signed_in_view_def)
next
  case home
  then show ?thesis
    by (cases e) (auto simp: view_home_def view_agent_def view_pat_def view_key_def pressable_def revocable_pats_def
        revocable_keys_def create_pat_button_def save_key_button_def list_ex_iff)
qed

lemma list_controls: "dash_offers (render_dash sh env w) (List e) \<longleftrightarrow> list_enabled env e w"
proof (cases rule: render_cases [of sh env w])
  case loading
  then show ?thesis by (cases e) (simp_all add: event_list_shown_def)
next
  case sign_in
  then show ?thesis by (cases e) (simp_all add: event_list_shown_def)
next
  case home
  have n: "paginatedEvents env w = []" if "events w = [] \<or> shown_events env w = []"
  proof -
    have "shown_events env w = []" using that by (auto simp: shown_events_def filteredAndSortedEvents_def js_sort_def)
    then show ?thesis by (simp add: paginatedEvents_def pageSlice_def slice_def Let_def)
  qed
  show ?thesis
    using home n by (cases e) (auto simp: view_home_def tools_parts cards_part refresh_button_def view_cards_def view_card_def
        view_pager_def event_pager_def on_cards_def event_list_shown_def pressable_def image_image not_le split: query_edit.split)
qed

lemma home_parts [simp]:
  "hv_panel (view_home sh env w u) = shown_if (detailRender w) (view_panel env w)"
  "hv_agent (view_home sh env w u) = shown_if (agentSecurityMode w) (view_agent sh env w)"
  "hv_list (view_home sh env w u) = shown_if (\<not> agentSecurityMode w) (view_list sh env w)"
  by (simp_all add: view_home_def)

lemma info_inputs: "in_field ` set (if_inputs (view_info env w)) =
    (if eventSource w = ''luma'' then {SourceUrlField} else {}) \<union>
    {TitleField, OrganizerField, LocationField, EventDateField, ExpiresField}"
  unfolding view_info_def info_view.select_convs view_input_def
  by (cases "eventSource w = ''luma''") (simp_all add: insert_commute)

lemma inputs_parts:
  "f \<in> in_field ` set (if_inputs (view_info env w)) \<longleftrightarrow>
     f \<noteq> MerchantField \<and> f \<noteq> AmountField \<and> (f = SourceUrlField \<longrightarrow> eventSource w = ''luma'')"
  "f \<in> in_field ` set (fl_inputs (view_fields w)) \<longleftrightarrow> f = MerchantField \<or> f = AmountField"
  subgoal unfolding info_inputs by (cases f) simp_all
  subgoal unfolding view_fields_def fields_view.select_convs view_input_def by simp
  done

definition tab_open :: "dash \<Rightarrow> detail_tab \<Rightarrow> bool" where
  "tab_open w t \<longleftrightarrow> isMobile w \<longrightarrow> detailTab w = t"

lemmas panel_defs = view_panel_def narrow_panel_def wide_panel_def panel_view.select_convs

lemma panel_parts:
  "pn_tab (view_panel env w) = shown_if (isMobile w) (detailTab w)"
  "pn_info (view_panel env w) = shown_if (tab_open w InfoTab) (view_info env w)"
  "pn_fields (view_panel env w) = shown_if (tab_open w CheckoutFormTab \<and>
     (if isMobile w then checkoutFormAccordionOpen w else showCheckoutFormSection w)) (view_fields w)"
  "pn_deposits (view_panel env w) = shown_if (tab_open w DepositsTab \<and>
     (if isMobile w then depositAccordionOpen w else showDepositsSection w)) (view_deposits w)"
  "fst ` set (pn_switches (view_panel env w)) =
     (if isMobile w then (if detailTab w = CheckoutFormTab then {FormAccordion} else {}) \<union>
       (if detailTab w = DepositsTab then {DepositAccordion} else {}) else {FormSection, DepositSection})"
  "pn_delete (view_panel env w) = delete_button w" "pn_save (view_panel env w) = save_button w"
  by (cases "isMobile w"; simp add: panel_defs tab_open_def)+

lemma panel_buttons:
  "on_part (delete_button w) pressable \<longleftrightarrow>
     detailMode w = Edit \<and> \<not> (deleting w \<or> selectedEvent w = None \<or> hasPaidDeposits (checkouts w))"
  "pressable (save_button w) \<longleftrightarrow> \<not> (creating w \<or> updating w \<or> detailMode w = Edit \<and> hasPaidDeposits (checkouts w))"
  by (simp_all add: delete_button_def save_button_def pressable_def)

lemma panel_controls:
  assumes "\<not> (\<exists>fs. e = UploadChange fs)" "e \<noteq> UploadRemove"
  shows "dash_offers (render_dash sh env w) (Panel e) \<longleftrightarrow> panel_enabled env e w"
proof (cases rule: render_cases [of sh env w])
  case loading
  then show ?thesis using assms by (cases e) (simp_all add: panel_shown_def info_shown_def fields_shown_def save_enabled_def
    delete_enabled_def signed_in_view_def)
next
  case sign_in
  then show ?thesis using assms by (cases e) (simp_all add: panel_shown_def info_shown_def fields_shown_def save_enabled_def
    delete_enabled_def signed_in_view_def)
next
  case home
  then have p: "panel_shown w = detailRender w" by (simp add: panel_shown_def)
  note d = home(1) p info_shown_def fields_shown_def tab_open_def save_enabled_def delete_enabled_def panel_parts panel_buttons
  show ?thesis
  proof (cases e)
    case (TypeText f v)
    then show ?thesis
      by (cases "f = MerchantField \<or> f = AmountField") (auto simp: d inputs_parts)
  next
    case (FlipSwitch x)
    show ?thesis by (cases x; cases "isMobile w"; simp add: FlipSwitch d)
  next
    case ClickCopyLink
    then show ?thesis by (cases "selectedEvent w") (simp_all add: d view_info_def conj_ac)
  next
    case (FormatDescription c l h)
    then show ?thesis by (simp add: d view_info_def)
  next
    case ClickImport
    then show ?thesis by (simp add: d view_info_def pressable_def conj_ac)
  next
    case ClickSave
    then show ?thesis by (auto simp: d)
  next
    case (ClickDelete b)
    then show ?thesis by (simp add: d)
  qed (use assms in \<open>simp_all add: d\<close>)
qed

lemma map_of_rows: "map_of (map (\<lambda>(i, f). (i, g f)) xs) i = map_option g (map_of xs i)"
  by (induction xs) auto

lemma row_free_fields: "row_free (view_fields w) i \<longleftrightarrow>
    (case map_of (pagedCheckoutFields w) i of Some f \<Rightarrow> \<not> fixed_field f | None \<Rightarrow> False)"
proof -
  have "map_of (fl_rows (view_fields w)) i = map_option (\<lambda>f. (cf_name f, cf_required f, fixed_field f)) (map_of (pagedCheckoutFields w) i)"
    unfolding view_fields_def by (simp add: map_of_rows del: map_of_map)
  then show ?thesis by (simp add: row_free_def split: option.split)
qed

lemma deposits_parts:
  "dp_refresh_off (view_deposits w) \<longleftrightarrow> detailMode w = Create"
  "on_table (dp_body (view_deposits w)) has \<longleftrightarrow>
     detailMode w = Edit \<and> \<not> loadingCheckouts w \<and> pagedDeposits w \<noteq> [] \<and> has (deposit_pager w)"
  by (cases "detailMode w"; simp add: view_deposits_def on_table_def)+

lemma pager_parts [simp]:
  "pv_prev_off (view_pager p n) \<longleftrightarrow> p \<le> 1" "pv_next_off (view_pager p n) \<longleftrightarrow> n \<le> p"
  "pv_prev_off (deposit_pager w) \<longleftrightarrow> depositPage w \<le> 1" "pv_next_off (deposit_pager w) \<longleftrightarrow> depositPages w \<le> depositPage w"
  "fl_pager (view_fields w) = view_pager (checkoutFormPage w) (fieldPages w)"
  by (simp_all add: view_pager_def view_fields_def pager_defs)

lemma section_controls: "dash_offers (render_dash sh env w) (Section e) \<longleftrightarrow> section_enabled env e w"
proof (cases rule: render_cases [of sh env w])
  case loading
  then show ?thesis by (cases e) (simp_all add: panel_shown_def fields_shown_def deposits_shown_def deposit_table_shown_def signed_in_view_def)
next
  case sign_in
  then show ?thesis by (cases e) (simp_all add: panel_shown_def fields_shown_def deposits_shown_def deposit_table_shown_def signed_in_view_def)
next
  case home
  then have p: "panel_shown w = detailRender w" by (simp add: panel_shown_def)
  have m: "detailMode w \<noteq> Create \<longleftrightarrow> detailMode w = Edit" by (cases "detailMode w") auto
  show ?thesis
    using home(1) by (cases e) (simp_all add: view_home_def panel_parts p fields_shown_def deposits_shown_def
        deposit_table_shown_def tab_open_def row_free_fields deposits_parts m not_le conj_ac split: option.split)
qed

section \<open>Properties\<close>



text \<open>No part of a signed-in screen reads the error cell, and without events none reads the selection.\<close>

lemma reads_no_error [simp]:
  "shown_events env (w\<lparr>dash_error := m\<rparr>) = shown_events env w"
  "paginatedEvents env (w\<lparr>dash_error := m\<rparr>) = paginatedEvents env w"
  "eventPages env (w\<lparr>dash_error := m\<rparr>) = eventPages env w"
  "fieldPages (w\<lparr>dash_error := m\<rparr>) = fieldPages w" "depositPages (w\<lparr>dash_error := m\<rparr>) = depositPages w"
  "pagedDeposits (w\<lparr>dash_error := m\<rparr>) = pagedDeposits w"
  "pagedCheckoutFields (w\<lparr>dash_error := m\<rparr>) = pagedCheckoutFields w"
  "selectedEvent (w\<lparr>dash_error := m\<rparr>) = selectedEvent w" "fullCheckoutLink env (w\<lparr>dash_error := m\<rparr>) = fullCheckoutLink env w"
  "field_message_of (w\<lparr>dash_error := m\<rparr>) = field_message_of w" "panel_heading (w\<lparr>dash_error := m\<rparr>) = panel_heading w"
  by (auto simp: shown_events_def paginatedEvents_def eventPages_def fieldPages_def depositPages_def pagedDeposits_def
      pagedCheckoutFields_def selectedEvent_def fullCheckoutLink_def field_message_of_def panel_heading_def
      intro!: ext)

lemmas small_parts = refresh_button_def narrow_tools_def wide_tools_def pager_defs create_pat_button_def save_key_button_def

lemma parts_without_error [simp]:
  "view_card sh env (w\<lparr>dash_error := m\<rparr>) = view_card sh env w"
  "view_agent sh env (w\<lparr>dash_error := m\<rparr>) = view_agent sh env w"
  "view_info env (w\<lparr>dash_error := m\<rparr>) = view_info env w"
  "view_fields (w\<lparr>dash_error := m\<rparr>) = view_fields w" "view_deposits (w\<lparr>dash_error := m\<rparr>) = view_deposits w"
  by (auto simp: view_card_def view_agent_def view_info_def view_fields_def view_deposits_def small_parts intro!: ext cong: option.case_cong)

lemma panel_without_error: "view_panel env (w\<lparr>dash_error := m\<rparr>) = view_panel env w"
  by (simp add: panel_defs panel_locked_def delete_button_def save_button_def cong: if_cong split del: if_split)

lemma list_without_error: "view_list sh env (w\<lparr>dash_error := m\<rparr>) = view_list sh env w"
  by (simp add: view_list_def view_cards_def small_parts)

lemma reads_no_selection:
  assumes "events w = []"
  shows "selectedEvent (w\<lparr>selectedEventID := i\<rparr>) = selectedEvent w"
    and "view_list sh env (w\<lparr>selectedEventID := i\<rparr>) = view_list sh env w"
  using assms by (simp_all add: selectedEvent_def find_event_def view_list_def view_cards_def small_parts split: option.split)

lemma parts_without_selection:
  assumes "events w = []"
  shows "view_info env (w\<lparr>selectedEventID := i\<rparr>) = view_info env w"
    and "panel_heading (w\<lparr>selectedEventID := i\<rparr>) = panel_heading w"
    and "view_fields (w\<lparr>selectedEventID := i\<rparr>) = view_fields w" and "view_deposits (w\<lparr>selectedEventID := i\<rparr>) = view_deposits w"
  by (simp_all add: view_info_def panel_heading_def view_fields_def view_deposits_def small_parts reads_no_selection(1) [OF assms]
      fullCheckoutLink_def field_message_of_def fieldPages_def depositPages_def pagedDeposits_def pagedCheckoutFields_def
      cong: option.case_cong)

lemma home_without_selection:
  assumes "events w = []"
  shows "view_home sh env (w\<lparr>selectedEventID := i\<rparr>) u = view_home sh env w u"
  by (simp add: view_home_def panel_defs view_agent_def small_parts reads_no_selection [OF assms] parts_without_selection [OF assms]
      panel_locked_def delete_button_def save_button_def cong: if_cong split del: if_split)

text \<open>
  A signed-in page never shows the error cell: the screen is the same whatever it holds. So a
  failure that is reported there only is not reported at all.
\<close>

theorem error_not_shown:
  assumes "signed_in_view w"
  shows "render_dash sh env (w\<lparr>dash_error := m\<rparr>) = render_dash sh env w"
  using assms
  by (auto simp: render_dash_def signed_in_view_def page_view_def view_home_def panel_without_error list_without_error
      split: option.split if_splits)


definition demo_signed_in :: dash where
  "demo_signed_in = (initial_dash None)\<lparr>authLoading := False,
     currentUser := Some \<lparr>us_id = 1, us_name = ''Ann'', us_email = ''a@b.c'', us_provider = ''password''\<rparr>\<rparr>"

definition demo_show :: show_env where
  "demo_show = \<lparr>sh_client = [], sh_time = show_int, sh_date = show_int\<rparr>"

definition demo_dash_env :: dash_env where
  "demo_dash_env = \<lparr>dash_zone = fixed_zone 420, collation = (\<lambda>s t. 0), dash_origin = []\<rparr>"


end
