(* ===== verification/Google_Script.thy ===== *)
theory Google_Script
  imports Dash_State
begin

text \<open>
  The button of Google sign-in in \<^verbatim>\<open>frontend/src/app/app/page.tsx\<close>: one effect loads Google's script
  into the document, a second initialises the library and draws the button into an element of
  the login card. Script and library outlive the component; the listeners, the timer and the
  flags belong to one mount of it. A commit is what React does after a change of state: it
  updates the elements, runs the cleanups of the effects whose dependencies have changed, and
  then these effects.
\<close>

section \<open>State\<close>

text \<open>
  The cells of the component that the effects depend on (\<open>gp_signedIn\<close> is \<open>currentUser !== null\<close>), its ref and
  what its effects have registered; then the document. \<open>buttonTheme\<close> is the theme of the button in the
  container, \<open>None\<close> while there is no container or it is empty; \<open>initialised\<close> lists the client
  identifiers of the calls of \<open>initialize\<close> of this mount.
\<close>

record google_page =
  gp_authLoading :: bool
  gp_signedIn :: bool
  gp_authMode :: auth_mode
  googleScriptReady :: bool
  googleInitialized :: bool
  loadListener :: bool
  renderTimer :: bool
  themeListener :: bool
  initialised :: "jstr list"
  buttonTheme :: "jstr option"
  \<comment> \<open>outside\<close>
  scriptTag :: bool
  scriptFailed :: bool
  windowGoogle :: bool
  documentDark :: bool

text \<open>A new mount of the component, in a document with what earlier mounts have left.\<close>

definition mount_google :: "google_page \<Rightarrow> google_page" where
  "mount_google w = w\<lparr>gp_authLoading := True, gp_signedIn := False, gp_authMode := Login, googleScriptReady := False,
     googleInitialized := False, loadListener := False, renderTimer := False, themeListener := False,
     initialised := [], buttonTheme := None\<rparr>"

definition new_document :: "bool \<Rightarrow> google_page" where
  "new_document dark = \<lparr>gp_authLoading = True, gp_signedIn = False, gp_authMode = Login, googleScriptReady = False,
     googleInitialized = False, loadListener = False, renderTimer = False, themeListener = False,
     initialised = [], buttonTheme = None, scriptTag = False, scriptFailed = False, windowGoogle = False,
     documentDark = dark\<rparr>"

section \<open>The effects\<close>

text \<open>\<open>cid\<close> is \<open>process.env.NEXT_PUBLIC_GOOGLE_CLIENT_ID\<close>; the container is there in two of the modes.\<close>

definition container :: "jstr \<Rightarrow> google_page \<Rightarrow> bool" where
  "container cid w \<longleftrightarrow> \<not> gp_authLoading w \<and> \<not> gp_signedIn w \<and> gp_authMode w \<noteq> Forgot \<and> truthy cid"

definition button_theme :: "bool \<Rightarrow> jstr" where
  "button_theme isDark = (if isDark then ''filled_black'' else ''outline'')"

definition renderButton :: "jstr \<Rightarrow> google_page \<Rightarrow> google_page" where
  "renderButton cid w = (if \<not> container cid w \<or> \<not> windowGoogle w then w
     else w\<lparr>buttonTheme := Some (button_theme (documentDark w))\<rparr>)"

text \<open>The effect that loads the script; the last component says whether it calls \<open>setGoogleScriptReady(true)\<close>.\<close>

definition loadScript :: "jstr \<Rightarrow> google_page \<Rightarrow> google_page \<times> bool" where
  "loadScript cid w =
     (if gp_authLoading w \<or> gp_signedIn w then (w, False)
      else if \<not> truthy cid then (w, False)
      else if windowGoogle w then (w, True)
      else if scriptTag w then (w\<lparr>loadListener := True\<rparr>, False)
      else (w\<lparr>scriptTag := True, loadListener := True\<rparr>, False))"

definition loadScript_cleanup :: "google_page \<Rightarrow> google_page" where
  "loadScript_cleanup w = w\<lparr>loadListener := False\<rparr>"

definition showButton :: "jstr \<Rightarrow> google_page \<Rightarrow> google_page" where
  "showButton cid w =
     (if gp_authLoading w \<or> gp_signedIn w \<or> \<not> googleScriptReady w then w
      else if \<not> truthy cid \<or> \<not> windowGoogle w then w
      else (let w1 = (if googleInitialized w then w
                      else w\<lparr>initialised := initialised w @ [cid], googleInitialized := True\<rparr>)
            in (renderButton cid w1)\<lparr>renderTimer := True, themeListener := True\<rparr>))"

definition showButton_cleanup :: "google_page \<Rightarrow> google_page" where
  "showButton_cleanup w = w\<lparr>renderTimer := False, themeListener := False\<rparr>"

section \<open>A commit\<close>

text \<open>The element of the button goes with its content when the card no longer has it.\<close>

definition update_elements :: "jstr \<Rightarrow> google_page \<Rightarrow> google_page" where
  "update_elements cid w = (if container cid w then w else w\<lparr>buttonTheme := None\<rparr>)"

definition set_ready :: "jstr \<Rightarrow> google_page \<Rightarrow> google_page" where
  "set_ready cid w = (if googleScriptReady w then w
     else showButton cid (showButton_cleanup (update_elements cid (w\<lparr>googleScriptReady := True\<rparr>))))"

text \<open>Cleanups run before effects; a call of \<open>setGoogleScriptReady\<close> leads to another commit.\<close>

definition run_both :: "jstr \<Rightarrow> google_page \<Rightarrow> google_page" where
  "run_both cid w = (let (w1, ready) = loadScript cid (showButton_cleanup (loadScript_cleanup w)); w2 = showButton cid w1
     in if ready then set_ready cid w2 else w2)"

text \<open>
  \<open>authLoading\<close>, \<open>currentUser\<close> and \<open>authMode\<close> get new values. The first effect depends on the first two, the
  second on all of them.
\<close>

definition commit :: "jstr \<Rightarrow> bool \<Rightarrow> bool \<Rightarrow> auth_mode \<Rightarrow> google_page \<Rightarrow> google_page" where
  "commit cid loading signed mode w =
     (let w1 = update_elements cid (w\<lparr>gp_authLoading := loading, gp_signedIn := signed, gp_authMode := mode\<rparr>)
      in if loading \<noteq> gp_authLoading w \<or> signed \<noteq> gp_signedIn w then run_both cid w1
         else if mode \<noteq> gp_authMode w then showButton cid (showButton_cleanup w1) else w1)"

section \<open>What happens to the page\<close>

text \<open>
  The script loads or fails once; \<open>Loads\<close> sets \<open>window.google\<close> before its listeners run. \<open>Themed\<close> is
  \<open>applyTheme\<close>, which dispatches \<open>theme-changed\<close> after it has set the class of the document.
\<close>

definition script_loaded :: "jstr \<Rightarrow> google_page \<Rightarrow> google_page" where
  "script_loaded cid w = (let w1 = w\<lparr>windowGoogle := True\<rparr> in if loadListener w1 then set_ready cid w1 else w1)"

definition theme_changed :: "jstr \<Rightarrow> bool \<Rightarrow> google_page \<Rightarrow> google_page" where
  "theme_changed cid dark w = (let w1 = w\<lparr>documentDark := dark\<rparr> in if themeListener w1 then renderButton cid w1 else w1)"

inductive google_step :: "jstr \<Rightarrow> google_page \<Rightarrow> google_page \<Rightarrow> bool" for cid where
  Commits: "google_step cid w (commit cid loading signed mode w)"
| Loads: "scriptTag w \<Longrightarrow> \<not> scriptFailed w \<Longrightarrow> \<not> windowGoogle w \<Longrightarrow> google_step cid w (script_loaded cid w)"
| Fails: "scriptTag w \<Longrightarrow> \<not> windowGoogle w \<Longrightarrow> google_step cid w (w\<lparr>scriptFailed := True\<rparr>)"
| TimerRuns: "renderTimer w \<Longrightarrow> google_step cid w (renderButton cid (w\<lparr>renderTimer := False\<rparr>))"
| Themed: "google_step cid w (theme_changed cid dark w)"
| Remounts: "google_step cid w (mount_google w)"

inductive google_reach :: "jstr \<Rightarrow> google_page \<Rightarrow> bool" for cid where
  start: "google_reach cid (new_document dark)"
| step: "google_reach cid w \<Longrightarrow> google_step cid w w' \<Longrightarrow> google_reach cid w'"

inductive_cases google_stepE: "google_step cid w w'"

section \<open>The invariant\<close>

text \<open>
  What the second effect leaves: its registrations exactly when the library can be used in this render,
  and a button of the document's theme in the container.
\<close>

definition usable :: "jstr \<Rightarrow> google_page \<Rightarrow> bool" where
  "usable cid w \<longleftrightarrow> \<not> gp_authLoading w \<and> \<not> gp_signedIn w \<and> googleScriptReady w \<and> truthy cid"

definition button_inv :: "jstr \<Rightarrow> google_page \<Rightarrow> bool" where
  "button_inv cid w \<longleftrightarrow> (themeListener w \<longleftrightarrow> usable cid w) \<and> (renderTimer w \<longrightarrow> usable cid w)
     \<and> (usable cid w \<longrightarrow> googleInitialized w)
     \<and> buttonTheme w = (if container cid w \<and> googleScriptReady w then Some (button_theme (documentDark w)) else None)"

definition script_inv :: "jstr \<Rightarrow> google_page \<Rightarrow> bool" where
  "script_inv cid w \<longleftrightarrow> (googleScriptReady w \<longrightarrow> windowGoogle w) \<and> (windowGoogle w \<longrightarrow> scriptTag w \<and> \<not> scriptFailed w)
     \<and> initialised w = (if googleInitialized w then [cid] else [])"

text \<open>A signed-out page either knows that the script is there or waits for it.\<close>

definition load_inv :: "jstr \<Rightarrow> google_page \<Rightarrow> bool" where
  "load_inv cid w \<longleftrightarrow> (\<not> gp_authLoading w \<and> \<not> gp_signedIn w \<and> truthy cid \<longrightarrow>
     (if windowGoogle w then googleScriptReady w else loadListener w \<and> scriptTag w))"

lemmas google_inv_defs = button_inv_def script_inv_def load_inv_def usable_def container_def

lemmas google_effect_defs = renderButton_def loadScript_def loadScript_cleanup_def showButton_def
  showButton_cleanup_def update_elements_def set_ready_def run_both_def Let_def

definition google_inv :: "jstr \<Rightarrow> google_page \<Rightarrow> bool" where
  "google_inv cid w \<longleftrightarrow> button_inv cid w \<and> script_inv cid w \<and> load_inv cid w"

text \<open>The second effect on a page that is cleaned up, alone and after \<open>setGoogleScriptReady(true)\<close>.\<close>

lemma inv_showButton:
  assumes "script_inv cid w" "\<not> themeListener w" "\<not> renderTimer w" "buttonTheme w = None \<or> container cid w \<and> googleScriptReady w"
  shows "button_inv cid (showButton cid w)" "script_inv cid (showButton cid w)" "load_inv cid (showButton cid w) = load_inv cid w"
proof -
  show "button_inv cid (showButton cid w)"
    using assms by (simp add: google_inv_defs showButton_def renderButton_def Let_def) auto
  show "script_inv cid (showButton cid w)" "load_inv cid (showButton cid w) = load_inv cid w"
    using assms(1) by (simp_all add: script_inv_def load_inv_def showButton_def renderButton_def Let_def)
qed

lemma inv_set_ready:
  assumes "script_inv cid w" "windowGoogle w" "button_inv cid w"
  shows "google_inv cid (set_ready cid w)"
proof (cases "googleScriptReady w")
  case True
  then show ?thesis
    using assms by (simp add: google_inv_def set_ready_def load_inv_def)
next
  case False
  let ?w = "showButton_cleanup (update_elements cid (w\<lparr>googleScriptReady := True\<rparr>))"
  have s: "script_inv cid ?w" "\<not> themeListener ?w" "\<not> renderTimer ?w" "load_inv cid ?w"
    using assms by (simp_all add: script_inv_def load_inv_def showButton_cleanup_def update_elements_def)
  have "buttonTheme ?w = None"
    using assms(3) False by (simp add: button_inv_def showButton_cleanup_def update_elements_def)
  then show ?thesis
    using inv_showButton [OF s(1-3)] s(4) False by (simp add: google_inv_def set_ready_def)
qed

lemma inv_run_both:
  assumes "script_inv cid w" "buttonTheme w = None \<or> container cid w \<and> googleScriptReady w"
  shows "google_inv cid (run_both cid w)"
proof -
  obtain v ready where l: "loadScript cid (showButton_cleanup (loadScript_cleanup w)) = (v, ready)"
    by (cases "loadScript cid (showButton_cleanup (loadScript_cleanup w))")
  then have b: "script_inv cid v" "\<not> themeListener v" "\<not> renderTimer v" "buttonTheme v = None \<or> container cid v \<and> googleScriptReady v"
    using assms by (auto simp: script_inv_def container_def loadScript_def loadScript_cleanup_def showButton_cleanup_def split: if_splits)
  note s = inv_showButton [OF this]
  have "windowGoogle (showButton cid v)" if "ready"
    using l that by (auto simp: loadScript_def loadScript_cleanup_def showButton_cleanup_def showButton_def
        renderButton_def Let_def split: if_splits)
  moreover have "load_inv cid v" if "\<not> ready"
    using l that by (auto simp: loadScript_def loadScript_cleanup_def showButton_cleanup_def load_inv_def split: if_splits)
  ultimately show ?thesis
    using inv_set_ready [OF s(2)] s by (simp add: run_both_def l google_inv_def Let_def)
qed

lemma inv_commit:
  assumes "google_inv cid w"
  shows "google_inv cid (commit cid loading signed mode w)"
proof -
  define v where "v = update_elements cid (w\<lparr>gp_authLoading := loading, gp_signedIn := signed, gp_authMode := mode\<rparr>)"
  have i: "button_inv cid w" "script_inv cid w" "load_inv cid w"
    using assms by (simp_all add: google_inv_def)
  have v: "script_inv cid v" "buttonTheme v = None \<or> container cid v \<and> googleScriptReady v"
    using i(1,2) by (auto simp: v_def script_inv_def button_inv_def update_elements_def container_def)
  have m: "google_inv cid (showButton cid (showButton_cleanup v))" if "loading = gp_authLoading w" "signed = gp_signedIn w"
  proof -
    have "script_inv cid (showButton_cleanup v)" "\<not> themeListener (showButton_cleanup v)"
        "\<not> renderTimer (showButton_cleanup v)"
        "buttonTheme (showButton_cleanup v) = None \<or> container cid (showButton_cleanup v) \<and> googleScriptReady (showButton_cleanup v)"
      using v by (simp_all add: showButton_cleanup_def script_inv_def container_def)
    note s = inv_showButton [OF this]
    have "load_inv cid (showButton_cleanup v)"
      using i(3) that by (simp add: v_def load_inv_def showButton_cleanup_def update_elements_def)
    then show ?thesis using s by (simp add: google_inv_def)
  qed
  have "v = w" if "loading = gp_authLoading w" "signed = gp_signedIn w" "mode = gp_authMode w"
    using that i(1) by (simp add: v_def update_elements_def button_inv_def)
  then show ?thesis
    using inv_run_both [OF v] m assms by (auto simp: commit_def v_def [symmetric] Let_def)
qed

lemma inv_loads:
  assumes "google_inv cid w" "scriptTag w" "\<not> scriptFailed w" "\<not> windowGoogle w"
  shows "google_inv cid (script_loaded cid w)"
proof -
  have "script_inv cid (w\<lparr>windowGoogle := True\<rparr>)" "button_inv cid (w\<lparr>windowGoogle := True\<rparr>)"
    using assms by (auto simp: google_inv_def script_inv_def button_inv_def usable_def container_def)
  moreover have "load_inv cid (w\<lparr>windowGoogle := True\<rparr>)" if "\<not> loadListener w"
    using assms that by (auto simp: google_inv_def load_inv_def)
  ultimately show ?thesis
    using inv_set_ready [of cid "w\<lparr>windowGoogle := True\<rparr>"]
    by (simp add: script_loaded_def google_inv_def Let_def)
qed

lemma inv_theme: "google_inv cid w \<Longrightarrow> google_inv cid (theme_changed cid dark w)"
  unfolding google_inv_def theme_changed_def
  by (auto simp: google_inv_defs google_effect_defs split: if_splits)

lemma inv_google_step: "google_step cid w w' \<Longrightarrow> google_inv cid w \<Longrightarrow> google_inv cid w'"
proof (induction rule: google_step.induct)
  case (Commits w loading signed mode)
  then show ?case by (rule inv_commit)
next
  case (Loads w)
  then show ?case by (simp add: inv_loads)
next
  case (Fails w)
  then show ?case by (auto simp: google_inv_def google_inv_defs split: if_splits)
next
  case (TimerRuns w)
  then show ?case by (auto simp: google_inv_def google_inv_defs renderButton_def split: if_splits)
next
  case (Themed w dark)
  then show ?case by (rule inv_theme)
next
  case (Remounts w)
  then show ?case by (auto simp: google_inv_def google_inv_defs mount_google_def)
qed

lemma inv_google_reach: "google_reach cid w \<Longrightarrow> google_inv cid w"
proof (induction rule: google_reach.induct)
  case (start dark)
  show ?case by (simp add: google_inv_def google_inv_defs new_document_def)
qed (rule inv_google_step)

section \<open>Properties\<close>

text \<open>What the invariant says about the button.\<close>

lemma google_button:
  assumes "google_reach cid w"
  shows "buttonTheme w = (if container cid w \<and> windowGoogle w then Some (button_theme (documentDark w)) else None)
     \<and> (buttonTheme w \<noteq> None \<longrightarrow> initialised w = [cid]) \<and> length (initialised w) \<le> 1"
  using inv_google_reach [OF assms] by (auto simp: google_inv_def google_inv_defs split: if_splits)

lemma google_demo:
  "google_reach ''id'' (script_loaded ''id'' (commit ''id'' False False Login (new_document True)))"
  "google_reach ''id'' ((commit ''id'' False False Login (new_document True))\<lparr>scriptFailed := True\<rparr>)"
proof -
  have r: "google_reach ''id'' (commit ''id'' False False Login (new_document True))"
    using google_reach.step [OF google_reach.start Commits] .
  have d: "scriptTag (commit ''id'' False False Login (new_document True))"
      "\<not> scriptFailed (commit ''id'' False False Login (new_document True))"
      "\<not> windowGoogle (commit ''id'' False False Login (new_document True))"
    by (simp_all add: commit_def new_document_def google_effect_defs container_def truthy_def)
  show "google_reach ''id'' (script_loaded ''id'' (commit ''id'' False False Login (new_document True)))"
    by (rule google_reach.step [OF r Loads [OF d]])
  show "google_reach ''id'' ((commit ''id'' False False Login (new_document True))\<lparr>scriptFailed := True\<rparr>)"
    by (rule google_reach.step [OF r Fails [OF d(1,3)]])
qed

lemma failed_kept [simp]:
  "scriptFailed (renderButton cid w) = scriptFailed w" "scriptFailed (showButton cid w) = scriptFailed w"
  "scriptFailed (fst (loadScript cid w)) = scriptFailed w" "scriptFailed (update_elements cid w) = scriptFailed w"
  "scriptFailed (loadScript_cleanup w) = scriptFailed w" "scriptFailed (showButton_cleanup w) = scriptFailed w"
  "scriptFailed (set_ready cid w) = scriptFailed w"
  by (simp_all add: google_effect_defs)

lemma failed_run_both [simp]: "scriptFailed (run_both cid w) = scriptFailed w"
proof -
  have "scriptFailed (fst (loadScript cid (showButton_cleanup (loadScript_cleanup w)))) = scriptFailed w"
    by simp
  then show ?thesis unfolding run_both_def Let_def
    by (cases "loadScript cid (showButton_cleanup (loadScript_cleanup w))") simp
qed

lemma failed_stays: "google_step cid w w' \<Longrightarrow> scriptFailed w \<Longrightarrow> scriptFailed w'"
  by (erule google_stepE) (simp_all add: commit_def theme_changed_def mount_google_def script_loaded_def Let_def)

text \<open>
  A script that could not be loaded is never requested again: its element stays in the document, so
  every later mount waits for a load that does not come, and there is no button until the
  document is loaded anew.
\<close>

theorem failed_script_not_retried:
  assumes "google_reach cid w" and "scriptFailed w" and "(google_step cid)\<^sup>*\<^sup>* w w'"
  shows "buttonTheme w' = None"
proof -
  have "google_reach cid w' \<and> scriptFailed w'"
    using assms(3)
  proof (induction rule: rtranclp_induct)
    case base
    then show ?case using assms(1,2) by simp
  next
    case (step y z)
    then show ?case using failed_stays [of cid y z] by (blast intro: google_reach.step)
  qed
  then show ?thesis
    using inv_google_reach [of cid w'] by (auto simp: google_inv_def google_inv_defs split: if_splits)
qed

theorem failed_script_not_retried_witness:
  "buttonTheme (mount_google ((commit ''id'' False False Login (new_document True))\<lparr>scriptFailed := True\<rparr>)) = None"
  by (rule failed_script_not_retried [OF google_demo(2)])
    (auto intro: Remounts)

end
