(* ===== verification/Account_Pages.thy ===== *)
theory Account_Pages
  imports Page_Runtime Js_Text
begin

text \<open>
  The small pages around an account: \<^verbatim>\<open>reset-password/page.tsx\<close>, \<^verbatim>\<open>verify-email/page.tsx\<close>, and the theme,
  which \<^verbatim>\<open>components/ThemeToggle.tsx\<close> and the boot script of \<^verbatim>\<open>app/layout.tsx\<close> share. \<open>token\<close> is the
  token of the address, empty when it is missing; \<open>c\<close> the world of the render.
\<close>

section \<open>Resetting the password\<close>

datatype form_status = Idle | Succeeded | Wrong

record reset_page =
  newPassword :: jstr
  confirmText :: jstr
  reset_status :: form_status
  reset_message :: jstr
  reset_submitting :: bool

definition initial_reset :: reset_page where
  "initial_reset = \<lparr>newPassword = [], confirmText = [], reset_status = Idle, reset_message = [], reset_submitting = False\<rparr>"

text \<open>The one request, and the \<open>message\<close> of its JSON reply.\<close>

datatype reset_request = PostReset jstr jstr

type_synonym reset_prog = "(reset_page, reset_request, jstr http, unit) prog"

definition reset_failed :: "jstr \<Rightarrow> reset_page \<Rightarrow> reset_page" where
  "reset_failed m w = w\<lparr>reset_status := Wrong, reset_message := m\<rparr>"

definition reset_mount :: "jstr \<Rightarrow> reset_page \<Rightarrow> reset_page" where
  "reset_mount token w = (if \<not> truthy token then reset_failed ''Missing reset token.'' w else w)"

definition reset_onSubmit :: "jstr \<Rightarrow> reset_page \<Rightarrow> reset_prog" where
  "reset_onSubmit token c =
     Upd (\<lambda>w. w\<lparr>reset_status := Idle\<rparr>) (Upd (\<lambda>w. w\<lparr>reset_message := []\<rparr>)
     (if \<not> truthy token then Upd (reset_failed ''Missing reset token.'') (Ret ())
      else if length (newPassword c) < 8 then Upd (reset_failed ''Password must be at least 8 characters.'') (Ret ())
      else if newPassword c \<noteq> confirmText c then Upd (reset_failed ''Passwords do not match.'') (Ret ())
      else Upd (\<lambda>w. w\<lparr>reset_submitting := True\<rparr>)
        (finally_do
          (catch
            (bind (fetch (PostReset token (newPassword c))) (\<lambda>res.
             bind (require_ok res) (\<lambda>_.
             bind (res_json res) (\<lambda>m.
             Upd (\<lambda>w. w\<lparr>reset_status := Succeeded\<rparr>)
             (Upd (\<lambda>w. w\<lparr>reset_message := or_else m ''Password reset successful. You can now login.''\<rparr>)
             (Upd (\<lambda>w. w\<lparr>newPassword := []\<rparr>) (Upd (\<lambda>w. w\<lparr>confirmText := []\<rparr>) (Ret ()))))))))
            (\<lambda>err. Upd (reset_failed (err_message err ''Password reset failed'')) (Ret ())))
          (\<lambda>w. w\<lparr>reset_submitting := False\<rparr>))))"

section \<open>Verifying the address\<close>

record verify_page =
  verify_status :: form_status
  verify_message :: jstr

definition initial_verify :: verify_page where
  "initial_verify = \<lparr>verify_status = Idle, verify_message = ''Verifying your email...''\<rparr>"

datatype verify_request = PostVerify jstr

definition verify_effect :: "jstr \<Rightarrow> (verify_page, verify_request, jstr http, unit) prog" where
  "verify_effect token =
     (if \<not> truthy token
      then Upd (\<lambda>w. w\<lparr>verify_status := Wrong, verify_message := ''Missing verification token.''\<rparr>) (Ret ())
      else catch
        (bind (fetch (PostVerify token)) (\<lambda>res.
         bind (require_ok res) (\<lambda>_.
         bind (res_json res) (\<lambda>m.
         Upd (\<lambda>w. w\<lparr>verify_status := Succeeded\<rparr>)
         (Upd (\<lambda>w. w\<lparr>verify_message := or_else m ''Email verified successfully. You can now login.''\<rparr>) (Ret ()))))))
        (\<lambda>err. Upd (\<lambda>w. w\<lparr>verify_status := Wrong, verify_message := err_message err ''Verification failed''\<rparr>) (Ret ())))"

section \<open>The theme\<close>

text \<open>
  \<open>storedTheme\<close> is \<open>localStorage["theme"]\<close>, \<open>prefersDark\<close> the media query, \<open>darkClass\<close> whether the
  document has the class \<open>dark\<close>; a mode is the text that is stored.
\<close>

record theme_page =
  storedTheme :: "jstr option"
  prefersDark :: bool
  darkClass :: bool
  theme_mode :: jstr
  theme_ready :: bool

definition saved_or_preferred :: "theme_page \<Rightarrow> jstr" where
  "saved_or_preferred w = (case storedTheme w of
       Some s \<Rightarrow> if truthy s then s else if prefersDark w then ''dark'' else ''light''
     | None \<Rightarrow> if prefersDark w then ''dark'' else ''light'')"

definition applyTheme :: "jstr \<Rightarrow> theme_page \<Rightarrow> theme_page" where
  "applyTheme mode w = w\<lparr>darkClass := (mode = ''dark''), storedTheme := Some mode\<rparr>"

definition theme_mount :: "theme_page \<Rightarrow> theme_page" where
  "theme_mount w = (let next = saved_or_preferred w in (applyTheme next (w\<lparr>theme_mode := next\<rparr>))\<lparr>theme_ready := True\<rparr>)"

definition theme_toggle :: "theme_page \<Rightarrow> theme_page" where
  "theme_toggle w = (let next = (if theme_mode w = ''light'' then ''dark'' else ''light'')
     in applyTheme next (w\<lparr>theme_mode := next\<rparr>))"

text \<open>The script that runs before the page is drawn; the document has no class \<open>dark\<close> yet.\<close>

definition themeBootScript :: "theme_page \<Rightarrow> theme_page" where
  "themeBootScript w = (if saved_or_preferred w = ''dark'' then w\<lparr>darkClass := True\<rparr> else w)"

text \<open>Opening a page: a new document, the script, then the component.\<close>

definition open_document :: "theme_page \<Rightarrow> theme_page" where
  "open_document w = w\<lparr>darkClass := False, theme_mode := ''light'', theme_ready := False\<rparr>"

section \<open>Properties\<close>

text \<open>
  C37. A new password is sent only with a token, at least eight characters and equal to its
  confirmation; the form says success exactly when the server accepted it, is empty then,
  and never stays busy.
\<close>

theorem reset_sends_valid:
  "let p = reset_onSubmit token c; sent = (token \<noteq> [] \<and> 8 \<le> length (newPassword c) \<and> newPassword c = confirmText c)
   in (\<forall>q \<in> set (requests p w rs). sent \<and> q = PostReset token (newPassword c))
    \<and> result p w [r] = Done ()
    \<and> (reset_status (final p w [r]) = Succeeded \<longleftrightarrow> sent \<and> (\<exists>s t m. r = Response s t (Some m) \<and> ok_status s))
    \<and> (reset_status (final p w [r]) = Succeeded \<longrightarrow> newPassword (final p w [r]) = [] \<and> confirmText (final p w [r]) = [])
    \<and> (sent \<longrightarrow> \<not> reset_submitting (final p w [r]))"
proof -
  let ?sent = "token \<noteq> [] \<and> 8 \<le> length (newPassword c) \<and> newPassword c = confirmText c"
  let ?p = "reset_onSubmit token c"
  have "asks (\<lambda>q. ?sent \<and> q = PostReset token (newPassword c)) ?p"
    by (auto simp: reset_onSubmit_def truthy_def intro!: asks_rules asks_http)
  then have "\<forall>q \<in> set (requests ?p w rs). ?sent \<and> q = PostReset token (newPassword c)"
    by (auto simp: requests_history dest: asks_history)
  moreover have "result ?p w [r] = Done ()"
    by (cases r) (auto simp: reset_onSubmit_def http_defs catch_def split: option.split)
  moreover have "(reset_status (final ?p w [r]) = Succeeded \<longleftrightarrow> ?sent \<and> (\<exists>s t m. r = Response s t (Some m) \<and> ok_status s))"
    by (cases r) (auto simp: reset_onSubmit_def reset_failed_def http_defs catch_def truthy_def split: option.split)
  moreover have "reset_status (final ?p w [r]) = Succeeded \<longrightarrow> newPassword (final ?p w [r]) = [] \<and> confirmText (final ?p w [r]) = []"
    by (cases r) (auto simp: reset_onSubmit_def reset_failed_def http_defs catch_def truthy_def split: option.split)
  moreover have "?sent \<longrightarrow> \<not> reset_submitting (final ?p w [r])"
    by (cases r) (auto simp: reset_onSubmit_def reset_failed_def http_defs catch_def truthy_def split: option.split)
  ultimately show ?thesis unfolding Let_def by blast
qed

theorem reset_sends_valid_witness:
  "newPassword (final (reset_onSubmit ''t'' (initial_reset\<lparr>newPassword := ''12345678'', confirmText := ''12345678''\<rparr>))
     initial_reset [Response 200 [] (Some [])]) = []"
  using reset_sends_valid [of "''t''" "initial_reset\<lparr>newPassword := ''12345678'', confirmText := ''12345678''\<rparr>"
      initial_reset "[]" "Response 200 [] (Some [])"]
  by (simp add: Let_def)

text \<open>
  The verification page never stays idle: without a token it reports that at once, and with one
  it reports success exactly when the server accepted the token, otherwise its error.
\<close>

theorem verify_settles:
  "result (verify_effect token) w [r] = Done () \<and> verify_status (final (verify_effect token) w [r]) \<noteq> Idle
   \<and> (verify_status (final (verify_effect token) w [r]) = Succeeded \<longleftrightarrow>
        token \<noteq> [] \<and> (\<exists>s t m. r = Response s t (Some m) \<and> ok_status s))
   \<and> (token \<noteq> [] \<and> r = Response s t b \<and> \<not> ok_status s \<longrightarrow> verify_message (final (verify_effect token) w [r]) = t)"
  by (cases r) (auto simp: verify_effect_def http_defs catch_def truthy_def split: option.split)

theorem verify_settles_witness:
  "verify_message (final (verify_effect ''t'') initial_verify [Response 410 ''expired'' None]) = ''expired''"
  using verify_settles [of "''t''" initial_verify "Response 410 ''expired'' None" 410 "''expired''" None]
  by (simp add: ok_status_def)

text \<open>
  The two implementations of the theme agree: the class that the boot script gives a new document
  is the one that the component then applies, so the page does not flash; and a theme that was
  chosen with the button is the one of the next document.
\<close>

theorem theme_boot_agrees:
  "darkClass (theme_mount (themeBootScript (open_document w))) = darkClass (themeBootScript (open_document w))
   \<and> (let chosen = theme_toggle w in darkClass (themeBootScript (open_document chosen)) = darkClass chosen)
   \<and> theme_mode (theme_toggle (theme_toggle w)) = (if theme_mode w = ''light'' then ''light'' else ''dark'')"
  by (auto simp: theme_mount_def themeBootScript_def open_document_def applyTheme_def theme_toggle_def
      saved_or_preferred_def Let_def split: option.split)

end
