(* ===== verification/Site.thy ===== *)
theory Site
  imports Checkout_Text Account_Pages
begin

text \<open>
  The pages around the two applications: the header with its menu and the landing page
  (\<^verbatim>\<open>components/Header.tsx\<close>, \<^verbatim>\<open>app/landing/page.tsx\<close>), the guide for agents (\<^verbatim>\<open>app/agents/page.tsx\<close>), what the
  account pages show, and the links between all pages. Prose and pictures are left out.
\<close>

section \<open>Links\<close>

text \<open>\<open>'#id'\<close> leads to an element of the same page, \<open>'/path'\<close> to a page of the site or a public file.\<close>

record nav_tab =
  nt_id :: "jstr option"
  nt_href :: "jstr option"
  nt_label :: jstr

definition tab_to :: "jstr \<Rightarrow> jstr \<Rightarrow> nav_tab" where
  "tab_to i label = \<lparr>nt_id = Some i, nt_href = None, nt_label = label\<rparr>"

definition navTabs :: "nav_tab list" where
  "navTabs = [tab_to ''problem'' ''Problem'', tab_to ''how-it-works'' ''How it works'', tab_to ''fit'' ''Fit'',
     tab_to ''credibility'' ''Credibility'', tab_to ''faq'' ''FAQ'',
     \<lparr>nt_id = None, nt_href = Some ''/agents'', nt_label = ''Agents''\<rparr>]"

text \<open>\<open>tab.href ?? `#${tab.id}`\<close>.\<close>

definition tab_href :: "nav_tab \<Rightarrow> jstr" where
  "tab_href t = (case nt_href t of Some h \<Rightarrow> h
     | None \<Rightarrow> ''#'' @ (case nt_id t of Some i \<Rightarrow> i | None \<Rightarrow> ''undefined''))"

text \<open>The header: its logo leads to \<open>#home\<close>; the menu of the narrow window closes when a link is used.\<close>

definition wide_nav :: "(jstr \<times> jstr) list" where
  "wide_nav = map (\<lambda>t. (tab_href t, nt_label t)) navTabs"

definition toggleMenu :: "bool \<Rightarrow> bool" where
  "toggleMenu isOpen = (\<not> isOpen)"

text \<open>Each link of the menu with what a click on it makes of \<open>isOpen\<close>.\<close>

definition menu_nav :: "bool \<Rightarrow> (jstr \<times> jstr \<times> bool) list" where
  "menu_nav isOpen = map (\<lambda>t. (tab_href t, nt_label t, toggleMenu isOpen)) navTabs"

definition header_links :: "jstr list" where
  "header_links = ''#home'' # map fst wide_nav @ map fst (menu_nav True)"

section \<open>The landing page\<close>

definition landing_sections :: "jstr list" where
  "landing_sections = [''problem'', ''how-it-works'', ''fit'', ''credibility'', ''faq'']"

definition landing_links :: "jstr list" where
  "landing_links = [''/app'', ''/agents'', ''#how-it-works'', ''/agents'', ''/agents/skill.md'', ''/app'', ''#how-it-works'']"

record status_item =
  st_label :: jstr
  st_detail :: jstr
  st_class :: jstr

definition statusItems :: "status_item list" where
  "statusItems = [
     \<lparr>st_label = ''Pending'', st_detail = ''Awaiting on-chain confirmation'', st_class = ''pending_payment''\<rparr>,
     \<lparr>st_label = ''Paid'', st_detail = ''Confirmed payment reference'', st_class = ''paid''\<rparr>,
     \<lparr>st_label = ''Error'', st_detail = ''Failed or cancelled payment'', st_class = ''rejected''\<rparr>]"

definition status_badge :: "status_item \<Rightarrow> jstr" where
  "status_badge i = ''status-badge '' @ st_class i"

section \<open>The guide for agents\<close>

definition agents_sections :: "jstr list" where
  "agents_sections = [''flow'']"

definition docsLinks :: "jstr list" where
  "docsLinks = [''/agents/skill.md'', ''/agents/heartbeat.md'', ''/openapi.json'', ''/llms.txt'', ''/agent-docs/INDEX.md'']"

definition agents_links :: "jstr list" where
  "agents_links = [''/app'', ''#flow''] @ docsLinks @ [''/app'', ''/agents/skill.md'']"

section \<open>The account pages\<close>

datatype tone = GreenText | RedText | PlainTone

record reset_view =
  rv_password :: jstr
  rv_confirm :: jstr
  rv_submit :: "bool \<times> jstr"
  rv_message :: "(jstr \<times> tone) option"
  rv_back :: jstr

definition render_reset :: "reset_page \<Rightarrow> reset_view" where
  "render_reset w = \<lparr>
     rv_password = newPassword w,
     rv_confirm = confirmText w,
     rv_submit = (reset_submitting w, if reset_submitting w then ''Please wait...'' else ''Reset Password''),
     rv_message = shown_if (truthy (reset_message w))
       (reset_message w, if reset_status w = Succeeded then GreenText else RedText),
     rv_back = ''/''\<rparr>"

record verify_view =
  vv_message :: jstr
  vv_tone :: tone
  vv_back :: jstr

definition render_verify :: "verify_page \<Rightarrow> verify_view" where
  "render_verify w = \<lparr>
     vv_message = verify_message w,
     vv_tone = (if verify_status w = Succeeded then GreenText else if verify_status w = Wrong then RedText else PlainTone),
     vv_back = ''/app''\<rparr>"

section \<open>Properties\<close>

text \<open>The pages of the site (the directories with a \<^verbatim>\<open>page.tsx\<close>) and the files under \<^verbatim>\<open>public\<close> that are linked.\<close>

definition site_paths :: "jstr list" where
  "site_paths = [''/'', ''/app'', ''/agents'', ''/landing'', ''/reset-password'', ''/verify-email'',
     ''/agents/skill.md'', ''/agents/heartbeat.md'', ''/openapi.json'', ''/llms.txt'', ''/agent-docs/INDEX.md'']"

definition link_works :: "jstr list \<Rightarrow> jstr \<Rightarrow> bool" where
  "link_works sections h \<longleftrightarrow> (case h of c # s \<Rightarrow> if c = CHR ''#'' then s \<in> set sections else h \<in> set site_paths | [] \<Rightarrow> False)"

lemmas site_defs = link_works_def header_links_def wide_nav_def menu_nav_def navTabs_def tab_to_def tab_href_def landing_sections_def landing_links_def
  agents_sections_def agents_links_def docsLinks_def site_paths_def

text \<open>
  Every link of the landing page and of the guide leads somewhere, but for the logo of the
  header: \<open>#home\<close> names no element.
\<close>

theorem site_links_work:
  "\<forall>h \<in> set (landing_links @ header_links). link_works landing_sections h \<longleftrightarrow> h \<noteq> ''#home''"
  "\<forall>h \<in> set agents_links. link_works agents_sections h"
  by (simp_all add: site_defs)

text \<open>
  The landing page and the checkout page speak of the same states: each label of the landing page's
  table, with its badge, is what the checkout page shows for one of the statuses \<open>pending_payment\<close>,
  \<open>paid\<close>, \<open>failed\<close> and \<open>cancelled\<close>, and all of these are in the table.
\<close>

theorem landing_statuses_agree:
  "(\<lambda>i. (st_label i, status_badge i)) ` set statusItems =
     (\<lambda>s. (humanizeStatus s, checkoutStatusClass s)) ` {''pending_payment'', ''paid'', ''failed'', ''cancelled''}"
proof -
  have "humanizeStatus ''pending_payment'' = ''Pending''" "humanizeStatus ''paid'' = ''Paid''"
    "humanizeStatus ''failed'' = ''Error''" "humanizeStatus ''cancelled'' = ''Error''"
    "checkoutStatusClass ''pending_payment'' = ''status-badge pending_payment''"
    "checkoutStatusClass ''paid'' = ''status-badge paid''"
    "checkoutStatusClass ''failed'' = ''status-badge rejected''" "checkoutStatusClass ''cancelled'' = ''status-badge rejected''"
    by code_simp+
  then show ?thesis by (simp add: statusItems_def status_badge_def insert_commute)
qed

text \<open>
  The page for a new password tells how the request ended: after the reply to a valid form it shows a
  message in green exactly when the server accepted the password, otherwise one in red, but
  none at all when the refusal or the error came without a text; the button can be pressed
  again. The page that verifies an address always leaves its neutral colour.
\<close>

definition accepted :: "jstr http \<Rightarrow> bool" where
  "accepted r \<longleftrightarrow> (case r of Response s t (Some m) \<Rightarrow> ok_status s | _ \<Rightarrow> False)"

definition without_text :: "jstr http \<Rightarrow> bool" where
  "without_text r \<longleftrightarrow> (case r of Response s t j \<Rightarrow> \<not> ok_status s \<and> t = [] | Rejected e \<Rightarrow> e = ErrorExn [])"

theorem account_pages_tell:
  assumes "token \<noteq> []" and "8 \<le> length (newPassword c)" and "newPassword c = confirmText c"
  shows "(case rv_message (render_reset (final (reset_onSubmit token c) w [r])) of
        Some (m, t) \<Rightarrow> t = (if accepted r then GreenText else RedText) \<and> \<not> without_text r
      | None \<Rightarrow> without_text r)
    \<and> \<not> fst (rv_submit (render_reset (final (reset_onSubmit token c) w [r])))
    \<and> vv_tone (render_verify (final (verify_effect token') v [r'])) \<noteq> PlainTone"
proof -
  have "case rv_message (render_reset (final (reset_onSubmit token c) w [r])) of
        Some (m, t) \<Rightarrow> t = (if accepted r then GreenText else RedText) \<and> \<not> without_text r
      | None \<Rightarrow> without_text r"
    using assms by (cases r) (auto simp: render_reset_def reset_onSubmit_def reset_failed_def http_defs catch_def truthy_def
        accepted_def without_text_def or_else_def err_message_def syntax_error_def split: option.split exn.splits)
  moreover have "\<not> reset_submitting (final (reset_onSubmit token c) w [r])"
    using assms by (cases r) (auto simp: reset_onSubmit_def reset_failed_def http_defs catch_def truthy_def split: option.split)
  moreover have "vv_tone (render_verify (final (verify_effect token') v [r'])) \<noteq> PlainTone"
    by (cases r') (auto simp: render_verify_def verify_effect_def http_defs catch_def truthy_def split: option.split)
  ultimately show ?thesis by (simp add: render_reset_def)
qed

theorem account_pages_tell_witness:
  "rv_message (render_reset (final (reset_onSubmit ''t'' (initial_reset\<lparr>newPassword := ''12345678'', confirmText := ''12345678''\<rparr>))
     initial_reset [Response 400 [] None])) = None"
proof -
  let ?c = "initial_reset\<lparr>newPassword := ''12345678'', confirmText := ''12345678''\<rparr>"
  have w: "without_text (Response 400 [] None)" by (simp add: without_text_def ok_status_def)
  have "case rv_message (render_reset (final (reset_onSubmit ''t'' ?c) initial_reset [Response 400 [] None])) of
        Some (m, t) \<Rightarrow> \<not> without_text (Response 400 [] None) | None \<Rightarrow> True"
    using account_pages_tell [where token = "''t''" and c = ?c and w = initial_reset and r = "Response 400 [] None"]
    by (auto split: option.splits)
  then show ?thesis using w by (auto split: option.splits)
qed

end
