(* ===== verification/Spec2Isabelle.thy ===== *)
theory Spec2Isabelle
  imports Solana_Lib Checkout_Form Checkout_View Checkout_Guards Qr_Document Dash_Guards Description_Editor Dash_Controls
    Google_Script Site
begin

text \<open>
  \<^bold>\<open>Payknot: the browser pages\<close>

  Payknot sells places at events for USDC on Solana. This development models the TypeScript
  of its web client, under \<^verbatim>\<open>src/frontend/src\<close>:

  \<^item> the checkout page (\<^verbatim>\<open>app/checkout/[slug]/page.tsx\<close>): a participant fills a form, chooses a
    payment method and pays with a wallet or a QR code;
  \<^item> the popup that the checkout page opens for a QR payment and whose script it writes;
  \<^item> the dashboard of a host (\<^verbatim>\<open>app/app/page.tsx\<close>): signing in, events, deposits, access tokens;
  \<^item> the transfer library (\<^verbatim>\<open>lib/solana.ts\<close>), the pages around an account
    (\<^verbatim>\<open>app/reset-password\<close>, \<^verbatim>\<open>app/verify-email\<close>) and the theme (\<^verbatim>\<open>components/ThemeToggle.tsx\<close>,
    \<^verbatim>\<open>app/layout.tsx\<close>), and the pages around them (\<^verbatim>\<open>app/landing\<close>, \<^verbatim>\<open>app/agents\<close>, \<^verbatim>\<open>components/Header.tsx\<close>).

  The pages talk to the server by \<open>fetch\<close>, the popup to its opener by \<open>postMessage\<close>, and the
  checkout page to the wallet and the chain through packages. All of these are arbitrary
  partners here: a reply can be anything of its type, an error, or never come.

  \<^bold>\<open>How a page is modelled\<close>

  A page's state cells (\<open>useState\<close>, refs, the storage it uses) are a record, the \<^emph>\<open>world\<close>. A handler or
  effect is a program (\<open>prog\<close> in \<open>Page_Runtime\<close>) of updates, reads of the current world, awaited
  requests, returns and exceptions; it is a function of the world of the render that created
  it (the argument \<open>c\<close>), as a closure in React is, while its updates see the current world.
  \<open>bind\<close>, \<open>catch\<close>, \<open>attempt\<close> and \<open>finally_do\<close> compose programs as the code does. A program is run
  alone on a list of replies (\<open>result\<close>, \<open>final\<close>, \<open>history\<close>, \<open>requests\<close>), or together with any number
  of others, replies arriving in any order (\<open>sys_step\<close>, \<open>reach\<close>). Everything a program does
  ends unless it waits for a reply that never comes (\<open>Blocked\<close>), so no fuel is needed.

  \<^bold>\<open>Theories\<close>

  \<^item> The language: \<open>Prelude\<close> (collections, truthiness, slices), \<open>Js_Text\<close> (strings of code units
    below 256), \<open>Js_Number\<close> (doubles as rationals with the rounding of IEEE binary64; \<open>Number\<close>,
    \<open>parseFloat\<close>, \<open>parseInt\<close>), \<open>Js_Date\<close> (\<open>Date\<close> with the time zone as a parameter), \<open>Js_Object\<close>
    (objects with ordered string keys, \<open>JSON.stringify\<close>), \<open>Js_Regex\<close> (backtracking matching).
  \<^item> \<open>Page_Runtime\<close>: programs and their interleaving; \<open>always\<close> is a calculus of postconditions over all
    replies, \<open>asks\<close> bounds what a program can request, \<open>keeps\<close> that it keeps an invariant; the
    locale \<open>page\<close> lifts \<open>keeps\<close> to every reachable state.
  \<^item> \<open>Solana_Lib\<close>: \<open>getUsdcBalance\<close>, \<open>createUsdcTransfer\<close> and the address check, over the operations of the
    Solana packages (\<open>spl\<close>).
  \<^item> \<open>Html_Filter\<close>, \<open>Form_Dates\<close>: the two copies of the HTML filter and the expressions over links and
    addresses; the two date conversions of the event form.
  \<^item> The checkout page: \<open>Checkout_Text\<close> (labels, countdown), \<open>Checkout_State\<close> (world, stored session,
    requests), \<open>Checkout_Flow\<close> (loading, restoring, polling, wallet payment), \<open>Qr_Payment\<close> (link and
    QR session), \<open>Checkout_Payment\<close> (what a payment guarantees), \<open>Checkout_Page\<close> (controls, events,
    \<open>interpretation checkout: page\<close>), \<open>Checkout_Form\<close> (the participant form), \<open>Checkout_View\<close> (what a
    render shows), \<open>Wallet_Protocol\<close> (the payment as a machine of seven phases, over the
    locale \<open>ranked_protocol\<close> of \<open>Protocol\<close>), \<open>Checkout_Races\<close> (a cancel and a payment that cross),
    \<open>Checkout_Guards\<close> (who may ask for what, in every interleaving, and when a session is cancelled).
  \<^item> \<open>Qr_Window\<close>: the script of the popup as a step relation over its timers, one request and one clock.
    \<open>Qr_Document\<close>: the document that \<open>openQrWindow\<close> writes, as a text, and what a browser reads from it.
  \<^item> The dashboard: \<open>Dash_List\<close> (search, sorting, pages; the locale \<open>comparison\<close> is the contract a
    comparison function must meet for the sort to be a stable sort), \<open>Dash_State\<close> (world and
    requests), \<open>Dash_Form\<close>, \<open>Dash_Events\<close>, \<open>Dash_Auth\<close>, \<open>Agent_Security\<close> (its handlers), \<open>Dash_Page\<close>
    (controls, effects, \<open>interpretation dashboard: page\<close>), \<open>Dash_Races\<close> (late replies),
    \<open>Dash_Guards\<close> (every request comes from its control), \<open>Description_Editor\<close> (the editable element of the
    description, which React does not control, beside any interleaving of the dashboard),
    \<open>Deposit_Table\<close> and \<open>Dash_View\<close> (what a render shows), \<open>Dash_Controls\<close> (its controls), \<open>Google_Script\<close>
    (the effects that load Google's script and draw the button, as a step relation over commits).
  \<^item> \<open>Account_Pages\<close>: password reset, address verification, theme. \<open>Site\<close>: header, landing page, guide for
    agents, the links between all pages, what the account pages show.

  \<^bold>\<open>What is shown\<close>

  \<^item> Payments: a signature reaches the server only after the wallet returned it and the chain confirmed
    it; after a signature no session is cancelled and the signature stays stored until the
    server reports it paid; one run signs at most one transaction, which moves exactly the
    price to the merchant; an expired page takes no payment. The QR link carries the payment.
    In every interleaving a payment follows its protocol, with at most six requests, and a
    signature is submitted only after wallet and chain. But the button Back can cancel a signed payment,
    two payments can wait for a signature at once, the replies of a cancel can take away a receipt,
    and prices with cents can fail.
  \<^item> The popup never has two requests under way, asks at most 86 times in a session of ten minutes
    (requests are at least seven seconds apart), reports a payment once, and then closes; it
    refines a machine of four phases.
  \<^item> The dashboard: saving and deleting are guarded by the form check, the session and the loaded
    deposits; an unchanged event is sent back as it was; the event list is the stable sort of
    the matching events and its pages partition it; credentials are complete and normalised,
    and the user on the page is the one the server named. A late reply can show the deposits
    of another event, or the events of a host who has signed out.
  \<^item> Every request that either page ever makes, in every interleaving, comes from the control or effect
    that a table names for it, which was enabled for the world its handler was created in: a session is cancelled
    only by Back, or by a wallet payment before it has a signature.
  \<^item> What the popup reads from its document is what the page passed: JavaScript reads \<open>JSON.stringify\<close> back,
    and no text that the server's form of reference can hold ends the script early. A reference with
    markup would.
  \<^item> The editor shows the description of the event that was opened, unless the element is new: reopening the same
    event shows an empty editor, and typing into it replaces the description.
  \<^item> A QR payment from end to end: the popup of a session asks for that session, and what it reports
    makes the page show the payment.
  \<^item> A render is a function of the state (\<open>render_checkout\<close>, \<open>render_dash\<close>): its controls are exactly the
    events that the event loops enable, so the reachable states are those of the markup. A paid
    page shows its receipt; a table of deposits drops no answer; a signed-in dashboard never
    shows its error cell, so a failed load looks like an empty account.
  \<^item> The Google button is on the login card exactly when it can be, whatever the order of loading,
    signing in and remounting; but a script that failed is not requested again.
  \<^item> Both pages keep an invariant in every reachable state, by the interpretations of \<open>page\<close>; the
    dictionaries of the participant form are well-formed objects, and no handler of the
    dashboard leaves its control disabled.

  \<^bold>\<open>Bounds and parameters\<close>

  Characters above 255 are not modelled. The time zone, the locale's collation, the Solana packages,
  the environment variables, the answer of \<open>window.confirm\<close> or \<open>window.open\<close>, the content of an
  editable element after a command, and the sorting algorithm's choice among the
  comparisons (any stable sort gives the same list for a consistent comparison) are
  parameters or fixed as their documentation says. A timer may fire late. Toasts are recorded;
  scrolling into view and focus change no state of the model.

  \<^bold>\<open>Not modelled\<close>

  The server (\<^verbatim>\<open>src/backend\<close>) is written in Go. \<^verbatim>\<open>components/WalletProvider.tsx\<close> configures packages. Of the
  landing page and the guide for agents the prose, the pictures and the videos are left out, of
  the other pages constant texts, styles and the crop dialog. Of the popup's document the constant rest of
  the script is a parameter; what its functions do is \<open>Qr_Window\<close>.
\<close>

section \<open>A QR payment across the page and its popup\<close>

lemma qr_session_opens:
  assumes "eventData c = Some ev" and "ok_status n" and "invoice_json b = Some (sid, ref, raw)"
  shows "popupRef (final (startQrSession env c False) w [Http (Response n t (Some b))]) = Some \<lparr>qp_reference = ref,
      qp_qrUrl = qrUrl env ev ref, qp_checkoutURL = origin env @ ''/checkout/'' @ slug env, qp_expiresAt = now w + 600000\<rparr>
    \<and> reference (final (startQrSession env c False) w [Http (Response n t (Some b))]) = ref"
  using assms
  by (simp add: startQrSession_def createInvoice_def await_http_def http_ok_def json_as_def res_json_def catch_def
      openQrWindow_def persistPending_def Let_def)

text \<open>
  C8. A QR payment from the page to its popup and back: when the server has issued the session, the popup
  that the page opens asks for that session's reference, at most 86 times, and whenever it
  reports a payment, the page that gets the message, whatever its state then, shows it as
  paid and forgets the stored session, while the popup is closing.
\<close>

theorem qr_payment_end_to_end:
  fixes env :: "('k, 'i) env" and c w :: "'k checkout"
  assumes "eventData c = Some ev" and "ok_status n" and "invoice_json b = Some (sid, ref, raw)"
    and "popupRef (final (startQrSession env c False) w [Http (Response n t (Some b))]) = Some p"
    and "qr_reach p (now w) win"
  shows "qw_reference win = ref \<and> length (asked win) \<le> 86 \<and>
    (\<forall>q \<in> set (posted win). isClosed win \<and>
      (\<forall>v. let v' = final (onMessage (Some (Some q)) :: ('k, 'i, unit) page_prog) v [] in isPaid v' \<and> pending v' = None))"
proof -
  have p: "qp_reference p = ref" "qp_expiresAt p = now w + 600000"
    using assms(4) qr_session_opens [OF assms(1-3), of env w t] by auto
  have i: "qr_inv p (now w) win" using assms(5) by (rule reach_qr_inv)
  have "qw_reference win = ref" using i p(1) by (simp add: qr_inv_def)
  moreover have "length (asked win) \<le> 86" by (rule asked_bound [OF i p(2)])
  moreover have "\<forall>q \<in> set (posted win). isClosed win \<and> cs_status q = ''paid''"
  proof
    fix q assume "q \<in> set (posted win)"
    then have "posted win \<noteq> []" by auto
    with \<open>q \<in> set (posted win)\<close> i show "isClosed win \<and> cs_status q = ''paid''" by (simp add: qr_inv_def)
  qed
  moreover have "let v' = final (onMessage (Some (Some q)) :: ('k, 'i, unit) page_prog) v [] in isPaid v' \<and> pending v' = None"
    if "cs_status q = ''paid''" for q v
    using that by (simp add: onMessage_def hydrateStatus_def clearPending_def isPaid_def status_text_def Let_def
        split: option.split)
  ultimately show ?thesis by blast
qed

definition demo_qr_popup :: qr_popup where
  "demo_qr_popup = \<lparr>qp_reference = ''ref'', qp_qrUrl = qrUrl demo_env demo_event ''ref'',
     qp_checkoutURL = origin demo_env @ ''/checkout/'' @ slug demo_env, qp_expiresAt = 601000\<rparr>"

definition demo_qr_window :: qr_window where
  "demo_qr_window = afterPoll (PollReply 200 [] (Some demo_qr_receipt)) (start_window demo_qr_popup 1000 True)"

theorem qr_payment_end_to_end_witness:
  "posted demo_qr_window = [demo_qr_receipt] \<and> qw_reference demo_qr_window = ''ref''
   \<and> isPaid (final (onMessage (Some (Some demo_qr_receipt)) :: (jstr, demo_ix, unit) page_prog) demo_page [])"
proof -
  let ?b = "InvoiceJson [] ''ref'' 2000000"
  have e: "eventData demo_page = Some demo_event" "now demo_page = 1000"
    by (simp_all add: demo_page_def initial_checkout_def)
  have b: "ok_status 200" "invoice_json ?b = Some ([], ''ref'', 2000000)" by (simp_all add: invoice_json_def)
  have "popupRef (final (startQrSession demo_env demo_page False) demo_page [Http (Response 200 [] (Some ?b))]) = Some demo_qr_popup"
    using qr_session_opens [OF e(1) b, of demo_env demo_page "[]"] by (simp add: e(2) demo_qr_popup_def)
  note opens = this
  have win: "posted demo_qr_window = [demo_qr_receipt]" "polling (start_window demo_qr_popup 1000 True)"
    by (simp_all add: demo_qr_window_def demo_qr_popup_def demo_qr_receipt_def start_window_def opened_def window_defs seconds_left_def)
  have "qr_reach demo_qr_popup (now demo_page) demo_qr_window"
    unfolding demo_qr_window_def e(2) by (rule qr_next [OF qr_start answer]) (rule win(2))
  from qr_payment_end_to_end [OF e(1) b opens this] win(1) show ?thesis by (simp add: Let_def)
qed

section \<open>The Google button on the login card\<close>

text \<open>
  C17. The Google button is there when it can be: whenever the state of its loader is one that it can reach,
  however loading the script, the session check, the forms, the theme and remounts
  interleave, and the dashboard is in the same state of signing in, the login card that the
  dashboard renders holds a button exactly when the element for it is on the card and the
  script has loaded; the button has the theme of the document, and the library was
  initialised before, once for the mount and with the client identifier.
\<close>

theorem google_button_on_card:
  assumes "google_reach (sh_client sh) g"
    and "gp_authLoading g = authLoading w" and "gp_signedIn g = (currentUser w \<noteq> None)" and "gp_authMode g = authMode w"
  shows "buttonTheme g = (case render_dash sh env w of
        SignInScreen v \<Rightarrow> if si_google v = Some True \<and> windowGoogle g then Some (button_theme (documentDark g)) else None
      | _ \<Rightarrow> None)
    \<and> (buttonTheme g \<noteq> None \<longrightarrow> initialised g = [sh_client sh]) \<and> length (initialised g) \<le> 1"
proof -
  have "(case render_dash sh env w of
        SignInScreen v \<Rightarrow> if si_google v = Some True \<and> windowGoogle g then Some (button_theme (documentDark g)) else None
      | _ \<Rightarrow> None) = (if container (sh_client sh) g \<and> windowGoogle g then Some (button_theme (documentDark g)) else None)"
    using assms(2-4) by (cases "currentUser w") (auto simp: render_dash_def view_sign_in_def container_def)
  then show ?thesis using google_button [OF assms(1)] by simp
qed

theorem google_button_on_card_witness:
  "buttonTheme (script_loaded ''id'' (commit ''id'' False False Login (new_document True))) = Some ''filled_black''"
proof -
  let ?sh = "\<lparr>sh_client = ''id'', sh_time = show_int, sh_date = show_int\<rparr>"
  let ?w = "(initial_dash None)\<lparr>authLoading := False\<rparr>"
  let ?g = "script_loaded ''id'' (commit ''id'' False False Login (new_document True))"
  have g: "gp_authLoading ?g = False" "gp_signedIn ?g = False" "gp_authMode ?g = Login" "windowGoogle ?g" "documentDark ?g"
    by (simp_all add: script_loaded_def commit_def new_document_def google_effect_defs container_def)
  have "render_dash ?sh demo_dash_env ?w = SignInScreen (view_sign_in ?sh ?w)"
    "si_google (view_sign_in ?sh ?w) = Some True"
    by (simp_all add: render_dash_def view_sign_in_def initial_dash_def)
  then show ?thesis
    using google_button_on_card [of ?sh ?g ?w demo_dash_env] google_demo(1) g
    by (simp add: initial_dash_def button_theme_def)
qed

end
